(* ===== verification/Prelude.thy ===== *)
theory Prelude
  imports Main "HOL-Library.Word"
begin

unbundle bit_operations_syntax

text \<open>
  What every theory of the development shares: the machine types, the outcome of a Rust
  computation that may return an error or panic, checked integer arithmetic, little-endian
  byte strings, and the collections of rewrite rules the component proofs are carried by.
\<close>

section \<open>Machine types\<close>

type_synonym u8 = "8 word"
type_synonym u16 = "16 word"
type_synonym u32 = "32 word"
type_synonym u64 = "64 word"
type_synonym u128 = "128 word"
type_synonym bytes = "u8 list"

text \<open>
  \<open>result_ok\<close> turns ``this computation returned a value'' into the conditions under which
  it did; \<open>views\<close> is the collection that reads the typed contents of a ledger after a write.
\<close>

named_theorems result_ok
named_theorems views

section \<open>Results\<close>

text \<open>
  A Rust function returning \<open>Result<T, E>\<close> has three outcomes: a value, an error, or a panic
  (an index out of bounds, a segment split past its end), which aborts the program.
\<close>

datatype ('e, 'a) result = Ok 'a | Err 'e | Panic

text \<open>The \<open>?\<close> operator: errors and panics leave the function early.\<close>

fun bind :: "('e, 'a) result \<Rightarrow> ('a \<Rightarrow> ('e, 'b) result) \<Rightarrow> ('e, 'b) result" where
  "bind (Ok x) f = f x"
| "bind (Err e) f = Err e"
| "bind Panic f = Panic"

fun map_err :: "('e \<Rightarrow> 'f) \<Rightarrow> ('e, 'a) result \<Rightarrow> ('f, 'a) result" where
  "map_err g (Ok x) = Ok x"
| "map_err g (Err e) = Err (g e)"
| "map_err g Panic = Panic"

fun ok_or :: "'a option \<Rightarrow> 'e \<Rightarrow> ('e, 'a) result" where
  "ok_or (Some x) e = Ok x"
| "ok_or None e = Err e"

lemma bind_Ok_iff [result_ok]: "bind m f = Ok y \<longleftrightarrow> (\<exists>x. m = Ok x \<and> f x = Ok y)"
  by (cases m) auto

lemma bind_Err_iff: "bind m f = Err e \<longleftrightarrow> m = Err e \<or> (\<exists>x. m = Ok x \<and> f x = Err e)"
  by (cases m) auto

lemma bind_Panic_iff: "bind m f = Panic \<longleftrightarrow> m = Panic \<or> (\<exists>x. m = Ok x \<and> f x = Panic)"
  by (cases m) auto

lemma map_err_Ok_iff [result_ok]: "map_err g m = Ok y \<longleftrightarrow> m = Ok y"
  by (cases m) auto

lemma map_err_Panic_iff: "map_err g m = Panic \<longleftrightarrow> m = Panic"
  by (cases m) auto

lemma ok_or_Ok_iff [result_ok]: "ok_or x e = Ok y \<longleftrightarrow> x = Some y"
  by (cases x) auto

lemma ok_or_not_Panic [simp]: "ok_or x e \<noteq> Panic"
  by (cases x) auto

lemma early_Err_Ok_iff [result_ok]: "(if c then Err e else r) = Ok y \<longleftrightarrow> \<not> c \<and> r = Ok y"
  by simp

lemma late_Err_Ok_iff [result_ok]: "(if c then r else Err e) = Ok y \<longleftrightarrow> c \<and> r = Ok y"
  by simp

lemma if_Ok_iff: "(if c then r else s) = Ok y \<longleftrightarrow> (c \<longrightarrow> r = Ok y) \<and> (\<not> c \<longrightarrow> s = Ok y)"
  by simp

lemma early_Panic_Ok_iff [result_ok]: "(if c then Panic else r) = Ok y \<longleftrightarrow> \<not> c \<and> r = Ok y"
  by simp

lemma early_Err_Panic_iff: "(if c then Err e else r) = Panic \<longleftrightarrow> \<not> c \<and> r = Panic"
  by simp

lemma bind_cong [fundef_cong]:
  "m = m' \<Longrightarrow> (\<And>x. m' = Ok x \<Longrightarrow> f x = g x) \<Longrightarrow> bind m f = bind m' g"
  by (cases m') auto

text \<open>The index expression \<open>xs[i]\<close>, and \<open>xs[i .. i + n].copy_from_slice(ys)\<close>.\<close>

definition at_index :: "'a list \<Rightarrow> nat \<Rightarrow> ('e, 'a) result" where
  "at_index xs i = (if i < length xs then Ok (xs ! i) else Panic)"

definition copy_at :: "'a list \<Rightarrow> nat \<Rightarrow> 'a list \<Rightarrow> ('e, 'a list) result" where
  "copy_at xs i ys =
     (if i + length ys \<le> length xs then Ok (take i xs @ ys @ drop (i + length ys) xs) else Panic)"

lemma at_index_Ok_iff [result_ok]: "at_index xs i = Ok x \<longleftrightarrow> i < length xs \<and> x = xs ! i"
  by (auto simp: at_index_def)

section \<open>Checked arithmetic\<close>

text \<open>Rust's \<open>checked_add\<close>, \<open>checked_sub\<close>, \<open>checked_mul\<close> and \<open>checked_div\<close> at any width.\<close>

definition checked_add :: "'a::len word \<Rightarrow> 'a word \<Rightarrow> 'a word option" where
  "checked_add a b = (if unat a + unat b < 2 ^ LENGTH('a) then Some (a + b) else None)"

definition checked_sub :: "'a::len word \<Rightarrow> 'a word \<Rightarrow> 'a word option" where
  "checked_sub a b = (if b \<le> a then Some (a - b) else None)"

definition checked_mul :: "'a::len word \<Rightarrow> 'a word \<Rightarrow> 'a word option" where
  "checked_mul a b = (if unat a * unat b < 2 ^ LENGTH('a) then Some (a * b) else None)"

definition checked_div :: "'a::len word \<Rightarrow> 'a word \<Rightarrow> 'a word option" where
  "checked_div a b = (if b = 0 then None else Some (a div b))"

definition saturating_add :: "'a::len word \<Rightarrow> 'a word \<Rightarrow> 'a word" where
  "saturating_add a b = (case checked_add a b of Some c \<Rightarrow> c | None \<Rightarrow> - 1)"

lemma checked_add_Some_iff:
  "checked_add a b = Some c \<longleftrightarrow> unat c = unat a + unat b"
  for a :: "'a::len word"
proof
  assume "checked_add a b = Some c"
  then show "unat c = unat a + unat b"
    by (auto simp: checked_add_def unat_word_ariths split: if_splits)
next
  assume c: "unat c = unat a + unat b"
  moreover have "unat c < 2 ^ LENGTH('a)" by (rule unsigned_less)
  ultimately have "c = a + b"
    by (intro word_unat_eq_iff [THEN iffD2]) (simp add: unat_word_ariths)
  with c \<open>unat c < _\<close> show "checked_add a b = Some c"
    by (simp add: checked_add_def)
qed

lemma checked_sub_Some_iff:
  "checked_sub a b = Some c \<longleftrightarrow> unat b \<le> unat a \<and> unat c = unat a - unat b"
  for a :: "'a::len word"
  by (auto simp: checked_sub_def word_le_nat_alt unat_sub word_unat_eq_iff split: if_splits)

lemma checked_mul_Some_iff:
  "checked_mul a b = Some c \<longleftrightarrow> unat c = unat a * unat b"
  for a :: "'a::len word"
proof
  assume "checked_mul a b = Some c"
  then show "unat c = unat a * unat b"
    by (auto simp: checked_mul_def unat_word_ariths split: if_splits)
next
  assume c: "unat c = unat a * unat b"
  moreover have "unat c < 2 ^ LENGTH('a)" by (rule unsigned_less)
  ultimately have "c = a * b"
    by (intro word_unat_eq_iff [THEN iffD2]) (simp add: unat_word_ariths)
  with c \<open>unat c < _\<close> show "checked_mul a b = Some c"
    by (simp add: checked_mul_def)
qed

lemma checked_div_Some_iff:
  "checked_div a b = Some c \<longleftrightarrow> b \<noteq> 0 \<and> unat c = unat a div unat b"
  by (auto simp: checked_div_def unat_div word_unat_eq_iff split: if_splits)

lemmas checked_Some_iff =
  checked_add_Some_iff checked_sub_Some_iff checked_mul_Some_iff checked_div_Some_iff

section \<open>Byte strings\<close>

text \<open>
  \<open>segment off n bs\<close> is the array reference \<open>bs[off .. off + n]\<close> the \<open>array_refs!\<close> macros hand
  out; the callers check the length first.
\<close>

definition segment :: "nat \<Rightarrow> nat \<Rightarrow> 'a list \<Rightarrow> 'a list" where
  "segment off n bs = take n (drop off bs)"

lemma length_segment [simp]: "length (segment off n bs) = min n (length bs - off)"
  by (simp add: segment_def)

lemma segment_append: "segment off n (xs @ ys) =
    (if off + n \<le> length xs then segment off n xs
     else if length xs \<le> off then segment (off - length xs) n ys
     else drop off xs @ take (off + n - length xs) ys)"
  by (auto simp: segment_def add.commute)

lemma segment_full [simp]: "length bs \<le> n \<Longrightarrow> segment 0 n bs = bs"
  by (simp add: segment_def)

text \<open>Splitting a byte string into consecutive segments and gluing them gives it back.\<close>

lemma segment_glue: "segment off n bs @ segment (off + n) m bs = segment off (n + m) bs"
  by (simp add: segment_def take_add add.commute [of off n])

lemma segment_skip: "length xs \<le> off \<Longrightarrow> segment off n (xs @ ys) = segment (off - length xs) n ys"
  by (simp add: segment_def)

lemma segment_head: "length xs = n \<Longrightarrow> segment 0 n (xs @ ys) = xs"
  by (simp add: segment_def)

lemma segment_Cons: "0 < off \<Longrightarrow> segment off n (x # xs) = segment (off - 1) n xs"
  by (simp add: segment_def drop_Cons')

lemma segment_single: "i < length bs \<Longrightarrow> segment i (Suc 0) bs = [bs ! i]"
  by (simp add: segment_def take_Suc hd_drop_conv_nth)

text \<open>Consecutive segments of given lengths, the arrays of one \<open>array_refs!\<close>.\<close>

fun segments :: "nat \<Rightarrow> nat list \<Rightarrow> 'a list \<Rightarrow> 'a list list" where
  "segments off [] bs = []"
| "segments off (n # ns) bs = segment off n bs # segments (off + n) ns bs"

lemma concat_segments: "concat (segments off ns bs) @ drop (off + sum_list ns) bs = drop off bs"
proof (induction ns arbitrary: off)
  case Nil
  then show ?case by simp
next
  case (Cons n ns)
  have "segment off n bs @ drop (off + n) bs = drop off bs"
    by (simp add: segment_def add.commute [of off] flip: drop_drop)
  then show ?case using Cons [of "off + n"] by (simp add: add.assoc)
qed

fun le_bytes :: "nat \<Rightarrow> 'a::len word \<Rightarrow> bytes" where
  "le_bytes 0 w = []"
| "le_bytes (Suc n) w = ucast w # le_bytes n (drop_bit 8 w)"

fun from_le :: "bytes \<Rightarrow> 'a::len word" where
  "from_le [] = 0"
| "from_le (b # bs) = ucast b OR push_bit 8 (from_le bs)"

lemma length_le_bytes [simp]: "length (le_bytes n w) = n"
  by (induction n arbitrary: w) auto

lemma from_le_le_bytes_take:
  fixes w :: "'a::len word"
  shows "from_le (le_bytes n w) = take_bit (8 * n) w"
proof (induction n arbitrary: w)
  case 0
  then show ?case by simp
next
  case (Suc n)
  show ?case
  proof (rule bit_word_eqI)
    fix i assume "i < LENGTH('a)"
    then show "bit (from_le (le_bytes (Suc n) w) :: 'a word) i = bit (take_bit (8 * Suc n) w) i"
      by (cases "i < 8")
        (auto simp: Suc bit_or_iff bit_ucast_iff bit_push_bit_iff bit_take_bit_iff bit_drop_bit_eq)
  qed
qed

lemma from_le_le_bytes:
  fixes w :: "'a::len word"
  assumes "LENGTH('a) \<le> 8 * n"
  shows "from_le (le_bytes n w) = w"
  using assms by (simp add: from_le_le_bytes_take take_bit_word_eq_self)

lemma le_bytes_take_bit:
  "8 * n \<le> k \<Longrightarrow> le_bytes n (take_bit k w) = le_bytes n w"
proof (induction n arbitrary: k w)
  case 0
  then show ?case by simp
next
  case (Suc n)
  have "(ucast (take_bit k w) :: u8) = ucast w"
    using Suc.prems by (intro bit_word_eqI) (auto simp: bit_ucast_iff bit_take_bit_iff)
  moreover have "le_bytes n (take_bit (k - 8) (drop_bit 8 w)) = le_bytes n (drop_bit 8 w)"
    using Suc.prems by (intro Suc.IH) simp
  ultimately show ?case by (simp add: drop_bit_take_bit)
qed

lemma le_bytes_from_le:
  assumes "8 * length bs \<le> LENGTH('a::len)"
  shows "le_bytes (length bs) (from_le bs :: 'a word) = bs"
  using assms
proof (induction bs)
  case Nil
  then show ?case by simp
next
  case (Cons b bs)
  have low: "ucast (ucast b OR push_bit 8 (from_le bs) :: 'a word) = b"
    using Cons.prems
    by (intro bit_word_eqI) (auto simp: bit_ucast_iff bit_or_iff bit_push_bit_iff)
  have high: "drop_bit 8 (ucast b OR push_bit 8 (from_le bs) :: 'a word) =
      take_bit (LENGTH('a) - 8) (from_le bs)"
    by (intro bit_word_eqI)
      (auto simp: bit_drop_bit_eq bit_ucast_iff bit_or_iff bit_push_bit_iff bit_take_bit_iff
         dest: bit_imp_le_length)
  have "le_bytes (length bs) (take_bit (LENGTH('a) - 8) (from_le bs :: 'a word)) = bs"
    using Cons by (simp add: le_bytes_take_bit)
  with low high show ?case by simp
qed

section \<open>Lists\<close>

text \<open>The first occurrence of every element, in order (\<open>Itertools::unique\<close>).\<close>

fun unique_from :: "'a list \<Rightarrow> 'a list \<Rightarrow> 'a list" where
  "unique_from seen [] = []"
| "unique_from seen (x # xs) =
     (if x \<in> set seen then unique_from seen xs else x # unique_from (x # seen) xs)"

abbreviation unique :: "'a list \<Rightarrow> 'a list" where
  "unique \<equiv> unique_from []"

lemma set_unique_from [simp]: "set (unique_from seen xs) = set xs - set seen"
  by (induction seen xs rule: unique_from.induct) auto

lemma distinct_unique_from [simp]: "distinct (unique_from seen xs)"
  by (induction seen xs rule: unique_from.induct) auto

lemma length_filter_mono:
  "(\<And>x. x \<in> set xs \<Longrightarrow> P x \<Longrightarrow> Q x) \<Longrightarrow> length (filter P xs) \<le> length (filter Q xs)"
  by (induction xs) (auto simp: le_Suc_eq)

end
