(* ===== verification/Sdk.thy ===== *)
theory Sdk
  imports Prelude
begin

text \<open>
  The part of the on-chain SDK the programs are written against
  (\<open>testnet/sdk/program/src\<close>): public keys, program errors and their wire encoding, account
  infos over a shared ledger, the \<open>Pack\<close> trait, client-side instructions, and rent.

  An \<open>AccountInfo\<close> holds its balance and its data behind \<open>Rc<RefCell<..>>\<close>, and the runtime
  hands the same cell to every info of an instruction that names the same key. The ledger makes
  that sharing explicit: an info is a key with its privileges, and reads and writes go through
  the ledger. An account that was never created is the default account.
\<close>

section \<open>Public keys\<close>

text \<open>
  \<open>Pubkey([u8; 32])\<close> is the word whose little-endian bytes are the array; the two directions
  are inverse on arrays of 32 bytes.
\<close>

type_synonym pubkey = "256 word"

definition pubkey_to_bytes :: "pubkey \<Rightarrow> bytes" where
  "pubkey_to_bytes = le_bytes 32"

definition pubkey_new_from_array :: "bytes \<Rightarrow> pubkey" where
  "pubkey_new_from_array = from_le"

text \<open>\<open>Pubkey::new\<close> panics on a segment that is not 32 bytes long.\<close>

definition pubkey_new :: "bytes \<Rightarrow> ('e, pubkey) result" where
  "pubkey_new bs = (if length bs = 32 then Ok (pubkey_new_from_array bs) else Panic)"

definition u64_to_le_bytes :: "u64 \<Rightarrow> bytes" where
  "u64_to_le_bytes = le_bytes 8"

definition u64_from_le_bytes :: "bytes \<Rightarrow> u64" where
  "u64_from_le_bytes = from_le"

lemma length_pubkey_to_bytes [simp]: "length (pubkey_to_bytes k) = 32"
  by (simp add: pubkey_to_bytes_def)

lemma length_u64_to_le_bytes [simp]: "length (u64_to_le_bytes x) = 8"
  by (simp add: u64_to_le_bytes_def)

lemma pubkey_new_from_array_to_bytes [simp]: "pubkey_new_from_array (pubkey_to_bytes k) = k"
  by (simp add: pubkey_to_bytes_def pubkey_new_from_array_def from_le_le_bytes)

lemma pubkey_new_to_bytes [simp]: "pubkey_new (pubkey_to_bytes k) = Ok k"
  by (simp add: pubkey_new_def)

lemma u64_from_to_le_bytes [simp]: "u64_from_le_bytes (u64_to_le_bytes x) = x"
  by (simp add: u64_to_le_bytes_def u64_from_le_bytes_def from_le_le_bytes)

lemma pubkey_to_bytes_from_array [simp]:
  "length bs = 32 \<Longrightarrow> pubkey_to_bytes (pubkey_new_from_array bs) = bs"
  using le_bytes_from_le [where 'a = 256, of bs]
  by (simp add: pubkey_to_bytes_def pubkey_new_from_array_def)

lemma u64_to_from_le_bytes [simp]:
  "length bs = 8 \<Longrightarrow> u64_to_le_bytes (u64_from_le_bytes bs) = bs"
  using le_bytes_from_le [where 'a = 64, of bs]
  by (simp add: u64_to_le_bytes_def u64_from_le_bytes_def)

section \<open>Program errors\<close>

datatype ProgramError =
    Custom u32
  | InvalidArgument
  | InvalidInstructionData
  | InvalidAccountData
  | AccountDataTooSmall
  | InsufficientFunds
  | IncorrectProgramId
  | MissingRequiredSignature
  | AccountAlreadyInitialized
  | UninitializedAccount
  | NotEnoughAccountKeys
  | AccountBorrowFailed
  | MaxSeedLengthExceeded
  | InvalidSeeds
  | BorshIoError string
  | AccountNotRentExempt
  | UnsupportedSysvar
  | IllegalOwner

type_synonym 'a program_result = "(ProgramError, 'a) result"

text \<open>A program returns its error as a \<open>u64\<close>; builtin errors occupy the upper 32 bits.\<close>

definition BUILTIN_BIT_SHIFT :: nat where
  "BUILTIN_BIT_SHIFT = 32"

definition to_builtin :: "u64 \<Rightarrow> u64" where
  "to_builtin e = push_bit BUILTIN_BIT_SHIFT e"

fun program_error_to_u64 :: "ProgramError \<Rightarrow> u64" where
  "program_error_to_u64 InvalidArgument = to_builtin 2"
| "program_error_to_u64 InvalidInstructionData = to_builtin 3"
| "program_error_to_u64 InvalidAccountData = to_builtin 4"
| "program_error_to_u64 AccountDataTooSmall = to_builtin 5"
| "program_error_to_u64 InsufficientFunds = to_builtin 6"
| "program_error_to_u64 IncorrectProgramId = to_builtin 7"
| "program_error_to_u64 MissingRequiredSignature = to_builtin 8"
| "program_error_to_u64 AccountAlreadyInitialized = to_builtin 9"
| "program_error_to_u64 UninitializedAccount = to_builtin 10"
| "program_error_to_u64 NotEnoughAccountKeys = to_builtin 11"
| "program_error_to_u64 AccountBorrowFailed = to_builtin 12"
| "program_error_to_u64 MaxSeedLengthExceeded = to_builtin 13"
| "program_error_to_u64 InvalidSeeds = to_builtin 14"
| "program_error_to_u64 (BorshIoError _) = to_builtin 15"
| "program_error_to_u64 AccountNotRentExempt = to_builtin 16"
| "program_error_to_u64 UnsupportedSysvar = to_builtin 17"
| "program_error_to_u64 IllegalOwner = to_builtin 18"
| "program_error_to_u64 (Custom error) = (if error = 0 then to_builtin 1 else ucast error)"

definition program_error_from_u64 :: "u64 \<Rightarrow> ProgramError" where
  "program_error_from_u64 error =
     (if error = to_builtin 1 then Custom 0
      else if error = to_builtin 2 then InvalidArgument
      else if error = to_builtin 3 then InvalidInstructionData
      else if error = to_builtin 4 then InvalidAccountData
      else if error = to_builtin 5 then AccountDataTooSmall
      else if error = to_builtin 6 then InsufficientFunds
      else if error = to_builtin 7 then IncorrectProgramId
      else if error = to_builtin 8 then MissingRequiredSignature
      else if error = to_builtin 9 then AccountAlreadyInitialized
      else if error = to_builtin 10 then UninitializedAccount
      else if error = to_builtin 11 then NotEnoughAccountKeys
      else if error = to_builtin 12 then AccountBorrowFailed
      else if error = to_builtin 13 then MaxSeedLengthExceeded
      else if error = to_builtin 14 then InvalidSeeds
      else if error = to_builtin 15 then BorshIoError ''Unknown''
      else if error = to_builtin 16 then AccountNotRentExempt
      else if error = to_builtin 17 then UnsupportedSysvar
      else if error = to_builtin 18 then IllegalOwner
      else Custom (ucast error))"

section \<open>Accounts and the ledger\<close>

record AccountSharedData =
  lamports :: u64
  data :: bytes
  owner :: pubkey
  executable :: bool
  rent_epoch :: u64

text \<open>The state every program runs on. \<open>default_account\<close> is what a missing account reads as.\<close>

type_synonym ledger = "pubkey \<Rightarrow> AccountSharedData"

definition default_account :: AccountSharedData where
  "default_account =
     \<lparr>lamports = 0, data = [], owner = 0, executable = False, rent_epoch = 0\<rparr>"

record AccountInfo =
  key :: pubkey
  is_signer :: bool
  is_writable :: bool

definition info_lamports :: "ledger \<Rightarrow> AccountInfo \<Rightarrow> u64" where
  "info_lamports L i = lamports (L (key i))"

definition info_data :: "ledger \<Rightarrow> AccountInfo \<Rightarrow> bytes" where
  "info_data L i = data (L (key i))"

definition info_owner :: "ledger \<Rightarrow> AccountInfo \<Rightarrow> pubkey" where
  "info_owner L i = owner (L (key i))"

definition data_len :: "ledger \<Rightarrow> AccountInfo \<Rightarrow> nat" where
  "data_len L i = length (info_data L i)"

definition set_lamports :: "ledger \<Rightarrow> AccountInfo \<Rightarrow> u64 \<Rightarrow> ledger" where
  "set_lamports L i x = L(key i := (L (key i))\<lparr>lamports := x\<rparr>)"

definition set_data :: "ledger \<Rightarrow> AccountInfo \<Rightarrow> bytes \<Rightarrow> ledger" where
  "set_data L i d = L(key i := (L (key i))\<lparr>data := d\<rparr>)"

fun next_account_info :: "AccountInfo list \<Rightarrow> (AccountInfo \<times> AccountInfo list) program_result" where
  "next_account_info [] = Err NotEnoughAccountKeys"
| "next_account_info (i # is) = Ok (i, is)"

lemma next_account_info_Ok_iff [result_ok]:
  "next_account_info is = Ok p \<longleftrightarrow> (\<exists>i is'. is = i # is' \<and> p = (i, is'))"
  by (cases "is") auto

section \<open>The Pack trait\<close>

text \<open>The provided methods of \<open>Pack\<close>, over the two methods and the constant of an implementor.\<close>

definition unpack_unchecked ::
  "nat \<Rightarrow> (bytes \<Rightarrow> 'a program_result) \<Rightarrow> bytes \<Rightarrow> 'a program_result" where
  "unpack_unchecked LEN unpack_from_slice input =
     (if length input \<noteq> LEN then Err InvalidAccountData else unpack_from_slice input)"

definition unpack ::
  "nat \<Rightarrow> (bytes \<Rightarrow> 'a program_result) \<Rightarrow> ('a \<Rightarrow> bool) \<Rightarrow> bytes \<Rightarrow> 'a program_result" where
  "unpack LEN unpack_from_slice is_initialized input =
     bind (unpack_unchecked LEN unpack_from_slice input) (\<lambda>value.
     if is_initialized value then Ok value else Err UninitializedAccount)"

definition pack ::
  "nat \<Rightarrow> ('a \<Rightarrow> bytes \<Rightarrow> bytes program_result) \<Rightarrow> 'a \<Rightarrow> bytes \<Rightarrow> bytes program_result" where
  "pack LEN pack_into_slice src dst =
     (if length dst \<noteq> LEN then Err InvalidAccountData else pack_into_slice src dst)"

text \<open>The value an account's bytes decode to, initialized or not.\<close>

definition view ::
  "nat \<Rightarrow> (bytes \<Rightarrow> 'a program_result) \<Rightarrow> AccountSharedData \<Rightarrow> 'a option" where
  "view LEN unpack_from_slice acc =
     (case unpack_unchecked LEN unpack_from_slice (data acc) of Ok v \<Rightarrow> Some v | _ \<Rightarrow> None)"

lemma view_Some_iff: "view n fs acc = Some v \<longleftrightarrow> unpack_unchecked n fs (data acc) = Ok v"
  by (auto simp: view_def split: result.splits)

lemma view_lamports [simp]: "view n fs (acc\<lparr>lamports := x\<rparr>) = view n fs acc"
  by (simp add: view_def)

lemma view_wrong_length: "length (data acc) \<noteq> n \<Longrightarrow> view n fs acc = None"
  by (simp add: view_def unpack_unchecked_def)

text \<open>Programs change balances and bytes of an account, nothing else, and no lengths here.\<close>

definition same_frame :: "ledger \<Rightarrow> ledger \<Rightarrow> bool" where
  "same_frame L L' \<longleftrightarrow> (\<forall>k. owner (L' k) = owner (L k) \<and> executable (L' k) = executable (L k)
      \<and> rent_epoch (L' k) = rent_epoch (L k) \<and> length (data (L' k)) = length (data (L k)))"

lemma same_frame_refl [simp]: "same_frame L L"
  by (simp add: same_frame_def)

lemma same_frame_trans: "same_frame L M \<Longrightarrow> same_frame M N \<Longrightarrow> same_frame L N"
  by (simp add: same_frame_def)

text \<open>
  What an implementation of \<open>Pack\<close> promises: encoding succeeds on a buffer of the declared
  length and keeps that length, decoding an encoding gives the value back whatever the buffer
  held, and writing a decoded value back into its own buffer changes no byte. \<open>wf\<close> says which
  values the record type has but the Rust type does not (arrays of the wrong length).
\<close>

locale pack_format =
  fixes LEN :: nat
    and unpack_from_slice :: "bytes \<Rightarrow> 'a program_result"
    and pack_into_slice :: "'a \<Rightarrow> bytes \<Rightarrow> bytes program_result"
    and is_initialized :: "'a \<Rightarrow> bool"
    and wf :: "'a \<Rightarrow> bool"
  assumes pack_slice: "wf v \<Longrightarrow> length dst = LEN \<Longrightarrow>
        \<exists>d. pack_into_slice v dst = Ok d \<and> length d = LEN \<and> unpack_from_slice d = Ok v"
    and pack_unpack_slice:
      "length src = LEN \<Longrightarrow> unpack_from_slice src = Ok v \<Longrightarrow> pack_into_slice v src = Ok src"
    and unpack_wf: "length src = LEN \<Longrightarrow> unpack_from_slice src = Ok v \<Longrightarrow> wf v"
    and unpack_no_panic: "length src = LEN \<Longrightarrow> unpack_from_slice src \<noteq> Panic"
begin

lemma unpack_Ok_iff:
  "unpack LEN unpack_from_slice is_initialized src = Ok v \<longleftrightarrow>
     length src = LEN \<and> unpack_from_slice src = Ok v \<and> is_initialized v"
  by (auto simp: unpack_def unpack_unchecked_def result_ok)

lemma unpack_unchecked_Ok_iff:
  "unpack_unchecked LEN unpack_from_slice src = Ok v \<longleftrightarrow>
     length src = LEN \<and> unpack_from_slice src = Ok v"
  by (auto simp: unpack_unchecked_def)

lemma unpack_unchecked_never_panics: "unpack_unchecked LEN unpack_from_slice src \<noteq> Panic"
  using unpack_no_panic by (auto simp: unpack_unchecked_def)

lemma unpack_never_panics: "unpack LEN unpack_from_slice is_initialized src \<noteq> Panic"
  using unpack_unchecked_never_panics by (auto simp: unpack_def bind_Panic_iff)

lemma pack_OkD:
  assumes "pack LEN pack_into_slice v dst = Ok d" "wf v"
  shows "length dst = LEN \<and> length d = LEN \<and> unpack_from_slice d = Ok v"
  using assms pack_slice [of v dst] by (auto simp: pack_def split: if_splits)

lemma pack_total: "wf v \<Longrightarrow> length dst = LEN \<Longrightarrow> \<exists>d. pack LEN pack_into_slice v dst = Ok d"
  using pack_slice by (auto simp: pack_def)

lemma pack_never_panics: "wf v \<Longrightarrow> pack LEN pack_into_slice v dst \<noteq> Panic"
  using pack_slice [of v dst] by (auto simp: pack_def)

lemma unpack_pack:
  assumes "pack LEN pack_into_slice v dst = Ok d" "wf v" "is_initialized v"
  shows "unpack LEN unpack_from_slice is_initialized d = Ok v"
  using pack_OkD [OF assms(1,2)] assms(3) by (simp add: unpack_Ok_iff)

lemma unpack_pack_uninitialized:
  assumes "pack LEN pack_into_slice v dst = Ok d" "wf v" "\<not> is_initialized v"
  shows "unpack LEN unpack_from_slice is_initialized d = Err UninitializedAccount"
  using pack_OkD [OF assms(1,2)] assms(3) by (simp add: unpack_def unpack_unchecked_def)

lemma write_back_identity:
  assumes "unpack LEN unpack_from_slice is_initialized src = Ok v"
  shows "pack LEN pack_into_slice v src = Ok src"
  using assms by (auto simp: pack_def unpack_Ok_iff pack_unpack_slice)

lemma pack_unpack_pack:
  assumes "wf v" "length dst = LEN"
  shows "\<exists>d. pack LEN pack_into_slice v dst = Ok d \<and> unpack_unchecked LEN unpack_from_slice d = Ok v \<and>
    pack LEN pack_into_slice v d = Ok d"
  using pack_slice [OF assms] assms(2) pack_unpack_slice
  by (auto simp: pack_def unpack_unchecked_def)

lemma unpack_implies_wf:
  "unpack LEN unpack_from_slice is_initialized src = Ok v \<Longrightarrow> wf v"
  by (auto simp: unpack_Ok_iff unpack_wf)

lemma pack_same_bytes:
  assumes "pack LEN pack_into_slice v' src = Ok src" "wf v'"
    and "unpack LEN unpack_from_slice is_initialized src = Ok v"
  shows "v' = v"
  using pack_OkD [OF assms(1,2)] assms(3) by (simp add: unpack_Ok_iff)

lemma unpack_iff_view:
  "unpack LEN unpack_from_slice is_initialized (data acc) = Ok v \<longleftrightarrow>
     view LEN unpack_from_slice acc = Some v \<and> is_initialized v"
  by (auto simp: unpack_Ok_iff view_Some_iff unpack_unchecked_Ok_iff)

lemma view_write:
  assumes "pack LEN pack_into_slice v dst = Ok d" "wf v"
  shows "view LEN unpack_from_slice (acc\<lparr>data := d\<rparr>) = Some v"
  using pack_OkD [OF assms] by (simp add: view_Some_iff unpack_unchecked_Ok_iff)

lemma view_length:
  "view LEN unpack_from_slice acc = Some v \<Longrightarrow> length (data acc) = LEN"
  by (simp add: view_Some_iff unpack_unchecked_Ok_iff)

lemma view_wf: "view LEN unpack_from_slice acc = Some v \<Longrightarrow> wf v"
  by (auto simp: view_Some_iff unpack_unchecked_Ok_iff unpack_wf)

text \<open>
  A write through the trait sets the value decoded at that key, leaves every other key and every
  layout of another length alone, and keeps balances, owners and sizes.
\<close>

lemma typed_write:
  assumes wr: "bind (pack LEN pack_into_slice v (info_data L i)) (\<lambda>d. Ok (set_data L i d)) = Ok L'"
    and "wf v"
  shows "(\<lambda>k. view LEN unpack_from_slice (L' k)) =
      (\<lambda>k. view LEN unpack_from_slice (L k))(key i \<mapsto> v)"
    and "n \<noteq> LEN \<Longrightarrow> (\<lambda>k. view n fs (L' k)) = (\<lambda>k. view n fs (L k))"
    and "(\<lambda>k. lamports (L' k)) = (\<lambda>k. lamports (L k))"
    and "same_frame L L'"
    and "k \<noteq> key i \<Longrightarrow> L' k = L k"
    and "length (info_data L i) = LEN"
proof -
  from wr obtain d where d: "pack LEN pack_into_slice v (data (L (key i))) = Ok d"
    and L': "L' = L(key i := (L (key i))\<lparr>data := d\<rparr>)"
    by (auto simp: info_data_def set_data_def result_ok)
  have len: "length (data (L (key i))) = LEN" "length d = LEN"
    using pack_OkD [OF d \<open>wf v\<close>] by simp_all
  show "(\<lambda>k. view LEN unpack_from_slice (L' k)) =
      (\<lambda>k. view LEN unpack_from_slice (L k))(key i \<mapsto> v)"
    using view_write [OF d \<open>wf v\<close>] by (auto simp: L' fun_eq_iff)
  show "n \<noteq> LEN \<Longrightarrow> (\<lambda>k. view n fs (L' k)) = (\<lambda>k. view n fs (L k))"
    using len by (auto simp: L' fun_eq_iff view_wrong_length)
  show "(\<lambda>k. lamports (L' k)) = (\<lambda>k. lamports (L k))" "same_frame L L'" "k \<noteq> key i \<Longrightarrow> L' k = L k"
    "length (info_data L i) = LEN"
    using len by (auto simp: L' same_frame_def info_data_def)
qed

lemma typed_write_total:
  assumes "length (info_data L i) = LEN" "wf v"
  shows "\<exists>L'. bind (pack LEN pack_into_slice v (info_data L i)) (\<lambda>d. Ok (set_data L i d)) = Ok L'"
  using pack_total [OF assms(2,1)] by auto

end

section \<open>Instructions as clients build them\<close>

record AccountMeta =
  meta_pubkey :: pubkey
  meta_is_signer :: bool
  meta_is_writable :: bool

record Instruction =
  program_id :: pubkey
  accounts :: "AccountMeta list"
  instr_data :: bytes

definition account_meta_new :: "pubkey \<Rightarrow> bool \<Rightarrow> AccountMeta" where
  "account_meta_new k s = \<lparr>meta_pubkey = k, meta_is_signer = s, meta_is_writable = True\<rparr>"

definition account_meta_new_readonly :: "pubkey \<Rightarrow> bool \<Rightarrow> AccountMeta" where
  "account_meta_new_readonly k s =
     \<lparr>meta_pubkey = k, meta_is_signer = s, meta_is_writable = False\<rparr>"

section \<open>Rent\<close>

text \<open>
  The exemption threshold is an \<open>f64\<close>, kept as its bits. What the floating point unit makes of
  \<open>(x as f64 * t) as u64\<close>, what \<open>bincode\<close> decodes from the rent sysvar account and what the
  \<open>get_rent_sysvar\<close> syscall returns are not in the sources; they are the fields of \<open>host\<close>, a
  parameter of the definitions that use them.
\<close>

type_synonym f64 = "64 word"

record Rent =
  lamports_per_byte_year :: u64
  exemption_threshold :: f64
  burn_percent :: u8

record host =
  f64_scale :: "u64 \<Rightarrow> f64 \<Rightarrow> u64"
  bincode_rent :: "bytes \<Rightarrow> Rent option"
  syscall_rent :: "Rent program_result"

definition ACCOUNT_STORAGE_OVERHEAD :: u64 where
  "ACCOUNT_STORAGE_OVERHEAD = 128"

definition minimum_balance :: "host \<Rightarrow> Rent \<Rightarrow> nat \<Rightarrow> u64" where
  "minimum_balance h r len =
     (let bytes = of_nat len
      in f64_scale h ((ACCOUNT_STORAGE_OVERHEAD + bytes) * lamports_per_byte_year r)
           (exemption_threshold r))"

definition is_exempt :: "host \<Rightarrow> Rent \<Rightarrow> u64 \<Rightarrow> nat \<Rightarrow> bool" where
  "is_exempt h r balance len = (minimum_balance h r len \<le> balance)"

text \<open>The address of the rent sysvar, the base58 string of \<open>declare_sysvar_id!\<close> decoded.\<close>

definition rent_id :: pubkey where
  "rent_id = 0x8ad9dbe344fda19b08eeda587ff14a3d4cc98c21515c2c1917d5a706"

definition rent_from_account_info :: "host \<Rightarrow> ledger \<Rightarrow> AccountInfo \<Rightarrow> Rent program_result" where
  "rent_from_account_info h L i =
     (if key i \<noteq> rent_id then Err InvalidArgument
      else ok_or (bincode_rent h (info_data L i)) InvalidArgument)"

definition rent_get :: "host \<Rightarrow> Rent program_result" where
  "rent_get h = syscall_rent h"

section \<open>Facts about ledger writes\<close>

lemmas ledger_ops = info_lamports_def info_data_def info_owner_def data_len_def
  set_lamports_def set_data_def

text \<open>A custom code has no bit set in the upper half of the encoding.\<close>

lemma ucast_u32_neq_builtin:
  fixes e :: u32
  assumes "2 ^ 32 \<le> unat b"
  shows "(ucast e :: u64) \<noteq> b"
proof
  assume "(ucast e :: u64) = b"
  moreover have bound: "unat e < 2 ^ 32" using unsigned_less [of e] by simp
  ultimately have "unat b = unat e"
    by (auto simp: unsigned_ucast_eq take_bit_nat_eq_self)
  moreover note bound
  ultimately show False using assms by simp
qed

text \<open>
  The wire encoding of a program error loses only the text of a Borsh error: every other error
  is recovered exactly, \<open>Custom 0\<close> included.
\<close>

lemma program_error_u64_roundtrip:
  "program_error_from_u64 (program_error_to_u64 e) =
     (case e of BorshIoError _ \<Rightarrow> BorshIoError ''Unknown'' | _ \<Rightarrow> e)"
proof (cases e)
  case (Custom c)
  have "ucast (ucast c :: u64) = c" by (simp add: ucast_down_ucast_id is_down)
  with Custom show ?thesis
    by (cases "c = 0")
      (simp_all add: program_error_from_u64_def to_builtin_def BUILTIN_BIT_SHIFT_def
        ucast_u32_neq_builtin)
qed (simp_all add: program_error_from_u64_def to_builtin_def BUILTIN_BIT_SHIFT_def)

end
