(* ===== verification/Token_State.thy ===== *)
theory Token_State
  imports Sdk
begin

text \<open>
  The three account layouts of the token program (\<open>token/program/src/state.rs\<close>): mints, token
  accounts and multisignatures, with their byte encodings. Each implementation of \<open>Pack\<close> is an
  interpretation of \<^term>\<open>pack_format\<close>.
\<close>

section \<open>Errors of the token program\<close>

datatype TokenError =
    NotRentExempt | InsufficientFunds | InvalidMint | MintMismatch | OwnerMismatch
  | FixedSupply | AlreadyInUse | InvalidNumberOfProvidedSigners
  | InvalidNumberOfRequiredSigners | UninitializedState
  | NativeNotSupported | NonNativeHasBalance | InvalidInstruction | InvalidState | Overflow
  | AuthorityTypeNotSupported | MintCannotFreeze | AccountFrozen | MintDecimalsMismatch
  | NonNativeNotSupported

fun token_error_code :: "TokenError \<Rightarrow> u32" where
  "token_error_code NotRentExempt = 0"
| "token_error_code TokenError.InsufficientFunds = 1"
| "token_error_code InvalidMint = 2"
| "token_error_code MintMismatch = 3"
| "token_error_code OwnerMismatch = 4"
| "token_error_code FixedSupply = 5"
| "token_error_code AlreadyInUse = 6"
| "token_error_code InvalidNumberOfProvidedSigners = 7"
| "token_error_code InvalidNumberOfRequiredSigners = 8"
| "token_error_code UninitializedState = 9"
| "token_error_code NativeNotSupported = 10"
| "token_error_code NonNativeHasBalance = 11"
| "token_error_code InvalidInstruction = 12"
| "token_error_code InvalidState = 13"
| "token_error_code Overflow = 14"
| "token_error_code AuthorityTypeNotSupported = 15"
| "token_error_code MintCannotFreeze = 16"
| "token_error_code AccountFrozen = 17"
| "token_error_code MintDecimalsMismatch = 18"
| "token_error_code NonNativeNotSupported = 19"

definition into_program_error :: "TokenError \<Rightarrow> ProgramError" where
  "into_program_error e = Custom (token_error_code e)"

definition token_err :: "TokenError \<Rightarrow> 'a program_result" where
  "token_err e = Err (into_program_error e)"

lemma token_err_Ok [simp]: "token_err e \<noteq> Ok x" "token_err e \<noteq> Panic"
  by (simp_all add: token_err_def)

lemma early_token_err_Ok_iff [result_ok]:
  "(if c then token_err e else r) = Ok y \<longleftrightarrow> \<not> c \<and> r = Ok y"
  by simp

section \<open>State\<close>

definition MIN_SIGNERS :: nat where
  "MIN_SIGNERS = 1"

definition MAX_SIGNERS :: nat where
  "MAX_SIGNERS = 11"

record Mint =
  mint_authority :: "pubkey option"
  mint_supply :: u64
  decimals :: u8
  mint_is_initialized :: bool
  freeze_authority :: "pubkey option"

datatype AccountState = Uninitialized | Initialized | Frozen

record Account =
  acct_mint :: pubkey
  acct_owner :: pubkey
  amount :: u64
  delegate :: "pubkey option"
  acct_state :: AccountState
  acct_is_native :: "u64 option"
  delegated_amount :: u64
  close_authority :: "pubkey option"

record Multisig =
  ms_m :: u8
  ms_n :: u8
  ms_is_initialized :: bool
  ms_signers :: "pubkey list"

definition is_frozen :: "Account \<Rightarrow> bool" where
  "is_frozen a = (acct_state a = Frozen)"

definition is_native :: "Account \<Rightarrow> bool" where
  "is_native a = (acct_is_native a \<noteq> None)"

definition account_is_initialized :: "Account \<Rightarrow> bool" where
  "account_is_initialized a = (acct_state a \<noteq> Uninitialized)"

section \<open>Encodings of the fields\<close>

definition pack_coption_key :: "pubkey option \<Rightarrow> bytes \<Rightarrow> bytes" where
  "pack_coption_key src dst =
     (case src of
        Some k \<Rightarrow> [1, 0, 0, 0] @ pubkey_to_bytes k
      | None \<Rightarrow> [0, 0, 0, 0] @ segment 4 32 dst)"

definition unpack_coption_key :: "bytes \<Rightarrow> pubkey option program_result" where
  "unpack_coption_key src =
     (let tag = segment 0 4 src; body = segment 4 32 src
      in if tag = [0, 0, 0, 0] then Ok None
         else if tag = [1, 0, 0, 0] then Ok (Some (pubkey_new_from_array body))
         else Err InvalidAccountData)"

definition pack_coption_u64 :: "u64 option \<Rightarrow> bytes \<Rightarrow> bytes" where
  "pack_coption_u64 src dst =
     (case src of
        Some x \<Rightarrow> [1, 0, 0, 0] @ u64_to_le_bytes x
      | None \<Rightarrow> [0, 0, 0, 0] @ segment 4 8 dst)"

definition unpack_coption_u64 :: "bytes \<Rightarrow> u64 option program_result" where
  "unpack_coption_u64 src =
     (let tag = segment 0 4 src; body = segment 4 8 src
      in if tag = [0, 0, 0, 0] then Ok None
         else if tag = [1, 0, 0, 0] then Ok (Some (u64_from_le_bytes body))
         else Err InvalidAccountData)"

text \<open>\<open>match is_initialized { [0] => false, [1] => true, _ => return Err(..) }\<close>\<close>

definition unpack_bool :: "u8 \<Rightarrow> bool program_result" where
  "unpack_bool b = (if b = 0 then Ok False else if b = 1 then Ok True else Err InvalidAccountData)"

definition bool_as_u8 :: "bool \<Rightarrow> u8" where
  "bool_as_u8 b = (if b then 1 else 0)"

fun account_state_as_u8 :: "AccountState \<Rightarrow> u8" where
  "account_state_as_u8 Uninitialized = 0"
| "account_state_as_u8 Initialized = 1"
| "account_state_as_u8 Frozen = 2"

definition account_state_try_from_primitive :: "u8 \<Rightarrow> AccountState option" where
  "account_state_try_from_primitive b =
     (if b = 0 then Some Uninitialized else if b = 1 then Some Initialized
      else if b = 2 then Some Frozen else None)"

section \<open>Mint\<close>

definition mint_LEN :: nat where
  "mint_LEN = 82"

definition mint_unpack_from_slice :: "bytes \<Rightarrow> Mint program_result" where
  "mint_unpack_from_slice src =
     (if length src < 82 then Panic else
      bind (unpack_coption_key (segment 0 36 src)) (\<lambda>ma.
      let sup = u64_from_le_bytes (segment 36 8 src); dec = src ! 44 in
      bind (unpack_bool (src ! 45)) (\<lambda>ini.
      bind (unpack_coption_key (segment 46 36 src)) (\<lambda>fa.
      Ok \<lparr>mint_authority = ma, mint_supply = sup, decimals = dec,
          mint_is_initialized = ini, freeze_authority = fa\<rparr>))))"

definition mint_pack_into_slice :: "Mint \<Rightarrow> bytes \<Rightarrow> bytes program_result" where
  "mint_pack_into_slice m dst =
     (if length dst < 82 then Panic else
      Ok (pack_coption_key (mint_authority m) (segment 0 36 dst)
          @ u64_to_le_bytes (mint_supply m)
          @ [decimals m]
          @ [bool_as_u8 (mint_is_initialized m)]
          @ pack_coption_key (freeze_authority m) (segment 46 36 dst)
          @ drop 82 dst))"

abbreviation mint_unpack :: "bytes \<Rightarrow> Mint program_result" where
  "mint_unpack \<equiv> unpack mint_LEN mint_unpack_from_slice mint_is_initialized"

abbreviation mint_unpack_unchecked :: "bytes \<Rightarrow> Mint program_result" where
  "mint_unpack_unchecked \<equiv> unpack_unchecked mint_LEN mint_unpack_from_slice"

abbreviation mint_pack :: "Mint \<Rightarrow> bytes \<Rightarrow> bytes program_result" where
  "mint_pack \<equiv> pack mint_LEN mint_pack_into_slice"

section \<open>Account\<close>

definition account_LEN :: nat where
  "account_LEN = 165"

definition account_unpack_from_slice :: "bytes \<Rightarrow> Account program_result" where
  "account_unpack_from_slice src =
     (if length src < 165 then Panic else
      bind (unpack_coption_key (segment 72 36 src)) (\<lambda>del.
      bind (ok_or (account_state_try_from_primitive (src ! 108)) InvalidAccountData) (\<lambda>st.
      bind (unpack_coption_u64 (segment 109 12 src)) (\<lambda>nat.
      bind (unpack_coption_key (segment 129 36 src)) (\<lambda>cl.
      Ok \<lparr>acct_mint = pubkey_new_from_array (segment 0 32 src),
          acct_owner = pubkey_new_from_array (segment 32 32 src),
          amount = u64_from_le_bytes (segment 64 8 src),
          delegate = del,
          acct_state = st,
          acct_is_native = nat,
          delegated_amount = u64_from_le_bytes (segment 121 8 src),
          close_authority = cl\<rparr>)))))"

definition account_pack_into_slice :: "Account \<Rightarrow> bytes \<Rightarrow> bytes program_result" where
  "account_pack_into_slice a dst =
     (if length dst < 165 then Panic else
      Ok (pubkey_to_bytes (acct_mint a)
          @ pubkey_to_bytes (acct_owner a)
          @ u64_to_le_bytes (amount a)
          @ pack_coption_key (delegate a) (segment 72 36 dst)
          @ [account_state_as_u8 (acct_state a)]
          @ pack_coption_u64 (acct_is_native a) (segment 109 12 dst)
          @ u64_to_le_bytes (delegated_amount a)
          @ pack_coption_key (close_authority a) (segment 129 36 dst)
          @ drop 165 dst))"

abbreviation account_unpack :: "bytes \<Rightarrow> Account program_result" where
  "account_unpack \<equiv> unpack account_LEN account_unpack_from_slice account_is_initialized"

abbreviation account_unpack_unchecked :: "bytes \<Rightarrow> Account program_result" where
  "account_unpack_unchecked \<equiv> unpack_unchecked account_LEN account_unpack_from_slice"

abbreviation account_pack :: "Account \<Rightarrow> bytes \<Rightarrow> bytes program_result" where
  "account_pack \<equiv> pack account_LEN account_pack_into_slice"

section \<open>Multisig\<close>

definition multisig_LEN :: nat where
  "multisig_LEN = 355"

text \<open>\<open>signers_flat.chunks(32).zip(result.signers.iter_mut())\<close>: one key per slot.\<close>

fun keys_of_chunks :: "nat \<Rightarrow> bytes \<Rightarrow> pubkey list" where
  "keys_of_chunks 0 flat = []"
| "keys_of_chunks (Suc n) flat =
     pubkey_new_from_array (take 32 flat) # keys_of_chunks n (drop 32 flat)"

definition multisig_unpack_from_slice :: "bytes \<Rightarrow> Multisig program_result" where
  "multisig_unpack_from_slice src =
     (if length src < 355 then Panic else
      bind (unpack_bool (src ! 2)) (\<lambda>ini.
      Ok \<lparr>ms_m = src ! 0, ms_n = src ! 1, ms_is_initialized = ini,
          ms_signers = keys_of_chunks MAX_SIGNERS (segment 3 (32 * MAX_SIGNERS) src)\<rparr>))"

definition multisig_pack_into_slice :: "Multisig \<Rightarrow> bytes \<Rightarrow> bytes program_result" where
  "multisig_pack_into_slice ms dst =
     (if length dst < 355 then Panic else
      Ok ([ms_m ms] @ [ms_n ms] @ [bool_as_u8 (ms_is_initialized ms)]
          @ concat (map pubkey_to_bytes (ms_signers ms))
          @ drop 355 dst))"

abbreviation multisig_unpack :: "bytes \<Rightarrow> Multisig program_result" where
  "multisig_unpack \<equiv> unpack multisig_LEN multisig_unpack_from_slice ms_is_initialized"

abbreviation multisig_unpack_unchecked :: "bytes \<Rightarrow> Multisig program_result" where
  "multisig_unpack_unchecked \<equiv> unpack_unchecked multisig_LEN multisig_unpack_from_slice"

abbreviation multisig_pack :: "Multisig \<Rightarrow> bytes \<Rightarrow> bytes program_result" where
  "multisig_pack \<equiv> pack multisig_LEN multisig_pack_into_slice"

text \<open>The Rust type fixes the number of slots.\<close>

definition multisig_wf :: "Multisig \<Rightarrow> bool" where
  "multisig_wf ms \<longleftrightarrow> length (ms_signers ms) = MAX_SIGNERS"

section \<open>Field round trips\<close>

lemma length_pack_coption_key [simp]:
  "length dst = 36 \<Longrightarrow> length (pack_coption_key x dst) = 36"
  by (simp add: pack_coption_key_def split: option.split)

lemma length_pack_coption_u64 [simp]:
  "length dst = 12 \<Longrightarrow> length (pack_coption_u64 x dst) = 12"
  by (simp add: pack_coption_u64_def split: option.split)

lemma unpack_pack_coption_key [simp]:
  "length dst = 36 \<Longrightarrow> unpack_coption_key (pack_coption_key x dst) = Ok x"
  by (auto simp: pack_coption_key_def unpack_coption_key_def segment_def split: option.split)

lemma unpack_pack_coption_u64 [simp]:
  "length dst = 12 \<Longrightarrow> unpack_coption_u64 (pack_coption_u64 x dst) = Ok x"
  by (auto simp: pack_coption_u64_def unpack_coption_u64_def segment_def split: option.split)

lemma pack_unpack_coption_key:
  assumes "length src = 36" "unpack_coption_key src = Ok x"
  shows "pack_coption_key x src = src"
proof -
  have "segment 0 4 src @ segment 4 32 src = src"
    using assms(1) segment_glue [of 0 4 src 32] by simp
  with assms show ?thesis
    by (auto simp: pack_coption_key_def unpack_coption_key_def Let_def split: if_splits)
qed

lemma pack_unpack_coption_u64:
  assumes "length src = 12" "unpack_coption_u64 src = Ok x"
  shows "pack_coption_u64 x src = src"
proof -
  have "segment 0 4 src @ segment 4 8 src = src"
    using assms(1) segment_glue [of 0 4 src 8] by simp
  with assms show ?thesis
    by (auto simp: pack_coption_u64_def unpack_coption_u64_def Let_def split: if_splits)
qed

lemma unpack_coption_no_panic [simp]:
  "unpack_coption_key src \<noteq> Panic" "unpack_coption_u64 src \<noteq> Panic" "unpack_bool b \<noteq> Panic"
  by (simp_all add: unpack_coption_key_def unpack_coption_u64_def unpack_bool_def Let_def)

lemma unpack_bool_as_u8 [simp]: "unpack_bool (bool_as_u8 b) = Ok b"
  by (simp add: unpack_bool_def bool_as_u8_def)

lemma bool_as_u8_unpack: "unpack_bool b = Ok x \<Longrightarrow> bool_as_u8 x = b"
  by (auto simp: unpack_bool_def bool_as_u8_def split: if_splits)

lemma account_state_roundtrip [simp]:
  "account_state_try_from_primitive (account_state_as_u8 st) = Some st"
  by (cases st) (simp_all add: account_state_try_from_primitive_def)

lemma account_state_as_u8_try_from:
  "account_state_try_from_primitive b = Some st \<Longrightarrow> account_state_as_u8 st = b"
  by (auto simp: account_state_try_from_primitive_def split: if_splits)

lemma length_keys_of_chunks [simp]: "length (keys_of_chunks n flat) = n"
  by (induction n arbitrary: flat) auto

lemma keys_of_chunks_concat:
  "keys_of_chunks (length ks) (concat (map pubkey_to_bytes ks) @ rest) = ks"
  by (induction ks) auto

lemma concat_keys_of_chunks:
  "length flat = 32 * n \<Longrightarrow> concat (map pubkey_to_bytes (keys_of_chunks n flat)) = flat"
  by (induction n arbitrary: flat) auto

lemma length_concat_keys [simp]: "length (concat (map pubkey_to_bytes ks)) = 32 * length ks"
  by (induction ks) auto

section \<open>The layouts implement Pack\<close>

lemmas layout_simps = segment_skip segment_Cons segment_head segment_single nth_append result_ok

lemma mint_segments:
  "length src = 82 \<Longrightarrow>
   segment 0 36 src @ segment 36 8 src @ [src ! 44] @ [src ! 45] @ segment 46 36 src = src"
  using concat_segments [of 0 "[36, 8, 1, 1, 36]" src] by (simp add: segment_single)

lemma account_segments:
  "length src = 165 \<Longrightarrow>
   segment 0 32 src @ segment 32 32 src @ segment 64 8 src @ segment 72 36 src @ [src ! 108]
     @ segment 109 12 src @ segment 121 8 src @ segment 129 36 src = src"
  using concat_segments [of 0 "[32, 32, 8, 36, 1, 12, 8, 36]" src] by (simp add: segment_single)

lemma multisig_segments:
  "length src = 355 \<Longrightarrow> [src ! 0] @ [src ! 1] @ [src ! 2] @ segment 3 352 src = src"
  using concat_segments [of 0 "[1, 1, 1, 352]" src] by (simp add: segment_single numeral_2_eq_2 numeral_3_eq_3)

interpretation mint: pack_format mint_LEN mint_unpack_from_slice mint_pack_into_slice
  mint_is_initialized "\<lambda>_. True"
proof (unfold_locales, goal_cases)
  case (1 v dst)
  then show ?case
    by (simp add: mint_LEN_def mint_unpack_from_slice_def mint_pack_into_slice_def layout_simps)
next
  case (2 src v)
  then show ?case
    using mint_segments [of src]
    by (auto simp: mint_LEN_def mint_unpack_from_slice_def mint_pack_into_slice_def result_ok
        Let_def pack_unpack_coption_key bool_as_u8_unpack)
next
  case (4 src)
  then show ?case
    by (auto simp: mint_LEN_def mint_unpack_from_slice_def bind_Panic_iff Let_def)
qed simp

interpretation account: pack_format account_LEN account_unpack_from_slice
  account_pack_into_slice account_is_initialized "\<lambda>_. True"
proof (unfold_locales, goal_cases)
  case (1 v dst)
  then show ?case
    by (simp add: account_LEN_def account_unpack_from_slice_def account_pack_into_slice_def
        layout_simps)
next
  case (2 src v)
  then show ?case
    using account_segments [of src]
    by (auto simp: account_LEN_def account_unpack_from_slice_def account_pack_into_slice_def
        result_ok pack_unpack_coption_key pack_unpack_coption_u64 account_state_as_u8_try_from)
next
  case (4 src)
  then show ?case
    by (auto simp: account_LEN_def account_unpack_from_slice_def bind_Panic_iff)
qed simp

interpretation multisig: pack_format multisig_LEN multisig_unpack_from_slice
  multisig_pack_into_slice ms_is_initialized multisig_wf
proof (unfold_locales, goal_cases)
  case (1 v dst)
  then show ?case
    using keys_of_chunks_concat [of "ms_signers v" "[]"]
    by (simp add: multisig_LEN_def multisig_wf_def MAX_SIGNERS_def multisig_unpack_from_slice_def
        multisig_pack_into_slice_def layout_simps)
next
  case (2 src v)
  then show ?case
    using multisig_segments [of src]
    by (auto simp: multisig_LEN_def MAX_SIGNERS_def multisig_unpack_from_slice_def
        multisig_pack_into_slice_def result_ok concat_keys_of_chunks bool_as_u8_unpack)
next
  case (3 src v)
  then show ?case
    by (auto simp: multisig_LEN_def multisig_wf_def multisig_unpack_from_slice_def result_ok)
next
  case (4 src)
  then show ?case
    by (auto simp: multisig_LEN_def multisig_unpack_from_slice_def bind_Panic_iff)
qed

end
