(* ===== verification/Token_Instruction.thy ===== *)
theory Token_Instruction
  imports Token_State
begin

text \<open>
  The instructions of the token program (\<open>token/program/src/instruction.rs\<close>): their wire format
  and the client-side constructors that pair an encoded instruction with the account list the
  processor expects.
\<close>

section \<open>Instructions\<close>

datatype AuthorityType = MintTokens | FreezeAccount | AccountOwner | CloseAccount

datatype TokenInstruction =
    InitializeMint u8 pubkey "pubkey option"
  | InitializeAccount
  | InitializeMultisig u8
  | Transfer u64
  | Approve u64
  | Revoke
  | SetAuthority AuthorityType "pubkey option"
  | MintTo u64
  | Burn u64
  | CloseAccount
  | FreezeAccount
  | ThawAccount
  | TransferChecked u64 u8
  | ApproveChecked u64 u8
  | MintToChecked u64 u8
  | BurnChecked u64 u8
  | InitializeAccount2 pubkey
  | SyncNative
  | InitializeAccount3 pubkey
  | InitializeMultisig2 u8
  | InitializeMint2 u8 pubkey "pubkey option"

fun authority_type_into :: "AuthorityType \<Rightarrow> u8" where
  "authority_type_into AuthorityType.MintTokens = 0"
| "authority_type_into AuthorityType.FreezeAccount = 1"
| "authority_type_into AuthorityType.AccountOwner = 2"
| "authority_type_into AuthorityType.CloseAccount = 3"

definition authority_type_from :: "u8 \<Rightarrow> AuthorityType program_result" where
  "authority_type_from index =
     (if index = 0 then Ok AuthorityType.MintTokens
      else if index = 1 then Ok AuthorityType.FreezeAccount
      else if index = 2 then Ok AuthorityType.AccountOwner
      else if index = 3 then Ok AuthorityType.CloseAccount
      else token_err InvalidInstruction)"

section \<open>Slices\<close>

text \<open>\<open>split_first\<close> and \<open>get\<close> return an option; \<open>split_at\<close> panics past the end of the slice.\<close>

fun split_first :: "bytes \<Rightarrow> (u8 \<times> bytes) option" where
  "split_first [] = None"
| "split_first (b # bs) = Some (b, bs)"

definition split_at :: "nat \<Rightarrow> bytes \<Rightarrow> (bytes \<times> bytes) program_result" where
  "split_at n bs = (if n \<le> length bs then Ok (take n bs, drop n bs) else Panic)"

definition get_amount :: "bytes \<Rightarrow> u64 option" where
  "get_amount rest = (if 8 \<le> length rest then Some (u64_from_le_bytes (take 8 rest)) else None)"

section \<open>Decoding\<close>

definition unpack_pubkey :: "bytes \<Rightarrow> (pubkey \<times> bytes) program_result" where
  "unpack_pubkey input =
     (if 32 \<le> length input then
        bind (split_at 32 input) (\<lambda>(k, rest).
        bind (pubkey_new k) (\<lambda>pk. Ok (pk, rest)))
      else token_err InvalidInstruction)"

definition unpack_pubkey_option :: "bytes \<Rightarrow> (pubkey option \<times> bytes) program_result" where
  "unpack_pubkey_option input =
     (case split_first input of
        Some (tag, rest) \<Rightarrow>
          if tag = 0 then Ok (None, rest)
          else if tag = 1 \<and> 32 \<le> length rest then
            bind (split_at 32 rest) (\<lambda>(k, rest).
            bind (pubkey_new k) (\<lambda>pk. Ok (Some pk, rest)))
          else token_err InvalidInstruction
      | None \<Rightarrow> token_err InvalidInstruction)"

text \<open>The operands of the \<open>Checked\<close> instructions, the same lines in each of the four branches.\<close>

definition unpack_amount_decimals :: "bytes \<Rightarrow> (u64 \<times> u8) program_result" where
  "unpack_amount_decimals rest =
     bind (split_at 8 rest) (\<lambda>(amt, rest).
     bind (ok_or (get_amount amt) (into_program_error InvalidInstruction)) (\<lambda>amt.
     bind (ok_or (split_first rest) (into_program_error InvalidInstruction)) (\<lambda>(dec, _).
     Ok (amt, dec))))"

definition unpack_mint_operands :: "bytes \<Rightarrow> (u8 \<times> pubkey \<times> pubkey option) program_result" where
  "unpack_mint_operands rest =
     bind (ok_or (split_first rest) (into_program_error InvalidInstruction)) (\<lambda>(dec, rest).
     bind (unpack_pubkey rest) (\<lambda>(ma, rest).
     bind (unpack_pubkey_option rest) (\<lambda>(fa, _).
     Ok (dec, ma, fa))))"

definition token_instruction_unpack :: "bytes \<Rightarrow> TokenInstruction program_result" where
  "token_instruction_unpack input =
     bind (ok_or (split_first input) (into_program_error InvalidInstruction)) (\<lambda>(tag, rest).
     if tag = 0 then
       bind (unpack_mint_operands rest) (\<lambda>(dec, ma, fa). Ok (InitializeMint dec ma fa))
     else if tag = 1 then Ok InitializeAccount
     else if tag = 2 then
       bind (ok_or (split_first rest) (into_program_error InvalidInstruction)) (\<lambda>(m, _).
       Ok (InitializeMultisig m))
     else if tag = 3 \<or> tag = 4 \<or> tag = 7 \<or> tag = 8 then
       bind (ok_or (get_amount rest) (into_program_error InvalidInstruction)) (\<lambda>amt.
       if tag = 3 then Ok (Transfer amt)
       else if tag = 4 then Ok (Approve amt)
       else if tag = 7 then Ok (MintTo amt)
       else Ok (Burn amt))
     else if tag = 5 then Ok Revoke
     else if tag = 6 then
       bind (ok_or (split_first rest) (into_program_error InvalidInstruction)) (\<lambda>(t, rest).
       bind (authority_type_from t) (\<lambda>authority_type.
       bind (unpack_pubkey_option rest) (\<lambda>(new_authority, _).
       Ok (SetAuthority authority_type new_authority))))
     else if tag = 9 then Ok CloseAccount
     else if tag = 10 then Ok FreezeAccount
     else if tag = 11 then Ok ThawAccount
     else if tag = 12 then
       bind (unpack_amount_decimals rest) (\<lambda>(amt, dec). Ok (TransferChecked amt dec))
     else if tag = 13 then
       bind (unpack_amount_decimals rest) (\<lambda>(amt, dec). Ok (ApproveChecked amt dec))
     else if tag = 14 then
       bind (unpack_amount_decimals rest) (\<lambda>(amt, dec). Ok (MintToChecked amt dec))
     else if tag = 15 then
       bind (unpack_amount_decimals rest) (\<lambda>(amt, dec). Ok (BurnChecked amt dec))
     else if tag = 16 then
       bind (unpack_pubkey rest) (\<lambda>(own, _). Ok (InitializeAccount2 own))
     else if tag = 17 then Ok SyncNative
     else if tag = 18 then
       bind (unpack_pubkey rest) (\<lambda>(own, _). Ok (InitializeAccount3 own))
     else if tag = 19 then
       bind (ok_or (split_first rest) (into_program_error InvalidInstruction)) (\<lambda>(m, _).
       Ok (InitializeMultisig2 m))
     else if tag = 20 then
       bind (unpack_mint_operands rest) (\<lambda>(dec, ma, fa). Ok (InitializeMint2 dec ma fa))
     else token_err InvalidInstruction)"

section \<open>Encoding\<close>

fun pack_pubkey_option :: "pubkey option \<Rightarrow> bytes" where
  "pack_pubkey_option (Some k) = [1] @ pubkey_to_bytes k"
| "pack_pubkey_option None = [0]"

fun token_instruction_pack :: "TokenInstruction \<Rightarrow> bytes" where
  "token_instruction_pack (InitializeMint dec ma fa) =
     [0] @ [dec] @ pubkey_to_bytes ma @ pack_pubkey_option fa"
| "token_instruction_pack InitializeAccount = [1]"
| "token_instruction_pack (InitializeMultisig m) = [2] @ [m]"
| "token_instruction_pack (Transfer amt) = [3] @ u64_to_le_bytes amt"
| "token_instruction_pack (Approve amt) = [4] @ u64_to_le_bytes amt"
| "token_instruction_pack (MintTo amt) = [7] @ u64_to_le_bytes amt"
| "token_instruction_pack (Burn amt) = [8] @ u64_to_le_bytes amt"
| "token_instruction_pack Revoke = [5]"
| "token_instruction_pack (SetAuthority ty new) =
     [6] @ [authority_type_into ty] @ pack_pubkey_option new"
| "token_instruction_pack CloseAccount = [9]"
| "token_instruction_pack FreezeAccount = [10]"
| "token_instruction_pack ThawAccount = [11]"
| "token_instruction_pack (TransferChecked amt dec) = [12] @ u64_to_le_bytes amt @ [dec]"
| "token_instruction_pack (ApproveChecked amt dec) = [13] @ u64_to_le_bytes amt @ [dec]"
| "token_instruction_pack (MintToChecked amt dec) = [14] @ u64_to_le_bytes amt @ [dec]"
| "token_instruction_pack (BurnChecked amt dec) = [15] @ u64_to_le_bytes amt @ [dec]"
| "token_instruction_pack (InitializeAccount2 own) = [16] @ pubkey_to_bytes own"
| "token_instruction_pack SyncNative = [17]"
| "token_instruction_pack (InitializeAccount3 own) = [18] @ pubkey_to_bytes own"
| "token_instruction_pack (InitializeMultisig2 m) = [19] @ [m]"
| "token_instruction_pack (InitializeMint2 dec ma fa) =
     [20] @ [dec] @ pubkey_to_bytes ma @ pack_pubkey_option fa"

section \<open>Client-side constructors\<close>

text \<open>The program's address, the base58 string of \<open>declare_id!\<close> in \<open>lib.rs\<close> decoded.\<close>

definition token_id :: pubkey where
  "token_id = 0xa900ff7e85f58c3a91375b5fed85b41cac79ebce46e1cbd993a165d7e1f6dd06"

definition check_program_account :: "pubkey \<Rightarrow> unit program_result" where
  "check_program_account k = (if k \<noteq> token_id then Err IncorrectProgramId else Ok ())"

definition is_valid_signer_index :: "nat \<Rightarrow> bool" where
  "is_valid_signer_index index \<longleftrightarrow> MIN_SIGNERS \<le> index \<and> index \<le> MAX_SIGNERS"

text \<open>The loop that appends the multisignature signers, after the authority itself.\<close>

definition authority_metas :: "pubkey \<Rightarrow> pubkey list \<Rightarrow> AccountMeta list" where
  "authority_metas authority signers =
     account_meta_new_readonly authority (signers = [])
       # map (\<lambda>k. account_meta_new_readonly k True) signers"

definition instruction_new ::
  "pubkey \<Rightarrow> TokenInstruction \<Rightarrow> AccountMeta list \<Rightarrow> Instruction" where
  "instruction_new pid i metas =
     \<lparr>program_id = pid, accounts = metas, instr_data = token_instruction_pack i\<rparr>"

definition initialize_mint ::
  "pubkey \<Rightarrow> pubkey \<Rightarrow> pubkey \<Rightarrow> pubkey option \<Rightarrow> u8 \<Rightarrow> Instruction program_result" where
  "initialize_mint pid mint authority freeze dec =
     bind (check_program_account pid) (\<lambda>_.
     Ok (instruction_new pid (InitializeMint dec authority freeze)
       [account_meta_new mint False, account_meta_new_readonly rent_id False]))"

definition initialize_mint2 ::
  "pubkey \<Rightarrow> pubkey \<Rightarrow> pubkey \<Rightarrow> pubkey option \<Rightarrow> u8 \<Rightarrow> Instruction program_result" where
  "initialize_mint2 pid mint authority freeze dec =
     bind (check_program_account pid) (\<lambda>_.
     Ok (instruction_new pid (InitializeMint2 dec authority freeze)
       [account_meta_new mint False]))"

definition initialize_account ::
  "pubkey \<Rightarrow> pubkey \<Rightarrow> pubkey \<Rightarrow> pubkey \<Rightarrow> Instruction program_result" where
  "initialize_account pid account mint own =
     bind (check_program_account pid) (\<lambda>_.
     Ok (instruction_new pid InitializeAccount
       [account_meta_new account False, account_meta_new_readonly mint False,
        account_meta_new_readonly own False, account_meta_new_readonly rent_id False]))"

definition initialize_account2 ::
  "pubkey \<Rightarrow> pubkey \<Rightarrow> pubkey \<Rightarrow> pubkey \<Rightarrow> Instruction program_result" where
  "initialize_account2 pid account mint own =
     bind (check_program_account pid) (\<lambda>_.
     Ok (instruction_new pid (InitializeAccount2 own)
       [account_meta_new account False, account_meta_new_readonly mint False,
        account_meta_new_readonly rent_id False]))"

definition initialize_account3 ::
  "pubkey \<Rightarrow> pubkey \<Rightarrow> pubkey \<Rightarrow> pubkey \<Rightarrow> Instruction program_result" where
  "initialize_account3 pid account mint own =
     bind (check_program_account pid) (\<lambda>_.
     Ok (instruction_new pid (InitializeAccount3 own)
       [account_meta_new account False, account_meta_new_readonly mint False]))"

definition initialize_multisig ::
  "pubkey \<Rightarrow> pubkey \<Rightarrow> pubkey list \<Rightarrow> u8 \<Rightarrow> Instruction program_result" where
  "initialize_multisig pid multisig signers m =
     bind (check_program_account pid) (\<lambda>_.
     if \<not> is_valid_signer_index (unat m) \<or> \<not> is_valid_signer_index (length signers)
        \<or> length signers < unat m
     then Err MissingRequiredSignature
     else Ok (instruction_new pid (InitializeMultisig m)
       ([account_meta_new multisig False, account_meta_new_readonly rent_id False]
        @ map (\<lambda>k. account_meta_new_readonly k False) signers)))"

definition initialize_multisig2 ::
  "pubkey \<Rightarrow> pubkey \<Rightarrow> pubkey list \<Rightarrow> u8 \<Rightarrow> Instruction program_result" where
  "initialize_multisig2 pid multisig signers m =
     bind (check_program_account pid) (\<lambda>_.
     if \<not> is_valid_signer_index (unat m) \<or> \<not> is_valid_signer_index (length signers)
        \<or> length signers < unat m
     then Err MissingRequiredSignature
     else Ok (instruction_new pid (InitializeMultisig2 m)
       ([account_meta_new multisig False]
        @ map (\<lambda>k. account_meta_new_readonly k False) signers)))"

definition transfer ::
  "pubkey \<Rightarrow> pubkey \<Rightarrow> pubkey \<Rightarrow> pubkey \<Rightarrow> pubkey list \<Rightarrow> u64 \<Rightarrow> Instruction program_result" where
  "transfer pid source destination authority signers amt =
     bind (check_program_account pid) (\<lambda>_.
     Ok (instruction_new pid (Transfer amt)
       ([account_meta_new source False, account_meta_new destination False]
        @ authority_metas authority signers)))"

definition approve ::
  "pubkey \<Rightarrow> pubkey \<Rightarrow> pubkey \<Rightarrow> pubkey \<Rightarrow> pubkey list \<Rightarrow> u64 \<Rightarrow> Instruction program_result" where
  "approve pid source delegate_key own signers amt =
     bind (check_program_account pid) (\<lambda>_.
     Ok (instruction_new pid (Approve amt)
       ([account_meta_new source False, account_meta_new_readonly delegate_key False]
        @ authority_metas own signers)))"

definition revoke ::
  "pubkey \<Rightarrow> pubkey \<Rightarrow> pubkey \<Rightarrow> pubkey list \<Rightarrow> Instruction program_result" where
  "revoke pid source own signers =
     bind (check_program_account pid) (\<lambda>_.
     Ok (instruction_new pid Revoke
       ([account_meta_new source False] @ authority_metas own signers)))"

definition set_authority ::
  "pubkey \<Rightarrow> pubkey \<Rightarrow> pubkey option \<Rightarrow> AuthorityType \<Rightarrow> pubkey \<Rightarrow> pubkey list \<Rightarrow> Instruction program_result" where
  "set_authority pid owned new_authority ty own signers =
     bind (check_program_account pid) (\<lambda>_.
     Ok (instruction_new pid (SetAuthority ty new_authority)
       ([account_meta_new owned False] @ authority_metas own signers)))"

definition mint_to ::
  "pubkey \<Rightarrow> pubkey \<Rightarrow> pubkey \<Rightarrow> pubkey \<Rightarrow> pubkey list \<Rightarrow> u64 \<Rightarrow> Instruction program_result" where
  "mint_to pid mint account own signers amt =
     bind (check_program_account pid) (\<lambda>_.
     Ok (instruction_new pid (MintTo amt)
       ([account_meta_new mint False, account_meta_new account False]
        @ authority_metas own signers)))"

definition burn ::
  "pubkey \<Rightarrow> pubkey \<Rightarrow> pubkey \<Rightarrow> pubkey \<Rightarrow> pubkey list \<Rightarrow> u64 \<Rightarrow> Instruction program_result" where
  "burn pid account mint authority signers amt =
     bind (check_program_account pid) (\<lambda>_.
     Ok (instruction_new pid (Burn amt)
       ([account_meta_new account False, account_meta_new mint False]
        @ authority_metas authority signers)))"

definition close_account ::
  "pubkey \<Rightarrow> pubkey \<Rightarrow> pubkey \<Rightarrow> pubkey \<Rightarrow> pubkey list \<Rightarrow> Instruction program_result" where
  "close_account pid account destination own signers =
     bind (check_program_account pid) (\<lambda>_.
     Ok (instruction_new pid CloseAccount
       ([account_meta_new account False, account_meta_new destination False]
        @ authority_metas own signers)))"

definition freeze_account ::
  "pubkey \<Rightarrow> pubkey \<Rightarrow> pubkey \<Rightarrow> pubkey \<Rightarrow> pubkey list \<Rightarrow> Instruction program_result" where
  "freeze_account pid account mint own signers =
     bind (check_program_account pid) (\<lambda>_.
     Ok (instruction_new pid FreezeAccount
       ([account_meta_new account False, account_meta_new_readonly mint False]
        @ authority_metas own signers)))"

definition thaw_account ::
  "pubkey \<Rightarrow> pubkey \<Rightarrow> pubkey \<Rightarrow> pubkey \<Rightarrow> pubkey list \<Rightarrow> Instruction program_result" where
  "thaw_account pid account mint own signers =
     bind (check_program_account pid) (\<lambda>_.
     Ok (instruction_new pid ThawAccount
       ([account_meta_new account False, account_meta_new_readonly mint False]
        @ authority_metas own signers)))"

definition transfer_checked ::
  "pubkey \<Rightarrow> pubkey \<Rightarrow> pubkey \<Rightarrow> pubkey \<Rightarrow> pubkey \<Rightarrow>
   pubkey list \<Rightarrow> u64 \<Rightarrow> u8 \<Rightarrow> Instruction program_result" where
  "transfer_checked pid source mint destination authority signers amt dec =
     bind (check_program_account pid) (\<lambda>_.
     Ok (instruction_new pid (TransferChecked amt dec)
       ([account_meta_new source False, account_meta_new_readonly mint False,
         account_meta_new destination False] @ authority_metas authority signers)))"

definition approve_checked ::
  "pubkey \<Rightarrow> pubkey \<Rightarrow> pubkey \<Rightarrow> pubkey \<Rightarrow> pubkey \<Rightarrow>
   pubkey list \<Rightarrow> u64 \<Rightarrow> u8 \<Rightarrow> Instruction program_result" where
  "approve_checked pid source mint delegate_key own signers amt dec =
     bind (check_program_account pid) (\<lambda>_.
     Ok (instruction_new pid (ApproveChecked amt dec)
       ([account_meta_new source False, account_meta_new_readonly mint False,
         account_meta_new_readonly delegate_key False] @ authority_metas own signers)))"

definition mint_to_checked ::
  "pubkey \<Rightarrow> pubkey \<Rightarrow> pubkey \<Rightarrow> pubkey \<Rightarrow> pubkey list \<Rightarrow>
   u64 \<Rightarrow> u8 \<Rightarrow> Instruction program_result" where
  "mint_to_checked pid mint account own signers amt dec =
     bind (check_program_account pid) (\<lambda>_.
     Ok (instruction_new pid (MintToChecked amt dec)
       ([account_meta_new mint False, account_meta_new account False]
        @ authority_metas own signers)))"

definition burn_checked ::
  "pubkey \<Rightarrow> pubkey \<Rightarrow> pubkey \<Rightarrow> pubkey \<Rightarrow> pubkey list \<Rightarrow>
   u64 \<Rightarrow> u8 \<Rightarrow> Instruction program_result" where
  "burn_checked pid account mint authority signers amt dec =
     bind (check_program_account pid) (\<lambda>_.
     Ok (instruction_new pid (BurnChecked amt dec)
       ([account_meta_new account False, account_meta_new mint False]
        @ authority_metas authority signers)))"

definition sync_native ::
  "pubkey \<Rightarrow> pubkey \<Rightarrow> Instruction program_result" where
  "sync_native pid account =
     bind (check_program_account pid) (\<lambda>_.
     Ok (instruction_new pid SyncNative
       [account_meta_new account False]))"

section \<open>Round trips and totality\<close>

lemma split_first_Some_iff [result_ok]:
  "split_first bs = Some p \<longleftrightarrow> (\<exists>b bs'. bs = b # bs' \<and> p = (b, bs'))"
  by (cases bs) auto

lemma authority_type_roundtrip [simp]: "authority_type_from (authority_type_into t) = Ok t"
  by (cases t) (simp_all add: authority_type_from_def)

lemma get_amount_le_bytes [simp]: "get_amount (u64_to_le_bytes x @ rest) = Some x"
  by (simp add: get_amount_def)

lemma get_amount_le_bytes_exact [simp]: "get_amount (u64_to_le_bytes x) = Some x"
  by (simp add: get_amount_def)

lemma unpack_pubkey_bytes [simp]: "unpack_pubkey (pubkey_to_bytes k @ rest) = Ok (k, rest)"
  by (simp add: unpack_pubkey_def split_at_def)

lemma unpack_pubkey_bytes_exact [simp]: "unpack_pubkey (pubkey_to_bytes k) = Ok (k, [])"
  using unpack_pubkey_bytes [of k "[]"] by simp

lemma unpack_pubkey_option_pack [simp]:
  "unpack_pubkey_option (pack_pubkey_option x @ rest) = Ok (x, rest)"
  by (cases x) (simp_all add: unpack_pubkey_option_def split_at_def)

lemma unpack_pubkey_option_pack_exact [simp]:
  "unpack_pubkey_option (pack_pubkey_option x) = Ok (x, [])"
  using unpack_pubkey_option_pack [of x "[]"] by simp

lemma unpack_amount_decimals_pack [simp]:
  "unpack_amount_decimals (u64_to_le_bytes x @ d # rest) = Ok (x, d)"
  by (simp add: unpack_amount_decimals_def split_at_def)

lemma unpack_mint_operands_pack [simp]:
  "unpack_mint_operands (d # pubkey_to_bytes ma @ pack_pubkey_option fa) = Ok (d, ma, fa)"
  by (simp add: unpack_mint_operands_def)

lemma unpack_pubkey_no_panic [simp]: "unpack_pubkey bs \<noteq> Panic"
  by (simp add: unpack_pubkey_def split_at_def pubkey_new_def)

lemma unpack_pubkey_option_no_panic [simp]: "unpack_pubkey_option bs \<noteq> Panic"
  by (simp add: unpack_pubkey_option_def split_at_def pubkey_new_def split: option.split prod.split)

lemma authority_type_from_no_panic [simp]: "authority_type_from t \<noteq> Panic"
  by (simp add: authority_type_from_def)

lemma unpack_mint_operands_no_panic [simp]: "unpack_mint_operands bs \<noteq> Panic"
  by (auto simp: unpack_mint_operands_def bind_Panic_iff split: prod.splits)

lemma unpack_amount_decimals_panic_iff: "unpack_amount_decimals bs = Panic \<longleftrightarrow> length bs < 8"
  by (auto simp: unpack_amount_decimals_def split_at_def bind_Panic_iff split: prod.splits)

end
