(* ===== verification/Token_Processor.thy ===== *)
theory Token_Processor
  imports Token_Instruction
begin

text \<open>
  The handlers of the token program (\<open>token/program/src/processor.rs\<close>). A handler takes the
  ledger and the account infos of the instruction and returns the ledger it leaves, an error or
  a panic. \<open>Account::pack(a, &mut info.data.borrow_mut())?\<close> is \<open>write_account\<close>, and so on for
  the other layouts; reads go through \<open>read_account\<close>, \<open>read_mint\<close> and \<open>read_multisig\<close>.
  Log messages are left out.
\<close>

definition native_mint_id :: pubkey where
  "native_mint_id = 0x100000000f0a098553beb1adc39c4da35c01846637f68fb8481abfe57889b06"

section \<open>Typed access to the ledger\<close>

definition read_account :: "ledger \<Rightarrow> AccountInfo \<Rightarrow> Account program_result" where
  "read_account L i = account_unpack (info_data L i)"

definition read_mint :: "ledger \<Rightarrow> AccountInfo \<Rightarrow> Mint program_result" where
  "read_mint L i = mint_unpack (info_data L i)"

definition read_multisig :: "ledger \<Rightarrow> AccountInfo \<Rightarrow> Multisig program_result" where
  "read_multisig L i = multisig_unpack (info_data L i)"

definition write_account :: "ledger \<Rightarrow> AccountInfo \<Rightarrow> Account \<Rightarrow> ledger program_result" where
  "write_account L i a = bind (account_pack a (info_data L i)) (\<lambda>d. Ok (set_data L i d))"

definition write_mint :: "ledger \<Rightarrow> AccountInfo \<Rightarrow> Mint \<Rightarrow> ledger program_result" where
  "write_mint L i m = bind (mint_pack m (info_data L i)) (\<lambda>d. Ok (set_data L i d))"

definition write_multisig :: "ledger \<Rightarrow> AccountInfo \<Rightarrow> Multisig \<Rightarrow> ledger program_result" where
  "write_multisig L i ms = bind (multisig_pack ms (info_data L i)) (\<lambda>d. Ok (set_data L i d))"

section \<open>Authorization\<close>

text \<open>
  The inner loop of \<open>validate_owner\<close>: one signer against the positions of the multisignature,
  with the \<open>matched\<close> array and the count threaded through.
\<close>

fun match_positions ::
  "AccountInfo \<Rightarrow> pubkey list \<Rightarrow> nat \<Rightarrow> bool list \<Rightarrow> u8 \<Rightarrow> (bool list \<times> u8) program_result" where
  "match_positions signer [] position matched num_signers = Ok (matched, num_signers)"
| "match_positions signer (k # ks) position matched num_signers =
     (if k = key signer \<and> \<not> matched ! position then
        if \<not> is_signer signer then Err MissingRequiredSignature
        else match_positions signer ks (Suc position) (matched[position := True]) (num_signers + 1)
      else match_positions signer ks (Suc position) matched num_signers)"

text \<open>
  The outer loop. \<open>multisig.signers[0..multisig.n as usize]\<close> panics when \<open>n\<close> is past the end
  of the array.
\<close>

fun match_signers ::
  "Multisig \<Rightarrow> AccountInfo list \<Rightarrow> bool list \<Rightarrow> u8 \<Rightarrow> u8 program_result" where
  "match_signers multisig [] matched num_signers = Ok num_signers"
| "match_signers multisig (signer # signers) matched num_signers =
     (if length (ms_signers multisig) < unat (ms_n multisig) then Panic else
      bind (match_positions signer (take (unat (ms_n multisig)) (ms_signers multisig)) 0
              matched num_signers) (\<lambda>(matched, num_signers).
      match_signers multisig signers matched num_signers))"

definition validate_owner ::
  "pubkey \<Rightarrow> ledger \<Rightarrow> pubkey \<Rightarrow> AccountInfo \<Rightarrow> AccountInfo list \<Rightarrow> unit program_result" where
  "validate_owner pid L expected_owner owner_info signers =
     (if expected_owner \<noteq> key owner_info then token_err OwnerMismatch else
      if pid = info_owner L owner_info \<and> data_len L owner_info = multisig_LEN then
        bind (read_multisig L owner_info) (\<lambda>multisig.
        bind (match_signers multisig signers (replicate MAX_SIGNERS False) 0) (\<lambda>num_signers.
        if num_signers < ms_m multisig then Err MissingRequiredSignature else Ok ()))
      else if \<not> is_signer owner_info then Err MissingRequiredSignature
      else Ok ())"

section \<open>Initialization\<close>

definition read_rent ::
  "host \<Rightarrow> ledger \<Rightarrow> bool \<Rightarrow> AccountInfo list \<Rightarrow> (Rent \<times> AccountInfo list) program_result" where
  "read_rent h L rent_sysvar_account iter =
     (if rent_sysvar_account then
        bind (next_account_info iter) (\<lambda>(i, iter).
        bind (rent_from_account_info h L i) (\<lambda>rent. Ok (rent, iter)))
      else bind (rent_get h) (\<lambda>rent. Ok (rent, iter)))"

definition initialize_mint_impl ::
  "host \<Rightarrow> ledger \<Rightarrow> AccountInfo list \<Rightarrow> u8 \<Rightarrow> pubkey \<Rightarrow> pubkey option \<Rightarrow> bool \<Rightarrow>
   ledger program_result" where
  "initialize_mint_impl h L accts dec authority freeze rent_sysvar_account =
     bind (next_account_info accts) (\<lambda>(mint_info, iter).
     bind (read_rent h L rent_sysvar_account iter) (\<lambda>(rent, iter).
     bind (mint_unpack_unchecked (info_data L mint_info)) (\<lambda>mint.
     if mint_is_initialized mint then token_err AlreadyInUse else
     if \<not> is_exempt h rent (info_lamports L mint_info) (data_len L mint_info)
     then token_err NotRentExempt else
     write_mint L mint_info
       (mint\<lparr>mint_authority := Some authority, decimals := dec,
             mint_is_initialized := True, freeze_authority := freeze\<rparr>))))"

definition process_initialize_mint ::
  "host \<Rightarrow> ledger \<Rightarrow> AccountInfo list \<Rightarrow> u8 \<Rightarrow> pubkey \<Rightarrow> pubkey option \<Rightarrow> ledger program_result" where
  "process_initialize_mint h L accts dec authority freeze =
     initialize_mint_impl h L accts dec authority freeze True"

definition process_initialize_mint2 ::
  "host \<Rightarrow> ledger \<Rightarrow> AccountInfo list \<Rightarrow> u8 \<Rightarrow> pubkey \<Rightarrow> pubkey option \<Rightarrow> ledger program_result" where
  "process_initialize_mint2 h L accts dec authority freeze =
     initialize_mint_impl h L accts dec authority freeze False"

definition initialize_account_impl ::
  "host \<Rightarrow> ledger \<Rightarrow> AccountInfo list \<Rightarrow> pubkey option \<Rightarrow> bool \<Rightarrow> ledger program_result" where
  "initialize_account_impl h L accts opt_owner rent_sysvar_account =
     bind (next_account_info accts) (\<lambda>(new_account_info, iter).
     bind (next_account_info iter) (\<lambda>(mint_info, iter).
     bind (case opt_owner of
             Some own \<Rightarrow> Ok (own, iter)
           | None \<Rightarrow> bind (next_account_info iter) (\<lambda>(i, iter). Ok (key i, iter))) (\<lambda>(own, iter).
     bind (read_rent h L rent_sysvar_account iter) (\<lambda>(rent, iter).
     bind (account_unpack_unchecked (info_data L new_account_info)) (\<lambda>account.
     if account_is_initialized account then token_err AlreadyInUse else
     if \<not> is_exempt h rent (info_lamports L new_account_info) (data_len L new_account_info)
     then token_err NotRentExempt else
     bind (if key mint_info \<noteq> native_mint_id then
             bind (map_err (\<lambda>_. into_program_error InvalidMint) (read_mint L mint_info)) (\<lambda>_. Ok ())
           else Ok ()) (\<lambda>_.
     let account = account\<lparr>acct_mint := key mint_info, acct_owner := own, delegate := None,
           delegated_amount := 0, acct_state := Initialized\<rparr> in
     bind (if key mint_info = native_mint_id then
             let reserve = minimum_balance h rent (data_len L new_account_info) in
             bind (ok_or (checked_sub (info_lamports L new_account_info) reserve)
                     (into_program_error Overflow)) (\<lambda>amt.
             Ok (account\<lparr>acct_is_native := Some reserve, amount := amt\<rparr>))
           else Ok (account\<lparr>acct_is_native := None, amount := 0\<rparr>)) (\<lambda>account.
     write_account L new_account_info account)))))))"

definition process_initialize_account ::
  "host \<Rightarrow> ledger \<Rightarrow> AccountInfo list \<Rightarrow> ledger program_result" where
  "process_initialize_account h L accts = initialize_account_impl h L accts None True"

definition process_initialize_account2 ::
  "host \<Rightarrow> ledger \<Rightarrow> AccountInfo list \<Rightarrow> pubkey \<Rightarrow> ledger program_result" where
  "process_initialize_account2 h L accts own = initialize_account_impl h L accts (Some own) True"

definition process_initialize_account3 ::
  "host \<Rightarrow> ledger \<Rightarrow> AccountInfo list \<Rightarrow> pubkey \<Rightarrow> ledger program_result" where
  "process_initialize_account3 h L accts own = initialize_account_impl h L accts (Some own) False"

text \<open>\<open>multisig.signers[i] = ..\<close> panics past the last slot.\<close>

fun assign_signers :: "pubkey list \<Rightarrow> nat \<Rightarrow> AccountInfo list \<Rightarrow> pubkey list program_result" where
  "assign_signers slots i [] = Ok slots"
| "assign_signers slots i (s # ss) =
     (if i < length slots then assign_signers (slots[i := key s]) (Suc i) ss else Panic)"

text \<open>\<open>signer_infos.len() as u8\<close> truncates.\<close>

definition initialize_multisig_impl ::
  "host \<Rightarrow> ledger \<Rightarrow> AccountInfo list \<Rightarrow> u8 \<Rightarrow> bool \<Rightarrow> ledger program_result" where
  "initialize_multisig_impl h L accts m rent_sysvar_account =
     bind (next_account_info accts) (\<lambda>(multisig_info, iter).
     bind (read_rent h L rent_sysvar_account iter) (\<lambda>(rent, iter).
     bind (multisig_unpack_unchecked (info_data L multisig_info)) (\<lambda>multisig.
     if ms_is_initialized multisig then token_err AlreadyInUse else
     if \<not> is_exempt h rent (info_lamports L multisig_info) (data_len L multisig_info)
     then token_err NotRentExempt else
     let signer_infos = iter;
         multisig = multisig\<lparr>ms_m := m, ms_n := of_nat (length signer_infos)\<rparr> in
     if \<not> is_valid_signer_index (unat (ms_n multisig))
     then token_err InvalidNumberOfProvidedSigners else
     if \<not> is_valid_signer_index (unat (ms_m multisig))
     then token_err InvalidNumberOfRequiredSigners else
     bind (assign_signers (ms_signers multisig) 0 signer_infos) (\<lambda>slots.
     write_multisig L multisig_info
       (multisig\<lparr>ms_signers := slots, ms_is_initialized := True\<rparr>)))))"

definition process_initialize_multisig ::
  "host \<Rightarrow> ledger \<Rightarrow> AccountInfo list \<Rightarrow> u8 \<Rightarrow> ledger program_result" where
  "process_initialize_multisig h L accts m = initialize_multisig_impl h L accts m True"

definition process_initialize_multisig2 ::
  "host \<Rightarrow> ledger \<Rightarrow> AccountInfo list \<Rightarrow> u8 \<Rightarrow> ledger program_result" where
  "process_initialize_multisig2 h L accts m = initialize_multisig_impl h L accts m False"

section \<open>Transfers and delegation\<close>

text \<open>\<open>expected_mint_info\<close>: the checked instructions carry the mint and its decimals.\<close>

definition next_expected_mint ::
  "u8 option \<Rightarrow> AccountInfo list \<Rightarrow> ((AccountInfo \<times> u8) option \<times> AccountInfo list) program_result"
where
  "next_expected_mint expected_decimals iter =
     (case expected_decimals of
        Some dec \<Rightarrow> bind (next_account_info iter) (\<lambda>(i, iter). Ok (Some (i, dec), iter))
      | None \<Rightarrow> Ok (None, iter))"

definition check_expected_mint ::
  "ledger \<Rightarrow> Account \<Rightarrow> (AccountInfo \<times> u8) option \<Rightarrow> unit program_result" where
  "check_expected_mint L source expected_mint_info =
     (case expected_mint_info of
        Some (mint_info, expected_decimals) \<Rightarrow>
          if acct_mint source \<noteq> key mint_info then token_err MintMismatch else
          bind (read_mint L mint_info) (\<lambda>mint.
          if expected_decimals \<noteq> decimals mint then token_err MintDecimalsMismatch else Ok ())
      | None \<Rightarrow> Ok ())"

text \<open>
  The match on the delegate: a delegate acts within its allowance, which a transfer to the same
  account leaves alone; otherwise the owner acts. A burn has the same match without the exception
  for self transfers.
\<close>

definition spend_authority ::
  "pubkey \<Rightarrow> ledger \<Rightarrow> Account \<Rightarrow> u64 \<Rightarrow> bool \<Rightarrow> AccountInfo \<Rightarrow> AccountInfo list \<Rightarrow>
   Account program_result" where
  "spend_authority pid L source amt self_transfer authority_info signers =
     (if delegate source = Some (key authority_info) then
        bind (validate_owner pid L (key authority_info) authority_info signers) (\<lambda>_.
        if delegated_amount source < amt then token_err TokenError.InsufficientFunds else
        if \<not> self_transfer then
          bind (ok_or (checked_sub (delegated_amount source) amt)
                  (into_program_error Overflow)) (\<lambda>left.
          Ok (if left = 0 then source\<lparr>delegated_amount := left, delegate := None\<rparr>
              else source\<lparr>delegated_amount := left\<rparr>))
        else Ok source)
      else
        bind (validate_owner pid L (acct_owner source) authority_info signers) (\<lambda>_. Ok source))"

definition move_lamports ::
  "ledger \<Rightarrow> AccountInfo \<Rightarrow> AccountInfo \<Rightarrow> u64 \<Rightarrow> ledger program_result" where
  "move_lamports L source_info dest_info amt =
     bind (ok_or (checked_sub (info_lamports L source_info) amt)
             (into_program_error Overflow)) (\<lambda>source_lamports.
     let L = set_lamports L source_info source_lamports in
     bind (ok_or (checked_add (info_lamports L dest_info) amt)
             (into_program_error Overflow)) (\<lambda>dest_lamports.
     Ok (set_lamports L dest_info dest_lamports)))"

definition process_transfer ::
  "pubkey \<Rightarrow> ledger \<Rightarrow> AccountInfo list \<Rightarrow> u64 \<Rightarrow> u8 option \<Rightarrow> ledger program_result" where
  "process_transfer pid L accts amt expected_decimals =
     bind (next_account_info accts) (\<lambda>(source_info, iter).
     bind (next_expected_mint expected_decimals iter) (\<lambda>(expected_mint_info, iter).
     bind (next_account_info iter) (\<lambda>(dest_info, iter).
     bind (next_account_info iter) (\<lambda>(authority_info, iter).
     bind (read_account L source_info) (\<lambda>source.
     bind (read_account L dest_info) (\<lambda>dest.
     if is_frozen source \<or> is_frozen dest then token_err AccountFrozen else
     if amount source < amt then token_err TokenError.InsufficientFunds else
     if acct_mint source \<noteq> acct_mint dest then token_err MintMismatch else
     bind (check_expected_mint L source expected_mint_info) (\<lambda>_.
     let self_transfer = (key source_info = key dest_info) in
     bind (spend_authority pid L source amt self_transfer authority_info iter) (\<lambda>source.
     if self_transfer then Ok L else
     bind (ok_or (checked_sub (amount source) amt) (into_program_error Overflow)) (\<lambda>source_amt.
     bind (ok_or (checked_add (amount dest) amt) (into_program_error Overflow)) (\<lambda>dest_amt.
     let source = source\<lparr>amount := source_amt\<rparr>; dest = dest\<lparr>amount := dest_amt\<rparr> in
     bind (if is_native source then move_lamports L source_info dest_info amt else Ok L) (\<lambda>L.
     bind (write_account L source_info source) (\<lambda>L.
     write_account L dest_info dest))))))))))))"

definition process_approve ::
  "pubkey \<Rightarrow> ledger \<Rightarrow> AccountInfo list \<Rightarrow> u64 \<Rightarrow> u8 option \<Rightarrow> ledger program_result" where
  "process_approve pid L accts amt expected_decimals =
     bind (next_account_info accts) (\<lambda>(source_info, iter).
     bind (next_expected_mint expected_decimals iter) (\<lambda>(expected_mint_info, iter).
     bind (next_account_info iter) (\<lambda>(delegate_info, iter).
     bind (next_account_info iter) (\<lambda>(owner_info, iter).
     bind (read_account L source_info) (\<lambda>source.
     if is_frozen source then token_err AccountFrozen else
     bind (check_expected_mint L source expected_mint_info) (\<lambda>_.
     bind (validate_owner pid L (acct_owner source) owner_info iter) (\<lambda>_.
     write_account L source_info
       (source\<lparr>delegate := Some (key delegate_info), delegated_amount := amt\<rparr>))))))))"

definition process_revoke ::
  "pubkey \<Rightarrow> ledger \<Rightarrow> AccountInfo list \<Rightarrow> ledger program_result" where
  "process_revoke pid L accts =
     bind (next_account_info accts) (\<lambda>(source_info, iter).
     bind (read_account L source_info) (\<lambda>source.
     bind (next_account_info iter) (\<lambda>(owner_info, iter).
     if is_frozen source then token_err AccountFrozen else
     bind (validate_owner pid L (acct_owner source) owner_info iter) (\<lambda>_.
     write_account L source_info (source\<lparr>delegate := None, delegated_amount := 0\<rparr>)))))"

section \<open>Authorities\<close>

definition process_set_authority ::
  "pubkey \<Rightarrow> ledger \<Rightarrow> AccountInfo list \<Rightarrow> AuthorityType \<Rightarrow> pubkey option \<Rightarrow> ledger program_result"
where
  "process_set_authority pid L accts authority_type new_authority =
     bind (next_account_info accts) (\<lambda>(account_info, iter).
     bind (next_account_info iter) (\<lambda>(authority_info, iter).
     if data_len L account_info = account_LEN then
       bind (read_account L account_info) (\<lambda>account.
       if is_frozen account then token_err AccountFrozen else
       bind (case authority_type of
               AuthorityType.AccountOwner \<Rightarrow>
                 bind (validate_owner pid L (acct_owner account) authority_info iter) (\<lambda>_.
                 case new_authority of
                   Some authority \<Rightarrow>
                     let account = account\<lparr>acct_owner := authority, delegate := None,
                                           delegated_amount := 0\<rparr> in
                     Ok (if is_native account then account\<lparr>close_authority := None\<rparr> else account)
                 | None \<Rightarrow> token_err InvalidInstruction)
             | AuthorityType.CloseAccount \<Rightarrow>
                 let authority = (case close_authority account of
                                    Some k \<Rightarrow> k | None \<Rightarrow> acct_owner account) in
                 bind (validate_owner pid L authority authority_info iter) (\<lambda>_.
                 Ok (account\<lparr>close_authority := new_authority\<rparr>))
             | _ \<Rightarrow> token_err AuthorityTypeNotSupported) (\<lambda>account.
       write_account L account_info account))
     else if data_len L account_info = mint_LEN then
       bind (read_mint L account_info) (\<lambda>mint.
       bind (case authority_type of
               AuthorityType.MintTokens \<Rightarrow>
                 bind (ok_or (mint_authority mint) (into_program_error FixedSupply)) (\<lambda>authority.
                 bind (validate_owner pid L authority authority_info iter) (\<lambda>_.
                 Ok (mint\<lparr>mint_authority := new_authority\<rparr>)))
             | AuthorityType.FreezeAccount \<Rightarrow>
                 bind (ok_or (freeze_authority mint) (into_program_error MintCannotFreeze))
                   (\<lambda>authority.
                 bind (validate_owner pid L authority authority_info iter) (\<lambda>_.
                 Ok (mint\<lparr>freeze_authority := new_authority\<rparr>)))
             | _ \<Rightarrow> token_err AuthorityTypeNotSupported) (\<lambda>mint.
       write_mint L account_info mint))
     else Err InvalidArgument))"

section \<open>Minting and burning\<close>

definition process_mint_to ::
  "pubkey \<Rightarrow> ledger \<Rightarrow> AccountInfo list \<Rightarrow> u64 \<Rightarrow> u8 option \<Rightarrow> ledger program_result" where
  "process_mint_to pid L accts amt expected_decimals =
     bind (next_account_info accts) (\<lambda>(mint_info, iter).
     bind (next_account_info iter) (\<lambda>(dest_info, iter).
     bind (next_account_info iter) (\<lambda>(owner_info, iter).
     bind (read_account L dest_info) (\<lambda>dest.
     if is_frozen dest then token_err AccountFrozen else
     if is_native dest then token_err NativeNotSupported else
     if key mint_info \<noteq> acct_mint dest then token_err MintMismatch else
     bind (read_mint L mint_info) (\<lambda>mint.
     if (case expected_decimals of Some dec \<Rightarrow> dec \<noteq> decimals mint | None \<Rightarrow> False)
     then token_err MintDecimalsMismatch else
     bind (case mint_authority mint of
             Some authority \<Rightarrow> validate_owner pid L authority owner_info iter
           | None \<Rightarrow> token_err FixedSupply) (\<lambda>_.
     bind (ok_or (checked_add (amount dest) amt) (into_program_error Overflow)) (\<lambda>dest_amt.
     bind (ok_or (checked_add (mint_supply mint) amt) (into_program_error Overflow)) (\<lambda>new_supply.
     bind (write_account L dest_info (dest\<lparr>amount := dest_amt\<rparr>)) (\<lambda>L.
     write_mint L mint_info (mint\<lparr>mint_supply := new_supply\<rparr>))))))))))"

definition process_burn ::
  "pubkey \<Rightarrow> ledger \<Rightarrow> AccountInfo list \<Rightarrow> u64 \<Rightarrow> u8 option \<Rightarrow> ledger program_result" where
  "process_burn pid L accts amt expected_decimals =
     bind (next_account_info accts) (\<lambda>(source_info, iter).
     bind (next_account_info iter) (\<lambda>(mint_info, iter).
     bind (next_account_info iter) (\<lambda>(authority_info, iter).
     bind (read_account L source_info) (\<lambda>source.
     bind (read_mint L mint_info) (\<lambda>mint.
     if is_frozen source then token_err AccountFrozen else
     if is_native source then token_err NativeNotSupported else
     if amount source < amt then token_err TokenError.InsufficientFunds else
     if key mint_info \<noteq> acct_mint source then token_err MintMismatch else
     if (case expected_decimals of Some dec \<Rightarrow> dec \<noteq> decimals mint | None \<Rightarrow> False)
     then token_err MintDecimalsMismatch else
     bind (spend_authority pid L source amt False authority_info iter) (\<lambda>source.
     bind (ok_or (checked_sub (amount source) amt) (into_program_error Overflow)) (\<lambda>source_amt.
     bind (ok_or (checked_sub (mint_supply mint) amt) (into_program_error Overflow)) (\<lambda>new_supply.
     bind (write_account L source_info (source\<lparr>amount := source_amt\<rparr>)) (\<lambda>L.
     write_mint L mint_info (mint\<lparr>mint_supply := new_supply\<rparr>))))))))))"

section \<open>Closing, freezing, native balances\<close>

definition process_close_account ::
  "pubkey \<Rightarrow> ledger \<Rightarrow> AccountInfo list \<Rightarrow> ledger program_result" where
  "process_close_account pid L accts =
     bind (next_account_info accts) (\<lambda>(source_info, iter).
     bind (next_account_info iter) (\<lambda>(dest_info, iter).
     bind (next_account_info iter) (\<lambda>(authority_info, iter).
     bind (read_account L source_info) (\<lambda>source.
     if \<not> is_native source \<and> amount source \<noteq> 0 then token_err NonNativeHasBalance else
     let authority = (case close_authority source of Some k \<Rightarrow> k | None \<Rightarrow> acct_owner source) in
     bind (validate_owner pid L authority authority_info iter) (\<lambda>_.
     bind (ok_or (checked_add (info_lamports L dest_info) (info_lamports L source_info))
             (into_program_error Overflow)) (\<lambda>dest_lamports.
     let L = set_lamports L dest_info dest_lamports;
         L = set_lamports L source_info 0 in
     write_account L source_info (source\<lparr>amount := 0\<rparr>)))))))"

definition process_toggle_freeze_account ::
  "pubkey \<Rightarrow> ledger \<Rightarrow> AccountInfo list \<Rightarrow> bool \<Rightarrow> ledger program_result" where
  "process_toggle_freeze_account pid L accts freeze =
     bind (next_account_info accts) (\<lambda>(source_info, iter).
     bind (next_account_info iter) (\<lambda>(mint_info, iter).
     bind (next_account_info iter) (\<lambda>(authority_info, iter).
     bind (read_account L source_info) (\<lambda>source.
     if freeze \<and> is_frozen source \<or> \<not> freeze \<and> \<not> is_frozen source
     then token_err InvalidState else
     if is_native source then token_err NativeNotSupported else
     if key mint_info \<noteq> acct_mint source then token_err MintMismatch else
     bind (read_mint L mint_info) (\<lambda>mint.
     bind (case freeze_authority mint of
             Some authority \<Rightarrow> validate_owner pid L authority authority_info iter
           | None \<Rightarrow> token_err MintCannotFreeze) (\<lambda>_.
     write_account L source_info
       (source\<lparr>acct_state := (if freeze then Frozen else Initialized)\<rparr>)))))))"

definition process_sync_native ::
  "pubkey \<Rightarrow> ledger \<Rightarrow> AccountInfo list \<Rightarrow> ledger program_result" where
  "process_sync_native pid L accts =
     bind (next_account_info accts) (\<lambda>(native_account_info, iter).
     if info_owner L native_account_info \<noteq> pid then Err IncorrectProgramId else
     bind (read_account L native_account_info) (\<lambda>native_account.
     case acct_is_native native_account of
       Some rent_exempt_reserve \<Rightarrow>
         bind (ok_or (checked_sub (info_lamports L native_account_info) rent_exempt_reserve)
                 (into_program_error Overflow)) (\<lambda>new_amount.
         if new_amount < amount native_account then token_err InvalidState else
         write_account L native_account_info (native_account\<lparr>amount := new_amount\<rparr>))
     | None \<Rightarrow> token_err NonNativeNotSupported))"

section \<open>Dispatch\<close>

fun process_instruction ::
  "host \<Rightarrow> pubkey \<Rightarrow> ledger \<Rightarrow> AccountInfo list \<Rightarrow> TokenInstruction \<Rightarrow> ledger program_result" where
  "process_instruction h pid L accts (InitializeMint dec ma fa) =
     process_initialize_mint h L accts dec ma fa"
| "process_instruction h pid L accts (InitializeMint2 dec ma fa) =
     process_initialize_mint2 h L accts dec ma fa"
| "process_instruction h pid L accts InitializeAccount = process_initialize_account h L accts"
| "process_instruction h pid L accts (InitializeAccount2 own) =
     process_initialize_account2 h L accts own"
| "process_instruction h pid L accts (InitializeAccount3 own) =
     process_initialize_account3 h L accts own"
| "process_instruction h pid L accts (InitializeMultisig m) =
     process_initialize_multisig h L accts m"
| "process_instruction h pid L accts (InitializeMultisig2 m) =
     process_initialize_multisig2 h L accts m"
| "process_instruction h pid L accts (Transfer amt) = process_transfer pid L accts amt None"
| "process_instruction h pid L accts (Approve amt) = process_approve pid L accts amt None"
| "process_instruction h pid L accts Revoke = process_revoke pid L accts"
| "process_instruction h pid L accts (SetAuthority ty new) =
     process_set_authority pid L accts ty new"
| "process_instruction h pid L accts (MintTo amt) = process_mint_to pid L accts amt None"
| "process_instruction h pid L accts (Burn amt) = process_burn pid L accts amt None"
| "process_instruction h pid L accts TokenInstruction.CloseAccount =
     process_close_account pid L accts"
| "process_instruction h pid L accts TokenInstruction.FreezeAccount =
     process_toggle_freeze_account pid L accts True"
| "process_instruction h pid L accts ThawAccount =
     process_toggle_freeze_account pid L accts False"
| "process_instruction h pid L accts (TransferChecked amt dec) =
     process_transfer pid L accts amt (Some dec)"
| "process_instruction h pid L accts (ApproveChecked amt dec) =
     process_approve pid L accts amt (Some dec)"
| "process_instruction h pid L accts (MintToChecked amt dec) =
     process_mint_to pid L accts amt (Some dec)"
| "process_instruction h pid L accts (BurnChecked amt dec) =
     process_burn pid L accts amt (Some dec)"
| "process_instruction h pid L accts SyncNative = process_sync_native pid L accts"

definition process ::
  "host \<Rightarrow> pubkey \<Rightarrow> ledger \<Rightarrow> AccountInfo list \<Rightarrow> bytes \<Rightarrow> ledger program_result" where
  "process h pid L accts input =
     bind (token_instruction_unpack input) (process_instruction h pid L accts)"

end
