(* ===== verification/Token_Ledger.thy ===== *)
theory Token_Ledger
  imports Token_Processor
begin

text \<open>
  The ledger as the token program reads it: the account, mint or multisignature the bytes of a
  key decode to. Reads and writes of the handlers are lookups and updates of these maps.
\<close>

section \<open>Decoded ledgers\<close>

record tstate =
  accts :: "pubkey \<rightharpoonup> Account"
  mints :: "pubkey \<rightharpoonup> Mint"
  multisigs :: "pubkey \<rightharpoonup> Multisig"
  bal :: "pubkey \<Rightarrow> u64"

definition acct_at :: "ledger \<Rightarrow> pubkey \<rightharpoonup> Account" where
  "acct_at L k = view account_LEN account_unpack_from_slice (L k)"

definition mint_at :: "ledger \<Rightarrow> pubkey \<rightharpoonup> Mint" where
  "mint_at L k = view mint_LEN mint_unpack_from_slice (L k)"

definition multisig_at :: "ledger \<Rightarrow> pubkey \<rightharpoonup> Multisig" where
  "multisig_at L k = view multisig_LEN multisig_unpack_from_slice (L k)"

definition abs_ledger :: "ledger \<Rightarrow> tstate" where
  "abs_ledger L = \<lparr>accts = acct_at L, mints = mint_at L, multisigs = multisig_at L,
                   bal = (\<lambda>k. lamports (L k))\<rparr>"

lemmas at_defs = acct_at_def mint_at_def multisig_at_def
lemmas layout_LENs = account_LEN_def mint_LEN_def multisig_LEN_def

lemma layout_LENs_differ [simp]:
  "account_LEN \<noteq> mint_LEN" "account_LEN \<noteq> multisig_LEN" "mint_LEN \<noteq> account_LEN"
  "mint_LEN \<noteq> multisig_LEN" "multisig_LEN \<noteq> account_LEN" "multisig_LEN \<noteq> mint_LEN"
  by (simp_all add: layout_LENs)

section \<open>Reads and writes\<close>

lemma read_account_Ok_iff [result_ok]:
  "read_account L i = Ok a \<longleftrightarrow> acct_at L (key i) = Some a \<and> account_is_initialized a"
  by (simp add: read_account_def info_data_def acct_at_def account.unpack_iff_view)

lemma read_mint_Ok_iff [result_ok]:
  "read_mint L i = Ok m \<longleftrightarrow> mint_at L (key i) = Some m \<and> mint_is_initialized m"
  by (simp add: read_mint_def info_data_def mint_at_def mint.unpack_iff_view)

lemma read_multisig_Ok_iff [result_ok]:
  "read_multisig L i = Ok ms \<longleftrightarrow> multisig_at L (key i) = Some ms \<and> ms_is_initialized ms"
  by (simp add: read_multisig_def info_data_def multisig_at_def multisig.unpack_iff_view)

lemma unpack_unchecked_at [result_ok]:
  "account_unpack_unchecked (info_data L i) = Ok a \<longleftrightarrow> acct_at L (key i) = Some a"
  "mint_unpack_unchecked (info_data L i) = Ok m \<longleftrightarrow> mint_at L (key i) = Some m"
  "multisig_unpack_unchecked (info_data L i) = Ok ms \<longleftrightarrow> multisig_at L (key i) = Some ms"
  by (simp_all add: info_data_def at_defs view_Some_iff)

text \<open>The three layouts have different lengths, so an account holds at most one of them.\<close>

lemma at_length:
  "acct_at L k = Some a \<Longrightarrow> length (data (L k)) = account_LEN"
  "mint_at L k = Some m \<Longrightarrow> length (data (L k)) = mint_LEN"
  "multisig_at L k = Some ms \<Longrightarrow> length (data (L k)) = multisig_LEN"
  by (simp_all add: at_defs account.view_length mint.view_length multisig.view_length)

lemma at_exclusive:
  "acct_at L k = Some a \<Longrightarrow> mint_at L k = None \<and> multisig_at L k = None"
  "mint_at L k = Some m \<Longrightarrow> acct_at L k = None \<and> multisig_at L k = None"
  "multisig_at L k = Some ms \<Longrightarrow> acct_at L k = None \<and> mint_at L k = None"
  by (auto simp: layout_LENs dest!: at_length) (simp_all add: at_defs layout_LENs view_wrong_length)

lemma write_account_OkD:
  assumes "write_account L i v = Ok L'"
  shows "acct_at L' = (acct_at L)(key i \<mapsto> v)" "mint_at L' = mint_at L"
    "multisig_at L' = multisig_at L" "(\<lambda>k. lamports (L' k)) = (\<lambda>k. lamports (L k))"
    "same_frame L L'" "\<And>k. k \<noteq> key i \<Longrightarrow> L' k = L k"
  using assms
  by (simp_all add: account.typed_write [OF assms(1) [unfolded write_account_def]] at_defs [abs_def])

lemma write_mint_OkD:
  assumes "write_mint L i v = Ok L'"
  shows "mint_at L' = (mint_at L)(key i \<mapsto> v)" "acct_at L' = acct_at L"
    "multisig_at L' = multisig_at L" "(\<lambda>k. lamports (L' k)) = (\<lambda>k. lamports (L k))"
    "same_frame L L'" "\<And>k. k \<noteq> key i \<Longrightarrow> L' k = L k"
  using assms
  by (simp_all add: mint.typed_write [OF assms(1) [unfolded write_mint_def]] at_defs [abs_def])

lemma write_multisig_OkD:
  assumes "write_multisig L i v = Ok L'" "multisig_wf v"
  shows "multisig_at L' = (multisig_at L)(key i \<mapsto> v)" "acct_at L' = acct_at L"
    "mint_at L' = mint_at L" "(\<lambda>k. lamports (L' k)) = (\<lambda>k. lamports (L k))"
    "same_frame L L'" "\<And>k. k \<noteq> key i \<Longrightarrow> L' k = L k"
  using assms
  by (simp_all add: multisig.typed_write [OF assms(1) [unfolded write_multisig_def]] at_defs [abs_def])

lemma set_lamports_at [simp]:
  "acct_at (set_lamports L i x) = acct_at L" "mint_at (set_lamports L i x) = mint_at L"
  "multisig_at (set_lamports L i x) = multisig_at L"
  by (simp_all add: set_lamports_def at_defs fun_eq_iff)

lemma set_lamports_frame [simp]: "same_frame L (set_lamports L i x)"
  by (simp add: set_lamports_def same_frame_def)

lemma lamports_set_lamports [simp]:
  "lamports (set_lamports L i x k) = (if k = key i then x else lamports (L k))"
  by (simp add: set_lamports_def)

end
