(* ===== verification/Token_Auth.thy ===== *)
theory Token_Auth
  imports Token_Ledger
begin

text \<open>
  Who may act: the check of \<open>validate_owner\<close> (\<open>token/program/src/processor.rs\<close>) as a statement
  about the signatures of the instruction, and the proof that the nested loops over the
  signers and the positions of a multisignature compute it.
\<close>

section \<open>Specification\<close>

text \<open>How many of the first \<open>n\<close> positions of a multisignature have signed.\<close>

definition signed_count :: "Multisig \<Rightarrow> AccountInfo list \<Rightarrow> nat" where
  "signed_count ms infos =
     length (filter (\<lambda>k. \<exists>s \<in> set infos. is_signer s \<and> key s = k)
       (take (unat (ms_n ms)) (ms_signers ms)))"

text \<open>
  A key has authorized an instruction: a multisignature account of the program through enough
  of its positions, any other account by signing.
\<close>

definition authorized :: "pubkey \<Rightarrow> ledger \<Rightarrow> AccountInfo list \<Rightarrow> pubkey \<Rightarrow> bool" where
  "authorized pid L infos k \<longleftrightarrow>
     (\<exists>i \<in> set infos. key i = k \<and>
        (if owner (L k) = pid \<and> length (data (L k)) = multisig_LEN
         then (case multisig_at L k of
                 Some ms \<Rightarrow> ms_is_initialized ms \<and> unat (ms_m ms) \<le> signed_count ms infos
               | None \<Rightarrow> False)
         else is_signer i))"

section \<open>The loops\<close>

definition hits :: "bool list \<Rightarrow> nat set" where
  "hits matched = {p. p < length matched \<and> matched ! p}"

lemma finite_hits [simp]: "finite (hits matched)"
  by (simp add: hits_def)

lemma hits_replicate_False [simp]: "hits (replicate n False) = {}"
  by (simp add: hits_def)

lemma hits_set:
  "p < length matched \<Longrightarrow> hits (matched[p := True]) = insert p (hits matched)"
  by (auto simp: hits_def nth_list_update)

lemma match_positions_Ok:
  assumes "match_positions s ks pos matched num = Ok (matched', num')"
    and "pos + length ks \<le> length matched"
    and "num = of_nat (card (hits matched))"
  shows "length matched' = length matched \<and> num' = of_nat (card (hits matched')) \<and>
    hits matched' = hits matched \<union> {pos + j |j. j < length ks \<and> ks ! j = key s} \<and>
    (hits matched' \<noteq> hits matched \<longrightarrow> is_signer s)"
  using assms
proof (induction s ks pos matched num rule: match_positions.induct)
  case (1 s pos matched num)
  then show ?case by auto
next
  case (2 s k ks pos matched num)
  have shift: "{pos + j |j. j < length (k # ks) \<and> (k # ks) ! j = key s} =
      (if k = key s then {pos} else {}) \<union> {Suc pos + j |j. j < length ks \<and> ks ! j = key s}"
    by (auto simp: nth_Cons' gr0_conv_Suc split: if_splits)
  show ?case
  proof (cases "k = key s \<and> \<not> matched ! pos")
    case True
    let ?m = "matched[pos := True]"
    have pos: "pos < length matched" "pos \<notin> hits matched"
      using 2(4) True by (auto simp: hits_def)
    then have h: "hits ?m = insert pos (hits matched)"
      by (simp add: hits_set)
    then have "num + 1 = of_nat (card (hits ?m))"
      using pos 2(5) by simp
    moreover have "match_positions s ks (Suc pos) ?m (num + 1) = Ok (matched', num')" "is_signer s"
      using 2(3) True by (auto split: if_splits)
    ultimately show ?thesis
      using 2(1) [OF True] 2(4) True h shift by auto
  next
    case False
    then have "match_positions s ks (Suc pos) matched num = Ok (matched', num')"
      using 2(3) by auto
    moreover have "k = key s \<Longrightarrow> pos \<in> hits matched"
      using False 2(4) by (auto simp: hits_def)
    ultimately show ?thesis
      using 2(2) [OF False] 2(4,5) shift by auto
  qed
qed

lemma match_positions_total:
  assumes "is_signer s" "pos + length ks \<le> length matched"
  shows "\<exists>r. match_positions s ks pos matched num = Ok r"
  using assms by (induction s ks pos matched num rule: match_positions.induct) auto

lemma match_signers_Ok:
  assumes "match_signers ms signers matched num = Ok num'"
    and "length (ms_signers ms) \<le> length matched"
    and "num = of_nat (card (hits matched))"
  shows "\<exists>matched'. num' = of_nat (card (hits matched')) \<and>
    hits matched' = hits matched \<union>
      {p. p < unat (ms_n ms) \<and> p < length (ms_signers ms) \<and> (\<exists>s \<in> set signers. key s = ms_signers ms ! p)} \<and>
    (\<forall>p \<in> hits matched' - hits matched. \<exists>s \<in> set signers. is_signer s \<and> key s = ms_signers ms ! p)"
  using assms
proof (induction ms signers matched num rule: match_signers.induct)
  case (1 ms matched num)
  then show ?case by auto
next
  case (2 ms s signers matched num)
  let ?n = "unat (ms_n ms)" and ?ks = "take (unat (ms_n ms)) (ms_signers ms)"
  from 2(2) have n: "?n \<le> length (ms_signers ms)"
    by (auto split: if_splits)
  from 2(2) obtain m1 n1 where mp: "match_positions s ?ks 0 matched num = Ok (m1, n1)"
    and rest: "match_signers ms signers m1 n1 = Ok num'"
    by (auto simp: result_ok split: if_splits)
  from n 2(3) have "0 + length ?ks \<le> length matched" by simp
  note inner = match_positions_Ok [OF mp this 2(4)]
  have "{0 + j |j. j < length ?ks \<and> ?ks ! j = key s} = {p. p < ?n \<and> key s = ms_signers ms ! p}"
    using n by auto
  with inner have h1: "hits m1 = hits matched \<union> {p. p < ?n \<and> key s = ms_signers ms ! p}"
    by simp
  from inner have m1: "length m1 = length matched" "n1 = of_nat (card (hits m1))"
    and sg: "hits m1 \<noteq> hits matched \<longrightarrow> is_signer s"
    by simp_all
  have "\<not> length (ms_signers ms) < ?n" using n by simp
  from 2(1) [OF this mp refl rest _ m1(2)] m1(1) 2(3)
  obtain m2 where m2: "num' = of_nat (card (hits m2))"
    and h2: "hits m2 = hits m1 \<union> {p. p < ?n \<and> p < length (ms_signers ms) \<and>
        (\<exists>s \<in> set signers. key s = ms_signers ms ! p)}"
    and s2: "\<forall>p \<in> hits m2 - hits m1. \<exists>s \<in> set signers. is_signer s \<and> key s = ms_signers ms ! p"
    by auto
  have "\<exists>t \<in> set (s # signers). is_signer t \<and> key t = ms_signers ms ! p"
    if "p \<in> hits m2 - hits matched" for p
    using that s2 sg h1 by (cases "p \<in> hits m1") auto
  moreover have "hits m2 = hits matched \<union> {p. p < ?n \<and> p < length (ms_signers ms) \<and>
      (\<exists>t \<in> set (s # signers). key t = ms_signers ms ! p)}"
    using h1 h2 n by auto
  ultimately show ?case using m2 by blast
qed

lemma match_signers_total:
  assumes "\<forall>s \<in> set signers. is_signer s" "unat (ms_n ms) \<le> length (ms_signers ms)"
    "length (ms_signers ms) \<le> length matched" "num = of_nat (card (hits matched))"
  shows "\<exists>r. match_signers ms signers matched num = Ok r"
  using assms
proof (induction ms signers matched num rule: match_signers.induct)
  case (2 ms s signers matched num)
  let ?ks = "take (unat (ms_n ms)) (ms_signers ms)"
  have len: "0 + length ?ks \<le> length matched" using 2(3,4) by simp
  obtain m1 n1 where mp: "match_positions s ?ks 0 matched num = Ok (m1, n1)"
    using match_positions_total [OF _ len, of s num] 2(2) by auto
  from match_positions_Ok [OF mp len 2(5)] 2(1) [OF _ mp refl] 2(2-4)
  show ?case by (simp add: mp)
qed simp

text \<open>The count the loops end with is the number of positions that signed.\<close>

lemma signed_count_card:
  assumes "unat (ms_n ms) \<le> length (ms_signers ms)"
  shows "signed_count ms infos =
    card {p. p < unat (ms_n ms) \<and> (\<exists>s \<in> set infos. is_signer s \<and> key s = ms_signers ms ! p)}"
proof -
  have "{p. p < length (take (unat (ms_n ms)) (ms_signers ms)) \<and>
      (\<exists>s \<in> set infos. is_signer s \<and> key s = take (unat (ms_n ms)) (ms_signers ms) ! p)} =
    {p. p < unat (ms_n ms) \<and> (\<exists>s \<in> set infos. is_signer s \<and> key s = ms_signers ms ! p)}"
    using assms by auto
  then show ?thesis by (simp add: signed_count_def length_filter_conv_card)
qed

lemma signed_count_le: "signed_count ms infos \<le> unat (ms_n ms)"
  unfolding signed_count_def by (rule order_trans [OF length_filter_le]) simp

lemma signed_count_mono: "set infos \<subseteq> set infos' \<Longrightarrow> signed_count ms infos \<le> signed_count ms infos'"
  unfolding signed_count_def
  by (intro length_filter_mono) auto

lemma match_signers_count:
  assumes ok: "match_signers ms signers (replicate MAX_SIGNERS False) 0 = Ok num"
    and wf: "multisig_wf ms" and n: "unat (ms_n ms) \<le> MAX_SIGNERS"
  shows "unat num = signed_count ms signers"
proof -
  have len: "length (ms_signers ms) \<le> length (replicate MAX_SIGNERS False)"
    and n': "unat (ms_n ms) \<le> length (ms_signers ms)"
    using wf n by (simp_all add: multisig_wf_def)
  obtain matched where num: "num = of_nat (card (hits matched))"
    and h: "hits matched = {p. p < unat (ms_n ms) \<and> p < length (ms_signers ms) \<and>
        (\<exists>s \<in> set signers. key s = ms_signers ms ! p)}"
    and sg: "\<forall>p \<in> hits matched. \<exists>s \<in> set signers. is_signer s \<and> key s = ms_signers ms ! p"
    using match_signers_Ok [OF ok len] by auto
  have "hits matched =
      {p. p < unat (ms_n ms) \<and> (\<exists>s \<in> set signers. is_signer s \<and> key s = ms_signers ms ! p)}"
    using h sg n' by auto
  then have c: "card (hits matched) = signed_count ms signers"
    by (simp add: signed_count_card [OF n'])
  then have "card (hits matched) < 256"
    using signed_count_le [of ms signers] n by (simp add: MAX_SIGNERS_def)
  with num c show ?thesis by (simp add: unat_of_nat)
qed

text \<open>
  A multisignature the program stored has at most \<open>MAX_SIGNERS\<close> positions; an account of the
  right length that the program did not write could claim more, and the slice panics on it.
\<close>

lemma match_signers_many_positions:
  assumes "match_signers ms signers matched num = Ok r" "length (ms_signers ms) < unat (ms_n ms)"
  shows "signers = [] \<and> r = num"
  using assms by (cases signers) auto

section \<open>validate\_owner\<close>

lemma validate_owner_authorized:
  assumes ok: "validate_owner pid L k i signers = Ok u"
    and i: "i \<in> set infos" and sub: "set signers \<subseteq> set infos"
  shows "key i = k \<and> authorized pid L infos k"
proof -
  from ok have k: "key i = k" by (auto simp: validate_owner_def split: if_splits)
  show ?thesis
  proof (cases "owner (L k) = pid \<and> length (data (L k)) = multisig_LEN")
    case True
    with ok k obtain ms num where ms: "multisig_at L k = Some ms" "ms_is_initialized ms"
      and num: "match_signers ms signers (replicate MAX_SIGNERS False) 0 = Ok num"
      and m: "ms_m ms \<le> num"
      by (auto simp: validate_owner_def ledger_ops result_ok not_less split: if_splits)
    have wf: "multisig_wf ms"
      using ms(1) by (auto simp: multisig_at_def intro: multisig.view_wf)
    have "unat (ms_m ms) \<le> signed_count ms infos"
    proof (cases "unat (ms_n ms) \<le> MAX_SIGNERS")
      case True
      with num wf have "unat num = signed_count ms signers" by (simp add: match_signers_count)
      then show ?thesis
        using m signed_count_mono [OF sub, of ms] by (simp add: word_le_nat_alt)
    next
      case False
      with num wf have "num = 0"
        using match_signers_many_positions [OF num] by (simp add: multisig_wf_def)
      with m show ?thesis by simp
    qed
    with True k ms i show ?thesis by (auto simp: authorized_def)
  next
    case False
    with ok k have "is_signer i"
      by (auto simp: validate_owner_def ledger_ops split: if_splits)
    with False k i show ?thesis by (auto simp: authorized_def)
  qed
qed

lemma validate_owner_complete:
  assumes k: "key i = k" and sg: "\<forall>s \<in> set signers. is_signer s"
    and auth: "if owner (L k) = pid \<and> length (data (L k)) = multisig_LEN
      then (\<exists>ms. multisig_at L k = Some ms \<and> ms_is_initialized ms \<and>
              unat (ms_n ms) \<le> MAX_SIGNERS \<and> unat (ms_m ms) \<le> signed_count ms signers)
      else is_signer i"
  shows "validate_owner pid L k i signers = Ok ()"
proof (cases "owner (L k) = pid \<and> length (data (L k)) = multisig_LEN")
  case True
  with auth obtain ms where ms: "multisig_at L k = Some ms" "ms_is_initialized ms"
    and n: "unat (ms_n ms) \<le> MAX_SIGNERS" and m: "unat (ms_m ms) \<le> signed_count ms signers"
    by auto
  have wf: "multisig_wf ms"
    using ms(1) by (auto simp: multisig_at_def intro: multisig.view_wf)
  then obtain num where num: "match_signers ms signers (replicate MAX_SIGNERS False) 0 = Ok num"
    using match_signers_total [OF sg, of ms "replicate MAX_SIGNERS False" 0] n
    by (auto simp: multisig_wf_def)
  then have "\<not> num < ms_m ms"
    using match_signers_count [OF num wf n] m by (simp add: word_less_nat_alt)
  moreover have "read_multisig L i = Ok ms"
    using ms k by (simp add: read_multisig_Ok_iff)
  ultimately show ?thesis
    using True k num by (simp add: validate_owner_def ledger_ops)
next
  case False
  with auth k show ?thesis by (auto simp: validate_owner_def ledger_ops)
qed

text \<open>With signers that all signed, the check is exact.\<close>

lemma validate_owner_exact:
  assumes sg: "\<forall>s \<in> set signers. is_signer s"
    and fit: "\<And>ms. multisig_at L k = Some ms \<Longrightarrow> unat (ms_n ms) \<le> MAX_SIGNERS"
  shows "validate_owner pid L k i signers = Ok () \<longleftrightarrow> key i = k \<and>
    (if owner (L k) = pid \<and> length (data (L k)) = multisig_LEN
     then (\<exists>ms. multisig_at L k = Some ms \<and> ms_is_initialized ms \<and>
             unat (ms_m ms) \<le> signed_count ms signers)
     else is_signer i)" (is "?v = Ok () \<longleftrightarrow> ?c")
proof
  assume ok: "?v = Ok ()"
  then have k: "key i = k" by (auto simp: validate_owner_def split: if_splits)
  show ?c
  proof (cases "owner (L k) = pid \<and> length (data (L k)) = multisig_LEN")
    case True
    with ok k obtain ms num where ms: "multisig_at L k = Some ms" "ms_is_initialized ms"
      and num: "match_signers ms signers (replicate MAX_SIGNERS False) 0 = Ok num" "ms_m ms \<le> num"
      by (auto simp: validate_owner_def ledger_ops result_ok not_less split: if_splits)
    have "multisig_wf ms" using ms(1) by (auto simp: multisig_at_def intro: multisig.view_wf)
    from match_signers_count [OF num(1) this fit [OF ms(1)]] num(2)
    have "unat (ms_m ms) \<le> signed_count ms signers" by (simp add: word_le_nat_alt)
    with True k ms show ?thesis by auto
  next
    case False
    with ok k show ?thesis by (auto simp: validate_owner_def ledger_ops split: if_splits)
  qed
next
  assume ?c
  then show "?v = Ok ()"
    using fit by (intro validate_owner_complete [OF _ sg]) (auto split: if_splits)
qed

text \<open>A multisignature that asks for more signers than it has positions authorizes nothing.\<close>

lemma oversized_multisig_locked:
  assumes "multisig_at L k = Some ms" "owner (L k) = pid" "ms_n ms < ms_m ms"
  shows "\<not> authorized pid L infos k"
  using at_length(3) [OF assms(1)] assms signed_count_le [of ms infos]
  by (auto simp: authorized_def word_less_nat_alt)

end
