(* ===== verification/Token_Spec.thy ===== *)
theory Token_Spec
  imports Token_Auth
begin

text \<open>
  What the token program promises, away from bytes and account lists: one step per kind of
  instruction on the decoded state. The handlers refine it: a successful run of \<open>process\<close> is a
  step of the specification between the decoded ledgers, by keys that authorized it.
\<close>

section \<open>Steps\<close>

text \<open>
  Moving \<open>amt\<close> out of an account, as its owner or as its delegate. A delegate spends its
  allowance, and loses the delegation with the last of it.
\<close>

definition may_spend :: "pubkey \<Rightarrow> u64 \<Rightarrow> Account \<Rightarrow> bool" where
  "may_spend t amt a \<longleftrightarrow> amt \<le> amount a \<and>
     (if delegate a = Some t then amt \<le> delegated_amount a else t = acct_owner a)"

definition debit :: "pubkey \<Rightarrow> u64 \<Rightarrow> Account \<Rightarrow> Account" where
  "debit t amt a =
     (if delegate a = Some t then
        a\<lparr>amount := amount a - amt, delegated_amount := delegated_amount a - amt,
          delegate := (if delegated_amount a = amt then None else delegate a)\<rparr>
      else a\<lparr>amount := amount a - amt\<rparr>)"

definition credit :: "u64 \<Rightarrow> Account \<Rightarrow> Account" where
  "credit amt a = a\<lparr>amount := amount a + amt\<rparr>"

definition fits :: "u64 \<Rightarrow> u64 \<Rightarrow> bool" where
  "fits x y \<longleftrightarrow> unat x + unat y < 2 ^ 64"

definition close_key :: "Account \<Rightarrow> pubkey" where
  "close_key a = (case close_authority a of Some k \<Rightarrow> k | None \<Rightarrow> acct_owner a)"

definition live :: "tstate \<Rightarrow> pubkey \<Rightarrow> Account \<Rightarrow> bool" where
  "live S k a \<longleftrightarrow> accts S k = Some a \<and> account_is_initialized a"

definition live_mint :: "tstate \<Rightarrow> pubkey \<Rightarrow> Mint \<Rightarrow> bool" where
  "live_mint S k m \<longleftrightarrow> mints S k = Some m \<and> mint_is_initialized m"

inductive token_step :: "(pubkey \<Rightarrow> bool) \<Rightarrow> tstate \<Rightarrow> tstate \<Rightarrow> bool" for A where
  init_mint:
    "mints S k = Some m \<Longrightarrow> \<not> mint_is_initialized m \<Longrightarrow>
     token_step A S (S\<lparr>mints := (mints S)(k \<mapsto> m\<lparr>mint_authority := Some ma, decimals := d,
       mint_is_initialized := True, freeze_authority := fa\<rparr>)\<rparr>)"
| init_account:
    "accts S k = Some a \<Longrightarrow> \<not> account_is_initialized a \<Longrightarrow> mk \<noteq> native_mint_id \<Longrightarrow>
     live_mint S mk m \<Longrightarrow>
     token_step A S (S\<lparr>accts := (accts S)(k \<mapsto> a\<lparr>acct_mint := mk, acct_owner := own, amount := 0,
       delegate := None, acct_state := Initialized, acct_is_native := None,
       delegated_amount := 0\<rparr>)\<rparr>)"
| init_native:
    "accts S k = Some a \<Longrightarrow> \<not> account_is_initialized a \<Longrightarrow> reserve \<le> bal S k \<Longrightarrow>
     token_step A S (S\<lparr>accts := (accts S)(k \<mapsto> a\<lparr>acct_mint := native_mint_id, acct_owner := own,
       amount := bal S k - reserve, delegate := None, acct_state := Initialized,
       acct_is_native := Some reserve, delegated_amount := 0\<rparr>)\<rparr>)"
| init_multisig:
    "multisigs S k = Some ms \<Longrightarrow> \<not> ms_is_initialized ms \<Longrightarrow>
     is_valid_signer_index (length ks) \<Longrightarrow> is_valid_signer_index (unat m) \<Longrightarrow>
     token_step A S (S\<lparr>multisigs := (multisigs S)(k \<mapsto> \<lparr>ms_m = m, ms_n = of_nat (length ks),
       ms_is_initialized = True, ms_signers = ks @ drop (length ks) (ms_signers ms)\<rparr>)\<rparr>)"
| self_transfer:
    "live S k a \<Longrightarrow> \<not> is_frozen a \<Longrightarrow> A t \<Longrightarrow> may_spend t amt a \<Longrightarrow> token_step A S S"
| transfer:
    "live S k a \<Longrightarrow> live S k' b \<Longrightarrow> k \<noteq> k' \<Longrightarrow> \<not> is_frozen a \<Longrightarrow> \<not> is_frozen b \<Longrightarrow>
     acct_mint a = acct_mint b \<Longrightarrow> A t \<Longrightarrow> may_spend t amt a \<Longrightarrow> fits (amount b) amt \<Longrightarrow>
     \<not> is_native a \<Longrightarrow>
     token_step A S (S\<lparr>accts := (accts S)(k \<mapsto> debit t amt a, k' \<mapsto> credit amt b)\<rparr>)"
| transfer_native:
    "live S k a \<Longrightarrow> live S k' b \<Longrightarrow> k \<noteq> k' \<Longrightarrow> \<not> is_frozen a \<Longrightarrow> \<not> is_frozen b \<Longrightarrow>
     acct_mint a = acct_mint b \<Longrightarrow> A t \<Longrightarrow> may_spend t amt a \<Longrightarrow> fits (amount b) amt \<Longrightarrow>
     is_native a \<Longrightarrow> amt \<le> bal S k \<Longrightarrow> fits (bal S k') amt \<Longrightarrow>
     token_step A S (S\<lparr>accts := (accts S)(k \<mapsto> debit t amt a, k' \<mapsto> credit amt b),
       bal := (bal S)(k := bal S k - amt, k' := bal S k' + amt)\<rparr>)"
| approve:
    "live S k a \<Longrightarrow> \<not> is_frozen a \<Longrightarrow> A (acct_owner a) \<Longrightarrow>
     token_step A S (S\<lparr>accts := (accts S)(k \<mapsto> a\<lparr>delegate := Some d, delegated_amount := amt\<rparr>)\<rparr>)"
| revoke:
    "live S k a \<Longrightarrow> \<not> is_frozen a \<Longrightarrow> A (acct_owner a) \<Longrightarrow>
     token_step A S (S\<lparr>accts := (accts S)(k \<mapsto> a\<lparr>delegate := None, delegated_amount := 0\<rparr>)\<rparr>)"
| set_owner:
    "live S k a \<Longrightarrow> \<not> is_frozen a \<Longrightarrow> A (acct_owner a) \<Longrightarrow>
     token_step A S (S\<lparr>accts := (accts S)(k \<mapsto> a\<lparr>acct_owner := new, delegate := None,
       delegated_amount := 0,
       close_authority := (if is_native a then None else close_authority a)\<rparr>)\<rparr>)"
| set_close_authority:
    "live S k a \<Longrightarrow> \<not> is_frozen a \<Longrightarrow> A (close_key a) \<Longrightarrow>
     token_step A S (S\<lparr>accts := (accts S)(k \<mapsto> a\<lparr>close_authority := new_opt\<rparr>)\<rparr>)"
| set_mint_authority:
    "live_mint S k m \<Longrightarrow> mint_authority m = Some t \<Longrightarrow> A t \<Longrightarrow>
     token_step A S (S\<lparr>mints := (mints S)(k \<mapsto> m\<lparr>mint_authority := new_opt\<rparr>)\<rparr>)"
| set_freeze_authority:
    "live_mint S k m \<Longrightarrow> freeze_authority m = Some t \<Longrightarrow> A t \<Longrightarrow>
     token_step A S (S\<lparr>mints := (mints S)(k \<mapsto> m\<lparr>freeze_authority := new_opt\<rparr>)\<rparr>)"
| mint_tokens:
    "live S k a \<Longrightarrow> \<not> is_frozen a \<Longrightarrow> \<not> is_native a \<Longrightarrow> live_mint S (acct_mint a) m \<Longrightarrow>
     mint_authority m = Some t \<Longrightarrow> A t \<Longrightarrow> fits (amount a) amt \<Longrightarrow> fits (mint_supply m) amt \<Longrightarrow>
     token_step A S (S\<lparr>accts := (accts S)(k \<mapsto> credit amt a),
       mints := (mints S)(acct_mint a \<mapsto> m\<lparr>mint_supply := mint_supply m + amt\<rparr>)\<rparr>)"
| burn_tokens:
    "live S k a \<Longrightarrow> \<not> is_frozen a \<Longrightarrow> \<not> is_native a \<Longrightarrow> live_mint S (acct_mint a) m \<Longrightarrow>
     A t \<Longrightarrow> may_spend t amt a \<Longrightarrow> amt \<le> mint_supply m \<Longrightarrow>
     token_step A S (S\<lparr>accts := (accts S)(k \<mapsto> debit t amt a),
       mints := (mints S)(acct_mint a \<mapsto> m\<lparr>mint_supply := mint_supply m - amt\<rparr>)\<rparr>)"
| close:
    "live S k a \<Longrightarrow> is_native a \<or> amount a = 0 \<Longrightarrow> A (close_key a) \<Longrightarrow>
     fits (bal S k') (bal S k) \<Longrightarrow>
     token_step A S (S\<lparr>accts := (accts S)(k \<mapsto> a\<lparr>amount := 0\<rparr>),
       bal := (bal S)(k' := bal S k' + bal S k, k := 0)\<rparr>)"
| freeze:
    "live S k a \<Longrightarrow> \<not> is_frozen a \<Longrightarrow> \<not> is_native a \<Longrightarrow> live_mint S (acct_mint a) m \<Longrightarrow>
     freeze_authority m = Some t \<Longrightarrow> A t \<Longrightarrow>
     token_step A S (S\<lparr>accts := (accts S)(k \<mapsto> a\<lparr>acct_state := Frozen\<rparr>)\<rparr>)"
| thaw:
    "live S k a \<Longrightarrow> is_frozen a \<Longrightarrow> \<not> is_native a \<Longrightarrow> live_mint S (acct_mint a) m \<Longrightarrow>
     freeze_authority m = Some t \<Longrightarrow> A t \<Longrightarrow>
     token_step A S (S\<lparr>accts := (accts S)(k \<mapsto> a\<lparr>acct_state := Initialized\<rparr>)\<rparr>)"
| sync_native:
    "live S k a \<Longrightarrow> acct_is_native a = Some reserve \<Longrightarrow> reserve \<le> bal S k \<Longrightarrow>
     amount a \<le> bal S k - reserve \<Longrightarrow>
     token_step A S (S\<lparr>accts := (accts S)(k \<mapsto> a\<lparr>amount := bal S k - reserve\<rparr>)\<rparr>)"

section \<open>Refinement\<close>

text \<open>
  A run of a handler over \<open>infos\<close> took the ledger \<open>L\<close> to \<open>L'\<close>: a step of the specification that
  changed only accounts of the instruction, and of those only balances and bytes.
\<close>

definition refines :: "pubkey \<Rightarrow> ledger \<Rightarrow> AccountInfo list \<Rightarrow> ledger \<Rightarrow> bool" where
  "refines pid L infos L' \<longleftrightarrow>
     token_step (authorized pid L infos) (abs_ledger L) (abs_ledger L') \<and>
     same_frame L L' \<and> (\<forall>k. k \<notin> key ` set infos \<longrightarrow> L' k = L k)"

lemma abs_ledger_simps [simp]:
  "accts (abs_ledger L) = acct_at L" "mints (abs_ledger L) = mint_at L"
  "multisigs (abs_ledger L) = multisig_at L" "bal (abs_ledger L) k = lamports (L k)"
  by (simp_all add: abs_ledger_def)

lemma tstate_update_order: "S\<lparr>bal := b, accts := a\<rparr> = S\<lparr>accts := a, bal := b\<rparr>"
  by (cases S) simp

lemma abs_write_account:
  "write_account L i a = Ok L' \<Longrightarrow> abs_ledger L' = (abs_ledger L)\<lparr>accts := (acct_at L)(key i \<mapsto> a)\<rparr>"
  by (simp add: abs_ledger_def write_account_OkD)

lemma abs_write_mint:
  "write_mint L i m = Ok L' \<Longrightarrow> abs_ledger L' = (abs_ledger L)\<lparr>mints := (mint_at L)(key i \<mapsto> m)\<rparr>"
  by (simp add: abs_ledger_def write_mint_OkD)

lemma abs_write_multisig:
  "write_multisig L i ms = Ok L' \<Longrightarrow> multisig_wf ms \<Longrightarrow>
   abs_ledger L' = (abs_ledger L)\<lparr>multisigs := (multisig_at L)(key i \<mapsto> ms)\<rparr>"
  by (simp add: abs_ledger_def write_multisig_OkD)

lemma next_expected_mint_subset:
  "next_expected_mint ed iter = Ok (e, iter') \<Longrightarrow> set iter' \<subseteq> set iter"
  by (auto simp: next_expected_mint_def result_ok split: option.splits)

lemma refinesI:
  assumes "token_step (authorized pid L infos) (abs_ledger L) (abs_ledger L')"
    and "same_frame L L'" "\<And>k. k \<notin> key ` set infos \<Longrightarrow> L' k = L k"
  shows "refines pid L infos L'"
  using assms by (simp add: refines_def)

lemma process_approve_refines:
  assumes "process_approve pid L infos amt ed = Ok L'"
  shows "refines pid L infos L'"
proof -
  from assms obtain si iter e di oi iter' a where infos: "infos = si # iter"
    and e: "next_expected_mint ed iter = Ok (e, di # oi # iter')"
    and a: "acct_at L (key si) = Some a" "account_is_initialized a" "\<not> is_frozen a"
    and v: "validate_owner pid L (acct_owner a) oi iter' = Ok ()"
    and w: "write_account L si (a\<lparr>delegate := Some (key di), delegated_amount := amt\<rparr>) = Ok L'"
    by (auto simp: process_approve_def result_ok)
  have "authorized pid L infos (acct_owner a)"
    using validate_owner_authorized [OF v, of infos] next_expected_mint_subset [OF e] infos by auto
  then have "token_step (authorized pid L infos) (abs_ledger L) (abs_ledger L')"
    using a abs_write_account [OF w] token_step.approve [of "abs_ledger L" "key si" a]
    by (simp add: live_def)
  then show ?thesis
    using write_account_OkD [OF w] infos by (auto intro!: refinesI)
qed

lemma checked_add_fits: "checked_add x y = Some z \<longleftrightarrow> fits x y \<and> z = x + y"
  by (auto simp: checked_add_def fits_def)

lemma checked_sub_le: "checked_sub x y = Some z \<longleftrightarrow> y \<le> x \<and> z = x - y"
  by (auto simp: checked_sub_def)

lemmas checked_u64 = checked_add_fits checked_sub_le not_less

text \<open>The delegate-or-owner check that transfers and burns share.\<close>

lemma spend_authority_Ok:
  assumes spend: "spend_authority pid L a amt self ai iter = Ok a'"
    and infos: "ai \<in> set infos" "set iter \<subseteq> set infos" and amt: "amt \<le> amount a"
  shows "authorized pid L infos (key ai)" "may_spend (key ai) amt a" "amount a' = amount a"
    "acct_is_native a' = acct_is_native a"
    "\<not> self \<Longrightarrow> a'\<lparr>amount := amount a - amt\<rparr> = debit (key ai) amt a"
proof -
  obtain k where v: "validate_owner pid L k ai iter = Ok ()"
    and k: "k = (if delegate a = Some (key ai) then key ai else acct_owner a)"
    using spend by (auto simp: spend_authority_def result_ok split: if_splits)
  from validate_owner_authorized [OF v infos] have *: "key ai = k" "authorized pid L infos k"
    by auto
  show "authorized pid L infos (key ai)" using * by simp
  have own: "acct_owner a = key ai" if "delegate a \<noteq> Some (key ai)"
    using * k that by auto
  have "amt \<le> delegated_amount a" if "delegate a = Some (key ai)"
    using spend that by (auto simp: spend_authority_def result_ok checked_u64)
  with amt own show "may_spend (key ai) amt a" by (simp add: may_spend_def)
  show "amount a' = amount a" "acct_is_native a' = acct_is_native a"
    using spend by (auto simp: spend_authority_def result_ok split: if_splits)
  assume self: "\<not> self"
  show "a'\<lparr>amount := amount a - amt\<rparr> = debit (key ai) amt a"
  proof (cases "delegate a = Some (key ai)")
    case True
    with spend self have "a' = (if delegated_amount a - amt = 0
        then a\<lparr>delegated_amount := delegated_amount a - amt, delegate := None\<rparr>
        else a\<lparr>delegated_amount := delegated_amount a - amt\<rparr>)"
      by (auto simp: spend_authority_def result_ok checked_u64)
    with True show ?thesis by (cases a) (simp add: debit_def)
  next
    case False
    with spend have "a' = a" by (auto simp: spend_authority_def result_ok)
    with False show ?thesis by (simp add: debit_def)
  qed
qed

lemma move_lamports_Ok:
  assumes "move_lamports L si di amt = Ok L'" "key si \<noteq> key di"
  shows "amt \<le> lamports (L (key si))" "fits (lamports (L (key di))) amt"
    "abs_ledger L' = (abs_ledger L)\<lparr>bal := (bal (abs_ledger L))
       (key si := lamports (L (key si)) - amt, key di := lamports (L (key di)) + amt)\<rparr>"
    "acct_at L' = acct_at L" "same_frame L L'" "k \<notin> {key si, key di} \<Longrightarrow> L' k = L k"
proof -
  from assms have L': "amt \<le> lamports (L (key si))" "fits (lamports (L (key di))) amt"
    "L' = set_lamports (set_lamports L si (lamports (L (key si)) - amt)) di (lamports (L (key di)) + amt)"
    by (auto simp: move_lamports_def info_lamports_def Let_def result_ok checked_u64)
  then show "amt \<le> lamports (L (key si))" "fits (lamports (L (key di))) amt" "acct_at L' = acct_at L"
    by simp_all
  show "abs_ledger L' = (abs_ledger L)\<lparr>bal := (bal (abs_ledger L))
       (key si := lamports (L (key si)) - amt, key di := lamports (L (key di)) + amt)\<rparr>"
    using assms(2) by (auto simp: L' abs_ledger_def fun_eq_iff)
  show "same_frame L L'" "k \<notin> {key si, key di} \<Longrightarrow> L' k = L k"
    by (auto simp: L' set_lamports_def same_frame_def)
qed

lemma process_transfer_refines:
  assumes "process_transfer pid L infos amt ed = Ok L'"
  shows "refines pid L infos L'"
proof -
  from assms obtain si iter e di ai iter' a b a' where infos: "infos = si # iter"
    and e: "next_expected_mint ed iter = Ok (e, di # ai # iter')"
    and a: "acct_at L (key si) = Some a" "account_is_initialized a" "\<not> is_frozen a"
    and b: "acct_at L (key di) = Some b" "account_is_initialized b" "\<not> is_frozen b"
    and m: "acct_mint a = acct_mint b" and amt: "amt \<le> amount a"
    and spend: "spend_authority pid L a amt (key si = key di) ai iter' = Ok a'"
    and rest: "key si = key di \<longrightarrow> L' = L"
      "key si \<noteq> key di \<longrightarrow> amt \<le> amount a' \<and> fits (amount b) amt \<and>
        (\<exists>M. (is_native a' \<longrightarrow> move_lamports L si di amt = Ok M) \<and> (\<not> is_native a' \<longrightarrow> M = L) \<and>
          (\<exists>N. write_account M si (a'\<lparr>amount := amount a' - amt\<rparr>) = Ok N \<and>
          write_account N di (credit amt b) = Ok L'))"
    by (fastforce simp: process_transfer_def Let_def result_ok if_Ok_iff checked_u64
        is_native_def credit_def)
  have sub: "{si, di, ai} \<union> set iter' \<subseteq> set infos"
    using next_expected_mint_subset [OF e] infos by auto
  note spent = spend_authority_Ok [OF spend _ _ amt, of infos]
  have A: "authorized pid L infos (key ai)" "may_spend (key ai) amt a"
    using spent sub by auto
  show ?thesis
  proof (cases "key si = key di")
    case True
    then have "token_step (authorized pid L infos) (abs_ledger L) (abs_ledger L')"
      using rest(1) a A token_step.self_transfer [of "abs_ledger L" "key si" a]
      by (simp add: live_def)
    then show ?thesis using rest(1) True by (auto intro: refinesI)
  next
    case False
    let ?A = "authorized pid L infos" and ?S = "abs_ledger L"
    have deb: "a'\<lparr>amount := amount a' - amt\<rparr> = debit (key ai) amt a"
      and nat: "is_native a' = is_native a"
      using spent sub False by (auto simp: is_native_def)
    from rest(2) False deb obtain M N where fit: "fits (amount b) amt"
      and M: "is_native a \<Longrightarrow> move_lamports L si di amt = Ok M" "\<not> is_native a \<Longrightarrow> M = L"
      and N: "write_account M si (debit (key ai) amt a) = Ok N"
      and L': "write_account N di (credit amt b) = Ok L'"
      by (auto simp: nat)
    have live: "live ?S (key si) a" "live ?S (key di) b" using a b by (simp_all add: live_def)
    have MN: "acct_at M = acct_at L" "same_frame L M" "\<And>k. k \<notin> {key si, key di} \<Longrightarrow> M k = L k"
      using M move_lamports_Ok(4-6) [OF _ False] by (cases "is_native a"; auto)+
    have abs: "abs_ledger L' = (abs_ledger M)\<lparr>accts :=
        (acct_at L)(key si \<mapsto> debit (key ai) amt a, key di \<mapsto> credit amt b)\<rparr>"
      using abs_write_account [OF L'] abs_write_account [OF N] write_account_OkD [OF N] MN
      by simp
    have "token_step ?A ?S (abs_ledger L')"
    proof (cases "is_native a")
      case True
      note mv = move_lamports_Ok [OF M(1) [OF True] False]
      show ?thesis
        using token_step.transfer_native [where A = ?A, OF live False a(3) b(3) m A fit True] mv
        by (simp add: abs mv(3) tstate_update_order)
    next
      case False
      with token_step.transfer [where A = ?A, OF live \<open>key si \<noteq> key di\<close> a(3) b(3) m A fit] M(2)
      show ?thesis by (simp add: abs)
    qed
    moreover have "L' k = L k" if "k \<notin> key ` set infos" for k
    proof -
      have "k \<noteq> key si" "k \<noteq> key di" using that sub by auto
      then show ?thesis
        using MN(3) write_account_OkD(6) [OF N] write_account_OkD(6) [OF L'] by simp
    qed
    moreover have "same_frame L L'"
      using MN(2) write_account_OkD(5) [OF N] write_account_OkD(5) [OF L']
      by (blast intro: same_frame_trans)
    ultimately show ?thesis by (intro refinesI)
  qed
qed

text \<open>Most handlers end by writing one account back.\<close>

lemma refines_write_account:
  assumes w: "write_account L i a' = Ok L'" and i: "i \<in> set infos"
    and step: "token_step (authorized pid L infos) (abs_ledger L)
      ((abs_ledger L)\<lparr>accts := (acct_at L)(key i \<mapsto> a')\<rparr>)"
  shows "refines pid L infos L'"
  using write_account_OkD [OF w] abs_write_account [OF w] step i by (auto intro!: refinesI)

lemma refines_write_mint:
  assumes w: "write_mint L i m' = Ok L'" and i: "i \<in> set infos"
    and step: "token_step (authorized pid L infos) (abs_ledger L)
      ((abs_ledger L)\<lparr>mints := (mint_at L)(key i \<mapsto> m')\<rparr>)"
  shows "refines pid L infos L'"
  using write_mint_OkD [OF w] abs_write_mint [OF w] step i by (auto intro!: refinesI)

lemma process_revoke_refines:
  assumes "process_revoke pid L infos = Ok L'"
  shows "refines pid L infos L'"
proof -
  from assms obtain si oi iter a where infos: "infos = si # oi # iter"
    and a: "acct_at L (key si) = Some a" "account_is_initialized a" "\<not> is_frozen a"
    and v: "validate_owner pid L (acct_owner a) oi iter = Ok ()"
    and w: "write_account L si (a\<lparr>delegate := None, delegated_amount := 0\<rparr>) = Ok L'"
    by (auto simp: process_revoke_def result_ok)
  have "authorized pid L infos (acct_owner a)"
    using validate_owner_authorized [OF v, of infos] infos by auto
  with a token_step.revoke [of "abs_ledger L" "key si" a] show ?thesis
    using infos by (intro refines_write_account [OF w]) (simp_all add: live_def)
qed

lemma process_mint_to_refines:
  assumes "process_mint_to pid L infos amt ed = Ok L'"
  shows "refines pid L infos L'"
proof -
  from assms obtain mi di oi iter a m t M where infos: "infos = mi # di # oi # iter"
    and a: "acct_at L (key di) = Some a" "account_is_initialized a" "\<not> is_frozen a" "\<not> is_native a"
    and mk: "key mi = acct_mint a"
    and m: "mint_at L (key mi) = Some m" "mint_is_initialized m" "mint_authority m = Some t"
    and v: "validate_owner pid L t oi iter = Ok ()"
    and fit: "fits (amount a) amt" "fits (mint_supply m) amt"
    and M: "write_account L di (credit amt a) = Ok M"
    and w: "write_mint M mi (m\<lparr>mint_supply := mint_supply m + amt\<rparr>) = Ok L'"
    by (fastforce simp: process_mint_to_def result_ok checked_u64 credit_def split: option.splits)
  have A: "authorized pid L infos t"
    using validate_owner_authorized [OF v, of infos] infos by auto
  have "abs_ledger L' = (abs_ledger L)\<lparr>accts := (acct_at L)(key di \<mapsto> credit amt a),
      mints := (mint_at L)(acct_mint a \<mapsto> m\<lparr>mint_supply := mint_supply m + amt\<rparr>)\<rparr>"
    using abs_write_mint [OF w] abs_write_account [OF M] write_account_OkD [OF M] mk by simp
  with token_step.mint_tokens [of "abs_ledger L" "key di" a m t "authorized pid L infos" amt] A a m mk fit
  have "token_step (authorized pid L infos) (abs_ledger L) (abs_ledger L')"
    by (simp add: live_def live_mint_def)
  then show ?thesis
    using write_account_OkD(5,6) [OF M] write_mint_OkD(5,6) [OF w] infos
    by (intro refinesI) (auto intro: same_frame_trans)
qed

lemma process_burn_refines:
  assumes "process_burn pid L infos amt ed = Ok L'"
  shows "refines pid L infos L'"
proof -
  from assms obtain si mi ai iter a m a' M where infos: "infos = si # mi # ai # iter"
    and a: "acct_at L (key si) = Some a" "account_is_initialized a" "\<not> is_frozen a" "\<not> is_native a"
    and amt: "amt \<le> amount a" and mk: "key mi = acct_mint a"
    and m: "mint_at L (key mi) = Some m" "mint_is_initialized m"
    and spend: "spend_authority pid L a amt False ai iter = Ok a'"
    and le: "amt \<le> mint_supply m"
    and M: "write_account L si (a'\<lparr>amount := amount a' - amt\<rparr>) = Ok M"
    and w: "write_mint M mi (m\<lparr>mint_supply := mint_supply m - amt\<rparr>) = Ok L'"
    by (fastforce simp: process_burn_def result_ok checked_u64 split: option.splits)
  have sub: "ai \<in> set infos" "set iter \<subseteq> set infos" using infos by auto
  note spent = spend_authority_Ok [OF spend sub amt]
  have A: "authorized pid L infos (key ai)" "may_spend (key ai) amt a"
    and deb: "a'\<lparr>amount := amount a' - amt\<rparr> = debit (key ai) amt a"
    using spent by simp_all
  have "abs_ledger L' = (abs_ledger L)\<lparr>accts := (acct_at L)(key si \<mapsto> debit (key ai) amt a),
      mints := (mint_at L)(acct_mint a \<mapsto> m\<lparr>mint_supply := mint_supply m - amt\<rparr>)\<rparr>"
    using abs_write_mint [OF w] abs_write_account [OF M] write_account_OkD [OF M] mk deb by simp
  with token_step.burn_tokens [of "abs_ledger L" "key si" a m "authorized pid L infos" "key ai" amt]
    A a m mk le
  have "token_step (authorized pid L infos) (abs_ledger L) (abs_ledger L')"
    by (simp add: live_def live_mint_def)
  then show ?thesis
    using write_account_OkD(5,6) [OF M] write_mint_OkD(5,6) [OF w] infos
    by (intro refinesI) (auto intro: same_frame_trans)
qed

lemma process_close_account_refines:
  assumes "process_close_account pid L infos = Ok L'"
  shows "refines pid L infos L'"
proof -
  from assms obtain si di ai iter a where infos: "infos = si # di # ai # iter"
    and a: "acct_at L (key si) = Some a" "account_is_initialized a"
    and zero: "is_native a \<or> amount a = 0"
    and v: "validate_owner pid L (close_key a) ai iter = Ok ()"
    and fit: "fits (lamports (L (key di))) (lamports (L (key si)))"
    and w: "write_account (set_lamports (set_lamports L di
        (lamports (L (key di)) + lamports (L (key si)))) si 0) si (a\<lparr>amount := 0\<rparr>) = Ok L'"
    by (auto simp: process_close_account_def close_key_def Let_def info_lamports_def result_ok
        checked_u64)
  have A: "authorized pid L infos (close_key a)"
    using validate_owner_authorized [OF v, of infos] infos by auto
  have "abs_ledger L' = (abs_ledger L)\<lparr>accts := (acct_at L)(key si \<mapsto> a\<lparr>amount := 0\<rparr>),
      bal := (bal (abs_ledger L))(key di := lamports (L (key di)) + lamports (L (key si)), key si := 0)\<rparr>"
    using abs_write_account [OF w] by (auto simp: abs_ledger_def fun_eq_iff)
  with token_step.close [of "abs_ledger L" "key si" a "authorized pid L infos" "key di"] A a zero fit
  have "token_step (authorized pid L infos) (abs_ledger L) (abs_ledger L')"
    by (simp add: live_def)
  moreover have "same_frame L L'"
    using write_account_OkD(5) [OF w] by (blast intro: same_frame_trans set_lamports_frame)
  ultimately show ?thesis
    using write_account_OkD(6) [OF w] infos by (intro refinesI) (auto simp: set_lamports_def)
qed

lemma process_toggle_freeze_account_refines:
  assumes "process_toggle_freeze_account pid L infos fr = Ok L'"
  shows "refines pid L infos L'"
proof -
  from assms obtain si mi ai iter a m t where infos: "infos = si # mi # ai # iter"
    and a: "acct_at L (key si) = Some a" "account_is_initialized a" "is_frozen a = (\<not> fr)"
      "\<not> is_native a"
    and m: "mint_at L (acct_mint a) = Some m" "mint_is_initialized m" "freeze_authority m = Some t"
    and v: "validate_owner pid L t ai iter = Ok ()"
    and w: "write_account L si (a\<lparr>acct_state := (if fr then Frozen else Initialized)\<rparr>) = Ok L'"
    by (auto simp: process_toggle_freeze_account_def result_ok split: option.splits)
  have "authorized pid L infos t"
    using validate_owner_authorized [OF v, of infos] infos by auto
  with a m token_step.freeze [of "abs_ledger L" "key si" a m t]
    token_step.thaw [of "abs_ledger L" "key si" a m t] show ?thesis
    using infos by (intro refines_write_account [OF w]) (auto simp: live_def live_mint_def)
qed

lemma process_sync_native_refines:
  assumes "process_sync_native pid L infos = Ok L'"
  shows "refines pid L infos L'"
proof -
  from assms obtain i iter a reserve where infos: "infos = i # iter"
    and a: "acct_at L (key i) = Some a" "account_is_initialized a" "acct_is_native a = Some reserve"
    and r: "reserve \<le> lamports (L (key i))" "amount a \<le> lamports (L (key i)) - reserve"
    and w: "write_account L i (a\<lparr>amount := lamports (L (key i)) - reserve\<rparr>) = Ok L'"
    by (auto simp: process_sync_native_def info_lamports_def result_ok checked_u64
        split: option.splits)
  with token_step.sync_native [of "abs_ledger L" "key i" a reserve "authorized pid L infos"]
  show ?thesis
    by (intro refines_write_account [OF w]) (simp_all add: live_def)
qed

lemma is_native_update [simp]:
  "is_native (a\<lparr>acct_owner := t, delegate := d, delegated_amount := n\<rparr>) = is_native a"
  by (simp add: is_native_def)

lemma process_set_authority_refines:
  assumes ok: "process_set_authority pid L infos ty new_opt = Ok L'"
  shows "refines pid L infos L'"
proof -
  let ?A = "authorized pid L infos" and ?S = "abs_ledger L"
  from ok obtain i oi iter where infos: "infos = i # oi # iter"
    by (auto simp: process_set_authority_def result_ok)
  have auth: "validate_owner pid L k oi iter = Ok () \<Longrightarrow> ?A k" for k
    using validate_owner_authorized [of pid L k oi iter _ infos] infos by auto
  note unfold = process_set_authority_def infos result_ok
  show ?thesis
  proof (cases ty)
    case AccountOwner
    with ok obtain t where new: "new_opt = Some t"
      by (cases new_opt) (auto simp: unfold Let_def split: if_split_asm)
    with ok AccountOwner obtain a where a: "live ?S (key i) a" "\<not> is_frozen a"
      and v: "validate_owner pid L (acct_owner a) oi iter = Ok ()"
      and w: "write_account L i (if is_native a
          then a\<lparr>acct_owner := t, delegate := None, delegated_amount := 0, close_authority := None\<rparr>
          else a\<lparr>acct_owner := t, delegate := None, delegated_amount := 0\<rparr>) = Ok L'"
      by (auto simp: unfold live_def Let_def split: if_split_asm)
    have "(if is_native a
          then a\<lparr>acct_owner := t, delegate := None, delegated_amount := 0, close_authority := None\<rparr>
          else a\<lparr>acct_owner := t, delegate := None, delegated_amount := 0\<rparr>) =
        a\<lparr>acct_owner := t, delegate := None, delegated_amount := 0,
          close_authority := (if is_native a then None else close_authority a)\<rparr>"
      by (cases a) simp
    with w token_step.set_owner [where A = ?A, OF a auth [OF v], of t] infos show ?thesis
      by (intro refines_write_account [of L i]) auto
  next
    case CloseAccount
    with ok obtain a where a: "live ?S (key i) a" "\<not> is_frozen a"
      and v: "validate_owner pid L (close_key a) oi iter = Ok ()"
      and w: "write_account L i (a\<lparr>close_authority := new_opt\<rparr>) = Ok L'"
      by (auto simp: unfold live_def close_key_def Let_def split: if_split_asm)
    with token_step.set_close_authority [where A = ?A, OF a auth [OF v], of new_opt] infos
    show ?thesis by (intro refines_write_account [OF w]) auto
  next
    case MintTokens
    with ok obtain m t where m: "live_mint ?S (key i) m" and t: "mint_authority m = Some t"
      and v: "validate_owner pid L t oi iter = Ok ()"
      and w: "write_mint L i (m\<lparr>mint_authority := new_opt\<rparr>) = Ok L'"
      by (auto simp: unfold live_mint_def split: if_split_asm)
    with token_step.set_mint_authority [where A = ?A, OF m t auth [OF v], of new_opt] infos
    show ?thesis by (intro refines_write_mint [OF w]) auto
  next
    case FreezeAccount
    with ok obtain m t where m: "live_mint ?S (key i) m" and t: "freeze_authority m = Some t"
      and v: "validate_owner pid L t oi iter = Ok ()"
      and w: "write_mint L i (m\<lparr>freeze_authority := new_opt\<rparr>) = Ok L'"
      by (auto simp: unfold live_mint_def split: if_split_asm)
    with token_step.set_freeze_authority [where A = ?A, OF m t auth [OF v], of new_opt] infos
    show ?thesis by (intro refines_write_mint [OF w]) auto
  qed
qed

lemma initialize_mint_refines:
  assumes "initialize_mint_impl h L infos d ma fa sysvar = Ok L'"
  shows "refines pid L infos L'"
proof -
  from assms obtain i iter m where infos: "infos = i # iter"
    and m: "mint_at L (key i) = Some m" "\<not> mint_is_initialized m"
    and w: "write_mint L i (m\<lparr>mint_authority := Some ma, decimals := d,
             mint_is_initialized := True, freeze_authority := fa\<rparr>) = Ok L'"
    by (auto simp: initialize_mint_impl_def result_ok)
  with token_step.init_mint [of "abs_ledger L" "key i" m] show ?thesis
    by (intro refines_write_mint [OF w]) simp_all
qed

lemma initialize_account_refines:
  assumes ok: "initialize_account_impl h L infos opt sysvar = Ok L'"
  shows "refines pid L infos L'"
proof -
  from ok obtain i mi iter where infos: "infos = i # mi # iter"
    by (auto simp: initialize_account_impl_def result_ok)
  show ?thesis
  proof (cases "key mi = native_mint_id")
    case True
    with ok infos obtain own a r where a: "acct_at L (key i) = Some a" "\<not> account_is_initialized a"
      and r: "r \<le> lamports (L (key i))"
      and w: "write_account L i (a\<lparr>acct_mint := native_mint_id, acct_owner := own, delegate := None,
          delegated_amount := 0, acct_state := Initialized, acct_is_native := Some r,
          amount := lamports (L (key i)) - r\<rparr>) = Ok L'"
      by (auto simp: initialize_account_impl_def result_ok Let_def checked_u64 info_lamports_def)
    have "a\<lparr>acct_mint := native_mint_id, acct_owner := own, delegate := None,
          delegated_amount := 0, acct_state := Initialized, acct_is_native := Some r,
          amount := lamports (L (key i)) - r\<rparr> =
        a\<lparr>acct_mint := native_mint_id, acct_owner := own, amount := lamports (L (key i)) - r,
          delegate := None, acct_state := Initialized, acct_is_native := Some r,
          delegated_amount := 0\<rparr>"
      by (cases a) simp
    with a r w token_step.init_native [of "abs_ledger L" "key i" a r "authorized pid L infos" own]
      infos
    show ?thesis by (intro refines_write_account [of L i]) auto
  next
    case False
    with ok infos obtain own a m where a: "acct_at L (key i) = Some a" "\<not> account_is_initialized a"
      and m: "live_mint (abs_ledger L) (key mi) m"
      and w: "write_account L i (a\<lparr>acct_mint := key mi, acct_owner := own, delegate := None,
          delegated_amount := 0, acct_state := Initialized, acct_is_native := None,
          amount := 0\<rparr>) = Ok L'"
      by (auto simp: initialize_account_impl_def result_ok Let_def live_mint_def)
    have "a\<lparr>acct_mint := key mi, acct_owner := own, delegate := None,
          delegated_amount := 0, acct_state := Initialized, acct_is_native := None, amount := 0\<rparr> =
        a\<lparr>acct_mint := key mi, acct_owner := own, amount := 0,
          delegate := None, acct_state := Initialized, acct_is_native := None,
          delegated_amount := 0\<rparr>"
      by (cases a) simp
    with a m w False token_step.init_account [of "abs_ledger L" "key i" a "key mi" m
        "authorized pid L infos" own] infos
    show ?thesis by (intro refines_write_account [of L i]) auto
  qed
qed

lemma assign_signers_Ok:
  "assign_signers slots i ss = Ok slots' \<Longrightarrow> i \<le> length slots \<Longrightarrow>
   i + length ss \<le> length slots \<and>
   slots' = take i slots @ map key ss @ drop (i + length ss) slots"
proof (induction slots i ss rule: assign_signers.induct)
  case (2 slots i s ss)
  then have i: "i < length slots"
    and rec: "assign_signers (slots[i := key s]) (Suc i) ss = Ok slots'"
    by (simp_all split: if_splits)
  from 2(1) [OF i rec] i have "Suc i + length ss \<le> length slots"
    and "slots' = take (Suc i) (slots[i := key s]) @ map key ss @ drop (Suc i + length ss) slots"
    by simp_all
  with i show ?case by (simp add: take_Suc_conv_app_nth)
qed simp

lemma read_rent_subset: "read_rent h L sysvar iter = Ok (r, iter') \<Longrightarrow> set iter' \<subseteq> set iter"
  by (auto simp: read_rent_def result_ok split: if_splits)

lemma initialize_multisig_refines:
  assumes "initialize_multisig_impl h L infos m sysvar = Ok L'"
  shows "refines pid L infos L'"
proof -
  from assms obtain i iter r iter' ms slots where infos: "infos = i # iter"
    and rent: "read_rent h L sysvar iter = Ok (r, iter')"
    and ms: "multisig_at L (key i) = Some ms" "\<not> ms_is_initialized ms"
    and n: "is_valid_signer_index (unat (of_nat (length iter') :: u8))"
    and m: "is_valid_signer_index (unat m)"
    and slots: "assign_signers (ms_signers ms) 0 iter' = Ok slots"
    and w: "write_multisig L i (ms\<lparr>ms_m := m, ms_n := of_nat (length iter'), ms_signers := slots,
        ms_is_initialized := True\<rparr>) = Ok L'"
    by (auto simp: initialize_multisig_impl_def result_ok Let_def)
  let ?ks = "map key iter'"
  have "length (ms_signers ms) = MAX_SIGNERS"
    using multisig.view_wf [OF ms(1) [unfolded multisig_at_def]] by (simp add: multisig_wf_def)
  with assign_signers_Ok [OF slots] have len: "length iter' \<le> MAX_SIGNERS"
    and sl: "slots = ?ks @ drop (length ?ks) (ms_signers ms)" "length slots = MAX_SIGNERS"
    by auto
  then have valid: "is_valid_signer_index (length ?ks)"
    using n by (simp add: MAX_SIGNERS_def unat_of_nat)
  have ms': "ms\<lparr>ms_m := m, ms_n := of_nat (length iter'), ms_signers := slots,
      ms_is_initialized := True\<rparr> = \<lparr>ms_m = m, ms_n = of_nat (length ?ks),
       ms_is_initialized = True, ms_signers = ?ks @ drop (length ?ks) (ms_signers ms)\<rparr>"
    using sl by (cases ms) simp
  have wf: "multisig_wf (ms\<lparr>ms_m := m, ms_n := of_nat (length iter'), ms_signers := slots,
      ms_is_initialized := True\<rparr>)"
    using sl by (simp add: multisig_wf_def)
  have "token_step (authorized pid L infos) (abs_ledger L) (abs_ledger L')"
    using token_step.init_multisig [of "abs_ledger L" "key i" ms ?ks m "authorized pid L infos"]
      ms m valid abs_write_multisig [OF w wf] by (simp add: ms')
  then show ?thesis
    using write_multisig_OkD(5,6) [OF w wf] infos by (auto intro!: refinesI)
qed

text \<open>Every instruction, at the entry point of the program.\<close>

lemma process_refines:
  assumes "process h pid L infos input = Ok L'"
  shows "refines pid L infos L'"
proof -
  from assms obtain ins where "process_instruction h pid L infos ins = Ok L'"
    by (auto simp: process_def result_ok)
  then show ?thesis
    by (cases ins)
      (auto simp: process_initialize_mint_def process_initialize_mint2_def
        process_initialize_account_def process_initialize_account2_def
        process_initialize_account3_def process_initialize_multisig_def
        process_initialize_multisig2_def
       intro: initialize_mint_refines initialize_account_refines initialize_multisig_refines
        process_transfer_refines process_approve_refines process_revoke_refines
        process_set_authority_refines process_mint_to_refines process_burn_refines
        process_close_account_refines process_toggle_freeze_account_refines
        process_sync_native_refines)
qed

end
