(* ===== verification/Token_Safety.thy ===== *)
theory Token_Safety
  imports Token_Spec
begin

text \<open>
  What every step of the specification keeps, over a set \<open>P\<close> of keys whose accounts the token
  program owns: the balances of a mint add up to its supply, an uninitialised mint has supply
  zero, wrapped tokens are exactly those of the native mint and are covered by the balance of
  their account. Then who can lower a balance, and what a frozen account and a mint without
  authority are safe from.
\<close>

section \<open>Invariants\<close>

definition holding :: "tstate \<Rightarrow> pubkey \<Rightarrow> pubkey \<Rightarrow> nat" where
  "holding S m k = (case accts S k of
      Some a \<Rightarrow> if account_is_initialized a \<and> acct_mint a = m then unat (amount a) else 0
    | None \<Rightarrow> 0)"

definition issued :: "tstate \<Rightarrow> pubkey \<Rightarrow> nat" where
  "issued S m = (case mints S m of
      Some mi \<Rightarrow> if mint_is_initialized mi then unat (mint_supply mi) else 0
    | None \<Rightarrow> 0)"

definition supply_ok :: "pubkey set \<Rightarrow> tstate \<Rightarrow> bool" where
  "supply_ok P S \<longleftrightarrow>
     (\<forall>m. m \<noteq> native_mint_id \<longrightarrow> (\<Sum>k\<in>P. holding S m k) = (if m \<in> P then issued S m else 0))"

definition fresh_ok :: "pubkey set \<Rightarrow> tstate \<Rightarrow> bool" where
  "fresh_ok P S \<longleftrightarrow>
     (\<forall>k\<in>P. \<forall>mi. mints S k = Some mi \<longrightarrow> \<not> mint_is_initialized mi \<longrightarrow> mint_supply mi = 0)"

definition native_ok :: "pubkey set \<Rightarrow> tstate \<Rightarrow> bool" where
  "native_ok P S \<longleftrightarrow> (\<forall>k\<in>P. \<forall>a. live S k a \<longrightarrow>
     (is_native a \<longleftrightarrow> acct_mint a = native_mint_id) \<and>
     (is_native a \<longrightarrow> amount a \<le> bal S k \<and> \<not> is_frozen a))"

definition token_inv :: "pubkey set \<Rightarrow> tstate \<Rightarrow> bool" where
  "token_inv P S \<longleftrightarrow> supply_ok P S \<and> fresh_ok P S \<and> native_ok P S"

text \<open>What the runtime guarantees of a step of the program that owns \<open>P\<close>.\<close>

definition confined :: "pubkey set \<Rightarrow> tstate \<Rightarrow> tstate \<Rightarrow> bool" where
  "confined P S S' \<longleftrightarrow>
     (\<forall>k. k \<notin> P \<longrightarrow> accts S' k = accts S k \<and> mints S' k = mints S k \<and> bal S k \<le> bal S' k)"

section \<open>Arithmetic of one step\<close>

lemma unat_credit: "fits x y \<Longrightarrow> unat (x + y) = unat x + unat y"
  by (simp add: fits_def unat_word_ariths)

lemma unat_debit: "y \<le> x \<Longrightarrow> unat (x - y) = unat x - unat y" for x y :: u64
  by (rule unat_sub)

lemma debit_fields [simp]:
  "account_is_initialized (debit t amt a) = account_is_initialized a"
  "acct_mint (debit t amt a) = acct_mint a" "amount (debit t amt a) = amount a - amt"
  "is_native (debit t amt a) = is_native a" "is_frozen (debit t amt a) = is_frozen a"
  "acct_is_native (debit t amt a) = acct_is_native a" "acct_owner (debit t amt a) = acct_owner a"
  by (simp_all add: debit_def account_is_initialized_def is_native_def is_frozen_def)

lemma credit_fields [simp]:
  "account_is_initialized (credit amt a) = account_is_initialized a"
  "acct_mint (credit amt a) = acct_mint a" "amount (credit amt a) = amount a + amt"
  "is_native (credit amt a) = is_native a" "is_frozen (credit amt a) = is_frozen a"
  "acct_is_native (credit amt a) = acct_is_native a" "acct_owner (credit amt a) = acct_owner a"
  by (simp_all add: credit_def account_is_initialized_def is_native_def is_frozen_def)

lemma may_spend_le: "may_spend t amt a \<Longrightarrow> amt \<le> amount a"
  by (simp add: may_spend_def)

lemma sum_upd:
  fixes f :: "pubkey \<Rightarrow> nat"
  assumes "k \<in> P"
  shows "sum (f(k := x)) P + f k = sum f P + x"
proof -
  have "sum (f(k := x)) (P - {k}) = sum f (P - {k})"
    by (intro sum.cong) auto
  with assms show ?thesis by (simp add: sum.remove [of P k])
qed

lemma supply_ok_cong:
  assumes "supply_ok P S"
    and "\<And>m k. m \<noteq> native_mint_id \<Longrightarrow> k \<in> P \<Longrightarrow> holding S' m k = holding S m k"
    and "\<And>m. m \<noteq> native_mint_id \<Longrightarrow> m \<in> P \<Longrightarrow> issued S' m = issued S m"
  shows "supply_ok P S'"
  using assms by (simp add: supply_ok_def cong: sum.cong)

lemma holding_live:
  "live S k a \<Longrightarrow> holding S m k = (if acct_mint a = m then unat (amount a) else 0)"
  by (auto simp: live_def holding_def)

text \<open>Writing a live account: only the holding of its mint at its key can change.\<close>

lemma holding_write:
  assumes "live S k a" "accts S' = (accts S)(k \<mapsto> a')" "account_is_initialized a'"
    "acct_mint a' = acct_mint a"
  shows "holding S' m = (if m = acct_mint a then (holding S m)(k := unat (amount a'))
    else holding S m)"
  using assms by (auto simp: holding_def live_def fun_eq_iff)

lemma issued_write:
  assumes "live_mint S mk mi" "mints S' = (mints S)(mk \<mapsto> mi')" "mint_is_initialized mi'"
  shows "issued S' = (issued S)(mk := unat (mint_supply mi'))"
  using assms by (auto simp: issued_def live_mint_def fun_eq_iff)

lemma issued_live: "live_mint S mk mi \<Longrightarrow> issued S mk = unat (mint_supply mi)"
  by (simp add: live_mint_def issued_def)

lemma issued_cong: "mints S' = mints S \<Longrightarrow> issued S' = issued S"
  by (simp add: issued_def fun_eq_iff)

lemma holding_cong: "accts S' = accts S \<Longrightarrow> holding S' = holding S"
  by (simp add: holding_def fun_eq_iff)

text \<open>A holding at a key outside \<open>P\<close> cannot have changed.\<close>

lemma confined_amount:
  assumes "confined P S S'" "accts S k = Some a" "accts S' k = Some a'" "amount a' \<noteq> amount a"
  shows "k \<in> P"
  using assms by (auto simp: confined_def)

lemma word_diff_eq_self: "x - y = x \<longleftrightarrow> y = 0" for x y :: "'a::len word"
  by simp

subsection \<open>Moving, minting and burning\<close>

lemma supply_transfer:
  assumes inv: "supply_ok P S" and c: "confined P S S'"
    and a: "live S k a" and b: "live S k' b" and ne: "k \<noteq> k'" and mint: "acct_mint a = acct_mint b"
    and spend: "may_spend t amt a" and fit: "fits (amount b) amt"
    and S': "accts S' = (accts S)(k \<mapsto> debit t amt a, k' \<mapsto> credit amt b)" "mints S' = mints S"
  shows "supply_ok P S'"
proof (cases "amt = 0")
  case True
  have "holding S' m k'' = holding S m k''" for m k''
    using a b True S' ne mint by (auto simp: holding_def live_def)
  then show ?thesis using supply_ok_cong [OF inv] issued_cong [OF S'(2)] by simp
next
  case False
  have in_P: "k \<in> P" "k' \<in> P"
    using confined_amount [OF c, of k a "debit t amt a"] confined_amount [OF c, of k' b "credit amt b"]
      a b S' ne False by (auto simp: live_def)
  have "sum (holding S' m) P = sum (holding S m) P" for m
  proof (cases "m = acct_mint a")
    case True
    have h: "holding S' m = (holding S m)(k := unat (amount a - amt), k' := unat (amount b + amt))"
      using a b S' mint True ne by (auto simp: holding_def live_def fun_eq_iff)
    let ?g = "(holding S m)(k := unat (amount a - amt))"
    have "sum (holding S' m) P + ?g k' = sum ?g P + unat (amount b + amt)"
      unfolding h by (rule sum_upd [OF in_P(2)])
    moreover have "sum ?g P + holding S m k = sum (holding S m) P + unat (amount a - amt)"
      by (rule sum_upd [OF in_P(1)])
    moreover have "holding S m k = unat (amount a)" "?g k' = unat (amount b)"
      using ne holding_live [OF a, of m] holding_live [OF b, of m] True mint by simp_all
    moreover have "unat (amount a - amt) + unat amt = unat (amount a)"
      using may_spend_le [OF spend] by (simp add: unat_debit word_le_nat_alt)
    ultimately show ?thesis using unat_credit [OF fit] by linarith
  next
    case False
    then have "holding S' m = holding S m"
      using a b S' mint by (auto simp: holding_def live_def fun_eq_iff)
    then show ?thesis by simp
  qed
  with inv issued_cong [OF S'(2)] show ?thesis by (simp add: supply_ok_def)
qed

text \<open>One account and its mint, by the same amount up or down.\<close>

lemma supply_issue:
  assumes inv: "supply_ok P S" and c: "confined P S S'"
    and a: "live S k a" and m: "live_mint S (acct_mint a) mi"
    and S': "accts S' = (accts S)(k \<mapsto> a')" "mints S' = (mints S)(acct_mint a \<mapsto> mi')"
    and keep: "account_is_initialized a'" "acct_mint a' = acct_mint a" "mint_is_initialized mi'"
    and diff: "unat (amount a') + unat (mint_supply mi) = unat (amount a) + unat (mint_supply mi')"
    and both: "amount a' = amount a \<longleftrightarrow> mint_supply mi' = mint_supply mi"
  shows "supply_ok P S'"
proof (cases "amount a' = amount a")
  case True
  have "holding S' x k' = holding S x k'" "issued S' x = issued S x" for x k'
    using holding_write [OF a S'(1) keep(1,2)] issued_write [OF m S'(2) keep(3)]
      holding_live [OF a] issued_live [OF m] True both by auto
  then show ?thesis using supply_ok_cong [OF inv] by simp
next
  case False
  with both have "mint_supply mi' \<noteq> mint_supply mi" by simp
  with c m S'(2) have m_in: "acct_mint a \<in> P" by (auto simp: confined_def live_mint_def)
  have k_in: "k \<in> P"
    using confined_amount [OF c, of k a a'] a S'(1) False by (auto simp: live_def)
  have "sum (holding S' x) P = issued S' x" if x: "x \<noteq> native_mint_id" "x \<in> P" for x
  proof (cases "x = acct_mint a")
    case True
    have "sum (holding S' x) P + holding S x k = sum (holding S x) P + unat (amount a')"
      using sum_upd [OF k_in] holding_write [OF a S'(1) keep(1,2)] True by simp
    moreover have "sum (holding S x) P = issued S x" using inv x by (simp add: supply_ok_def)
    ultimately show ?thesis
      using diff True holding_live [OF a, of x] issued_live [OF m] issued_write [OF m S'(2) keep(3)]
      by simp
  next
    case False
    then show ?thesis
      using inv x holding_write [OF a S'(1) keep(1,2)] issued_write [OF m S'(2) keep(3)]
      by (simp add: supply_ok_def)
  qed
  moreover have "sum (holding S' x) P = 0" if "x \<noteq> native_mint_id" "x \<notin> P" for x
    using inv that m_in holding_write [OF a S'(1) keep(1,2)] by (auto simp: supply_ok_def)
  ultimately show ?thesis by (simp add: supply_ok_def)
qed

section \<open>Steps keep the invariants\<close>

lemmas account_flags = account_is_initialized_def is_native_def is_frozen_def

lemma native_okD:
  assumes "native_ok P S" "k \<in> P" "live S k a"
  shows "is_native a \<longleftrightarrow> acct_mint a = native_mint_id"
    and "is_native a \<Longrightarrow> amount a \<le> bal S k" and "is_native a \<Longrightarrow> \<not> is_frozen a"
  using assms by (auto simp: native_ok_def)

lemma supply_step:
  assumes step: "token_step A S S'" and inv: "token_inv P S" and c: "confined P S S'"
  shows "supply_ok P S'"
proof -
  from inv have sup: "supply_ok P S" and fresh: "fresh_ok P S" and nat: "native_ok P S"
    by (auto simp: token_inv_def)
  note cong = supply_ok_cong [OF sup]
  from step show ?thesis
  proof cases
    case (init_mint k m ma d fa)
    with fresh show ?thesis by (intro cong) (auto simp: holding_def issued_def fresh_ok_def)
  next
    case (init_account k a mk m own)
    then show ?thesis
      by (intro cong) (auto simp: holding_def issued_def account_is_initialized_def)
  next
    case (init_native k a reserve own)
    then show ?thesis
      by (intro cong) (auto simp: holding_def issued_def account_is_initialized_def)
  next
    case (init_multisig k ms ks m)
    then show ?thesis by (intro cong) (auto simp: holding_def issued_def)
  next
    case (self_transfer k a t amt)
    with sup show ?thesis by simp
  next
    case (transfer k a k' b t amt)
    then show ?thesis by (intro supply_transfer [OF sup c, of k a k' b t amt]) simp_all
  next
    case (transfer_native k a k' b t amt)
    then show ?thesis by (intro supply_transfer [OF sup c, of k a k' b t amt]) simp_all
  next
    case (approve k a d amt)
    then show ?thesis
      by (intro cong) (auto simp: holding_def issued_def live_def account_is_initialized_def)
  next
    case (revoke k a)
    then show ?thesis
      by (intro cong) (auto simp: holding_def issued_def live_def account_is_initialized_def)
  next
    case (set_owner k a new)
    then show ?thesis
      by (intro cong) (auto simp: holding_def issued_def live_def account_is_initialized_def)
  next
    case (set_close_authority k a new_opt)
    then show ?thesis
      by (intro cong) (auto simp: holding_def issued_def live_def account_is_initialized_def)
  next
    case (set_mint_authority k m t new_opt)
    then show ?thesis by (intro cong) (auto simp: holding_def issued_def live_mint_def)
  next
    case (set_freeze_authority k m t new_opt)
    then show ?thesis by (intro cong) (auto simp: holding_def issued_def live_mint_def)
  next
    case (mint_tokens k a m t amt)
    then show ?thesis
      by (intro supply_issue [OF sup c, of k a m "credit amt a" "m\<lparr>mint_supply := mint_supply m + amt\<rparr>"])
        (simp_all add: unat_credit live_def live_mint_def)
  next
    case (burn_tokens k a m t amt)
    have "unat amt \<le> unat (amount a)"
      using may_spend_le [OF burn_tokens(7)] by (simp add: word_le_nat_alt)
    with burn_tokens show ?thesis
      by (intro supply_issue [OF sup c, of k a m "debit t amt a" "m\<lparr>mint_supply := mint_supply m - amt\<rparr>"])
        (simp_all add: unat_debit may_spend_le live_def live_mint_def word_le_nat_alt)
  next
    case (close k a k')
    with native_okD(1) [OF nat _ close(2)] show ?thesis
      by (intro cong) (auto simp: holding_def issued_def live_def account_is_initialized_def)
  next
    case (freeze k a m t)
    then show ?thesis
      by (intro cong) (auto simp: holding_def issued_def live_def account_is_initialized_def)
  next
    case (thaw k a m t)
    then show ?thesis
      by (intro cong) (auto simp: holding_def issued_def live_def account_is_initialized_def)
  next
    case (sync_native k a reserve)
    with native_okD(1) [OF nat _ sync_native(2)] show ?thesis
      by (intro cong)
        (auto simp: holding_def issued_def live_def account_is_initialized_def is_native_def)
  qed
qed

lemma fresh_step:
  assumes "token_step A S S'" "fresh_ok P S"
  shows "fresh_ok P S'"
  using assms by cases (auto simp: fresh_ok_def live_mint_def)

text \<open>Moving wrapped tokens moves their cover with them.\<close>

lemma word_add_mono: "fits b d \<Longrightarrow> a \<le> b \<Longrightarrow> a + d \<le> b + d"
  by (simp add: fits_def word_le_nat_alt unat_word_ariths)

lemma word_diff_mono: "d \<le> a \<Longrightarrow> a \<le> b \<Longrightarrow> a - d \<le> b - d" for a b d :: u64
  by (simp add: word_le_nat_alt unat_sub)

lemma fits_le: "fits x y \<Longrightarrow> x \<le> x + y"
  by (simp add: fits_def word_le_nat_alt unat_word_ariths)

lemma native_step:
  assumes step: "token_step A S S'" and nat: "native_ok P S" and c: "confined P S S'"
  shows "native_ok P S'"
  using step
proof cases
  case (init_account k a mk m own)
  with nat show ?thesis by (auto simp: native_ok_def live_def account_flags)
next
  case (init_native k a reserve own)
  with nat show ?thesis
    by (auto simp: native_ok_def live_def account_flags word_le_nat_alt unat_sub)
next
  case (transfer k a k' b t amt)
  have "\<not> is_native b" if "k' \<in> P" "amt \<noteq> 0"
  proof -
    have "k \<in> P" using confined_amount [OF c, of k a "debit t amt a"] transfer that
      by (auto simp: live_def)
    with native_okD(1) [OF nat _ transfer(2)] native_okD(1) [OF nat that(1) transfer(3)] transfer
    show ?thesis by simp
  qed
  with transfer nat show ?thesis
    by (cases "amt = 0") (auto simp: native_ok_def live_def)
next
  case (transfer_native k a k' b t amt)
  then show ?thesis
    using nat word_diff_mono [OF may_spend_le, of t amt a "bal S k"]
      word_add_mono [of "bal S k'" amt "amount b"]
    by (auto simp: native_ok_def live_def)
next
  case (mint_tokens k a m t amt)
  with nat show ?thesis by (auto simp: native_ok_def live_def)
next
  case (burn_tokens k a m t amt)
  with nat show ?thesis by (auto simp: native_ok_def live_def)
next
  case (close k a k')
  with nat fits_le [of "bal S k'" "bal S k"] show ?thesis
    by (auto simp: native_ok_def live_def account_flags) (blast intro: order_trans)+
next
  case (sync_native k a reserve)
  with nat show ?thesis
    by (auto simp: native_ok_def live_def account_flags word_le_nat_alt unat_sub)
qed (use nat in \<open>auto simp: native_ok_def live_def account_flags\<close>)

lemma token_inv_step:
  assumes "token_step A S S'" "token_inv P S" "confined P S S'"
  shows "token_inv P S'"
  using assms supply_step [OF assms] fresh_step [OF assms(1)] native_step [OF assms(1) _ assms(3)]
  by (auto simp: token_inv_def)

section \<open>What a step can do to one account or mint\<close>

text \<open>
  A live account stays live, with the mint it had; its balance falls only for its owner, for its
  delegate within the allowance, or for whoever may close it.
\<close>

definition may_lower :: "(pubkey \<Rightarrow> bool) \<Rightarrow> Account \<Rightarrow> Account \<Rightarrow> bool" where
  "may_lower A a a' \<longleftrightarrow> A (acct_owner a) \<or> A (close_key a) \<or>
     (\<exists>d. delegate a = Some d \<and> A d \<and>
        unat (amount a) - unat (amount a') \<le> unat (delegated_amount a))"

lemma may_spend_lower:
  "may_spend t amt a \<Longrightarrow> A t \<Longrightarrow> amount a' = amount a - amt \<Longrightarrow> may_lower A a a'"
  by (auto simp: may_spend_def may_lower_def unat_sub word_le_nat_alt split: if_splits)

lemma account_step:
  assumes "token_step A S S'" "live S k a"
  shows "\<exists>a'. live S' k a' \<and> acct_mint a' = acct_mint a \<and> is_native a' = is_native a \<and>
    (amount a \<le> amount a' \<or> may_lower A a a')"
  using assms(1)
proof cases
  case (transfer k1 a1 k2 b t amt)
  then show ?thesis
    using assms(2) may_spend_lower [of t amt a A] fits_le [of "amount a" amt]
    by (cases "k = k1"; cases "k = k2") (auto simp: live_def)
next
  case (transfer_native k1 a1 k2 b t amt)
  then show ?thesis
    using assms(2) may_spend_lower [of t amt a A] fits_le [of "amount a" amt]
    by (cases "k = k1"; cases "k = k2") (auto simp: live_def)
next
  case (mint_tokens k1 a1 m t amt)
  then show ?thesis
    using assms(2) fits_le [of "amount a" amt] by (cases "k = k1") (auto simp: live_def)
next
  case (burn_tokens k1 a1 m t amt)
  then show ?thesis
    using assms(2) may_spend_lower [of t amt a A] by (cases "k = k1") (auto simp: live_def)
qed (use assms(2) in \<open>auto simp: live_def account_flags may_lower_def\<close>)

text \<open>A frozen account can only be thawed.\<close>

lemma frozen_step:
  assumes "token_step A S S'" "live S k a" "is_frozen a" "\<not> is_native a"
  shows "live S' k a \<or> (\<exists>m t. live_mint S (acct_mint a) m \<and> freeze_authority m = Some t \<and> A t \<and>
    live S' k (a\<lparr>acct_state := Initialized\<rparr>))"
  using assms(1)
proof cases
  case (thaw k1 a1 m t)
  then show ?thesis
    using assms(2) by (cases "k = k1") (auto simp: live_def account_flags)
next
  case (close k1 a1 k2)
  then have "k = k1 \<Longrightarrow> a\<lparr>amount := 0\<rparr> = a"
    using assms(2,4) by (cases a) (auto simp: live_def)
  with close show ?thesis
    using assms(2,4) by (cases "k = k1") (auto simp: live_def account_flags)
qed (use assms(2-) in \<open>auto simp: live_def account_flags\<close>)

text \<open>A mint keeps its decimals; without a mint authority its supply never grows again.\<close>

lemma mint_step:
  assumes "token_step A S S'" "live_mint S k m"
  shows "\<exists>m'. live_mint S' k m' \<and> decimals m' = decimals m \<and>
    (mint_authority m = None \<longrightarrow> mint_authority m' = None \<and> mint_supply m' \<le> mint_supply m) \<and>
    (freeze_authority m = None \<longrightarrow> freeze_authority m' = None) \<and>
    (mint_supply m < mint_supply m' \<longrightarrow> (\<exists>t. mint_authority m = Some t \<and> A t))"
  using assms(1)
proof cases
  case (burn_tokens k1 a1 m1 t amt)
  then show ?thesis
    using assms(2)
    by (cases "k = acct_mint a1") (auto simp: live_mint_def word_le_nat_alt word_less_nat_alt unat_sub)
next
  case (mint_tokens k1 a1 m1 t amt)
  then show ?thesis
    using assms(2) by (cases "k = acct_mint a1") (auto simp: live_mint_def)
qed (use assms(2) in \<open>auto simp: live_mint_def\<close>)

end
