(* ===== verification/Message.thy ===== *)
theory Message
  imports Sdk
begin

text \<open>
  The transaction message of the runtime (\<open>sdk/program/src/message/legacy.rs\<close>): how a client
  compiles instructions into one message, which accounts the header makes signers and writable,
  the checks of \<open>sanitize\<close>, and the byte format in which the instructions sysvar shows a message
  to programs. Arithmetic is that of a release build: \<open>+\<close> and \<open>-\<close> on machine integers wrap.
\<close>

section \<open>Well-known keys\<close>

text \<open>The base58 strings of the sources, decoded.\<close>

definition system_program_id :: pubkey where
  "system_program_id = 0"

definition bpf_loader_id :: pubkey where
  "bpf_loader_id = 0xc6f321524347dd186837935669fa8f9428e15a396ea1884e91f6a802"

definition bpf_loader_deprecated_id :: pubkey where
  "bpf_loader_deprecated_id = 0x8c42495714b01b82b756f4b4d904645f859523bd6ba1884e91f6a802"

definition bpf_loader_upgradeable_id :: pubkey where
  "bpf_loader_upgradeable_id = 0x8004107a53c0d224c1163db9c2002bae63f73e1510e2b0a1884e91f6a802"

definition instructions_id :: pubkey where
  "instructions_id = 0x85fcbbadba57556218fc624c1c0c2fd5504d4da3566d17b1817d5a706"

definition BUILTIN_PROGRAMS_KEYS :: "pubkey list" where
  "BUILTIN_PROGRAMS_KEYS =
    [0xa0ef23a3194010f627dac5f82a050c0f31436ec8dc742f00a34a0603,
     0x70766a94211b48237b73ec61cf7aee6fd182aeefdad206cbcda0c003,
     0x8003979a5c45c065f7ad7da053f1a988485712b02f28a48b14bf848705,
     0xc09da4682b72788a5c537f55b27a2afebd3734982a54379117d8a106,
     0xd1b44e0a79c61ff650715b1e8eb86dcee69107680b0502a517d8a106,
     0x8053a30dfc4310d1735e35d8b3bdd3eb24764d7cbb7474351d486107,
     system_program_id, bpf_loader_id, bpf_loader_deprecated_id, bpf_loader_upgradeable_id]"

text \<open>
  The sysvars: clock, epoch schedule, fees, recent blockhashes, rent, rewards, slot hashes, slot
  history, stake history, instructions.
\<close>

definition ALL_IDS :: "pubkey list" where
  "ALL_IDS =
    [0x215b55735c6d4b9ba3b85e8bb65e1d6998635628c974c71817d5a706,
     0x5a81987503f1e59602e94f754b0f800017fe4d302ee3fdc1817d5a706,
     0x909c6a52edc46fdf0072fd2671f07a1a253c50838d5ae21817d5a706,
     0x40a92e06d844b31ab245315c03cf8897d2735f848ae08e562c1917d5a706,
     rent_id,
     0x808d579161a1b882fa0319d6cce13e92b6d992e0ce37612c1917d5a706,
     0x2055002d6e133bbed029c582da7acc77fbe365f2c6af0a2f1917d5a706,
     0x488d952f7892ebe34946c8cf69507c5784e1e275c8af0a2f1917d5a706,
     0xf45f37c56c56b8571b2844e56b20131d43b39bedfed084351917d5a706,
     instructions_id]"

definition is_sysvar_id :: "pubkey \<Rightarrow> bool" where
  "is_sysvar_id k = list_ex (\<lambda>k'. k' = k) ALL_IDS"

section \<open>Messages\<close>

record CompiledInstruction =
  program_id_index :: u8
  ci_accounts :: "u8 list"
  ci_data :: bytes

record MessageHeader =
  num_required_signatures :: u8
  num_readonly_signed_accounts :: u8
  num_readonly_unsigned_accounts :: u8

record Message =
  header :: MessageHeader
  account_keys :: "pubkey list"
  recent_blockhash :: "256 word"
  instructions :: "CompiledInstruction list"

datatype SanitizeError = IndexOutOfBounds | ValueOutOfBounds | InvalidValue

subsection \<open>Compiling instructions\<close>

definition get_program_ids :: "Instruction list \<Rightarrow> pubkey list" where
  "get_program_ids ixs = unique (map program_id ixs)"

text \<open>Signers before the others and, among each, writable accounts first; the sort is stable.\<close>

definition meta_rank :: "AccountMeta \<Rightarrow> nat" where
  "meta_rank m = (if meta_is_signer m then 0 else 2) + (if meta_is_writable m then 0 else 1)"

text \<open>
  The loop over the sorted metas: a key seen before is promoted to writable when the later meta
  asks for it, a new key is appended.
\<close>

fun merge_meta :: "AccountMeta list \<Rightarrow> AccountMeta \<Rightarrow> AccountMeta list" where
  "merge_meta [] m = [m]"
| "merge_meta (x # xs) m =
     (if meta_pubkey x = meta_pubkey m
      then x\<lparr>meta_is_writable := meta_is_writable x \<or> meta_is_writable m\<rparr> # xs
      else x # merge_meta xs m)"

record InstructionKeys =
  signed_keys :: "pubkey list"
  unsigned_keys :: "pubkey list"
  keys_readonly_signed :: u8
  keys_readonly_unsigned :: u8

definition all_metas :: "Instruction list \<Rightarrow> AccountMeta list" where
  "all_metas ixs = concat (map accounts ixs) @
     map (\<lambda>k. account_meta_new_readonly k False) (get_program_ids ixs)"

definition unique_metas :: "Instruction list \<Rightarrow> pubkey option \<Rightarrow> AccountMeta list" where
  "unique_metas ixs payer =
     (let sorted = sort_key meta_rank (all_metas ixs);
          keys_and_signed = (case payer of
              Some p \<Rightarrow> account_meta_new p True # sorted
            | None \<Rightarrow> sorted)
      in foldl merge_meta [] keys_and_signed)"

definition get_keys :: "Instruction list \<Rightarrow> pubkey option \<Rightarrow> InstructionKeys" where
  "get_keys ixs payer =
     (let metas = unique_metas ixs payer;
          signed = filter meta_is_signer metas;
          unsigned = filter (\<lambda>m. \<not> meta_is_signer m) metas
      in \<lparr>signed_keys = map meta_pubkey signed,
          unsigned_keys = map meta_pubkey unsigned,
          keys_readonly_signed = of_nat (length (filter (\<lambda>m. \<not> meta_is_writable m) signed)),
          keys_readonly_unsigned =
            of_nat (length (filter (\<lambda>m. \<not> meta_is_writable m) unsigned))\<rparr>)"

fun position :: "pubkey list \<Rightarrow> pubkey \<Rightarrow> ('e, nat) result" where
  "position [] k = Panic"
| "position (x # xs) k = (if x = k then Ok 0 else bind (position xs k) (\<lambda>i. Ok (Suc i)))"

fun positions :: "pubkey list \<Rightarrow> pubkey list \<Rightarrow> ('e, u8 list) result" where
  "positions ks [] = Ok []"
| "positions ks (q # qs) =
     bind (position ks q) (\<lambda>i. bind (positions ks qs) (\<lambda>is. Ok (of_nat i # is)))"

definition compile_instruction ::
  "Instruction \<Rightarrow> pubkey list \<Rightarrow> ('e, CompiledInstruction) result" where
  "compile_instruction ix ks =
     bind (positions ks (map meta_pubkey (accounts ix))) (\<lambda>accs.
     bind (position ks (program_id ix)) (\<lambda>p.
     Ok \<lparr>program_id_index = of_nat p, ci_accounts = accs, ci_data = instr_data ix\<rparr>))"

fun compile_instructions ::
  "Instruction list \<Rightarrow> pubkey list \<Rightarrow> ('e, CompiledInstruction list) result" where
  "compile_instructions [] ks = Ok []"
| "compile_instructions (ix # ixs) ks =
     bind (compile_instruction ix ks) (\<lambda>c.
     bind (compile_instructions ixs ks) (\<lambda>cs. Ok (c # cs)))"

definition message_new_with_blockhash ::
  "Instruction list \<Rightarrow> pubkey option \<Rightarrow> 256 word \<Rightarrow> ('e, Message) result" where
  "message_new_with_blockhash ixs payer blockhash =
     (let ks = get_keys ixs payer;
          keys = signed_keys ks @ unsigned_keys ks
      in bind (compile_instructions ixs keys) (\<lambda>cs.
         Ok \<lparr>header = \<lparr>num_required_signatures = of_nat (length (signed_keys ks)),
                        num_readonly_signed_accounts = keys_readonly_signed ks,
                        num_readonly_unsigned_accounts = keys_readonly_unsigned ks\<rparr>,
             account_keys = keys, recent_blockhash = blockhash, instructions = cs\<rparr>))"

definition message_new :: "Instruction list \<Rightarrow> pubkey option \<Rightarrow> ('e, Message) result" where
  "message_new ixs payer = message_new_with_blockhash ixs payer 0"

subsection \<open>Queries\<close>

definition is_key_passed_to_program :: "Message \<Rightarrow> nat \<Rightarrow> bool" where
  "is_key_passed_to_program m i =
     (i < 256 \<and> list_ex (\<lambda>ix. of_nat i \<in> set (ci_accounts ix)) (instructions m))"

definition is_key_called_as_program :: "Message \<Rightarrow> nat \<Rightarrow> bool" where
  "is_key_called_as_program m i =
     (i < 256 \<and> list_ex (\<lambda>ix. program_id_index ix = of_nat i) (instructions m))"

definition is_non_loader_key :: "Message \<Rightarrow> nat \<Rightarrow> bool" where
  "is_non_loader_key m i = (\<not> is_key_called_as_program m i \<or> is_key_passed_to_program m i)"

definition is_upgradeable_loader_present :: "Message \<Rightarrow> bool" where
  "is_upgradeable_loader_present m =
     list_ex (\<lambda>k. k = bpf_loader_upgradeable_id) (account_keys m)"

definition msg_is_signer :: "Message \<Rightarrow> nat \<Rightarrow> bool" where
  "msg_is_signer m i = (i < unat (num_required_signatures (header m)))"

definition msg_is_writable :: "Message \<Rightarrow> nat \<Rightarrow> bool \<Rightarrow> ('e, bool) result" where
  "msg_is_writable m i demote_program_write_locks =
     (let h = header m;
          demote_program_id = demote_program_write_locks \<and> is_key_called_as_program m i \<and>
            \<not> is_upgradeable_loader_present m
      in if i < unat (num_required_signatures h - num_readonly_signed_accounts h) \<or>
            unat (num_required_signatures h) \<le> i \<and>
            i < unat (of_nat (length (account_keys m)) -
                  ucast (num_readonly_unsigned_accounts h) :: u64)
         then bind (at_index (account_keys m) i) (\<lambda>k.
              Ok (\<not> (is_sysvar_id k \<or> k \<in> set BUILTIN_PROGRAMS_KEYS) \<and> \<not> demote_program_id))
         else Ok False)"

definition compiled_program_id :: "CompiledInstruction \<Rightarrow> pubkey list \<Rightarrow> ('e, pubkey) result" where
  "compiled_program_id ci ks = at_index ks (unat (program_id_index ci))"

definition signer_keys :: "Message \<Rightarrow> pubkey list" where
  "signer_keys m =
     take (min (length (account_keys m)) (unat (num_required_signatures (header m))))
       (account_keys m)"

fun has_duplicates_from :: "pubkey list \<Rightarrow> bool" where
  "has_duplicates_from [] = False"
| "has_duplicates_from (k # ks) = (k \<in> set ks \<or> has_duplicates_from ks)"

definition has_duplicates :: "Message \<Rightarrow> bool" where
  "has_duplicates m = has_duplicates_from (account_keys m)"

definition sanitize :: "Message \<Rightarrow> (SanitizeError, unit) result" where
  "sanitize m =
     (let h = header m; n = length (account_keys m) in
      if n < unat (num_required_signatures h) + unat (num_readonly_unsigned_accounts h)
      then Err IndexOutOfBounds else
      if num_required_signatures h \<le> num_readonly_signed_accounts h
      then Err IndexOutOfBounds else
      if list_ex (\<lambda>ci. n \<le> unat (program_id_index ci) \<or> program_id_index ci = 0 \<or>
           list_ex (\<lambda>ai. n \<le> unat ai) (ci_accounts ci)) (instructions m)
      then Err IndexOutOfBounds else Ok ())"

subsection \<open>The instructions sysvar\<close>

definition u16_to_le_bytes :: "u16 \<Rightarrow> bytes" where
  "u16_to_le_bytes w = le_bytes 2 w"

definition append_u16 :: "bytes \<Rightarrow> u16 \<Rightarrow> bytes" where
  "append_u16 buf w = buf @ u16_to_le_bytes w"

definition append_u8 :: "bytes \<Rightarrow> u8 \<Rightarrow> bytes" where
  "append_u8 buf b = buf @ [b]"

definition append_slice :: "bytes \<Rightarrow> bytes \<Rightarrow> bytes" where
  "append_slice buf bs = buf @ bs"

definition read_u8 :: "nat \<Rightarrow> bytes \<Rightarrow> (SanitizeError, u8 \<times> nat) result" where
  "read_u8 cur d =
     (if length d < cur + 1 then Err IndexOutOfBounds else Ok (d ! cur, cur + 1))"

definition read_u16 :: "nat \<Rightarrow> bytes \<Rightarrow> (SanitizeError, u16 \<times> nat) result" where
  "read_u16 cur d =
     (if length d < cur + 2 then Err IndexOutOfBounds
      else Ok (from_le (segment cur 2 d), cur + 2))"

definition read_pubkey :: "nat \<Rightarrow> bytes \<Rightarrow> (SanitizeError, pubkey \<times> nat) result" where
  "read_pubkey cur d =
     (if length d < cur + 32 then Err IndexOutOfBounds
      else bind (pubkey_new (segment cur 32 d)) (\<lambda>k. Ok (k, cur + 32)))"

definition read_slice :: "nat \<Rightarrow> bytes \<Rightarrow> nat \<Rightarrow> (SanitizeError, bytes \<times> nat) result" where
  "read_slice cur d n =
     (if length d < cur + n then Err IndexOutOfBounds else Ok (segment cur n d, cur + n))"

definition IS_SIGNER_BIT :: nat where "IS_SIGNER_BIT = 0"
definition IS_WRITABLE_BIT :: nat where "IS_WRITABLE_BIT = 1"

definition meta_byte :: "bool \<Rightarrow> bool \<Rightarrow> u8" where
  "meta_byte signer writable =
     (let b = 0;
          b = (if signer then b OR push_bit IS_SIGNER_BIT 1 else b)
      in if writable then b OR push_bit IS_WRITABLE_BIT 1 else b)"

fun serialize_metas :: "Message \<Rightarrow> u8 list \<Rightarrow> bytes \<Rightarrow> ('e, bytes) result" where
  "serialize_metas m [] d = Ok d"
| "serialize_metas m (a # as) d =
     (let i = unat a in
      bind (msg_is_writable m i True) (\<lambda>w.
      bind (at_index (account_keys m) i) (\<lambda>k.
      serialize_metas m as
        (append_slice (append_u8 d (meta_byte (msg_is_signer m i) w)) (pubkey_to_bytes k)))))"

fun serialize_from :: "Message \<Rightarrow> nat \<Rightarrow> CompiledInstruction list \<Rightarrow> bytes \<Rightarrow> ('e, bytes) result" where
  "serialize_from m i [] d = Ok d"
| "serialize_from m i (ci # cis) d =
     bind (copy_at d (2 + 2 * i) (u16_to_le_bytes (of_nat (length d)))) (\<lambda>d.
     bind (serialize_metas m (ci_accounts ci) (append_u16 d (of_nat (length (ci_accounts ci))))) (\<lambda>d.
     bind (compiled_program_id ci (account_keys m)) (\<lambda>p.
     serialize_from m (Suc i) cis
       (append_slice (append_u16 (append_slice d (pubkey_to_bytes p))
          (of_nat (length (ci_data ci)))) (ci_data ci)))))"

definition serialize_instructions :: "Message \<Rightarrow> ('e, bytes) result" where
  "serialize_instructions m =
     (let n = length (instructions m);
          d = append_u16 [] (of_nat n);
          d = foldl (\<lambda>d _. append_u16 d 0) d [0..<n]
      in serialize_from m 0 (instructions m) d)"

fun read_metas :: "nat \<Rightarrow> nat \<Rightarrow> bytes \<Rightarrow> (SanitizeError, AccountMeta list \<times> nat) result" where
  "read_metas 0 cur d = Ok ([], cur)"
| "read_metas (Suc n) cur d =
     bind (read_u8 cur d) (\<lambda>(b, cur).
     bind (read_pubkey cur d) (\<lambda>(k, cur).
     bind (read_metas n cur d) (\<lambda>(ms, cur).
     Ok (\<lparr>meta_pubkey = k, meta_is_signer = (b AND push_bit IS_SIGNER_BIT 1 \<noteq> 0),
          meta_is_writable = (b AND push_bit IS_WRITABLE_BIT 1 \<noteq> 0)\<rparr> # ms, cur))))"

definition deserialize_instruction :: "nat \<Rightarrow> bytes \<Rightarrow> (SanitizeError, Instruction) result" where
  "deserialize_instruction i d =
     bind (read_u16 0 d) (\<lambda>(n, cur).
     if unat n \<le> i then Err IndexOutOfBounds else
     bind (read_u16 (cur + i * 2) d) (\<lambda>(start, _).
     bind (read_u16 (unat start) d) (\<lambda>(num_accounts, cur).
     bind (read_metas (unat num_accounts) cur d) (\<lambda>(accs, cur).
     bind (read_pubkey cur d) (\<lambda>(p, cur).
     bind (read_u16 cur d) (\<lambda>(data_len, cur).
     bind (read_slice cur d (unat data_len)) (\<lambda>(bs, _).
     Ok \<lparr>program_id = p, accounts = accs, instr_data = bs\<rparr>)))))))"

text \<open>The current instruction's index, in the last two bytes of the sysvar.\<close>

definition store_current_index :: "bytes \<Rightarrow> u16 \<Rightarrow> ('e, bytes) result" where
  "store_current_index d i =
     (if length d < 2 then Panic else copy_at d (length d - 2) (u16_to_le_bytes i))"

definition load_current_index :: "bytes \<Rightarrow> ('e, u16) result" where
  "load_current_index d =
     (if length d < 2 then Panic else Ok (from_le (segment (length d - 2) 2 d)))"

definition load_current_index_checked :: "ledger \<Rightarrow> AccountInfo \<Rightarrow> u16 program_result" where
  "load_current_index_checked L i =
     (if key i \<noteq> instructions_id then Err UnsupportedSysvar else load_current_index (info_data L i))"

fun sanitize_program_error :: "SanitizeError \<Rightarrow> ProgramError" where
  "sanitize_program_error IndexOutOfBounds = InvalidArgument"
| "sanitize_program_error _ = InvalidInstructionData"

definition load_instruction_at_checked ::
  "nat \<Rightarrow> ledger \<Rightarrow> AccountInfo \<Rightarrow> Instruction program_result" where
  "load_instruction_at_checked idx L i =
     (if key i \<noteq> instructions_id then Err UnsupportedSysvar
      else map_err sanitize_program_error (deserialize_instruction idx (info_data L i)))"

text \<open>\<open>i64::saturating_add\<close> of the current index and a relative one.\<close>

definition saturating_add_i64 :: "int \<Rightarrow> int \<Rightarrow> int" where
  "saturating_add_i64 x y = min (2 ^ 63 - 1) (max (- (2 ^ 63)) (x + y))"

definition get_instruction_relative ::
  "64 word \<Rightarrow> ledger \<Rightarrow> AccountInfo \<Rightarrow> Instruction program_result" where
  "get_instruction_relative rel L i =
     (if key i \<noteq> instructions_id then Err UnsupportedSysvar else
      bind (load_current_index (info_data L i)) (\<lambda>current.
      let idx = saturating_add_i64 (uint current) (sint rel) in
      if idx < 0 then Err InvalidArgument
      else map_err sanitize_program_error
             (deserialize_instruction (nat idx) (info_data L i))))"

end
