(* ===== verification/Message_Facts.thy ===== *)
theory Message_Facts
  imports Message
begin

text \<open>
  What compiling a message preserves: every instruction still names the accounts and the program
  it named, the header makes exactly the requested keys signers, and, as long as no read-only
  signer is also asked for as a writable non-signer, exactly the requested keys writable. Then the
  round trip of the instructions sysvar.
\<close>

section \<open>Lists\<close>

lemma unique_from_snoc:
  "unique_from seen (xs @ [x]) =
     unique_from seen xs @ (if x \<in> set seen \<union> set xs then [] else [x])"
  by (induction seen xs rule: unique_from.induct) auto

lemma filter_prefix_iff:
  assumes "sorted_wrt (\<lambda>x y. P y \<longrightarrow> P x) xs" "i < length xs"
  shows "P (xs ! i) \<longleftrightarrow> i < length (filter P xs)"
  using assms
proof (induction xs arbitrary: i)
  case (Cons x xs)
  show ?case
  proof (cases "P x")
    case True
    with Cons show ?thesis by (cases i) auto
  next
    case False
    with Cons.prems have none: "\<forall>y\<in>set xs. \<not> P y" by auto
    with False have "filter P (x # xs) = []" by (simp add: filter_empty_conv)
    moreover have "\<not> P ((x # xs) ! i)"
      using False none Cons.prems(2) by (cases i) auto
    ultimately show ?thesis by simp
  qed
qed simp

section \<open>The key table\<close>

text \<open>The first meta that names a key, and the merged meta the loop keeps for it.\<close>

definition first_meta :: "AccountMeta list \<Rightarrow> pubkey \<Rightarrow> AccountMeta" where
  "first_meta ms k = hd (filter (\<lambda>m. meta_pubkey m = k) ms)"

definition merged :: "AccountMeta list \<Rightarrow> pubkey \<Rightarrow> AccountMeta" where
  "merged ms k = (first_meta ms k)\<lparr>meta_is_writable :=
     (\<exists>m\<in>set ms. meta_pubkey m = k \<and> meta_is_writable m)\<rparr>"

lemma first_meta_snoc:
  "first_meta (ms @ [m]) k =
     (if k \<in> meta_pubkey ` set ms then first_meta ms k else if k = meta_pubkey m then m
      else first_meta [] k)"
  by (auto simp: first_meta_def filter_empty_conv hd_append image_iff)

lemma first_meta_in:
  "k \<in> meta_pubkey ` set ms \<Longrightarrow> first_meta ms k \<in> set ms \<and> meta_pubkey (first_meta ms k) = k"
  using hd_in_set [of "filter (\<lambda>m. meta_pubkey m = k) ms"]
  by (fastforce simp: first_meta_def filter_empty_conv)

lemma merge_meta_map:
  assumes "\<And>k. k \<in> set ks \<Longrightarrow> meta_pubkey (f k) = k" "distinct ks"
  shows "merge_meta (map f ks) m =
    (if meta_pubkey m \<in> set ks
     then map (f(meta_pubkey m := (f (meta_pubkey m))\<lparr>meta_is_writable :=
            meta_is_writable (f (meta_pubkey m)) \<or> meta_is_writable m\<rparr>)) ks
     else map f ks @ [m])"
  using assms by (induction ks) auto

lemma merge_metas:
  "foldl merge_meta [] ms = map (merged ms) (unique (map meta_pubkey ms))"
proof (induction ms rule: rev_induct)
  case (snoc m ms)
  let ?ks = "unique (map meta_pubkey ms)"
  have key: "meta_pubkey (merged ms k) = k" if "k \<in> set ?ks" for k
    using that first_meta_in [of k ms] by (simp add: merged_def)
  have old: "merged (ms @ [m]) k = (merged ms k)\<lparr>meta_is_writable :=
      meta_is_writable (merged ms k) \<or> meta_pubkey m = k \<and> meta_is_writable m\<rparr>"
    if "k \<in> set ?ks" for k
    using that by (auto simp: merged_def first_meta_snoc disj_commute)
  have same: "merged (ms @ [m]) k = merged ms k" if "k \<in> set ?ks" "meta_pubkey m \<noteq> k" for k
    using old [OF that(1)] that(2) by (cases "merged ms k") simp
  have new: "merged (ms @ [m]) (meta_pubkey m) = m" if "meta_pubkey m \<notin> set ?ks"
    using that by (cases m) (auto simp: merged_def first_meta_snoc image_iff)
  have "merge_meta (map (merged ms) ?ks) m =
      map (merged (ms @ [m])) (?ks @ (if meta_pubkey m \<in> set ?ks then [] else [meta_pubkey m]))"
  proof (cases "meta_pubkey m \<in> set ?ks")
    case True
    have "map ((merged ms)(meta_pubkey m := merged (ms @ [m]) (meta_pubkey m))) ?ks =
        map (merged (ms @ [m])) ?ks"
      using same by (intro map_cong) (auto simp: fun_upd_def)
    with key old [OF True] True show ?thesis by (subst merge_meta_map) auto
  next
    case False
    with same have "map (merged (ms @ [m])) ?ks = map (merged ms) ?ks"
      by (intro map_cong) auto
    with key new [OF False] False show ?thesis by (subst merge_meta_map) simp_all
  qed
  then show ?case by (simp add: snoc unique_from_snoc)
qed simp

lemma merged_key [simp]:
  "k \<in> meta_pubkey ` set ms \<Longrightarrow> meta_pubkey (merged ms k) = k"
  using first_meta_in [of k ms] by (simp add: merged_def)

text \<open>First occurrences in a list sorted by rank are sorted by rank.\<close>

lemma first_meta_sorted:
  assumes "sorted (map meta_rank ms)"
  shows "sorted_wrt (\<lambda>k k'. meta_rank (first_meta ms k) \<le> meta_rank (first_meta ms k'))
    (unique (map meta_pubkey ms))"
  using assms
proof (induction ms rule: rev_induct)
  case (snoc m ms)
  let ?ks = "unique (map meta_pubkey ms)"
  from snoc.prems have ms: "sorted (map meta_rank ms)"
    and le: "\<And>x. x \<in> set ms \<Longrightarrow> meta_rank x \<le> meta_rank m"
    by (auto simp: sorted_append)
  have "sorted_wrt (\<lambda>k k'. meta_rank (first_meta (ms @ [m]) k) \<le>
      meta_rank (first_meta (ms @ [m]) k')) ?ks"
    by (rule sorted_wrt_mono_rel [OF _ snoc.IH [OF ms]]) (auto simp: first_meta_snoc)
  then show ?case
    using le first_meta_in [of _ ms] by (auto simp: unique_from_snoc sorted_wrt_append first_meta_snoc)
qed simp

definition sorted_metas :: "Instruction list \<Rightarrow> pubkey option \<Rightarrow> AccountMeta list" where
  "sorted_metas ixs payer =
     (case payer of None \<Rightarrow> [] | Some p \<Rightarrow> [account_meta_new p True]) @
     sort_key meta_rank (all_metas ixs)"

lemma sorted_sorted_metas: "sorted (map meta_rank (sorted_metas ixs payer))"
  by (auto simp: sorted_metas_def account_meta_new_def meta_rank_def split: option.splits)

lemma unique_metas_eq:
  "unique_metas ixs payer =
     map (merged (sorted_metas ixs payer)) (unique (map meta_pubkey (sorted_metas ixs payer)))"
  unfolding merge_metas [symmetric]
  by (cases payer) (simp_all add: unique_metas_def Let_def sorted_metas_def)

text \<open>What a client asks for: a signature of a key, write access to a key.\<close>

definition wants_signature :: "Instruction list \<Rightarrow> pubkey option \<Rightarrow> pubkey \<Rightarrow> bool" where
  "wants_signature ixs payer k \<longleftrightarrow> payer = Some k \<or>
     (\<exists>ix\<in>set ixs. \<exists>a\<in>set (accounts ix). meta_pubkey a = k \<and> meta_is_signer a)"

definition wants_write :: "Instruction list \<Rightarrow> pubkey option \<Rightarrow> pubkey \<Rightarrow> bool" where
  "wants_write ixs payer k \<longleftrightarrow> payer = Some k \<or>
     (\<exists>ix\<in>set ixs. \<exists>a\<in>set (accounts ix). meta_pubkey a = k \<and> meta_is_writable a)"

text \<open>Some meta asks for the signature of a key and for write access to it at once.\<close>

definition wants_write_signed :: "Instruction list \<Rightarrow> pubkey option \<Rightarrow> pubkey \<Rightarrow> bool" where
  "wants_write_signed ixs payer k \<longleftrightarrow> payer = Some k \<or>
     (\<exists>ix\<in>set ixs. \<exists>a\<in>set (accounts ix).
        meta_pubkey a = k \<and> meta_is_signer a \<and> meta_is_writable a)"

lemma wants_signature_iff:
  "wants_signature ixs payer k \<longleftrightarrow>
     (\<exists>m\<in>set (sorted_metas ixs payer). meta_pubkey m = k \<and> meta_is_signer m)"
  by (auto simp: wants_signature_def sorted_metas_def all_metas_def account_meta_new_def
      account_meta_new_readonly_def split: option.splits)

lemma wants_write_iff:
  "wants_write ixs payer k \<longleftrightarrow>
     (\<exists>m\<in>set (sorted_metas ixs payer). meta_pubkey m = k \<and> meta_is_writable m)"
  by (auto simp: wants_write_def sorted_metas_def all_metas_def account_meta_new_def
      account_meta_new_readonly_def split: option.splits)

lemma wants_write_signed_iff:
  "wants_write_signed ixs payer k \<longleftrightarrow>
     (\<exists>m\<in>set (sorted_metas ixs payer).
        meta_pubkey m = k \<and> meta_is_signer m \<and> meta_is_writable m)"
  by (auto simp: wants_write_signed_def sorted_metas_def all_metas_def account_meta_new_def
      account_meta_new_readonly_def split: option.splits)

text \<open>The first meta of a key in rank order has the least rank of all its metas.\<close>

lemma first_meta_least:
  assumes "sorted (map meta_rank ms)" "m \<in> set ms"
  shows "meta_rank (first_meta ms (meta_pubkey m)) \<le> meta_rank m"
  using assms
proof (induction ms)
  case (Cons a ms)
  then show ?case by (cases "meta_pubkey a = meta_pubkey m") (auto simp: first_meta_def)
qed simp

lemma rank_signer: "meta_rank m < 2 \<longleftrightarrow> meta_is_signer m"
  by (simp add: meta_rank_def)

lemma rank_writable_signer: "meta_rank m = 0 \<longleftrightarrow> meta_is_signer m \<and> meta_is_writable m"
  by (simp add: meta_rank_def)

lemma rank_unsigned: "\<not> meta_is_signer m \<Longrightarrow> meta_rank m \<le> 2 \<longleftrightarrow> meta_is_writable m"
  by (simp add: meta_rank_def)

lemma merged_signer:
  assumes "k \<in> meta_pubkey ` set (sorted_metas ixs payer)"
  shows "meta_is_signer (merged (sorted_metas ixs payer) k) \<longleftrightarrow> wants_signature ixs payer k"
proof -
  let ?ms = "sorted_metas ixs payer"
  have "meta_is_signer (first_meta ?ms k)" if "m \<in> set ?ms" "meta_pubkey m = k" "meta_is_signer m" for m
    using first_meta_least [OF sorted_sorted_metas that(1)] that
    by (auto simp flip: rank_signer)
  with first_meta_in [OF assms] show ?thesis
    by (auto simp: merged_def wants_signature_iff)
qed

lemma merged_writable:
  "meta_is_writable (merged (sorted_metas ixs payer) k) \<longleftrightarrow> wants_write ixs payer k"
  by (simp add: merged_def wants_write_iff)

section \<open>The header\<close>

text \<open>The two halves of the key table, signers and others.\<close>

abbreviation key_table :: "Instruction list \<Rightarrow> pubkey option \<Rightarrow> pubkey list" where
  "key_table ixs payer \<equiv>
     signed_keys (get_keys ixs payer) @ unsigned_keys (get_keys ixs payer)"

definition table_keys :: "Instruction list \<Rightarrow> pubkey option \<Rightarrow> pubkey list" where
  "table_keys ixs payer = unique (map meta_pubkey (sorted_metas ixs payer))"

lemma table_keys_in: "k \<in> set (table_keys ixs payer) \<longleftrightarrow> k \<in> meta_pubkey ` set (sorted_metas ixs payer)"
  by (simp add: table_keys_def)

lemma get_keys_eq:
  fixes ixs :: "Instruction list" and payer :: "pubkey option"
  defines "ks \<equiv> table_keys ixs payer"
  defines "s \<equiv> filter (wants_signature ixs payer) ks"
    and "u \<equiv> filter (\<lambda>k. \<not> wants_signature ixs payer k) ks"
  shows "get_keys ixs payer = \<lparr>signed_keys = s, unsigned_keys = u,
    keys_readonly_signed = of_nat (length (filter (\<lambda>k. \<not> wants_write ixs payer k) s)),
    keys_readonly_unsigned = of_nat (length (filter (\<lambda>k. \<not> wants_write ixs payer k) u))\<rparr>"
proof -
  let ?f = "merged (sorted_metas ixs payer)"
  have metas: "unique_metas ixs payer = map ?f ks"
    by (simp add: unique_metas_eq ks_def table_keys_def)
  have sg: "filter meta_is_signer (map ?f ks) = map ?f s"
    unfolding s_def filter_map by (rule arg_cong [where f = "map ?f"], rule filter_cong)
      (auto simp: ks_def table_keys_in merged_signer)
  have us: "filter (\<lambda>m. \<not> meta_is_signer m) (map ?f ks) = map ?f u"
    unfolding u_def filter_map by (rule arg_cong [where f = "map ?f"], rule filter_cong)
      (auto simp: ks_def table_keys_in merged_signer)
  have id: "map (meta_pubkey \<circ> ?f) (filter P ks) = filter P ks" for P
    by (rule map_idI) (auto simp: ks_def table_keys_in)
  have ro: "length (filter (\<lambda>m. \<not> meta_is_writable m) (map ?f xs)) =
      length (filter (\<lambda>k. \<not> wants_write ixs payer k) xs)" for xs
    by (simp add: filter_map comp_def merged_writable)
  show ?thesis
    unfolding get_keys_def Let_def metas sg us ro by (simp add: s_def u_def id)
qed

lemma distinct_key_table: "distinct (key_table ixs payer)"
  by (auto simp: get_keys_eq table_keys_def)

lemma set_key_table: "set (key_table ixs payer) = meta_pubkey ` set (sorted_metas ixs payer)"
  by (auto simp: get_keys_eq table_keys_in)

lemma keys_in_table:
  assumes "ix \<in> set ixs"
  shows "program_id ix \<in> set (key_table ixs payer)"
    and "a \<in> set (accounts ix) \<Longrightarrow> meta_pubkey a \<in> set (key_table ixs payer)"
  using assms unfolding set_key_table
  by (force simp: sorted_metas_def all_metas_def get_program_ids_def image_Un image_image
      account_meta_new_readonly_def)+

text \<open>
  In each half the writable keys come first: in the signed half provided that whoever is a
  writable signer was asked for as one in a single meta, in the other half always.
\<close>

lemma table_keys_sorted:
  "sorted_wrt (\<lambda>k k'. meta_rank (first_meta (sorted_metas ixs payer) k)
     \<le> meta_rank (first_meta (sorted_metas ixs payer) k')) (table_keys ixs payer)"
  unfolding table_keys_def by (rule first_meta_sorted [OF sorted_sorted_metas])

lemma sorted_wrt_filter_mono:
  assumes "sorted_wrt R xs"
    and "\<And>x y. x \<in> set xs \<Longrightarrow> y \<in> set xs \<Longrightarrow> P x \<Longrightarrow> P y \<Longrightarrow> R x y \<Longrightarrow> Q x y"
  shows "sorted_wrt Q (filter P xs)"
  using assms by (induction xs) auto

lemma signed_writable_first:
  assumes "\<And>k. wants_signature ixs payer k \<Longrightarrow> wants_write ixs payer k \<Longrightarrow>
      wants_write_signed ixs payer k"
  shows "sorted_wrt (\<lambda>k k'. wants_write ixs payer k' \<longrightarrow> wants_write ixs payer k)
    (filter (wants_signature ixs payer) (table_keys ixs payer))"
proof (rule sorted_wrt_filter_mono [OF table_keys_sorted], rule impI)
  let ?ms = "sorted_metas ixs payer"
  fix k k'
  assume k: "k \<in> set (table_keys ixs payer)"
    and w: "wants_signature ixs payer k'" "wants_write ixs payer k'"
    and le: "meta_rank (first_meta ?ms k) \<le> meta_rank (first_meta ?ms k')"
  from assms [OF w] obtain m where "m \<in> set ?ms" "meta_pubkey m = k'" "meta_rank m = 0"
    by (auto simp: wants_write_signed_iff rank_writable_signer)
  with first_meta_least [OF sorted_sorted_metas, of m] le
  have "meta_rank (first_meta ?ms k) = 0" by simp
  then show "wants_write ixs payer k"
    using first_meta_in [of k ?ms] k
    by (auto simp: table_keys_in wants_write_iff rank_writable_signer)
qed

lemma unsigned_writable_first:
  "sorted_wrt (\<lambda>k k'. wants_write ixs payer k' \<longrightarrow> wants_write ixs payer k)
    (filter (\<lambda>k. \<not> wants_signature ixs payer k) (table_keys ixs payer))"
proof (rule sorted_wrt_filter_mono [OF table_keys_sorted], rule impI)
  let ?ms = "sorted_metas ixs payer"
  fix k k'
  assume k: "k \<in> set (table_keys ixs payer)" "\<not> wants_signature ixs payer k"
    and w: "\<not> wants_signature ixs payer k'" "wants_write ixs payer k'"
    and le: "meta_rank (first_meta ?ms k) \<le> meta_rank (first_meta ?ms k')"
  from w obtain m where m: "m \<in> set ?ms" "meta_pubkey m = k'" "meta_is_writable m"
    by (auto simp: wants_write_iff)
  with w(1) have "\<not> meta_is_signer m" by (auto simp: wants_signature_iff)
  with m first_meta_least [OF sorted_sorted_metas m(1)] le
  have "meta_rank (first_meta ?ms k) \<le> 2" using rank_unsigned [of m] by simp
  then show "wants_write ixs payer k"
    using first_meta_in [of k ?ms] k rank_unsigned [of "first_meta ?ms k"]
    by (auto simp: table_keys_in wants_write_iff wants_signature_iff)
qed

section \<open>Compiled messages\<close>

definition index_in :: "pubkey list \<Rightarrow> pubkey \<Rightarrow> nat" where
  "index_in ks k = length (takeWhile (\<lambda>x. x \<noteq> k) ks)"

lemma index_in:
  assumes "k \<in> set ks"
  shows "index_in ks k < length ks" and "ks ! index_in ks k = k"
  using assms by (induction ks) (auto simp: index_in_def)

lemma position_Ok: "k \<in> set ks \<Longrightarrow> position ks k = Ok (index_in ks k)"
  by (induction ks) (auto simp: index_in_def)

lemma positions_Ok:
  "set qs \<subseteq> set ks \<Longrightarrow> positions ks qs = Ok (map (\<lambda>q. of_nat (index_in ks q)) qs)"
  by (induction qs) (auto simp: position_Ok)

lemma index_in_u8:
  "k \<in> set ks \<Longrightarrow> length ks \<le> 256 \<Longrightarrow> unat (of_nat (index_in ks k) :: u8) = index_in ks k"
  using index_in(1) [of k ks] by (simp add: unat_of_nat)

definition compiled :: "pubkey list \<Rightarrow> Instruction \<Rightarrow> CompiledInstruction" where
  "compiled ks ix = \<lparr>program_id_index = of_nat (index_in ks (program_id ix)),
     ci_accounts = map (\<lambda>a. of_nat (index_in ks (meta_pubkey a))) (accounts ix),
     ci_data = instr_data ix\<rparr>"

text \<open>A compiled instruction says what the instruction said.\<close>

definition compiles :: "pubkey list \<Rightarrow> Instruction \<Rightarrow> CompiledInstruction \<Rightarrow> bool" where
  "compiles ks ix ci \<longleftrightarrow>
     map (\<lambda>i. ks ! unat i) (ci_accounts ci) = map meta_pubkey (accounts ix) \<and>
     ks ! unat (program_id_index ci) = program_id ix \<and> ci_data ci = instr_data ix \<and>
     unat (program_id_index ci) < length ks \<and> (\<forall>i\<in>set (ci_accounts ci). unat i < length ks)"

lemma compile_instruction_Ok:
  assumes "program_id ix \<in> set ks" "meta_pubkey ` set (accounts ix) \<subseteq> set ks"
  shows "compile_instruction ix ks = Ok (compiled ks ix)"
  using assms by (simp add: compile_instruction_def positions_Ok position_Ok compiled_def comp_def)

lemma compiles_compiled:
  assumes "program_id ix \<in> set ks" "meta_pubkey ` set (accounts ix) \<subseteq> set ks" "length ks \<le> 256"
  shows "compiles ks ix (compiled ks ix)"
  using assms by (auto simp: compiles_def compiled_def index_in index_in_u8 subset_iff)

lemma compile_instructions_Ok:
  assumes "\<And>ix. ix \<in> set ixs \<Longrightarrow> program_id ix \<in> set ks \<and> meta_pubkey ` set (accounts ix) \<subseteq> set ks"
  shows "compile_instructions ixs ks = Ok (map (compiled ks) ixs)"
  using assms by (induction ixs) (simp_all add: compile_instruction_Ok)

text \<open>Compilation never panics; with room for all keys it keeps what every instruction says.\<close>

definition compiled_message :: "Instruction list \<Rightarrow> pubkey option \<Rightarrow> 256 word \<Rightarrow> Message" where
  "compiled_message ixs payer bh = (let ks = get_keys ixs payer in
     \<lparr>header = \<lparr>num_required_signatures = of_nat (length (signed_keys ks)),
        num_readonly_signed_accounts = keys_readonly_signed ks,
        num_readonly_unsigned_accounts = keys_readonly_unsigned ks\<rparr>,
      account_keys = key_table ixs payer, recent_blockhash = bh,
      instructions = map (compiled (key_table ixs payer)) ixs\<rparr>)"

lemma compile_table:
  "compile_instructions ixs (key_table ixs payer) = Ok (map (compiled (key_table ixs payer)) ixs)"
  by (rule compile_instructions_Ok) (use keys_in_table [of _ ixs] in blast)

lemma message_new_Ok:
  "message_new_with_blockhash ixs payer bh = Ok (compiled_message ixs payer bh)"
  by (simp add: message_new_with_blockhash_def compiled_message_def Let_def compile_table)

lemma compiled_message_compiles:
  assumes "length (key_table ixs payer) \<le> 256"
  shows "list_all2 (compiles (key_table ixs payer)) ixs (instructions (compiled_message ixs payer bh))"
proof -
  have "compiles (key_table ixs payer) ix (compiled (key_table ixs payer) ix)" if "ix \<in> set ixs" for ix
    by (rule compiles_compiled [OF _ _ assms]) (use keys_in_table [OF that] in blast)+
  then show ?thesis
    by (simp add: compiled_message_def Let_def list_all2_map2 list_all2_same)
qed

lemma signers_of_table:
  assumes "i < length (key_table ixs payer)"
  shows "i < length (signed_keys (get_keys ixs payer)) \<longleftrightarrow>
    wants_signature ixs payer (key_table ixs payer ! i)"
  using assms nth_mem [of i "signed_keys (get_keys ixs payer)"]
    nth_mem [of "i - length (signed_keys (get_keys ixs payer))" "unsigned_keys (get_keys ixs payer)"]
  by (auto simp: nth_append get_keys_eq split: if_splits)

lemma compiled_is_signer:
  assumes "length (key_table ixs payer) < 256" "i < length (key_table ixs payer)"
  shows "msg_is_signer (compiled_message ixs payer bh) i \<longleftrightarrow>
    wants_signature ixs payer (key_table ixs payer ! i)"
  using signers_of_table [OF assms(2)] assms(1)
  by (simp add: msg_is_signer_def compiled_message_def Let_def unat_of_nat)

text \<open>The writable region of the header, without the sysvar, builtin and program exceptions.\<close>

lemma length_filter_compl': "length (filter P xs) = length xs - length (filter (\<lambda>x. \<not> P x) xs)"
  using sum_length_filter_compl [of P xs] by simp

lemma compiled_writable_region:
  fixes bh :: "256 word"
  assumes len: "length (key_table ixs payer) < 256" and i: "i < length (key_table ixs payer)"
    and signed: "\<And>k. wants_signature ixs payer k \<Longrightarrow> wants_write ixs payer k \<Longrightarrow>
      wants_write_signed ixs payer k"
  defines "h \<equiv> header (compiled_message ixs payer bh)"
  shows "(i < unat (num_required_signatures h - num_readonly_signed_accounts h) \<or>
      unat (num_required_signatures h) \<le> i \<and>
      i < unat (of_nat (length (key_table ixs payer)) -
        ucast (num_readonly_unsigned_accounts h) :: u64)) \<longleftrightarrow>
    wants_write ixs payer (key_table ixs payer ! i)"
proof -
  define s where "s = signed_keys (get_keys ixs payer)"
  define u where "u = unsigned_keys (get_keys ixs payer)"
  let ?w = "wants_write ixs payer"
  define rs where "rs = length (filter (\<lambda>k. \<not> ?w k) s)"
  define ru where "ru = length (filter (\<lambda>k. \<not> ?w k) u)"
  have le: "rs \<le> length s" "ru \<le> length u" and n: "length s + length u < 256"
    using len by (simp_all add: rs_def ru_def s_def u_def)
  have h: "num_required_signatures h = of_nat (length s)"
    "num_readonly_signed_accounts h = of_nat rs" "num_readonly_unsigned_accounts h = of_nat ru"
    by (simp_all add: h_def compiled_message_def Let_def rs_def ru_def s_def u_def get_keys_eq)
  have "unat (of_nat (length s) - of_nat rs :: u8) = length s - rs"
    using le n by (simp flip: of_nat_diff add: unat_of_nat)
  moreover have "ucast (of_nat ru :: u8) = (of_nat ru :: u64)"
    using le n by (intro word_unat_eq_iff [THEN iffD2]) (simp add: unat_of_nat unsigned_ucast_eq take_bit_eq_mod)
  then have "unat (of_nat (length s + length u) - ucast (of_nat ru :: u8) :: u64) = length s + length u - ru"
    using le n by (simp flip: of_nat_diff of_nat_add add: unat_of_nat)
  moreover have "sorted_wrt (\<lambda>k k'. ?w k' \<longrightarrow> ?w k) s" "sorted_wrt (\<lambda>k k'. ?w k' \<longrightarrow> ?w k) u"
    using signed_writable_first [OF signed] unsigned_writable_first [of ixs payer]
    by (simp_all add: s_def u_def get_keys_eq)
  then have "?w (s ! j) \<longleftrightarrow> j < length s - rs" if "j < length s" for j
    using filter_prefix_iff [of ?w s j] that length_filter_compl' [of ?w s] by (simp add: rs_def)
  moreover have "?w (u ! j) \<longleftrightarrow> j < length u - ru" if "j < length u" for j
    using filter_prefix_iff [of ?w u j] that length_filter_compl' [of ?w u]
      \<open>sorted_wrt _ u\<close> by (simp add: ru_def)
  ultimately show ?thesis
    using i le n unfolding h s_def [symmetric] u_def [symmetric]
    by (auto simp: nth_append unat_of_nat)
qed

lemma compiled_message_keys: "account_keys (compiled_message ixs payer bh) = key_table ixs payer"
  by (simp add: compiled_message_def Let_def)

lemma compiled_is_writable:
  assumes "length (key_table ixs payer) < 256" "i < length (key_table ixs payer)"
    and "\<And>k. wants_signature ixs payer k \<Longrightarrow> wants_write ixs payer k \<Longrightarrow> wants_write_signed ixs payer k"
  shows "msg_is_writable (compiled_message ixs payer bh) i False =
    Ok (wants_write ixs payer (key_table ixs payer ! i) \<and>
      \<not> is_sysvar_id (key_table ixs payer ! i) \<and> key_table ixs payer ! i \<notin> set BUILTIN_PROGRAMS_KEYS)"
  using compiled_writable_region [OF assms, of bh] assms(2)
  unfolding msg_is_writable_def Let_def compiled_message_keys by (simp add: at_index_def)

section \<open>The instructions sysvar\<close>

definition writable_flag :: "Message \<Rightarrow> nat \<Rightarrow> bool \<Rightarrow> bool" where
  "writable_flag m i demote = ((msg_is_writable m i demote :: (unit, bool) result) = Ok True)"

lemma msg_is_writable_Ok:
  "i < length (account_keys m) \<Longrightarrow> msg_is_writable m i demote = Ok (writable_flag m i demote)"
  by (auto simp: msg_is_writable_def writable_flag_def at_index_def Let_def)

text \<open>The bytes of one account and of one instruction.\<close>

definition meta_bytes :: "Message \<Rightarrow> u8 \<Rightarrow> bytes" where
  "meta_bytes m a = meta_byte (msg_is_signer m (unat a)) (writable_flag m (unat a) True) #
     pubkey_to_bytes (account_keys m ! unat a)"

definition entry :: "Message \<Rightarrow> CompiledInstruction \<Rightarrow> bytes" where
  "entry m ci = u16_to_le_bytes (of_nat (length (ci_accounts ci))) @
     concat (map (meta_bytes m) (ci_accounts ci)) @
     pubkey_to_bytes (account_keys m ! unat (program_id_index ci)) @
     u16_to_le_bytes (of_nat (length (ci_data ci))) @ ci_data ci"

fun offsets :: "Message \<Rightarrow> nat \<Rightarrow> CompiledInstruction list \<Rightarrow> bytes" where
  "offsets m off [] = []"
| "offsets m off (ci # cis) =
     u16_to_le_bytes (of_nat off) @ offsets m (off + length (entry m ci)) cis"

definition in_range :: "Message \<Rightarrow> CompiledInstruction \<Rightarrow> bool" where
  "in_range m ci \<longleftrightarrow> unat (program_id_index ci) < length (account_keys m) \<and>
     (\<forall>a\<in>set (ci_accounts ci). unat a < length (account_keys m))"

lemma sanitize_Ok:
  assumes "sanitize m = Ok ()"
  shows "\<forall>ci\<in>set (instructions m). in_range m ci \<and> program_id_index ci \<noteq> 0" "msg_is_signer m 0"
  using assms
  by (auto simp: sanitize_def Let_def in_range_def list_ex_iff not_le msg_is_signer_def
      word_less_nat_alt split: if_splits)

lemma length_u16_to_le_bytes [simp]: "length (u16_to_le_bytes w) = 2"
  by (simp add: u16_to_le_bytes_def)

lemma length_offsets [simp]: "length (offsets m off cis) = 2 * length cis"
  by (induction m off cis rule: offsets.induct) auto

lemma offsets_append:
  "offsets m off (cs @ cs') =
     offsets m off cs @ offsets m (off + length (concat (map (entry m) cs))) cs'"
  by (induction cs arbitrary: off) (auto simp: add.assoc)

lemma serialize_metas_Ok:
  "\<forall>a\<in>set as. unat a < length (account_keys m) \<Longrightarrow>
   serialize_metas m as d = Ok (d @ concat (map (meta_bytes m) as))"
  by (induction as arbitrary: d)
    (auto simp: msg_is_writable_Ok at_index_def append_slice_def append_u8_def meta_bytes_def
      Let_def)

lemma serialize_from_Ok:
  assumes "\<forall>ci\<in>set cis. in_range m ci" "2 + 2 * (i + length cis) \<le> length d"
  shows "(serialize_from m i cis d :: ('e, bytes) result) = Ok (take (2 + 2 * i) d @ offsets m (length d) cis @
    drop (2 + 2 * (i + length cis)) d @ concat (map (entry m) cis))"
  using assms
proof (induction cis arbitrary: i d)
  case (Cons ci cis)
  let ?o = "u16_to_le_bytes (of_nat (length d))"
  let ?d = "take (2 + 2 * i) d @ ?o @ drop (2 + 2 * i + length ?o) d"
  have c: "(copy_at d (2 + 2 * i) ?o :: ('e, bytes) result) = Ok ?d"
    using Cons.prems(2) by (simp add: copy_at_def)
  have len: "length (?d @ entry m ci) = length d + length (entry m ci)"
    using Cons.prems(2) by simp
  have ih: "(serialize_from m (Suc i) cis (?d @ entry m ci) :: ('e, bytes) result) =
      Ok (take (2 + 2 * Suc i) (?d @ entry m ci) @ offsets m (length d + length (entry m ci)) cis @
        drop (2 + 2 * (Suc i + length cis)) (?d @ entry m ci) @ concat (map (entry m) cis))"
    using Cons.prems len by (subst Cons.IH) auto
  have "(serialize_from m i (ci # cis) d :: ('e, bytes) result) =
      serialize_from m (Suc i) cis (?d @ entry m ci)"
    using Cons.prems(1) c
    by (simp add: in_range_def serialize_metas_Ok compiled_program_id_def at_index_def
        append_u16_def append_slice_def entry_def)
  also note ih
  also have "take (2 + 2 * Suc i) (?d @ entry m ci) = take (2 + 2 * i) d @ ?o"
    using Cons.prems(2) by simp
  also have "drop (2 + 2 * (Suc i + length cis)) (?d @ entry m ci) =
      drop (2 + 2 * (i + length (ci # cis))) d @ entry m ci"
    using Cons.prems(2) by (simp add: algebra_simps)
  finally show ?case by simp
qed simp

lemma foldl_append_u16: "foldl (\<lambda>d _. append_u16 d 0) d xs = d @ replicate (2 * length xs) 0"
proof (induction xs arbitrary: d)
  case (Cons x xs)
  then show ?case
    by (simp add: append_u16_def u16_to_le_bytes_def numeral_2_eq_2)
qed simp

lemma serialize_instructions_Ok:
  assumes "\<forall>ci\<in>set (instructions m). in_range m ci"
  shows "serialize_instructions m =
    Ok (u16_to_le_bytes (of_nat (length (instructions m))) @
        offsets m (2 + 2 * length (instructions m)) (instructions m) @
        concat (map (entry m) (instructions m)))"
  using assms unfolding serialize_instructions_def Let_def foldl_append_u16
  by (simp add: append_u16_def serialize_from_Ok)

subsection \<open>Reading\<close>

lemma read_u16_at:
  "length pre = cur \<Longrightarrow> read_u16 cur (pre @ u16_to_le_bytes w @ post) = Ok (w, cur + 2)"
  by (auto simp: read_u16_def segment_skip segment_head u16_to_le_bytes_def from_le_le_bytes)

lemma read_u8_at: "length pre = cur \<Longrightarrow> read_u8 cur (pre @ b # post) = Ok (b, cur + 1)"
  by (auto simp: read_u8_def nth_append)

lemma read_pubkey_at:
  "length pre = cur \<Longrightarrow> read_pubkey cur (pre @ pubkey_to_bytes k @ post) = Ok (k, cur + 32)"
  by (auto simp: read_pubkey_def segment_skip segment_head pubkey_new_def)

lemma read_slice_at:
  "length pre = cur \<Longrightarrow> length bs = n \<Longrightarrow> read_slice cur (pre @ bs @ post) n = Ok (bs, cur + n)"
  by (auto simp: read_slice_def segment_skip segment_head)

definition meta_of :: "Message \<Rightarrow> u8 \<Rightarrow> AccountMeta" where
  "meta_of m a = \<lparr>meta_pubkey = account_keys m ! unat a, meta_is_signer = msg_is_signer m (unat a),
     meta_is_writable = writable_flag m (unat a) True\<rparr>"

lemma meta_byte_bits:
  "meta_byte s w AND 2 ^ IS_SIGNER_BIT = 0 \<longleftrightarrow> \<not> s"
  "meta_byte s w AND 2 ^ IS_WRITABLE_BIT = 0 \<longleftrightarrow> \<not> w"
  by (cases s; cases w; simp add: meta_byte_def IS_SIGNER_BIT_def IS_WRITABLE_BIT_def)+

lemma read_metas_at:
  "length pre = cur \<Longrightarrow> read_metas (length as) cur (pre @ concat (map (meta_bytes m) as) @ post) =
     Ok (map (meta_of m) as, cur + 33 * length as)"
proof (induction as arbitrary: pre cur)
  case (Cons a as)
  let ?b = "meta_byte (msg_is_signer m (unat a)) (writable_flag m (unat a) True)"
  let ?k = "account_keys m ! unat a" and ?rest = "concat (map (meta_bytes m) as) @ post"
  from Cons.IH [of "pre @ meta_bytes m a" "cur + 33"] Cons.prems
  have "read_metas (length as) (cur + 33) (pre @ ?b # pubkey_to_bytes ?k @ ?rest) =
      Ok (map (meta_of m) as, cur + 33 + 33 * length as)"
    by (simp add: meta_bytes_def [of m a])
  moreover have "read_u8 cur (pre @ ?b # pubkey_to_bytes ?k @ ?rest) = Ok (?b, cur + 1)"
    using Cons.prems by (rule read_u8_at)
  moreover have "read_pubkey (cur + 1) (pre @ ?b # pubkey_to_bytes ?k @ ?rest) = Ok (?k, cur + 33)"
    using read_pubkey_at [of "pre @ [?b]" "cur + 1" ?k ?rest] Cons.prems by simp
  ultimately show ?case
    by (simp add: meta_bytes_def [of m a] meta_of_def [of m a] meta_byte_bits)
qed simp

definition instruction_of :: "Message \<Rightarrow> CompiledInstruction \<Rightarrow> Instruction" where
  "instruction_of m ci = \<lparr>program_id = account_keys m ! unat (program_id_index ci),
     accounts = map (meta_of m) (ci_accounts ci), instr_data = ci_data ci\<rparr>"

text \<open>Reading the fields of one entry, wherever it stands.\<close>

lemma deserialize_entry:
  assumes pre: "length pre = start" and "length (ci_accounts ci) < 2 ^ 16"
    and "length (ci_data ci) < 2 ^ 16"
  shows "bind (read_u16 start (pre @ entry m ci @ post)) (\<lambda>(num_accounts, cur).
    bind (read_metas (unat num_accounts) cur (pre @ entry m ci @ post)) (\<lambda>(accs, cur).
    bind (read_pubkey cur (pre @ entry m ci @ post)) (\<lambda>(p, cur).
    bind (read_u16 cur (pre @ entry m ci @ post)) (\<lambda>(data_len, cur).
    bind (read_slice cur (pre @ entry m ci @ post) (unat data_len)) (\<lambda>(bs, _).
    Ok \<lparr>program_id = p, accounts = accs, instr_data = bs\<rparr>))))) = Ok (instruction_of m ci)"
proof -
  let ?as = "ci_accounts ci" and ?D = "pre @ entry m ci @ post"
  let ?na = "u16_to_le_bytes (of_nat (length ?as))" and ?ms = "concat (map (meta_bytes m) ?as)"
  let ?p = "account_keys m ! unat (program_id_index ci)"
  let ?nd = "u16_to_le_bytes (of_nat (length (ci_data ci)))"
  have ms: "length ?ms = 33 * length ?as"
    by (simp add: length_concat comp_def meta_bytes_def sum_list_triv)
  have "read_u16 start ?D = Ok (of_nat (length ?as), start + 2)"
    using read_u16_at [OF pre] by (simp add: entry_def)
  moreover have "read_metas (length ?as) (start + 2) ?D =
      Ok (map (meta_of m) ?as, start + 2 + 33 * length ?as)"
    using read_metas_at [of "pre @ ?na" "start + 2" ?as m] pre by (simp add: entry_def)
  moreover have "read_pubkey (start + 2 + 33 * length ?as) ?D =
      Ok (?p, start + 2 + 33 * length ?as + 32)"
    using read_pubkey_at [of "pre @ ?na @ ?ms" "start + 2 + 33 * length ?as"] pre ms
    by (simp add: entry_def)
  moreover have "read_u16 (start + 2 + 33 * length ?as + 32) ?D =
      Ok (of_nat (length (ci_data ci)), start + 2 + 33 * length ?as + 32 + 2)"
    using read_u16_at [of "pre @ ?na @ ?ms @ pubkey_to_bytes ?p"
        "start + 2 + 33 * length ?as + 32"] pre ms
    by (simp add: entry_def)
  moreover have "read_slice (start + 2 + 33 * length ?as + 32 + 2) ?D (length (ci_data ci)) =
      Ok (ci_data ci, start + 2 + 33 * length ?as + 32 + 2 + length (ci_data ci))"
    using read_slice_at [of "pre @ ?na @ ?ms @ pubkey_to_bytes ?p @ ?nd"
        "start + 2 + 33 * length ?as + 32 + 2" "ci_data ci" "length (ci_data ci)" post] pre ms
    by (simp add: entry_def)
  ultimately show ?thesis
    using assms(2,3) by (simp add: unat_of_nat instruction_of_def)
qed

lemma deserialize_serialize:
  assumes range: "\<forall>ci\<in>set (instructions m). in_range m ci"
    and ser: "serialize_instructions m = Ok d" and size: "length d < 2 ^ 16"
    and i: "i < length (instructions m)"
  shows "deserialize_instruction i (d @ extra) = Ok (instruction_of m (instructions m ! i))"
proof -
  let ?is = "instructions m" and ?n = "length (instructions m)"
  let ?ci = "?is ! i" and ?a = "take i ?is" and ?z = "drop (Suc i) ?is"
  define head where "head = u16_to_le_bytes (of_nat ?n)"
  define start where "start = 2 + 2 * ?n + length (concat (map (entry m) ?a))"
  have split: "?is = ?a @ ?ci # ?z" using i by (rule id_take_nth_drop)
  have d: "d = head @ offsets m (2 + 2 * ?n) ?is @ concat (map (entry m) ?is)"
    using ser by (simp add: serialize_instructions_Ok [OF range] head_def)
  have table: "offsets m (2 + 2 * ?n) ?is =
      offsets m (2 + 2 * ?n) ?a @ u16_to_le_bytes (of_nat start) @
      offsets m (start + length (entry m ?ci)) ?z"
    by (rule trans [OF arg_cong [OF split, of "offsets m (2 + 2 * ?n)"]])
      (simp add: offsets_append start_def)
  have body: "concat (map (entry m) ?is) = concat (map (entry m) ?a) @ entry m ?ci @
      concat (map (entry m) ?z)"
    by (subst split) simp
  have len: "length d = 2 + 2 * ?n + length (concat (map (entry m) ?is))"
    by (simp add: d head_def)
  have bounds: "?n < 2 ^ 16" "start < 2 ^ 16" "length (ci_accounts ?ci) < 2 ^ 16"
    "length (ci_data ?ci) < 2 ^ 16"
  proof -
    have "length (ci_accounts ?ci) \<le> length (concat (map (meta_bytes m) (ci_accounts ?ci)))"
      by (simp add: length_concat comp_def meta_bytes_def sum_list_triv)
    then have "length (ci_accounts ?ci) + length (ci_data ?ci) \<le> length (entry m ?ci)"
      by (simp add: entry_def)
    with size len show "?n < 2 ^ 16" "start < 2 ^ 16" "length (ci_accounts ?ci) < 2 ^ 16"
      "length (ci_data ?ci) < 2 ^ 16"
      unfolding body by (simp_all add: start_def)
  qed
  have r1: "read_u16 0 (d @ extra) = Ok (of_nat ?n, 2)"
    using read_u16_at [of "[]" 0 "of_nat ?n"] by (simp add: d head_def)
  have r2: "read_u16 (2 + i * 2) (d @ extra) = Ok (of_nat start, 2 + i * 2 + 2)"
    using read_u16_at [of "head @ offsets m (2 + 2 * ?n) ?a" "2 + i * 2" "of_nat start"] i
    unfolding d table by (simp add: head_def)
  define pre where "pre = head @ offsets m (2 + 2 * ?n) ?is @ concat (map (entry m) ?a)"
  have pre: "length pre = start" by (simp add: pre_def head_def start_def)
  define post where "post = concat (map (entry m) ?z) @ extra"
  have D: "d @ extra = pre @ entry m ?ci @ post"
    by (simp add: d body pre_def post_def)
  show ?thesis
    using r1 r2 bounds i deserialize_entry [OF pre bounds(3,4), of m post]
    by (simp add: deserialize_instruction_def unat_of_nat D)
qed

end
