(* ===== verification/Runtime.thy ===== *)
theory Runtime
  imports Message_Facts
begin

text \<open>
  The part of the runtime that executes a message (\<open>program-runtime\<close> and
  \<open>runtime/src/message_processor.rs\<close>): the snapshot of every account of an instruction, the rules
  by which the result of a program is checked against it, the invocation context and the loop over
  the instructions of a message. Programs are function values here as they are there.

  The accounts of a transaction are reference cells under distinct keys, so the cell at position
  \<open>i\<close> of the account list is the ledger entry of the \<open>i\<close>th key. \<open>ctx_borrowed\<close> holds of the keys
  whose cell is left mutably borrowed.
\<close>

section \<open>Errors\<close>

datatype InstructionError =
    GenericError
  | InvalidArgument
  | InvalidInstructionData
  | InvalidAccountData
  | AccountDataTooSmall
  | InsufficientFunds
  | IncorrectProgramId
  | MissingRequiredSignature
  | AccountAlreadyInitialized
  | UninitializedAccount
  | UnbalancedInstruction
  | ModifiedProgramId
  | ExternalAccountLamportSpend
  | ExternalAccountDataModified
  | ReadonlyLamportChange
  | ReadonlyDataModified
  | DuplicateAccountIndex
  | ExecutableModified
  | RentEpochModified
  | NotEnoughAccountKeys
  | AccountDataSizeChanged
  | AccountNotExecutable
  | AccountBorrowFailed
  | AccountBorrowOutstanding
  | DuplicateAccountOutOfSync
  | Custom u32
  | InvalidError
  | ExecutableDataModified
  | ExecutableLamportChange
  | ExecutableAccountNotRentExempt
  | UnsupportedProgramId
  | CallDepth
  | MissingAccount
  | ReentrancyNotAllowed
  | MaxSeedLengthExceeded
  | InvalidSeeds
  | InvalidRealloc
  | ComputationalBudgetExceeded
  | PrivilegeEscalation
  | ProgramEnvironmentSetupFailure
  | ProgramFailedToComplete
  | ProgramFailedToCompile
  | Immutable
  | IncorrectAuthority
  | BorshIoError string
  | AccountNotRentExempt
  | InvalidAccountOwner
  | ArithmeticOverflow
  | UnsupportedSysvar
  | IllegalOwner

text \<open>\<open>TryFrom<InstructionError> for ProgramError\<close>: the runtime's own errors stay as they are.\<close>

fun program_error_try_from :: "InstructionError \<Rightarrow> (InstructionError, ProgramError) result" where
  "program_error_try_from (Custom e) = Ok (ProgramError.Custom e)"
| "program_error_try_from InvalidArgument = Ok ProgramError.InvalidArgument"
| "program_error_try_from InvalidInstructionData = Ok ProgramError.InvalidInstructionData"
| "program_error_try_from InvalidAccountData = Ok ProgramError.InvalidAccountData"
| "program_error_try_from AccountDataTooSmall = Ok ProgramError.AccountDataTooSmall"
| "program_error_try_from InsufficientFunds = Ok ProgramError.InsufficientFunds"
| "program_error_try_from IncorrectProgramId = Ok ProgramError.IncorrectProgramId"
| "program_error_try_from MissingRequiredSignature = Ok ProgramError.MissingRequiredSignature"
| "program_error_try_from AccountAlreadyInitialized = Ok ProgramError.AccountAlreadyInitialized"
| "program_error_try_from UninitializedAccount = Ok ProgramError.UninitializedAccount"
| "program_error_try_from NotEnoughAccountKeys = Ok ProgramError.NotEnoughAccountKeys"
| "program_error_try_from AccountBorrowFailed = Ok ProgramError.AccountBorrowFailed"
| "program_error_try_from MaxSeedLengthExceeded = Ok ProgramError.MaxSeedLengthExceeded"
| "program_error_try_from InvalidSeeds = Ok ProgramError.InvalidSeeds"
| "program_error_try_from (BorshIoError e) = Ok (ProgramError.BorshIoError e)"
| "program_error_try_from AccountNotRentExempt = Ok ProgramError.AccountNotRentExempt"
| "program_error_try_from UnsupportedSysvar = Ok ProgramError.UnsupportedSysvar"
| "program_error_try_from IllegalOwner = Ok ProgramError.IllegalOwner"
| "program_error_try_from e = Err e"

text \<open>\<open>From<T: ToPrimitive> for InstructionError\<close>, on the number a program exits with.\<close>

definition instruction_error_from :: "u64 \<Rightarrow> InstructionError" where
  "instruction_error_from e =
     (if e = to_builtin 1 then Custom 0
      else if e = to_builtin 2 then InvalidArgument
      else if e = to_builtin 3 then InvalidInstructionData
      else if e = to_builtin 4 then InvalidAccountData
      else if e = to_builtin 5 then AccountDataTooSmall
      else if e = to_builtin 6 then InsufficientFunds
      else if e = to_builtin 7 then IncorrectProgramId
      else if e = to_builtin 8 then MissingRequiredSignature
      else if e = to_builtin 9 then AccountAlreadyInitialized
      else if e = to_builtin 10 then UninitializedAccount
      else if e = to_builtin 11 then NotEnoughAccountKeys
      else if e = to_builtin 12 then AccountBorrowFailed
      else if e = to_builtin 13 then MaxSeedLengthExceeded
      else if e = to_builtin 14 then InvalidSeeds
      else if e = to_builtin 15 then BorshIoError ''Unknown''
      else if e = to_builtin 16 then AccountNotRentExempt
      else if e = to_builtin 17 then UnsupportedSysvar
      else if e = to_builtin 18 then IllegalOwner
      else if drop_bit BUILTIN_BIT_SHIFT e = 0 then Custom (ucast e)
      else InvalidError)"

datatype TransactionError =
    AccountInUse
  | AccountLoadedTwice
  | AccountNotFound
  | ProgramAccountNotFound
  | InsufficientFundsForFee
  | InvalidAccountForFee
  | AlreadyProcessed
  | BlockhashNotFound
  | InstructionError u8 InstructionError
  | CallChainTooDeep
  | MissingSignatureForFee
  | InvalidAccountIndex
  | SignatureFailure
  | InvalidProgramForExecution
  | SanitizeFailure
  | ClusterMaintenance
  | AccountBorrowOutstanding
  | WouldExceedMaxBlockCostLimit
  | UnsupportedVersion
  | InvalidWritableAccount

section \<open>Timings\<close>

record ProgramTiming =
  accumulated_us :: u64
  accumulated_units :: u64
  pt_count :: u32

record ExecuteDetailsTimings =
  serialize_us :: u64
  create_vm_us :: u64
  execute_us :: u64
  deserialize_us :: u64
  changed_account_count :: u64
  total_account_count :: u64
  total_data_size :: u64
  data_size_changed :: u64
  per_program_timings :: "pubkey \<Rightarrow> ProgramTiming option"

definition default_program_timing :: ProgramTiming where
  "default_program_timing = \<lparr>accumulated_us = 0, accumulated_units = 0, pt_count = 0\<rparr>"

definition default_timings :: ExecuteDetailsTimings where
  "default_timings = \<lparr>serialize_us = 0, create_vm_us = 0, execute_us = 0, deserialize_us = 0,
     changed_account_count = 0, total_account_count = 0, total_data_size = 0,
     data_size_changed = 0, per_program_timings = (\<lambda>_. None)\<rparr>"

text \<open>\<open>entry(id).or_default()\<close>\<close>

fun or_default :: "ProgramTiming option \<Rightarrow> ProgramTiming" where
  "or_default (Some t) = t"
| "or_default None = default_program_timing"

definition add_program_timing :: "ProgramTiming \<Rightarrow> u64 \<Rightarrow> u64 \<Rightarrow> u32 \<Rightarrow> ProgramTiming" where
  "add_program_timing t us units n =
     t\<lparr>accumulated_us := saturating_add (accumulated_us t) us,
       accumulated_units := saturating_add (accumulated_units t) units,
       pt_count := saturating_add (pt_count t) n\<rparr>"

definition accumulate ::
  "ExecuteDetailsTimings \<Rightarrow> ExecuteDetailsTimings \<Rightarrow> ExecuteDetailsTimings" where
  "accumulate t other = t\<lparr>
     serialize_us := saturating_add (serialize_us t) (serialize_us other),
     create_vm_us := saturating_add (create_vm_us t) (create_vm_us other),
     execute_us := saturating_add (execute_us t) (execute_us other),
     deserialize_us := saturating_add (deserialize_us t) (deserialize_us other),
     changed_account_count :=
       saturating_add (changed_account_count t) (changed_account_count other),
     total_account_count := saturating_add (total_account_count t) (total_account_count other),
     total_data_size := saturating_add (total_data_size t) (total_data_size other),
     data_size_changed := saturating_add (data_size_changed t) (data_size_changed other),
     per_program_timings := (\<lambda>k. case per_program_timings other k of
         None \<Rightarrow> per_program_timings t k
       | Some o' \<Rightarrow> Some (add_program_timing (or_default (per_program_timings t k))
           (accumulated_us o') (accumulated_units o') (pt_count o')))\<rparr>"

definition accumulate_program ::
  "ExecuteDetailsTimings \<Rightarrow> pubkey \<Rightarrow> u64 \<Rightarrow> u64 \<Rightarrow> ExecuteDetailsTimings" where
  "accumulate_program t k us units = t\<lparr>per_program_timings := (per_program_timings t)(k \<mapsto>
     add_program_timing (or_default (per_program_timings t k)) us units 1)\<rparr>"

section \<open>Account snapshots\<close>

record PreAccount =
  pre_key :: pubkey
  pre_account :: AccountSharedData
  pre_changed :: bool

definition pre_account_new :: "pubkey \<Rightarrow> AccountSharedData \<Rightarrow> PreAccount" where
  "pre_account_new k a = \<lparr>pre_key = k, pre_account = a, pre_changed = False\<rparr>"

definition ZEROS_LEN :: nat where "ZEROS_LEN = 1024"

text \<open>\<open>chunks_exact\<close>: the whole chunks of a buffer, and the remainder.\<close>

definition chunks_exact :: "nat \<Rightarrow> bytes \<Rightarrow> bytes list" where
  "chunks_exact n buf = map (\<lambda>i. segment (i * n) n buf) [0..<length buf div n]"

definition chunks_remainder :: "nat \<Rightarrow> bytes \<Rightarrow> bytes" where
  "chunks_remainder n buf = drop (length buf div n * n) buf"

definition is_zeroed :: "bytes \<Rightarrow> bool" where
  "is_zeroed buf =
     (list_all (\<lambda>chunk. chunk = replicate ZEROS_LEN 0) (chunks_exact ZEROS_LEN buf) \<and>
      (let r = chunks_remainder ZEROS_LEN buf in r = replicate (length r) 0))"

definition MAX_PERMITTED_DATA_LENGTH :: nat where
  "MAX_PERMITTED_DATA_LENGTH = 10 * 1024 * 1024"

text \<open>The checks on the length of the data, and whether it changed.\<close>

definition verify_data_len ::
  "pubkey \<Rightarrow> AccountSharedData \<Rightarrow> AccountSharedData \<Rightarrow> bool \<Rightarrow> (InstructionError, bool) result" where
  "verify_data_len prog pre post do_support_realloc =
     (let data_len_changed = length (data pre) \<noteq> length (data post) in
      if do_support_realloc then
        if MAX_PERMITTED_DATA_LENGTH < length (data post) then Err InvalidRealloc else
        if data_len_changed \<and> prog \<noteq> owner pre then Err AccountDataSizeChanged
        else Ok data_len_changed
      else
        if data_len_changed \<and> (prog \<noteq> system_program_id \<or> owner pre \<noteq> system_program_id)
        then Err AccountDataSizeChanged
        else Ok data_len_changed)"

definition count_account ::
  "ExecuteDetailsTimings \<Rightarrow> AccountSharedData \<Rightarrow> bool \<Rightarrow> ExecuteDetailsTimings" where
  "count_account t post changed =
     (let n = of_nat (length (data post));
          t = t\<lparr>total_account_count := saturating_add (total_account_count t) 1,
                total_data_size := saturating_add (total_data_size t) n\<rparr>
      in if changed then
           t\<lparr>changed_account_count := saturating_add (changed_account_count t) 1,
             data_size_changed := saturating_add (data_size_changed t) n\<rparr>
         else t)"

definition pre_account_verify ::
  "host \<Rightarrow> PreAccount \<Rightarrow> pubkey \<Rightarrow> bool \<Rightarrow> Rent \<Rightarrow> AccountSharedData \<Rightarrow> ExecuteDetailsTimings \<Rightarrow>
   bool \<Rightarrow> bool \<Rightarrow> (InstructionError, ExecuteDetailsTimings) result" where
  "pre_account_verify h pa prog writable rent post timings outermost_call do_support_realloc =
     (let pre = pre_account pa;
          owner_changed = owner pre \<noteq> owner post;
          lamports_changed = lamports pre \<noteq> lamports post;
          executable_changed = executable pre \<noteq> executable post;
          rent_epoch_changed = rent_epoch pre \<noteq> rent_epoch post in
      if owner_changed \<and>
         (\<not> writable \<or> executable pre \<or> prog \<noteq> owner pre \<or> \<not> is_zeroed (data post))
      then Err ModifiedProgramId else
      if prog \<noteq> owner pre \<and> lamports post < lamports pre
      then Err ExternalAccountLamportSpend else
      if lamports_changed \<and> \<not> writable then Err ReadonlyLamportChange else
      if lamports_changed \<and> executable pre then Err ExecutableLamportChange else
      bind (verify_data_len prog pre post do_support_realloc) (\<lambda>data_len_changed.
      if \<not> (prog = owner pre \<and> writable \<and> \<not> executable pre) \<and> data pre \<noteq> data post then
        if executable pre then Err ExecutableDataModified
        else if writable then Err ExternalAccountDataModified
        else Err ReadonlyDataModified
      else
      if executable_changed \<and> \<not> is_exempt h rent (lamports post) (length (data post))
      then Err ExecutableAccountNotRentExempt else
      if executable_changed \<and> (\<not> writable \<or> executable pre \<or> prog \<noteq> owner post)
      then Err ExecutableModified else
      if rent_epoch_changed then Err RentEpochModified else
      Ok (if outermost_call
          then count_account timings post (owner_changed \<or> lamports_changed \<or> data_len_changed \<or>
                 executable_changed \<or> rent_epoch_changed \<or> pre_changed pa)
          else timings)))"

definition pre_account_update :: "PreAccount \<Rightarrow> AccountSharedData \<Rightarrow> PreAccount" where
  "pre_account_update pa a =
     pa\<lparr>pre_account := a\<lparr>rent_epoch := rent_epoch (pre_account pa)\<rparr>, pre_changed := True\<rparr>"

section \<open>The invocation context\<close>

text \<open>\<open>visit_each_account\<close>: every account index once, numbered in order of first occurrence.\<close>

fun visit_from ::
  "(nat \<Rightarrow> nat \<Rightarrow> 's \<Rightarrow> ('e, 's) result) \<Rightarrow> u8 list \<Rightarrow> nat \<Rightarrow> u8 list \<Rightarrow> 's \<Rightarrow> ('e, 's) result" where
  "visit_from work seen u [] st = Ok st"
| "visit_from work seen u (a # as) st =
     (if a \<in> set seen then visit_from work (seen @ [a]) u as st
      else bind (work u (unat a) st) (visit_from work (seen @ [a]) (Suc u) as))"

definition visit_each_account ::
  "CompiledInstruction \<Rightarrow> (nat \<Rightarrow> nat \<Rightarrow> 's \<Rightarrow> ('e, 's) result) \<Rightarrow> 's \<Rightarrow> ('e, 's) result" where
  "visit_each_account ci work st = visit_from work [] 0 (ci_accounts ci) st"

datatype feature = demote_program_write_locks | do_support_realloc | remove_native_loader
  | tx_wide_compute_cap | prevent_calling_precompiles_as_programs | ed25519_program_enabled
  | rent_for_sysvars | system_transfer_zero_check | merge_nonce_error_into_system_error

record StackFrame =
  number_of_program_accounts :: nat
  keyed_accounts :: "AccountInfo list"
  range_start :: nat
  range_end :: nat

definition frame_new :: "nat \<Rightarrow> AccountInfo list \<Rightarrow> StackFrame" where
  "frame_new n kas = \<lparr>number_of_program_accounts = n, keyed_accounts = kas,
     range_start = 0, range_end = length kas\<rparr>"

definition frame_program_id :: "StackFrame \<Rightarrow> pubkey option" where
  "frame_program_id f =
     (let i = number_of_program_accounts f - 1 in
      if i < length (keyed_accounts f) then Some (key (keyed_accounts f ! i)) else None)"

record InvokeContext =
  instruction_index :: nat
  invoke_stack :: "StackFrame list"
  ctx_rent :: Rent
  pre_accounts :: "PreAccount list"
  ctx_keys :: "pubkey list"
  ctx_store :: ledger
  ctx_borrowed :: "pubkey \<Rightarrow> bool"
  max_invoke_depth :: nat
  max_units :: u64
  tx_meter :: u64
  own_meter :: "u64 option"
  feature_active :: "feature \<Rightarrow> bool"
  ctx_timings :: ExecuteDetailsTimings
  ctx_blockhash :: "256 word"
  ctx_lamports_per_signature :: u64

text \<open>The meter of the context: the transaction's, until \<open>push\<close> installs one per instruction.\<close>

definition consume :: "InvokeContext \<Rightarrow> u64 \<Rightarrow> (InstructionError, InvokeContext) result" where
  "consume ctx n =
     (let remaining = (case own_meter ctx of Some r \<Rightarrow> r | None \<Rightarrow> tx_meter ctx);
          left = (if n \<le> remaining then remaining - n else 0)
      in if remaining < n then Err ComputationalBudgetExceeded
         else Ok (case own_meter ctx of
             Some _ \<Rightarrow> ctx\<lparr>own_meter := Some left\<rparr>
           | None \<Rightarrow> ctx\<lparr>tx_meter := left\<rparr>))"

fun collect_result :: "('a \<Rightarrow> ('e, 'b) result) \<Rightarrow> 'a list \<Rightarrow> ('e, 'b list) result" where
  "collect_result f [] = Ok []"
| "collect_result f (x # xs) = bind (f x) (\<lambda>y. bind (collect_result f xs) (\<lambda>ys. Ok (y # ys)))"

definition snapshot_work ::
  "InvokeContext \<Rightarrow> nat \<Rightarrow> nat \<Rightarrow> PreAccount list \<Rightarrow> (InstructionError, PreAccount list) result" where
  "snapshot_work ctx unique_index i pres =
     (if i < length (ctx_keys ctx) then
        let k = ctx_keys ctx ! i in
        if ctx_borrowed ctx k then Panic
        else Ok (pres @ [pre_account_new k (ctx_store ctx k)])
      else Err MissingAccount)"

definition keyed_program :: "InvokeContext \<Rightarrow> nat \<Rightarrow> ('e, AccountInfo) result" where
  "keyed_program ctx i = bind (at_index (ctx_keys ctx) i) (\<lambda>k.
     Ok \<lparr>key = k, is_signer = False, is_writable = False\<rparr>)"

definition keyed_account ::
  "InvokeContext \<Rightarrow> Message \<Rightarrow> nat list option \<Rightarrow> u8 \<Rightarrow> ('e, AccountInfo) result" where
  "keyed_account ctx m account_indices a =
     (let i = unat a in
      bind (case account_indices of Some ais \<Rightarrow> at_index ais i | None \<Rightarrow> Ok i) (\<lambda>account_index.
      bind (msg_is_writable m i (feature_active ctx demote_program_write_locks)) (\<lambda>w.
      bind (at_index (ctx_keys ctx) account_index) (\<lambda>k.
      Ok \<lparr>key = k, is_signer = msg_is_signer m i, is_writable = w\<rparr>))))"

definition check_reentrancy :: "InvokeContext \<Rightarrow> nat list \<Rightarrow> (InstructionError, unit) result" where
  "check_reentrancy ctx program_indices =
     (if program_indices = [] then Ok () else
      bind (at_index (ctx_keys ctx) (last program_indices)) (\<lambda>prog.
      let contains = list_ex (\<lambda>f. frame_program_id f = Some prog) (invoke_stack ctx);
          is_last = (invoke_stack ctx \<noteq> [] \<and>
            frame_program_id (last (invoke_stack ctx)) = Some prog)
      in if contains \<and> \<not> is_last then Err ReentrancyNotAllowed else Ok ()))"

definition ctx_push ::
  "InvokeContext \<Rightarrow> Message \<Rightarrow> CompiledInstruction \<Rightarrow> nat list \<Rightarrow> nat list option \<Rightarrow>
   (InstructionError, InvokeContext) result" where
  "ctx_push ctx m ci program_indices account_indices =
     (if max_invoke_depth ctx < length (invoke_stack ctx) then Err CallDepth else
      bind (check_reentrancy ctx program_indices) (\<lambda>_.
      bind (if invoke_stack ctx = [] then
              bind (visit_each_account ci (snapshot_work ctx) []) (\<lambda>pres.
              Ok (ctx\<lparr>own_meter := (if feature_active ctx tx_wide_compute_cap
                                     then own_meter ctx else Some (max_units ctx)),
                      pre_accounts := pres\<rparr>))
            else Ok ctx) (\<lambda>ctx.
      bind (collect_result (keyed_program ctx) program_indices) (\<lambda>ps.
      bind (collect_result (keyed_account ctx m account_indices) (ci_accounts ci)) (\<lambda>as.
      Ok (ctx\<lparr>invoke_stack :=
        invoke_stack ctx @ [frame_new (length program_indices) (ps @ as)]\<rparr>))))))"

definition ctx_pop :: "InvokeContext \<Rightarrow> InvokeContext" where
  "ctx_pop ctx = ctx\<lparr>invoke_stack := butlast (invoke_stack ctx)\<rparr>"

definition get_caller :: "InvokeContext \<Rightarrow> (InstructionError, pubkey) result" where
  "get_caller ctx =
     (if invoke_stack ctx = [] then Err CallDepth
      else ok_or (frame_program_id (last (invoke_stack ctx))) CallDepth)"

definition get_keyed_accounts :: "InvokeContext \<Rightarrow> (InstructionError, AccountInfo list) result" where
  "get_keyed_accounts ctx =
     (if invoke_stack ctx = [] then Err CallDepth
      else let f = last (invoke_stack ctx) in
        if range_start f \<le> range_end f \<and> range_end f \<le> length (keyed_accounts f)
        then Ok (segment (range_start f) (range_end f - range_start f) (keyed_accounts f))
        else Panic)"

definition remove_first_keyed_account :: "InvokeContext \<Rightarrow> (InstructionError, InvokeContext) result" where
  "remove_first_keyed_account ctx =
     (if feature_active ctx remove_native_loader then Ok ctx
      else if invoke_stack ctx = [] then Err CallDepth
      else let f = last (invoke_stack ctx) in
        Ok (ctx\<lparr>invoke_stack := butlast (invoke_stack ctx) @
          [f\<lparr>range_start := Suc (range_start f)\<rparr>]\<rparr>))"

subsection \<open>Verification\<close>

text \<open>What the closure of \<open>verify\<close> updates: the timings and the two balance sums.\<close>

type_synonym sums = "ExecuteDetailsTimings \<times> u128 \<times> u128"

definition add_sums ::
  "u64 \<Rightarrow> u64 \<Rightarrow> u128 \<Rightarrow> u128 \<Rightarrow> (InstructionError, u128 \<times> u128) result" where
  "add_sums pre post pre_sum post_sum =
     bind (ok_or (checked_add pre_sum (ucast pre)) UnbalancedInstruction) (\<lambda>pre_sum.
     bind (ok_or (checked_add post_sum (ucast post)) UnbalancedInstruction) (\<lambda>post_sum.
     Ok (pre_sum, post_sum)))"

definition verify_work ::
  "host \<Rightarrow> InvokeContext \<Rightarrow> Message \<Rightarrow> pubkey \<Rightarrow> nat \<Rightarrow> nat \<Rightarrow> sums \<Rightarrow> (InstructionError, sums) result" where
  "verify_work h ctx m prog unique_index account_index st =
     (case st of (timings, pre_sum, post_sum) \<Rightarrow>
      bind (at_index (ctx_keys ctx) account_index) (\<lambda>k.
      if ctx_borrowed ctx k then Err InstructionError.AccountBorrowOutstanding else
      bind (at_index (pre_accounts ctx) unique_index) (\<lambda>pa.
      bind (msg_is_writable m account_index (feature_active ctx demote_program_write_locks)) (\<lambda>w.
      let account = ctx_store ctx k in
      bind (pre_account_verify h pa prog w (ctx_rent ctx) account timings True
              (feature_active ctx do_support_realloc)) (\<lambda>timings.
      bind (add_sums (lamports (pre_account pa)) (lamports account) pre_sum post_sum) (\<lambda>s.
      Ok (timings, s)))))))"

fun check_programs_unborrowed :: "InvokeContext \<Rightarrow> nat list \<Rightarrow> (InstructionError, unit) result" where
  "check_programs_unborrowed ctx [] = Ok ()"
| "check_programs_unborrowed ctx (i # is) =
     bind (at_index (ctx_keys ctx) i) (\<lambda>k.
     if ctx_borrowed ctx k then Err InstructionError.AccountBorrowOutstanding
     else check_programs_unborrowed ctx is)"

definition ctx_verify ::
  "host \<Rightarrow> InvokeContext \<Rightarrow> Message \<Rightarrow> CompiledInstruction \<Rightarrow> nat list \<Rightarrow>
   (InstructionError, InvokeContext) result" where
  "ctx_verify h ctx m ci program_indices =
     bind (compiled_program_id ci (account_keys m)) (\<lambda>prog.
     bind (check_programs_unborrowed ctx program_indices) (\<lambda>_.
     bind (visit_each_account ci (verify_work h ctx m prog) (ctx_timings ctx, 0, 0))
       (\<lambda>(timings, pre_sum, post_sum).
     if pre_sum \<noteq> post_sum then Err UnbalancedInstruction
     else Ok (ctx\<lparr>ctx_timings := timings\<rparr>))))"

text \<open>The search for the snapshot of a key, with its check and update in place.\<close>

fun verify_update_first ::
  "host \<Rightarrow> InvokeContext \<Rightarrow> pubkey \<Rightarrow> pubkey \<Rightarrow> bool \<Rightarrow> PreAccount list \<Rightarrow> sums \<Rightarrow>
   (InstructionError, PreAccount list \<times> sums) result" where
  "verify_update_first h ctx prog k w [] st = Err MissingAccount"
| "verify_update_first h ctx prog k w (pa # pas) st =
     (if k = pre_key pa then
        case st of (timings, pre_sum, post_sum) \<Rightarrow>
        if ctx_borrowed ctx k then Err InstructionError.AccountBorrowOutstanding else
        let account = ctx_store ctx k in
        bind (pre_account_verify h pa prog w (ctx_rent ctx) account timings False
                (feature_active ctx do_support_realloc)) (\<lambda>timings.
        bind (add_sums (lamports (pre_account pa)) (lamports account) pre_sum post_sum) (\<lambda>s.
        Ok ((if w \<and> \<not> executable (pre_account pa) then pre_account_update pa account else pa) # pas,
            timings, s)))
      else bind (verify_update_first h ctx prog k w pas st) (\<lambda>(pas, st). Ok (pa # pas, st)))"

definition verify_update_work ::
  "host \<Rightarrow> InvokeContext \<Rightarrow> pubkey \<Rightarrow> nat list \<Rightarrow> bool list \<Rightarrow> nat \<Rightarrow> nat \<Rightarrow> PreAccount list \<times> sums \<Rightarrow>
   (InstructionError, PreAccount list \<times> sums) result" where
  "verify_update_work h ctx prog account_indices write_privileges unique_index i st =
     (if i < length write_privileges \<and> i < length account_indices then
        bind (at_index (ctx_keys ctx) (account_indices ! i)) (\<lambda>k.
        verify_update_first h ctx prog k (write_privileges ! i) (fst st) (snd st))
      else Err MissingAccount)"

definition verify_and_update ::
  "host \<Rightarrow> InvokeContext \<Rightarrow> CompiledInstruction \<Rightarrow> nat list \<Rightarrow> bool list \<Rightarrow>
   (InstructionError, InvokeContext) result" where
  "verify_and_update h ctx ci account_indices write_privileges =
     bind (get_caller ctx) (\<lambda>prog.
     bind (visit_each_account ci (verify_update_work h ctx prog account_indices write_privileges)
             (pre_accounts ctx, ctx_timings ctx, 0, 0))
       (\<lambda>(pas, timings, pre_sum, post_sum).
     if pre_sum \<noteq> post_sum then Err UnbalancedInstruction
     else Ok (ctx\<lparr>pre_accounts := pas, ctx_timings := timings\<rparr>)))"

section \<open>Dispatch\<close>

text \<open>
  A program: the number of leading accounts to skip, the instruction data, the context. What a
  registered program does is not the runtime's code, so programs are arguments.
\<close>

type_synonym program = "nat \<Rightarrow> bytes \<Rightarrow> InvokeContext \<Rightarrow> (InstructionError, InvokeContext) result"

record InstructionProcessor =
  programs :: "(pubkey \<times> program) list"
  native_loader :: program

definition native_loader_id :: pubkey where
  "native_loader_id = 0x8003979a5c45c065f7ad7da053f1a988485712b02f28a48b14bf848705"

fun set_program :: "pubkey \<Rightarrow> program \<Rightarrow> (pubkey \<times> program) list \<Rightarrow> (pubkey \<times> program) list" where
  "set_program k p [] = [(k, p)]"
| "set_program k p ((k', p') # ps) =
     (if k = k' then (k', p) # ps else (k', p') # set_program k p ps)"

definition add_program ::
  "InstructionProcessor \<Rightarrow> pubkey \<Rightarrow> program \<Rightarrow> InstructionProcessor" where
  "add_program ip k p = ip\<lparr>programs := set_program k p (programs ip)\<rparr>"

fun drop_program :: "pubkey \<Rightarrow> (pubkey \<times> program) list \<Rightarrow> (pubkey \<times> program) list" where
  "drop_program k [] = []"
| "drop_program k ((k', p') # ps) = (if k = k' then ps else (k', p') # drop_program k ps)"

definition remove_program :: "InstructionProcessor \<Rightarrow> pubkey \<Rightarrow> InstructionProcessor" where
  "remove_program ip k = ip\<lparr>programs := drop_program k (programs ip)\<rparr>"

text \<open>Builtin programs are owned by the native loader; others run through the loader that owns them.\<close>

definition dispatch ::
  "InstructionProcessor \<Rightarrow> pubkey \<Rightarrow> pubkey \<Rightarrow> bytes \<Rightarrow> InvokeContext \<Rightarrow>
   (InstructionError, InvokeContext) result" where
  "dispatch ip root_id owner_id input ctx =
     (if owner_id = native_loader_id then
        case map_of (programs ip) root_id of
          Some p \<Rightarrow> p 1 input ctx
        | None \<Rightarrow> if \<not> feature_active ctx remove_native_loader then native_loader ip 0 input ctx
                  else Err UnsupportedProgramId
      else
        case map_of (programs ip) owner_id of
          Some p \<Rightarrow> p 0 input ctx
        | None \<Rightarrow> Err UnsupportedProgramId)"

definition processor_process_instruction ::
  "InstructionProcessor \<Rightarrow> bytes \<Rightarrow> InvokeContext \<Rightarrow> (InstructionError, InvokeContext) result" where
  "processor_process_instruction ip input ctx =
     bind (get_keyed_accounts ctx) (\<lambda>kas.
     case kas of [] \<Rightarrow> Err UnsupportedProgramId
     | root # _ \<Rightarrow>
       if ctx_borrowed ctx (key root) then Err AccountBorrowFailed
       else dispatch ip (key root) (owner (ctx_store ctx (key root))) input ctx)"

section \<open>Messages\<close>

definition secp256k1_program_id :: pubkey where
  "secp256k1_program_id = 0x2012e830281e6a16bb8547c19ef58c9f1c21d78455f0cc50f020fcc604"

definition ed25519_program_id :: pubkey where
  "ed25519_program_id = 0x804470cafc648af42749747005ff408d838f42f912befb937cd6467d03"

definition PRECOMPILES :: "(pubkey \<times> feature option) list" where
  "PRECOMPILES = [(secp256k1_program_id, Some prevent_calling_precompiles_as_programs),
     (ed25519_program_id, Some ed25519_program_enabled)]"

definition precompile_check_id :: "pubkey \<times> feature option \<Rightarrow> pubkey \<Rightarrow> (feature \<Rightarrow> bool) \<Rightarrow> bool" where
  "precompile_check_id pc k is_enabled =
     ((case snd pc of None \<Rightarrow> True | Some f \<Rightarrow> is_enabled f) \<and> fst pc = k)"

definition is_precompile :: "pubkey \<Rightarrow> (feature \<Rightarrow> bool) \<Rightarrow> bool" where
  "is_precompile k is_enabled = list_ex (\<lambda>pc. precompile_check_id pc k is_enabled) PRECOMPILES"

text \<open>The instructions sysvar, when a message names it, is told which instruction runs.\<close>

definition fixup_instructions_sysvar ::
  "Message \<Rightarrow> nat \<Rightarrow> InvokeContext \<Rightarrow> ('e, InvokeContext) result" where
  "fixup_instructions_sysvar m i ctx =
     (if instructions_id \<in> set (take (length (account_keys m)) (ctx_keys ctx)) then
        if ctx_borrowed ctx instructions_id then Panic else
        let a = ctx_store ctx instructions_id in
        bind (store_current_index (data a) (of_nat i)) (\<lambda>d.
        Ok (ctx\<lparr>ctx_store := (ctx_store ctx)(instructions_id := a\<lparr>data := d\<rparr>)\<rparr>))
      else Ok ctx)"

definition execute_instruction ::
  "host \<Rightarrow> InstructionProcessor \<Rightarrow> Message \<Rightarrow> CompiledInstruction \<Rightarrow> nat list \<Rightarrow> InvokeContext \<Rightarrow>
   (InstructionError, InvokeContext) result" where
  "execute_instruction h ip m ci program_indices ctx =
     bind (ctx_push ctx m ci program_indices None) (\<lambda>ctx.
     bind (processor_process_instruction ip (ci_data ci) ctx) (\<lambda>ctx.
     ctx_verify h ctx m ci program_indices))"

text \<open>
  The loop over the instructions, with the index of the next one. \<open>clock\<close> is the measured time of
  an instruction. The timings of a message that fails are not kept: its caller gets the error.
\<close>

fun process_from ::
  "host \<Rightarrow> InstructionProcessor \<Rightarrow> Message \<Rightarrow> (nat \<Rightarrow> u64) \<Rightarrow> nat \<Rightarrow>
   (CompiledInstruction \<times> nat list) list \<Rightarrow> InvokeContext \<Rightarrow> ExecuteDetailsTimings \<Rightarrow>
   (TransactionError, InvokeContext \<times> ExecuteDetailsTimings) result" where
  "process_from h ip m clock i [] ctx timings = Ok (ctx, timings)"
| "process_from h ip m clock i ((ci, program_indices) # rest) ctx timings =
     bind (compiled_program_id ci (account_keys m)) (\<lambda>prog.
     if feature_active ctx prevent_calling_precompiles_as_programs \<and>
        is_precompile prog (feature_active ctx)
     then process_from h ip m clock (Suc i) rest ctx timings else
     bind (fixup_instructions_sysvar m i ctx) (\<lambda>ctx.
     let pre_remaining_units = tx_meter ctx in
     bind (map_err (InstructionError (of_nat i))
             (execute_instruction h ip m ci program_indices (ctx\<lparr>instruction_index := i\<rparr>))) (\<lambda>ctx'.
     let timings = accumulate timings (ctx_timings ctx');
         ctx' = ctx_pop ctx';
         timings = accumulate_program timings prog (clock i) (pre_remaining_units - tx_meter ctx')
     in process_from h ip m clock (Suc i) rest ctx' timings)))"

definition process_message ::
  "host \<Rightarrow> InstructionProcessor \<Rightarrow> Message \<Rightarrow> (nat \<Rightarrow> u64) \<Rightarrow> nat list list \<Rightarrow> InvokeContext \<Rightarrow>
   ExecuteDetailsTimings \<Rightarrow> (TransactionError, InvokeContext \<times> ExecuteDetailsTimings) result" where
  "process_message h ip m clock program_indices ctx timings =
     process_from h ip m clock 0 (zip (instructions m) program_indices)
       (ctx\<lparr>instruction_index := 0, invoke_stack := [], pre_accounts := [],
            own_meter := None, ctx_timings := default_timings\<rparr>) timings"

end
