(* ===== verification/Runtime_Facts.thy ===== *)
theory Runtime_Facts
  imports Runtime
begin

text \<open>
  What the checks of the runtime let through: the rules for one account in declarative form, the
  balance of an instruction, and the ledger a message can leave behind whatever its programs do.
\<close>

section \<open>Snapshots\<close>

lemma chunks_exact_flat:
  "0 < n \<Longrightarrow> concat (chunks_exact n buf) @ chunks_remainder n buf = buf"
proof -
  have "concat (map (\<lambda>i. segment (i * n) n buf) [0..<q]) = take (q * n) buf" for q
  proof (induction q)
    case (Suc q)
    then show ?case by (simp add: segment_def take_add add.commute [of n])
  qed simp
  then show ?thesis by (simp add: chunks_exact_def chunks_remainder_def)
qed

lemma replicate_iff: "xs = replicate (length xs) z \<longleftrightarrow> set xs \<subseteq> {z}"
  by (induction xs) auto

lemma chunk_length:
  assumes "0 < n" "i < length buf div n"
  shows "length (segment (i * n) n buf) = n"
proof -
  from assms have "Suc i * n \<le> length buf"
    by (simp only: less_eq_div_iff_mult_less_eq [symmetric] Suc_le_eq)
  then show ?thesis by simp
qed

lemma chunks_exact_length: "0 < n \<Longrightarrow> c \<in> set (chunks_exact n buf) \<Longrightarrow> length c = n"
  using chunk_length by (auto simp: chunks_exact_def)

lemma is_zeroed_iff: "is_zeroed buf \<longleftrightarrow> buf = replicate (length buf) 0"
proof -
  let ?cs = "chunks_exact ZEROS_LEN buf" and ?r = "chunks_remainder ZEROS_LEN buf"
  have pos: "0 < ZEROS_LEN" by (simp add: ZEROS_LEN_def)
  have "c = replicate ZEROS_LEN 0 \<longleftrightarrow> set c \<subseteq> {0}" if "c \<in> set ?cs" for c
    using replicate_iff [of c 0] chunks_exact_length [OF pos that] by simp
  then have "is_zeroed buf \<longleftrightarrow> (\<forall>c\<in>set ?cs. set c \<subseteq> {0}) \<and> set ?r \<subseteq> {0}"
    using replicate_iff [of ?r 0] by (simp add: is_zeroed_def Let_def list_all_iff)
  also have "\<dots> \<longleftrightarrow> set (concat ?cs @ ?r) \<subseteq> {0}" by (auto simp del: subset_singleton_iff)
  also have "\<dots> \<longleftrightarrow> buf = replicate (length buf) 0"
    by (simp only: chunks_exact_flat [OF pos] replicate_iff)
  finally show ?thesis .
qed

text \<open>What a program may do to one account, as rules.\<close>

definition allowed :: "pubkey \<Rightarrow> bool \<Rightarrow> AccountSharedData \<Rightarrow> AccountSharedData \<Rightarrow> bool" where
  "allowed prog writable pre post \<longleftrightarrow>
     (owner pre \<noteq> owner post \<longrightarrow> prog = owner pre \<and> writable \<and> \<not> executable pre \<and>
        data post = replicate (length (data post)) 0) \<and>
     (lamports pre \<noteq> lamports post \<longrightarrow> writable \<and> \<not> executable pre) \<and>
     (lamports post < lamports pre \<longrightarrow> prog = owner pre) \<and>
     (data pre \<noteq> data post \<longrightarrow> prog = owner pre \<and> writable \<and> \<not> executable pre) \<and>
     (executable pre \<noteq> executable post \<longrightarrow> prog = owner post \<and> writable \<and> \<not> executable pre) \<and>
     rent_epoch pre = rent_epoch post"

definition size_allowed :: "pubkey \<Rightarrow> AccountSharedData \<Rightarrow> AccountSharedData \<Rightarrow> bool \<Rightarrow> bool" where
  "size_allowed prog pre post realloc \<longleftrightarrow>
     (if realloc then length (data post) \<le> MAX_PERMITTED_DATA_LENGTH
      else length (data post) = length (data pre) \<or>
        prog = system_program_id \<and> owner pre = system_program_id)"

text \<open>The checks of \<open>verify\<close> in sequence are these rules, no more and no less.\<close>

lemma early_Errs_Ok_iff:
  "(if c then if a then Err e else if b then Err e' else Err e'' else r) = Ok y \<longleftrightarrow> \<not> c \<and> r = Ok y"
  by simp

lemma verify_data_len_iff:
  "verify_data_len prog pre post realloc = Ok b \<longleftrightarrow> b = (length (data pre) \<noteq> length (data post)) \<and>
     size_allowed prog pre post realloc \<and>
     (realloc \<and> length (data pre) \<noteq> length (data post) \<longrightarrow> prog = owner pre)"
  unfolding verify_data_len_def size_allowed_def Let_def by (auto split: if_split_asm)

lemma pre_account_verify_Ok_iff:
  fixes pa :: PreAccount
  defines "pre \<equiv> pre_account pa"
  shows "(\<exists>t'. pre_account_verify h pa prog w rent post t outer realloc = Ok t') \<longleftrightarrow>
    \<not> (owner pre \<noteq> owner post \<and>
       (\<not> w \<or> executable pre \<or> prog \<noteq> owner pre \<or> \<not> is_zeroed (data post))) \<and>
    \<not> (prog \<noteq> owner pre \<and> lamports post < lamports pre) \<and>
    \<not> (lamports pre \<noteq> lamports post \<and> \<not> w) \<and> \<not> (lamports pre \<noteq> lamports post \<and> executable pre) \<and>
    size_allowed prog pre post realloc \<and>
    (realloc \<and> length (data pre) \<noteq> length (data post) \<longrightarrow> prog = owner pre) \<and>
    \<not> (\<not> (prog = owner pre \<and> w \<and> \<not> executable pre) \<and> data pre \<noteq> data post) \<and>
    \<not> (executable pre \<noteq> executable post \<and> \<not> is_exempt h rent (lamports post) (length (data post))) \<and>
    \<not> (executable pre \<noteq> executable post \<and> (\<not> w \<or> executable pre \<or> prog \<noteq> owner post)) \<and>
    rent_epoch pre = rent_epoch post"
  unfolding pre_account_verify_def Let_def pre_def
  by (simp only: early_Err_Ok_iff bind_Ok_iff early_Errs_Ok_iff verify_data_len_iff) simp

lemma pre_account_verify_iff:
  "(\<exists>t'. pre_account_verify h pa prog w rent post t outer realloc = Ok t') \<longleftrightarrow>
     allowed prog w (pre_account pa) post \<and> size_allowed prog (pre_account pa) post realloc \<and>
     (executable (pre_account pa) \<noteq> executable post \<longrightarrow>
        is_exempt h rent (lamports post) (length (data post)))"
proof -
  have "length (data (pre_account pa)) \<noteq> length (data post) \<longrightarrow> data (pre_account pa) \<noteq> data post"
    by auto
  then show ?thesis
    unfolding pre_account_verify_Ok_iff allowed_def is_zeroed_iff by argo
qed

lemma pre_account_verify_allowed:
  "pre_account_verify h pa prog w rent post t outer realloc = Ok t' \<Longrightarrow>
   allowed prog w (pre_account pa) post"
  using pre_account_verify_iff by blast

lemma allowed_readonly: "allowed prog False pre post \<Longrightarrow> post = pre"
  by (cases pre; cases post) (auto simp: allowed_def)

lemma allowed_refl: "allowed prog w a a"
  by (simp add: allowed_def)

lemma allowed_foreign:
  assumes "allowed prog w pre post" "owner pre \<noteq> prog"
  shows "owner post = owner pre" "data post = data pre" "lamports pre \<le> lamports post"
  using assms by (auto simp: allowed_def not_less)

section \<open>Visiting accounts\<close>

fun visit_list ::
  "(nat \<Rightarrow> nat \<Rightarrow> 's \<Rightarrow> ('e, 's) result) \<Rightarrow> (nat \<times> u8) list \<Rightarrow> 's \<Rightarrow> ('e, 's) result" where
  "visit_list work [] st = Ok st"
| "visit_list work ((u, a) # xs) st = bind (work u (unat a) st) (visit_list work xs)"

lemma unique_from_cong: "set s = set s' \<Longrightarrow> unique_from s xs = unique_from s' xs"
  by (induction s xs arbitrary: s' rule: unique_from.induct) auto

lemma visit_from_eq:
  "visit_from work before u as st = visit_list work (enumerate u (unique_from before as)) st"
proof (induction work before u as st rule: visit_from.induct)
  case (2 work before u a as st)
  have "unique_from (before @ [a]) as = unique_from (a # before) as"
    by (rule unique_from_cong) auto
  moreover have "unique_from (before @ [a]) as = unique_from before as" if "a \<in> set before"
    using that by (intro unique_from_cong) auto
  ultimately show ?case
    using 2 by (auto intro!: bind_cong)
qed simp

lemma visit_each_account_eq:
  "visit_each_account ci work st = visit_list work (enumerate 0 (unique (ci_accounts ci))) st"
  by (simp add: visit_each_account_def visit_from_eq)

lemma snapshot_work_Ok_iff:
  "snapshot_work ctx u i pres = Ok pres' \<longleftrightarrow> i < length (ctx_keys ctx) \<and>
     \<not> ctx_borrowed ctx (ctx_keys ctx ! i) \<and>
     pres' = pres @ [pre_account_new (ctx_keys ctx ! i) (ctx_store ctx (ctx_keys ctx ! i))]"
  by (auto simp: snapshot_work_def Let_def)

lemma snapshots:
  assumes "visit_list (snapshot_work ctx) (enumerate u as) pres = Ok pres'"
  shows "map pre_account pres' = map pre_account pres @ map (\<lambda>a. ctx_store ctx (ctx_keys ctx ! unat a)) as \<and>
    (\<forall>a\<in>set as. unat a < length (ctx_keys ctx))"
  using assms
proof (induction as arbitrary: u pres)
  case (Cons a as)
  let ?k = "ctx_keys ctx ! unat a"
  from Cons.prems have "unat a < length (ctx_keys ctx)"
    and "visit_list (snapshot_work ctx) (enumerate (Suc u) as)
      (pres @ [pre_account_new ?k (ctx_store ctx ?k)]) = Ok pres'"
    by (auto simp: snapshot_work_Ok_iff result_ok)
  with Cons.IH show ?case by (fastforce simp: pre_account_new_def)
qed simp

lemma unat_ucast_128: "unat (ucast v :: u128) = unat v" for v :: u64
proof -
  have "unat v < 2 ^ 64" using unsigned_less [of v] by simp
  then show ?thesis by (simp add: unsigned_ucast_eq take_bit_nat_eq_self)
qed

lemma add_sums_Ok:
  assumes "add_sums x y p q = Ok (p', q')"
  shows "unat p' = unat p + unat x" "unat q' = unat q + unat y"
  using assms by (auto simp: add_sums_def result_ok checked_Some_iff unat_ucast_128)

lemma verify_work_Ok:
  assumes "verify_work h ctx m prog u i (t, p, q) = Ok (t', p', q')"
  defines "k \<equiv> ctx_keys ctx ! i"
  shows "i < length (ctx_keys ctx) \<and> u < length (pre_accounts ctx) \<and>
    unat p' = unat p + unat (lamports (pre_account (pre_accounts ctx ! u))) \<and>
    unat q' = unat q + unat (lamports (ctx_store ctx k)) \<and>
    (\<exists>w. msg_is_writable m i (feature_active ctx demote_program_write_locks) =
        (Ok w :: (InstructionError, bool) result) \<and>
      allowed prog w (pre_account (pre_accounts ctx ! u)) (ctx_store ctx k))"
  using assms(1)
  by (auto simp: verify_work_def result_ok Let_def k_def add_sums_Ok
      dest!: pre_account_verify_allowed)

text \<open>
  The check of an instruction: every account it names was changed within the rules, relative to
  the snapshots taken of the ledger \<open>L\<close>, and the sums are those of the balances.
\<close>

lemma verify_visits:
  assumes "visit_list (verify_work h ctx m prog) (enumerate u as) (t, p, q) = Ok (t', p', q')"
    and "map pre_account (drop u (pre_accounts ctx)) = map (\<lambda>a. L (ctx_keys ctx ! unat a)) as"
  shows "unat p' = unat p + (\<Sum>a\<leftarrow>as. unat (lamports (L (ctx_keys ctx ! unat a)))) \<and>
    unat q' = unat q + (\<Sum>a\<leftarrow>as. unat (lamports (ctx_store ctx (ctx_keys ctx ! unat a)))) \<and>
    (\<forall>a\<in>set as. \<exists>w.
      msg_is_writable m (unat a) (feature_active ctx demote_program_write_locks) =
        (Ok w :: (InstructionError, bool) result) \<and>
      allowed prog w (L (ctx_keys ctx ! unat a)) (ctx_store ctx (ctx_keys ctx ! unat a)))"
  using assms
proof (induction as arbitrary: u t p q)
  case (Cons a as)
  let ?k = "ctx_keys ctx ! unat a"
  from Cons.prems(1) obtain t1 p1 q1 where
    step: "verify_work h ctx m prog u (unat a) (t, p, q) = Ok (t1, p1, q1)"
    and rest: "visit_list (verify_work h ctx m prog) (enumerate (Suc u) as) (t1, p1, q1) = Ok (t', p', q')"
    by (auto simp: result_ok)
  from verify_work_Ok [OF step] have "u < length (pre_accounts ctx)" by simp
  with Cons.prems(2) have pre: "pre_account (pre_accounts ctx ! u) = L ?k"
    and pres: "map pre_account (drop (Suc u) (pre_accounts ctx)) = map (\<lambda>a. L (ctx_keys ctx ! unat a)) as"
    by (simp_all add: Cons_nth_drop_Suc [symmetric])
  from verify_work_Ok [OF step] Cons.IH [OF rest pres] show ?case unfolding pre by auto
qed simp

section \<open>One instruction\<close>

lemma map_result_Ok: "collect_result f xs = Ok ys \<Longrightarrow> list_all2 (\<lambda>x y. f x = Ok y) xs ys"
  by (induction xs arbitrary: ys) (auto simp: result_ok)

text \<open>The accounts a frame hands to its program, without the program's own accounts.\<close>

definition frame_infos :: "StackFrame \<Rightarrow> AccountInfo list" where
  "frame_infos f = drop (number_of_program_accounts f) (keyed_accounts f)"

definition ci_keys :: "InvokeContext \<Rightarrow> CompiledInstruction \<Rightarrow> pubkey list" where
  "ci_keys ctx ci = map (\<lambda>a. ctx_keys ctx ! unat a) (ci_accounts ci)"

lemma ctx_push_Ok:
  assumes "ctx_push ctx m ci pidx None = Ok ctx'" "invoke_stack ctx = []"
  obtains pres om ps as where
    "ctx' = ctx\<lparr>own_meter := om, pre_accounts := pres,
       invoke_stack := [frame_new (length pidx) (ps @ as)]\<rparr>"
    "map pre_account pres = map (\<lambda>a. ctx_store ctx (ctx_keys ctx ! unat a)) (unique (ci_accounts ci))"
    "map key ps = map (\<lambda>i. ctx_keys ctx ! i) pidx" "map key as = ci_keys ctx ci"
    "\<forall>a\<in>set (ci_accounts ci). unat a < length (ctx_keys ctx)"
proof -
  define om where "om = (if feature_active ctx tx_wide_compute_cap then own_meter ctx
    else Some (max_units ctx))"
  from assms obtain pres ps as where
    v: "visit_each_account ci (snapshot_work ctx) [] = Ok pres"
    and ps: "collect_result (keyed_program (ctx\<lparr>own_meter := om, pre_accounts := pres\<rparr>)) pidx =
      (Ok ps :: (InstructionError, AccountInfo list) result)"
    and as: "collect_result (keyed_account (ctx\<lparr>own_meter := om, pre_accounts := pres\<rparr>) m None)
      (ci_accounts ci) = (Ok as :: (InstructionError, AccountInfo list) result)"
    and ctx': "ctx' = ctx\<lparr>own_meter := om, pre_accounts := pres,
      invoke_stack := [frame_new (length pidx) (ps @ as)]\<rparr>"
    unfolding ctx_push_def om_def [symmetric] by (auto simp: result_ok)
  have "map key ps = map (\<lambda>i. ctx_keys ctx ! i) pidx"
    using map_result_Ok [OF ps]
    by (induction rule: list_all2_induct) (auto simp: keyed_program_def result_ok)
  moreover have "map key as = ci_keys ctx ci"
    using map_result_Ok [OF as] unfolding ci_keys_def
    by (induction rule: list_all2_induct) (auto simp: keyed_account_def result_ok Let_def)
  moreover have "map pre_account pres =
      map (\<lambda>a. ctx_store ctx (ctx_keys ctx ! unat a)) (unique (ci_accounts ci))"
    "\<forall>a\<in>set (ci_accounts ci). unat a < length (ctx_keys ctx)"
    using snapshots [OF v [unfolded visit_each_account_eq]] by simp_all
  ultimately show thesis using ctx' by (intro that)
qed

text \<open>
  The contract of a program: it writes only cells of the accounts its frame lends it (and spends
  compute units). The runtime trusts programs with nothing else.
\<close>

definition runs_within :: "StackFrame \<Rightarrow> InvokeContext \<Rightarrow> InvokeContext \<Rightarrow> bool" where
  "runs_within f ctx ctx' \<longleftrightarrow> (\<exists>L x y. ctx' = ctx\<lparr>ctx_store := L, tx_meter := x, own_meter := y\<rparr> \<and>
     (\<forall>k. k \<notin> key ` set (frame_infos f) \<longrightarrow> L k = ctx_store ctx k))"

locale sandboxed =
  fixes p :: program
  assumes runs: "p n input ctx = Ok ctx' \<Longrightarrow> invoke_stack ctx = [f] \<Longrightarrow> runs_within f ctx ctx'"

definition all_programs :: "InstructionProcessor \<Rightarrow> program set" where
  "all_programs ip = insert (native_loader ip) (snd ` set (programs ip))"

lemma dispatch_runs:
  assumes "dispatch ip root_id owner_id input ctx = Ok ctx'"
  obtains p n where "p \<in> all_programs ip" "p n input ctx = Ok ctx'"
proof -
  have mem: "map_of (programs ip) k = Some p \<Longrightarrow> p \<in> all_programs ip" for k p
    using map_of_SomeD [of "programs ip" k p] by (force simp: all_programs_def)
  show thesis
  proof (cases "owner_id = native_loader_id")
    case True
    show thesis
    proof (cases "map_of (programs ip) root_id")
      case None
      with True assms have "native_loader ip 0 input ctx = Ok ctx'"
        by (simp add: dispatch_def split: if_split_asm)
      then show thesis by (rule that [rotated]) (simp add: all_programs_def)
    next
      case (Some p)
      with True assms have "p 1 input ctx = Ok ctx'" by (simp add: dispatch_def)
      then show thesis by (rule that [OF mem [OF Some]])
    qed
  next
    case False
    with assms obtain p where p: "map_of (programs ip) owner_id = Some p" "p 0 input ctx = Ok ctx'"
      by (auto simp: dispatch_def split: option.split_asm)
    show thesis by (rule that [OF mem [OF p(1)] p(2)])
  qed
qed

lemma processor_runs:
  assumes "processor_process_instruction ip input ctx = Ok ctx'"
  obtains p n where "p \<in> all_programs ip" "p n input ctx = Ok ctx'"
proof -
  from assms obtain kas :: "AccountInfo list" where kas: "(case kas of [] \<Rightarrow> Err UnsupportedProgramId
     | root # _ \<Rightarrow> if ctx_borrowed ctx (key root) then Err AccountBorrowFailed
       else dispatch ip (key root) (owner (ctx_store ctx (key root))) input ctx) = Ok ctx'"
    unfolding processor_process_instruction_def bind_Ok_iff by blast
  then obtain root :: AccountInfo where "dispatch ip (key root) (owner (ctx_store ctx (key root))) input ctx = Ok ctx'"
    by (cases kas) (auto simp: early_Err_Ok_iff)
  then show thesis by (rule dispatch_runs) (rule that)
qed

text \<open>
  An instruction that the runtime accepts: every account of the ledger changed within the rules
  for the program that ran, sysvars not at all, and balances were only moved around.
\<close>

definition within_rules :: "pubkey \<Rightarrow> ledger \<Rightarrow> ledger \<Rightarrow> bool" where
  "within_rules prog L L' \<longleftrightarrow>
     (\<forall>k. \<exists>w. allowed prog w (L k) (L' k) \<and> (w \<longrightarrow> \<not> is_sysvar_id k))"

lemma within_rules_refl: "within_rules prog L L"
  by (auto simp: within_rules_def allowed_refl)

lemma within_rules_sysvar: "within_rules prog L L' \<Longrightarrow> is_sysvar_id k \<Longrightarrow> L' k = L k"
  using allowed_readonly by (fastforce simp: within_rules_def)

lemma writable_not_sysvar:
  "msg_is_writable m i demote = Ok True \<Longrightarrow> i < length (account_keys m) \<and> \<not> is_sysvar_id (account_keys m ! i)"
  by (auto simp: msg_is_writable_def Let_def result_ok split: if_splits)

text \<open>The account list of the context starts with the keys of the message, without repetition.\<close>

definition loaded :: "Message \<Rightarrow> InvokeContext \<Rightarrow> bool" where
  "loaded m ctx \<longleftrightarrow> distinct (ctx_keys ctx) \<and>
     take (length (account_keys m)) (ctx_keys ctx) = account_keys m"

lemma loaded_key: "loaded m ctx \<Longrightarrow> i < length (account_keys m) \<Longrightarrow> ctx_keys ctx ! i = account_keys m ! i"
  unfolding loaded_def by (metis nth_take)

lemma sum_unique_keys:
  fixes keys :: "pubkey list" and as :: "u8 list"
  assumes "distinct keys" "\<forall>a\<in>set as. unat a < length keys" "distinct as"
    and out: "\<And>k. k \<notin> set (map (\<lambda>a. keys ! unat a) as) \<Longrightarrow> f k = g k"
    and eq: "(\<Sum>a\<leftarrow>as. f (keys ! unat a)) = (\<Sum>a\<leftarrow>as. g (keys ! unat a))"
  shows "(\<Sum>k\<leftarrow>keys. f k) = (\<Sum>k\<leftarrow>keys. g k :: nat)"
proof -
  let ?K = "(\<lambda>a. keys ! unat a) ` set as"
  have sub: "?K \<subseteq> set keys" using assms(2) by auto
  have "inj_on (\<lambda>a. keys ! unat a) (set as)"
    using assms(1,2)
    by (auto simp: inj_on_def nth_eq_iff_index_eq intro: word_unat_eq_iff [THEN iffD2])
  then have on: "sum h ?K = (\<Sum>a\<leftarrow>as. h (keys ! unat a))" for h :: "pubkey \<Rightarrow> nat"
    using assms(3) by (simp add: sum.reindex sum_list_distinct_conv_sum_set)
  have split: "sum h (set keys) = sum h ?K + sum h (set keys - ?K)" for h :: "pubkey \<Rightarrow> nat"
    using sum.subset_diff [OF sub, of h] by (simp add: add.commute)
  have "sum f (set keys - ?K) = sum g (set keys - ?K)"
    by (intro sum.cong) (auto intro!: out)
  with split [of f] split [of g] on [of f] on [of g] eq have "sum f (set keys) = sum g (set keys)"
    by simp
  then show ?thesis using assms(1) by (simp add: sum_list_distinct_conv_sum_set)
qed

definition total_lamports :: "InvokeContext \<Rightarrow> nat" where
  "total_lamports ctx = (\<Sum>k\<leftarrow>ctx_keys ctx. unat (lamports (ctx_store ctx k)))"

lemma ctx_verify_Ok:
  assumes v: "ctx_verify h ctx m ci pidx = Ok ctx'"
    and pres: "map pre_account (pre_accounts ctx) =
      map (\<lambda>a. L (ctx_keys ctx ! unat a)) (unique (ci_accounts ci))"
  obtains prog t where "compiled_program_id ci (account_keys m) =
      (Ok prog :: (InstructionError, pubkey) result)" "ctx' = ctx\<lparr>ctx_timings := t\<rparr>"
    "(\<Sum>a\<leftarrow>unique (ci_accounts ci). unat (lamports (L (ctx_keys ctx ! unat a)))) =
     (\<Sum>a\<leftarrow>unique (ci_accounts ci). unat (lamports (ctx_store ctx (ctx_keys ctx ! unat a))))"
    "\<forall>a\<in>set (ci_accounts ci). \<exists>w.
      msg_is_writable m (unat a) (feature_active ctx demote_program_write_locks) =
        (Ok w :: (InstructionError, bool) result) \<and>
      allowed prog w (L (ctx_keys ctx ! unat a)) (ctx_store ctx (ctx_keys ctx ! unat a))"
proof -
  from v obtain prog t s where prog: "compiled_program_id ci (account_keys m) =
      (Ok prog :: (InstructionError, pubkey) result)" and ctx': "ctx' = ctx\<lparr>ctx_timings := t\<rparr>"
    and visit: "visit_list (verify_work h ctx m prog) (enumerate 0 (unique (ci_accounts ci)))
      (ctx_timings ctx, 0, 0) = Ok (t, s, s)"
    by (auto simp: ctx_verify_def result_ok visit_each_account_eq)
  from verify_visits [OF visit, of L] pres show thesis
    by (intro that [OF prog ctx']) simp_all
qed

lemma execute_instruction_rules:
  assumes ex: "execute_instruction h ip m ci pidx ctx = Ok ctx'" and "invoke_stack ctx = []"
    and loaded: "loaded m ctx" and sb: "\<And>p. p \<in> all_programs ip \<Longrightarrow> sandboxed p"
  obtains prog p n ctx1 ctx2 f where
    "compiled_program_id ci (account_keys m) = (Ok prog :: (InstructionError, pubkey) result)"
    "within_rules prog (ctx_store ctx) (ctx_store ctx')" "total_lamports ctx' = total_lamports ctx"
    "ctx_keys ctx' = ctx_keys ctx" "invoke_stack ctx' = [f]"
    "p \<in> all_programs ip" "p n (ci_data ci) ctx1 = Ok ctx2" "invoke_stack ctx1 = [f]"
    "ctx_store ctx1 = ctx_store ctx" "ctx_store ctx2 = ctx_store ctx'"
    "pidx \<noteq> [] \<longrightarrow> frame_program_id f = Some (ctx_keys ctx ! last pidx)"
proof -
  from ex obtain ctx1 ctx2 where push: "ctx_push ctx m ci pidx None = Ok ctx1"
    and run: "processor_process_instruction ip (ci_data ci) ctx1 = Ok ctx2"
    and verify: "ctx_verify h ctx2 m ci pidx = Ok ctx'"
    by (auto simp: execute_instruction_def result_ok)
  from ctx_push_Ok [OF push assms(2)] obtain pres om ps as where
    ctx1: "ctx1 = ctx\<lparr>own_meter := om, pre_accounts := pres,
       invoke_stack := [frame_new (length pidx) (ps @ as)]\<rparr>"
    and pres: "map pre_account pres =
       map (\<lambda>a. ctx_store ctx (ctx_keys ctx ! unat a)) (unique (ci_accounts ci))"
    and keys: "map key ps = map (\<lambda>i. ctx_keys ctx ! i) pidx" "map key as = ci_keys ctx ci"
    and range: "\<forall>a\<in>set (ci_accounts ci). unat a < length (ctx_keys ctx)" .
  let ?f = "frame_new (length pidx) (ps @ as)"
  have len: "length ps = length pidx" using arg_cong [OF keys(1), of length] by simp
  have infos: "frame_infos ?f = as" using len by (simp add: frame_infos_def frame_new_def)
  from run obtain p n where p: "p \<in> all_programs ip" "p n (ci_data ci) ctx1 = Ok ctx2"
    by (rule processor_runs)
  have stack: "invoke_stack ctx1 = [?f]" by (simp add: ctx1)
  from sandboxed.runs [OF sb [OF p(1)] p(2) stack] infos obtain L x y where
    ctx2: "ctx2 = ctx1\<lparr>ctx_store := L, tx_meter := x, own_meter := y\<rparr>"
    and out: "\<And>k. k \<notin> set (ci_keys ctx ci) \<Longrightarrow> L k = ctx_store ctx k"
    unfolding runs_within_def by (auto simp: ctx1 simp flip: keys(2))
  have pres2: "map pre_account (pre_accounts ctx2) =
      map (\<lambda>a. ctx_store ctx (ctx_keys ctx2 ! unat a)) (unique (ci_accounts ci))"
    using pres by (simp add: ctx2 ctx1)
  from ctx_verify_Ok [OF verify pres2] obtain prog t where
    prog: "compiled_program_id ci (account_keys m) = (Ok prog :: (InstructionError, pubkey) result)"
    and ctx': "ctx' = ctx2\<lparr>ctx_timings := t\<rparr>"
    and sums: "(\<Sum>a\<leftarrow>unique (ci_accounts ci). unat (lamports (ctx_store ctx (ctx_keys ctx ! unat a)))) =
     (\<Sum>a\<leftarrow>unique (ci_accounts ci). unat (lamports (L (ctx_keys ctx ! unat a))))"
    and rules: "\<forall>a\<in>set (ci_accounts ci). \<exists>w.
      msg_is_writable m (unat a) (feature_active ctx demote_program_write_locks) =
        (Ok w :: (InstructionError, bool) result) \<and>
      allowed prog w (ctx_store ctx (ctx_keys ctx ! unat a)) (L (ctx_keys ctx ! unat a))"
    by (auto simp: ctx2 ctx1)
  have store: "ctx_store ctx' = L" by (simp add: ctx' ctx2)
  have "\<exists>w. allowed prog w (ctx_store ctx k) (L k) \<and> (w \<longrightarrow> \<not> is_sysvar_id k)" for k
  proof (cases "k \<in> set (ci_keys ctx ci)")
    case True
    then obtain a where a: "a \<in> set (ci_accounts ci)" "k = ctx_keys ctx ! unat a"
      by (auto simp: ci_keys_def)
    with rules obtain w where
      w: "msg_is_writable m (unat a) (feature_active ctx demote_program_write_locks) =
        (Ok w :: (InstructionError, bool) result)" "allowed prog w (ctx_store ctx k) (L k)"
      by blast
    have "\<not> is_sysvar_id k" if w
      using writable_not_sysvar [OF w(1) [unfolded eqTrueI [OF that]]]
        loaded_key [OF loaded, of "unat a"] a(2) by auto
    with w(2) show ?thesis by blast
  next
    case False
    then show ?thesis using out allowed_refl by force
  qed
  then have rules': "within_rules prog (ctx_store ctx) (ctx_store ctx')"
    by (simp add: within_rules_def store)
  have total: "total_lamports ctx' = total_lamports ctx"
  proof -
    have "(\<Sum>k\<leftarrow>ctx_keys ctx. unat (lamports (ctx_store ctx k))) = (\<Sum>k\<leftarrow>ctx_keys ctx. unat (lamports (L k)))"
      using loaded range sums out
      by (intro sum_unique_keys [of _ "unique (ci_accounts ci)"]) (auto simp: loaded_def ci_keys_def)
    then show ?thesis by (simp add: total_lamports_def ctx' ctx2 ctx1)
  qed
  have fpid: "frame_program_id ?f = Some (ctx_keys ctx ! last pidx)" if "pidx \<noteq> []"
  proof -
    have "key ((ps @ as) ! (length pidx - 1)) = map key ps ! (length pidx - 1)"
      using that len by (simp add: nth_append)
    also have "\<dots> = ctx_keys ctx ! last pidx" using that keys(1) by (simp add: last_conv_nth)
    finally show ?thesis
      using that len by (simp add: frame_program_id_def frame_new_def Let_def)
        (metis One_nat_def Suc_pred add_gr_0 length_greater_0_conv lessI trans_less_add1)
  qed
  show thesis
    by (rule that [OF prog rules' total _ _ p stack]) (simp_all add: ctx' ctx2 ctx1 fpid)
qed

end
