(* ===== verification/Chain.thy ===== *)
theory Chain
  imports Token_Safety Runtime_Facts
begin

text \<open>
  The token program on the runtime. A message may run any programs; the runtime checks each of
  them, and the token program is the only one that writes the accounts it owns. What a message
  leaves behind is a chain of three kinds of steps: a run of the token program, a run of another
  program within the rules, a write of the instructions sysvar. The token invariants hold along
  every such chain.
\<close>

section \<open>Programs that host the token program\<close>

text \<open>The contract of a loader that runs the token program under the key \<open>pid\<close>.\<close>

locale token_host = sandboxed p for p :: program +
  fixes h :: host and pid :: pubkey
  assumes runs_token: "p n input ctx = Ok ctx' \<Longrightarrow> invoke_stack ctx = fs @ [f] \<Longrightarrow>
    frame_program_id f = Some pid \<Longrightarrow>
    process h pid (ctx_store ctx) (frame_infos f) input = Ok (ctx_store ctx')"

text \<open>
  Such a loader: it runs \<open>process\<close> for the token program and whatever \<open>other\<close> says for every
  other program, and writes the results back to the accounts of the frame only.
\<close>

definition bpf_runner ::
  "host \<Rightarrow> pubkey \<Rightarrow> (StackFrame \<Rightarrow> bytes \<Rightarrow> ledger \<Rightarrow> (InstructionError, ledger) result) \<Rightarrow> program" where
  "bpf_runner h pid other n input ctx =
     (if invoke_stack ctx = [] then Err CallDepth else
      let f = last (invoke_stack ctx) in
      bind (if frame_program_id f = Some pid
            then map_err (\<lambda>e. instruction_error_from (program_error_to_u64 e))
                   (process h pid (ctx_store ctx) (frame_infos f) input)
            else other f input (ctx_store ctx)) (\<lambda>L.
      Ok (ctx\<lparr>ctx_store := (\<lambda>k. if k \<in> key ` set (frame_infos f) then L k else ctx_store ctx k)\<rparr>)))"

interpretation runner: token_host "bpf_runner h pid other" h pid for h pid other
proof unfold_locales
  fix n input ctx ctx' fs f
  assume run: "bpf_runner h pid other n input ctx = Ok ctx'" and f: "invoke_stack ctx = fs @ [f]"
  then obtain L where
    ctx': "ctx' = ctx\<lparr>ctx_store := (\<lambda>k. if k \<in> key ` set (frame_infos f) then L k else ctx_store ctx k)\<rparr>"
    and L: "frame_program_id f = Some pid \<Longrightarrow>
      process h pid (ctx_store ctx) (frame_infos f) input = Ok L"
    by (auto simp: bpf_runner_def Let_def result_ok if_Ok_iff split: if_split_asm)
  assume pid: "frame_program_id f = Some pid"
  from process_refines [OF L [OF pid]] have "ctx_store ctx' = L"
    by (auto simp: ctx' refines_def fun_eq_iff)
  with L [OF pid] show "process h pid (ctx_store ctx) (frame_infos f) input = Ok (ctx_store ctx')"
    by simp
next
  fix n input ctx ctx' f
  assume "bpf_runner h pid other n input ctx = Ok ctx'" and "invoke_stack ctx = [f]"
  then obtain L where
    ctx': "ctx' = ctx\<lparr>ctx_store := (\<lambda>k. if k \<in> key ` set (frame_infos f) then L k else ctx_store ctx k)\<rparr>"
    by (auto simp: bpf_runner_def Let_def result_ok if_Ok_iff split: if_split_asm)
  have "ctx' = ctx\<lparr>ctx_store := ctx_store ctx', tx_meter := tx_meter ctx, own_meter := own_meter ctx\<rparr>"
    by (simp add: ctx')
  then show "runs_within f ctx ctx'"
    unfolding runs_within_def by (intro exI conjI) (assumption, simp add: ctx')
qed

section \<open>Chains of accepted instructions\<close>

inductive chain_step :: "host \<Rightarrow> pubkey \<Rightarrow> ledger \<Rightarrow> ledger \<Rightarrow> bool" for h pid where
  token_run: "process h pid L infos input = Ok L' \<Longrightarrow> within_rules pid L L' \<Longrightarrow> chain_step h pid L L'"
| other_run: "prog \<noteq> pid \<Longrightarrow> within_rules prog L L' \<Longrightarrow> chain_step h pid L L'"
| sysvar_write: "chain_step h pid L (L(instructions_id := (L instructions_id)\<lparr>data := d\<rparr>))"

inductive_cases chain_stepE: "chain_step h pid L L'"

abbreviation chain :: "host \<Rightarrow> pubkey \<Rightarrow> ledger \<Rightarrow> ledger \<Rightarrow> bool" where
  "chain h pid \<equiv> (chain_step h pid)\<^sup>*\<^sup>*"

text \<open>Where the runtime finds the program of every instruction.\<close>

definition located :: "Message \<Rightarrow> pubkey list \<Rightarrow> (CompiledInstruction \<times> nat list) list \<Rightarrow> bool" where
  "located m keys xs \<longleftrightarrow> (\<forall>(ci, pidx)\<in>set xs. pidx \<noteq> [] \<and>
     keys ! last pidx = account_keys m ! unat (program_id_index ci))"

lemma fixup_Ok:
  assumes "fixup_instructions_sysvar m i ctx = (Ok ctx' :: ('e, InvokeContext) result)"
  shows "chain h pid (ctx_store ctx) (ctx_store ctx') \<and> ctx_keys ctx' = ctx_keys ctx \<and>
    invoke_stack ctx' = invoke_stack ctx \<and> total_lamports ctx' = total_lamports ctx"
  using assms chain_step.sysvar_write [of h pid "ctx_store ctx"]
  by (auto simp: fixup_instructions_sysvar_def result_ok Let_def total_lamports_def
      intro!: arg_cong [where f = sum_list] split: if_split_asm)

lemma execute_chain:
  assumes ex: "execute_instruction h ip m ci pidx ctx = Ok ctx'" and "invoke_stack ctx = []"
    and "loaded m ctx" and hosts: "\<And>p. p \<in> all_programs ip \<Longrightarrow> token_host p h pid"
    and loc: "located m (ctx_keys ctx) [(ci, pidx)]"
  shows "chain_step h pid (ctx_store ctx) (ctx_store ctx') \<and>
    total_lamports ctx' = total_lamports ctx \<and> ctx_keys ctx' = ctx_keys ctx \<and>
    invoke_stack (ctx_pop ctx') = []"
proof -
  have sb: "p \<in> all_programs ip \<Longrightarrow> sandboxed p" for p
    using hosts [of p] by (simp add: token_host_def)
  obtain prog f p n ctx1 ctx2 where
    prog: "compiled_program_id ci (account_keys m) = (Ok prog :: (InstructionError, pubkey) result)"
    and rules: "within_rules prog (ctx_store ctx) (ctx_store ctx')"
    and same: "total_lamports ctx' = total_lamports ctx" "ctx_keys ctx' = ctx_keys ctx"
      "invoke_stack ctx' = [f]"
    and p: "p \<in> all_programs ip" "p n (ci_data ci) ctx1 = Ok ctx2" "invoke_stack ctx1 = [f]"
    and store: "ctx_store ctx1 = ctx_store ctx" "ctx_store ctx2 = ctx_store ctx'"
    and fpid: "pidx \<noteq> [] \<longrightarrow> frame_program_id f = Some (ctx_keys ctx ! last pidx)"
    by (rule execute_instruction_rules [OF assms(1-3) sb]) (assumption, rule that)
  have fp: "frame_program_id f = Some prog"
    using fpid loc prog by (simp add: located_def compiled_program_id_def result_ok)
  have "chain_step h pid (ctx_store ctx) (ctx_store ctx')"
  proof (cases "prog = pid")
    case True
    with token_host.runs_token [OF hosts [OF p(1)] p(2), of "[]" f] p(3) fp store rules show ?thesis
      by (intro chain_step.token_run) auto
  next
    case False
    then show ?thesis using rules by (rule chain_step.other_run)
  qed
  with same show ?thesis by (simp add: ctx_pop_def)
qed

lemma process_from_chain:
  assumes "process_from h ip m clock i xs ctx t = Ok (ctx', t')" "invoke_stack ctx = []"
    and "loaded m ctx" "\<And>p. p \<in> all_programs ip \<Longrightarrow> token_host p h pid" "located m (ctx_keys ctx) xs"
  shows "chain h pid (ctx_store ctx) (ctx_store ctx') \<and> total_lamports ctx' = total_lamports ctx \<and>
    ctx_keys ctx' = ctx_keys ctx"
  using assms
proof (induction xs arbitrary: i ctx t)
  case (Cons x xs)
  obtain ci pidx where x: "x = (ci, pidx)" by force
  have loc: "located m (ctx_keys ctx) [(ci, pidx)]" "located m (ctx_keys ctx) xs"
    using Cons.prems(5) by (auto simp: located_def x)
  from Cons.prems(1) consider (skip) "process_from h ip m clock (Suc i) xs ctx t = Ok (ctx', t')"
    | (run) ctx1 ctx2 t2 where
      "fixup_instructions_sysvar m i ctx = (Ok ctx1 :: (TransactionError, InvokeContext) result)"
      "execute_instruction h ip m ci pidx (ctx1\<lparr>instruction_index := i\<rparr>) = Ok ctx2"
      "process_from h ip m clock (Suc i) xs (ctx_pop ctx2) t2 = Ok (ctx', t')"
    by (auto simp: x result_ok Let_def split: if_split_asm)
  then show ?case
  proof cases
    case skip
    with Cons loc show ?thesis by blast
  next
    case run
    from fixup_Ok [OF run(1), of h pid] Cons.prems(2,3) have
      fx: "chain h pid (ctx_store ctx) (ctx_store ctx1)" "ctx_keys ctx1 = ctx_keys ctx"
      "total_lamports ctx1 = total_lamports ctx" and stack: "invoke_stack ctx1 = []"
      by auto
    let ?c = "ctx1\<lparr>instruction_index := i\<rparr>"
    have "loaded m ?c" "invoke_stack ?c = []" using Cons.prems(3) fx stack by (simp_all add: loaded_def)
    from execute_chain [OF run(2) this(2,1) Cons.prems(4)] loc(1) fx(2) have
      ex: "chain_step h pid (ctx_store ctx1) (ctx_store ctx2)" "total_lamports ctx2 = total_lamports ?c"
      "ctx_keys ctx2 = ctx_keys ctx" "invoke_stack (ctx_pop ctx2) = []"
      by auto
    have "loaded m (ctx_pop ctx2)" "located m (ctx_keys (ctx_pop ctx2)) xs"
      using Cons.prems(3) ex(3) loc(2) by (simp_all add: loaded_def ctx_pop_def)
    from Cons.IH [OF run(3) ex(4) this(1) Cons.prems(4) this(2)] ex fx show ?thesis
      by (auto simp: ctx_pop_def total_lamports_def)
  qed
qed simp

lemma process_message_chain:
  assumes "process_message h ip m clock pidxs ctx t = Ok (ctx', t')" "loaded m ctx"
    and "\<And>p. p \<in> all_programs ip \<Longrightarrow> token_host p h pid"
    and "located m (ctx_keys ctx) (zip (instructions m) pidxs)"
  shows "chain h pid (ctx_store ctx) (ctx_store ctx')" "total_lamports ctx' = total_lamports ctx"
    "ctx_keys ctx' = ctx_keys ctx"
proof -
  let ?c = "ctx\<lparr>instruction_index := 0, invoke_stack := [], pre_accounts := [],
    own_meter := None, ctx_timings := default_timings\<rparr>"
  have "loaded m ?c" "located m (ctx_keys ?c) (zip (instructions m) pidxs)"
    using assms(2,4) by (simp_all add: loaded_def)
  from process_from_chain [OF assms(1) [unfolded process_message_def] _ this(1) assms(3) this(2)]
  show "chain h pid (ctx_store ctx) (ctx_store ctx')" "total_lamports ctx' = total_lamports ctx"
    "ctx_keys ctx' = ctx_keys ctx"
    by (auto simp: total_lamports_def)
qed

section \<open>The token invariants along a chain\<close>

definition owned :: "pubkey \<Rightarrow> ledger \<Rightarrow> pubkey set" where
  "owned pid L = {k. owner (L k) = pid}"

definition ledger_inv :: "pubkey \<Rightarrow> ledger \<Rightarrow> bool" where
  "ledger_inv pid L \<longleftrightarrow> token_inv (owned pid L) (abs_ledger L) \<and> owner (L instructions_id) \<noteq> pid"

subsection \<open>Fresh accounts\<close>

lemma from_le_zeros: "from_le (replicate n 0) = 0"
  by (induction n) simp_all

lemma segment_zeros: "segment off n (replicate l z) = replicate (min n (l - off)) z"
  by (simp add: segment_def min.commute)

lemma account_of_zeros:
  assumes "acct_at L k = Some a" "data (L k) = replicate (length (data (L k))) 0"
  shows "\<not> account_is_initialized a"
proof -
  have "data (L k) = replicate 165 0"
    using assms at_length(1) [OF assms(1)] by (simp add: account_LEN_def)
  with assms(1) show ?thesis
    by (auto simp: acct_at_def view_Some_iff unpack_unchecked_def account_unpack_from_slice_def
        account_state_try_from_primitive_def account_is_initialized_def result_ok)
qed

lemma mint_of_zeros:
  assumes "mint_at L k = Some m" "data (L k) = replicate (length (data (L k))) 0"
  shows "\<not> mint_is_initialized m" "mint_supply m = 0"
proof -
  have z: "data (L k) = replicate 82 0"
    using assms at_length(2) [OF assms(1)] by (simp add: mint_LEN_def)
  have "u64_from_le_bytes (segment 36 8 (replicate 82 0)) = 0"
    unfolding u64_from_le_bytes_def segment_zeros by (rule from_le_zeros)
  with z assms(1) show "\<not> mint_is_initialized m" "mint_supply m = 0"
    by (auto simp: mint_at_def view_Some_iff unpack_unchecked_def mint_unpack_from_slice_def
        unpack_bool_def result_ok Let_def)
qed

subsection \<open>Steps\<close>

lemma at_cong:
  "data (L' k) = data (L k) \<Longrightarrow> acct_at L' k = acct_at L k"
  "data (L' k) = data (L k) \<Longrightarrow> mint_at L' k = mint_at L k"
  by (simp_all add: at_defs view_def)

lemma within_rules_foreign:
  assumes "within_rules prog L L'" "owner (L k) \<noteq> prog"
  shows "owner (L' k) = owner (L k)" "data (L' k) = data (L k)" "lamports (L k) \<le> lamports (L' k)"
proof -
  from assms(1) obtain w where "allowed prog w (L k) (L' k)" by (auto simp: within_rules_def)
  from allowed_foreign [OF this assms(2)]
  show "owner (L' k) = owner (L k)" "data (L' k) = data (L k)" "lamports (L k) \<le> lamports (L' k)" .
qed

lemma within_rules_new_owner:
  assumes "within_rules prog L L'" "owner (L' k) \<noteq> owner (L k)"
  shows "data (L' k) = replicate (length (data (L' k))) 0"
  using assms by (auto simp: within_rules_def allowed_def dest!: spec [of _ k])

lemma within_rules_confined:
  assumes "within_rules pid L L'"
  shows "confined (owned pid L) (abs_ledger L) (abs_ledger L')"
  unfolding confined_def
proof (intro allI impI)
  fix k assume "k \<notin> owned pid L"
  then have "owner (L k) \<noteq> pid" by (simp add: owned_def)
  from within_rules_foreign(2,3) [OF assms this] at_cong [of L' k L]
  show "accts (abs_ledger L') k = accts (abs_ledger L) k \<and>
      mints (abs_ledger L') k = mints (abs_ledger L) k \<and> bal (abs_ledger L) k \<le> bal (abs_ledger L') k"
    by simp
qed

lemma is_sysvar_instructions: "is_sysvar_id instructions_id"
  by (simp add: is_sysvar_id_def ALL_IDS_def)

lemma token_run_inv:
  assumes run: "process h pid L infos input = Ok L'" and rules: "within_rules pid L L'"
    and inv: "ledger_inv pid L"
  shows "ledger_inv pid L'"
proof -
  from process_refines [OF run] have step: "token_step (authorized pid L infos) (abs_ledger L) (abs_ledger L')"
    and "owned pid L' = owned pid L"
    by (auto simp: refines_def same_frame_def owned_def)
  with token_inv_step [OF step _ within_rules_confined [OF rules]] inv
    within_rules_sysvar [OF rules is_sysvar_instructions]
  show ?thesis by (simp add: ledger_inv_def)
qed

text \<open>Another program can hand accounts to the token program, but only zeroed ones.\<close>

lemma holding_new:
  assumes "data (L k) = replicate (length (data (L k))) 0"
  shows "holding (abs_ledger L) m k = 0"
  using account_of_zeros [of L k] assms by (cases "acct_at L k") (simp_all add: holding_def)

lemma issued_new:
  assumes "data (L k) = replicate (length (data (L k))) 0"
  shows "issued (abs_ledger L) k = 0"
  using mint_of_zeros(1) [of L k] assms by (cases "mint_at L k") (simp_all add: issued_def)

text \<open>Two ledgers that differ, among the token accounts, by fresh accounts and larger balances.\<close>

definition grows :: "pubkey \<Rightarrow> ledger \<Rightarrow> ledger \<Rightarrow> bool" where
  "grows pid L L' \<longleftrightarrow>
     (\<forall>k\<in>owned pid L. owner (L' k) = pid \<and> acct_at L' k = acct_at L k \<and>
        mint_at L' k = mint_at L k \<and> lamports (L k) \<le> lamports (L' k)) \<and>
     (\<forall>k\<in>owned pid L' - owned pid L. data (L' k) = replicate (length (data (L' k))) 0)"

lemma other_run_grows:
  assumes "within_rules prog L L'" "prog \<noteq> pid"
  shows "grows pid L L'"
  unfolding grows_def
proof (intro conjI ballI)
  fix k
  {
    assume "k \<in> owned pid L"
    then have "owner (L k) \<noteq> prog" "owner (L k) = pid" using assms(2) by (simp_all add: owned_def)
    with within_rules_foreign [OF assms(1), of k] at_cong [of L' k L]
    show "owner (L' k) = pid" "acct_at L' k = acct_at L k" "mint_at L' k = mint_at L k"
      "lamports (L k) \<le> lamports (L' k)"
      by simp_all
  }
  assume "k \<in> owned pid L' - owned pid L"
  then show "data (L' k) = replicate (length (data (L' k))) 0"
    by (intro within_rules_new_owner [OF assms(1)]) (auto simp: owned_def)
qed

lemma grows_supply:
  assumes g: "grows pid L L'" and "supply_ok (owned pid L) (abs_ledger L)"
  shows "supply_ok (owned pid L') (abs_ledger L')"
proof -
  let ?P = "owned pid L" and ?P' = "owned pid L'" and ?S = "abs_ledger L" and ?S' = "abs_ledger L'"
  have sub: "?P \<subseteq> ?P'" using g by (auto simp: grows_def owned_def)
  have "sum (holding ?S' m) ?P' = sum (holding ?S m) ?P" for m
  proof -
    have "sum (holding ?S' m) (?P' - ?P) = 0"
      using g by (intro sum.neutral) (simp add: grows_def holding_new)
    moreover have "sum (holding ?S' m) ?P = sum (holding ?S m) ?P"
      using g by (intro sum.cong) (simp_all add: grows_def holding_def)
    ultimately show ?thesis using sum.subset_diff [OF sub, of "holding ?S' m"] by simp
  qed
  moreover have "(if m \<in> ?P' then issued ?S' m else 0) = (if m \<in> ?P then issued ?S m else 0)" for m
  proof (cases "m \<in> ?P")
    case True
    with g sub show ?thesis by (auto simp: grows_def issued_def)
  next
    case False
    with g show ?thesis by (simp add: grows_def issued_new)
  qed
  ultimately show ?thesis using assms(2) by (simp add: supply_ok_def)
qed

lemma grows_fresh:
  assumes "grows pid L L'" "fresh_ok (owned pid L) (abs_ledger L)"
  shows "fresh_ok (owned pid L') (abs_ledger L')"
  unfolding fresh_ok_def
proof (intro ballI allI impI)
  fix k mi assume "k \<in> owned pid L'" "mints (abs_ledger L') k = Some mi" "\<not> mint_is_initialized mi"
  with assms mint_of_zeros(2) [of L' k mi] show "mint_supply mi = 0"
    by (cases "k \<in> owned pid L") (auto simp: grows_def fresh_ok_def)
qed

lemma grows_native:
  assumes g: "grows pid L L'" and nat: "native_ok (owned pid L) (abs_ledger L)"
  shows "native_ok (owned pid L') (abs_ledger L')"
  unfolding native_ok_def
proof (intro ballI allI impI)
  fix k a assume k: "k \<in> owned pid L'" and a: "live (abs_ledger L') k a"
  have P: "k \<in> owned pid L"
  proof (rule ccontr)
    assume "k \<notin> owned pid L"
    with g k account_of_zeros [of L' k a] a show False by (simp add: grows_def live_def)
  qed
  with a g have "live (abs_ledger L) k a" "lamports (L k) \<le> lamports (L' k)"
    by (simp_all add: live_def grows_def)
  with native_okD [OF nat P, of a]
  show "is_native a = (acct_mint a = native_mint_id) \<and>
      (is_native a \<longrightarrow> amount a \<le> bal (abs_ledger L') k \<and> \<not> is_frozen a)"
    by (auto intro: order_trans)
qed

lemma grows_inv:
  assumes "grows pid L L'" "ledger_inv pid L" "owner (L' instructions_id) = owner (L instructions_id)"
  shows "ledger_inv pid L'"
  using assms(2,3) grows_supply [OF assms(1)] grows_fresh [OF assms(1)] grows_native [OF assms(1)]
  unfolding ledger_inv_def token_inv_def by simp

lemma other_run_inv:
  assumes "within_rules prog L L'" "prog \<noteq> pid" "ledger_inv pid L"
  shows "ledger_inv pid L'"
  using within_rules_sysvar [OF assms(1) is_sysvar_instructions]
  by (intro grows_inv [OF other_run_grows [OF assms(1,2)] assms(3)]) simp

lemma sysvar_write_inv:
  assumes "ledger_inv pid L"
  shows "ledger_inv pid (L(instructions_id := (L instructions_id)\<lparr>data := d\<rparr>))" (is "ledger_inv pid ?L")
proof -
  have "owned pid ?L = owned pid L" and "instructions_id \<notin> owned pid L"
    using assms by (auto simp: owned_def ledger_inv_def)
  then have "grows pid L ?L"
    unfolding grows_def by (auto simp: owned_def at_defs)
  then show ?thesis by (rule grows_inv [OF _ assms]) simp
qed

lemma chain_step_inv: "chain_step h pid L L' \<Longrightarrow> ledger_inv pid L \<Longrightarrow> ledger_inv pid L'"
  by (induction rule: chain_step.induct) (auto intro: token_run_inv other_run_inv sysvar_write_inv)

lemma chain_inv: "chain h pid L L' \<Longrightarrow> ledger_inv pid L \<Longrightarrow> ledger_inv pid L'"
  by (induction rule: rtranclp_induct) (auto intro: chain_step_inv)

text \<open>A ledger in which the token program owns nothing yet.\<close>

lemma ledger_inv_genesis:
  assumes "\<And>k. owner (L k) \<noteq> pid"
  shows "ledger_inv pid L"
proof -
  have "owned pid L = {}" using assms by (simp add: owned_def)
  then show ?thesis
    using assms by (simp add: ledger_inv_def token_inv_def supply_ok_def fresh_ok_def native_ok_def)
qed

end
