(* ===== verification/Token_Panics.thy ===== *)
theory Token_Panics
  imports Token_Spec
begin

text \<open>
  Where the token program can panic: in the decoder, on four instructions that are cut short, and
  on multisignature accounts with more positions than the array has. Nowhere else.
\<close>

named_theorems no_panic

text \<open>What a successful read of accounts leaves of the list.\<close>

lemma next_account_info_no_panic [no_panic]: "next_account_info infos \<noteq> Panic"
  by (cases infos) simp_all

lemma read_no_panic [no_panic]:
  "read_account L i \<noteq> Panic" "read_mint L i \<noteq> Panic" "read_multisig L i \<noteq> Panic"
  by (simp_all add: read_account_def read_mint_def read_multisig_def account.unpack_never_panics
      mint.unpack_never_panics multisig.unpack_never_panics)

lemma unchecked_no_panic [no_panic]:
  "account_unpack_unchecked src \<noteq> Panic" "mint_unpack_unchecked src \<noteq> Panic"
  "multisig_unpack_unchecked src \<noteq> Panic"
  by (rule account.unpack_unchecked_never_panics mint.unpack_unchecked_never_panics
      multisig.unpack_unchecked_never_panics)+

lemma write_no_panic [no_panic]:
  "write_account L i a \<noteq> Panic" "write_mint L i m \<noteq> Panic"
  "multisig_wf ms \<Longrightarrow> write_multisig L i ms \<noteq> Panic"
  by (simp_all add: write_account_def write_mint_def write_multisig_def bind_Panic_iff
      account.pack_never_panics mint.pack_never_panics multisig.pack_never_panics)

lemma next_expected_mint_no_panic [no_panic]: "next_expected_mint e iter \<noteq> Panic"
  by (auto simp: next_expected_mint_def bind_Panic_iff no_panic split: option.splits)

lemma check_expected_mint_no_panic [no_panic]: "check_expected_mint L a e \<noteq> Panic"
  by (auto simp: check_expected_mint_def bind_Panic_iff no_panic split: option.splits)

lemma move_lamports_no_panic [no_panic]: "move_lamports L i j amt \<noteq> Panic"
  by (auto simp: move_lamports_def bind_Panic_iff Let_def)

lemma read_rent_no_panic [no_panic]: "syscall_rent h \<noteq> Panic \<Longrightarrow> read_rent h L b iter \<noteq> Panic"
  by (auto simp: read_rent_def rent_from_account_info_def rent_get_def bind_Panic_iff no_panic
      split: if_splits)

section \<open>Multisignatures\<close>

text \<open>Every multisignature the program may be asked about has its positions inside the array.\<close>

definition positions_fit :: "pubkey \<Rightarrow> ledger \<Rightarrow> bool" where
  "positions_fit pid L \<longleftrightarrow> (\<forall>k ms. owner (L k) = pid \<longrightarrow> multisig_at L k = Some ms \<longrightarrow>
     ms_is_initialized ms \<longrightarrow> unat (ms_n ms) \<le> MAX_SIGNERS)"

lemma match_positions_no_panic [no_panic]: "match_positions s ks pos matched num \<noteq> Panic"
  by (induction s ks pos matched num rule: match_positions.induct) simp_all

lemma match_signers_no_panic:
  "unat (ms_n ms) \<le> length (ms_signers ms) \<Longrightarrow> match_signers ms signers matched num \<noteq> Panic"
  by (induction ms signers matched num rule: match_signers.induct)
    (auto simp: bind_Panic_iff no_panic)

lemma validate_owner_no_panic [no_panic]:
  assumes "positions_fit pid L"
  shows "validate_owner pid L k i signers \<noteq> Panic"
proof -
  have "match_signers ms signers matched num \<noteq> Panic"
    if "pid = owner (L (key i))" "read_multisig L i = Ok ms" for ms matched num
  proof (rule match_signers_no_panic)
    from that(2) have at: "multisig_at L (key i) = Some ms" "ms_is_initialized ms"
      by (simp_all add: read_multisig_Ok_iff)
    then have "multisig_wf ms" by (auto simp: multisig_at_def intro: multisig.view_wf)
    with at that(1) assms show "unat (ms_n ms) \<le> length (ms_signers ms)"
      by (auto simp: positions_fit_def multisig_wf_def)
  qed
  then show ?thesis
    by (auto simp: validate_owner_def bind_Panic_iff no_panic info_owner_def)
qed

lemma spend_authority_no_panic [no_panic]:
  "positions_fit pid L \<Longrightarrow> spend_authority pid L a amt self ai iter \<noteq> Panic"
  by (auto simp: spend_authority_def bind_Panic_iff no_panic split: if_splits)

lemma assign_signers_no_panic:
  "i + length ss \<le> length slots \<Longrightarrow> assign_signers slots i ss \<noteq> Panic"
  by (induction slots i ss rule: assign_signers.induct) auto

section \<open>Handlers\<close>

lemma initialize_mint_no_panic [no_panic]:
  "syscall_rent h \<noteq> Panic \<Longrightarrow> initialize_mint_impl h L infos d ma fa b \<noteq> Panic"
  by (auto simp: initialize_mint_impl_def bind_Panic_iff no_panic)

lemma initialize_account_no_panic [no_panic]:
  "syscall_rent h \<noteq> Panic \<Longrightarrow> initialize_account_impl h L infos own b \<noteq> Panic"
  by (auto simp: initialize_account_impl_def bind_Panic_iff map_err_Panic_iff no_panic Let_def
      split: option.splits if_splits)

lemma initialize_multisig_no_panic [no_panic]:
  assumes "syscall_rent h \<noteq> Panic" "length infos < 256"
  shows "initialize_multisig_impl h L infos m b \<noteq> Panic"
proof
  assume "initialize_multisig_impl h L infos m b = Panic"
  then obtain i iter rent iter' ms where
    iter: "next_account_info infos = Ok (i, iter)" "read_rent h L b iter = Ok (rent, iter')"
    and ms: "multisig_unpack_unchecked (info_data L i) = Ok ms"
    and n: "is_valid_signer_index (unat (of_nat (length iter') :: u8))"
    and P: "assign_signers (ms_signers ms) 0 iter' = Panic \<or>
      (\<exists>slots. assign_signers (ms_signers ms) 0 iter' = Ok slots \<and>
        write_multisig L i (ms\<lparr>ms_m := m, ms_n := of_nat (length iter'), ms_signers := slots,
          ms_is_initialized := True\<rparr>) = Panic)"
    using assms(1)
    by (auto simp: initialize_multisig_impl_def bind_Panic_iff no_panic Let_def split: if_splits)
  have "multisig_wf ms"
    using ms unfolding unpack_unchecked_at by (auto simp: multisig_at_def intro: multisig.view_wf)
  moreover have "length iter' \<le> length infos"
    using iter by (auto simp: next_account_info_Ok_iff read_rent_def result_ok split: if_splits)
  then have "unat (of_nat (length iter') :: u8) = length iter'"
    using assms(2) by (simp add: unat_of_nat)
  ultimately have fit: "0 + length iter' \<le> length (ms_signers ms)"
    using n by (simp add: is_valid_signer_index_def multisig_wf_def)
  have "multisig_wf (ms\<lparr>ms_m := m, ms_n := of_nat (length iter'), ms_signers := slots,
      ms_is_initialized := True\<rparr>)" if "assign_signers (ms_signers ms) 0 iter' = Ok slots" for slots
    using assign_signers_Ok [OF that] \<open>multisig_wf ms\<close> by (simp add: multisig_wf_def)
  with P assign_signers_no_panic [OF fit] show False by (auto simp: no_panic)
qed

lemma process_transfer_no_panic [no_panic]:
  "positions_fit pid L \<Longrightarrow> process_transfer pid L infos amt e \<noteq> Panic"
  by (auto simp: process_transfer_def bind_Panic_iff no_panic Let_def split: if_splits)

lemma process_delegation_no_panic [no_panic]:
  "positions_fit pid L \<Longrightarrow> process_approve pid L infos amt e \<noteq> Panic"
  "positions_fit pid L \<Longrightarrow> process_revoke pid L infos \<noteq> Panic"
  by (auto simp: process_approve_def process_revoke_def bind_Panic_iff no_panic split: if_splits)

lemma process_set_authority_no_panic [no_panic]:
  "positions_fit pid L \<Longrightarrow> process_set_authority pid L infos ty new \<noteq> Panic"
  by (auto simp: process_set_authority_def bind_Panic_iff no_panic Let_def
      split: if_splits AuthorityType.splits option.splits)

lemma process_supply_no_panic [no_panic]:
  "positions_fit pid L \<Longrightarrow> process_mint_to pid L infos amt e \<noteq> Panic"
  "positions_fit pid L \<Longrightarrow> process_burn pid L infos amt e \<noteq> Panic"
  by (auto simp: process_mint_to_def process_burn_def bind_Panic_iff no_panic
      split: if_splits option.splits)

lemma process_close_no_panic [no_panic]:
  "positions_fit pid L \<Longrightarrow> process_close_account pid L infos \<noteq> Panic"
  "positions_fit pid L \<Longrightarrow> process_toggle_freeze_account pid L infos b \<noteq> Panic"
  "process_sync_native pid L infos \<noteq> Panic"
  by (auto simp: process_close_account_def process_toggle_freeze_account_def process_sync_native_def
      bind_Panic_iff no_panic Let_def split: if_splits option.splits)

lemma process_instruction_no_panic:
  assumes "positions_fit pid L" "syscall_rent h \<noteq> Panic" "length infos < 256"
  shows "process_instruction h pid L infos ins \<noteq> Panic"
  using assms
  by (cases ins) (simp_all add: no_panic process_initialize_mint_def process_initialize_mint2_def
      process_initialize_account_def process_initialize_account2_def
      process_initialize_account3_def process_initialize_multisig_def
      process_initialize_multisig2_def)

section \<open>The decoder\<close>

lemma token_instruction_unpack_Panic_iff:
  "token_instruction_unpack input = Panic \<longleftrightarrow>
     (\<exists>tag rest. input = tag # rest \<and> tag \<in> {12, 13, 14, 15} \<and> length rest < 8)"
proof (cases input)
  case (Cons tag rest)
  then show ?thesis
    by (auto simp: token_instruction_unpack_def bind_Panic_iff unpack_amount_decimals_panic_iff
        split: prod.splits)
qed (simp add: token_instruction_unpack_def)

lemma token_instruction_roundtrip: "token_instruction_unpack (token_instruction_pack ins) = Ok ins"
  by (cases ins) (simp_all add: token_instruction_unpack_def)

lemma process_packed:
  "process h pid L infos (token_instruction_pack ins) = process_instruction h pid L infos ins"
  by (simp only: process_def token_instruction_roundtrip bind.simps)

lemma process_Panic:
  assumes "positions_fit pid L" "syscall_rent h \<noteq> Panic" "length infos < 256"
  shows "process h pid L infos input = Panic \<longleftrightarrow>
    (\<exists>tag rest. input = tag # rest \<and> tag \<in> {12, 13, 14, 15} \<and> length rest < 8)"
  unfolding process_def bind_Panic_iff token_instruction_unpack_Panic_iff [symmetric]
  using process_instruction_no_panic [OF assms] by blast

end
