(* ===== verification/Chain_Facts.thy ===== *)
theory Chain_Facts
  imports Chain Token_Panics
begin

text \<open>
  What the invariants say of a message in plain terms: supplies, wrapped balances, bounds; mints
  whose supply is fixed; accounts of the token program under foreign programs.
\<close>

section \<open>Lamports\<close>

lemma process_from_lamports:
  assumes "process_from h ip m clock i xs ctx t = Ok (ctx', t')" "invoke_stack ctx = []"
    and "loaded m ctx" "\<And>p. p \<in> all_programs ip \<Longrightarrow> sandboxed p"
  shows "total_lamports ctx' = total_lamports ctx \<and> ctx_keys ctx' = ctx_keys ctx"
  using assms
proof (induction xs arbitrary: i ctx t)
  case (Cons x xs)
  obtain ci pidx where x: "x = (ci, pidx)" by force
  from Cons.prems(1) consider (skip) "process_from h ip m clock (Suc i) xs ctx t = Ok (ctx', t')"
    | (run) ctx1 ctx2 t2 where
      "fixup_instructions_sysvar m i ctx = (Ok ctx1 :: (TransactionError, InvokeContext) result)"
      "execute_instruction h ip m ci pidx (ctx1\<lparr>instruction_index := i\<rparr>) = Ok ctx2"
      "process_from h ip m clock (Suc i) xs (ctx_pop ctx2) t2 = Ok (ctx', t')"
    by (auto simp: x result_ok Let_def split: if_split_asm)
  then show ?case
  proof cases
    case skip
    with Cons show ?thesis by blast
  next
    case run
    let ?c = "ctx1\<lparr>instruction_index := i\<rparr>"
    from fixup_Ok [OF run(1)] Cons.prems(2,3) have fx: "ctx_keys ctx1 = ctx_keys ctx"
      "total_lamports ctx1 = total_lamports ctx" and c: "invoke_stack ?c = []" "loaded m ?c"
      by (auto simp: loaded_def)
    obtain f where ex: "total_lamports ctx2 = total_lamports ?c" "ctx_keys ctx2 = ctx_keys ?c"
      "invoke_stack ctx2 = [f]"
      by (rule execute_instruction_rules [OF run(2) c Cons.prems(4)]) (assumption, blast)
    then have p: "invoke_stack (ctx_pop ctx2) = []" "loaded m (ctx_pop ctx2)"
      using c(2) by (simp_all add: ctx_pop_def loaded_def)
    from Cons.IH [OF run(3) p Cons.prems(4)] ex fx show ?thesis
      by (auto simp: ctx_pop_def total_lamports_def)
  qed
qed simp

lemma process_message_lamports:
  assumes "process_message h ip m clock pidxs ctx t = Ok (ctx', t')" "loaded m ctx"
    and "\<And>p. p \<in> all_programs ip \<Longrightarrow> sandboxed p"
  shows "(\<Sum>k\<leftarrow>ctx_keys ctx. unat (lamports (ctx_store ctx' k))) =
    (\<Sum>k\<leftarrow>ctx_keys ctx. unat (lamports (ctx_store ctx k)))"
proof -
  have "loaded m (ctx\<lparr>instruction_index := 0, invoke_stack := [], pre_accounts := [],
      own_meter := None, ctx_timings := default_timings\<rparr>)"
    using assms(2) by (simp add: loaded_def)
  from process_from_lamports [OF assms(1) [unfolded process_message_def] _ this assms(3)]
  show ?thesis by (auto simp: total_lamports_def)
qed

section \<open>The invariants unfolded\<close>

lemma message_inv:
  assumes "process_message h ip m clock pidxs ctx t = Ok (ctx', t')" "loaded m ctx"
    and "\<And>p. p \<in> all_programs ip \<Longrightarrow> token_host p h pid"
    and "located m (ctx_keys ctx) (zip (instructions m) pidxs)"
    and "ledger_inv pid (ctx_store ctx)"
  shows "ledger_inv pid (ctx_store ctx')"
  by (rule chain_inv [OF process_message_chain(1) [OF assms(1-4)] assms(5)])

lemma ledger_inv_supply:
  assumes "ledger_inv pid L" "m \<noteq> native_mint_id"
  shows "(\<Sum>k\<in>owned pid L. holding (abs_ledger L) m k) =
    (if owner (L m) = pid then issued (abs_ledger L) m else 0)"
  using assms by (auto simp: ledger_inv_def token_inv_def supply_ok_def owned_def)

lemma issued_less: "issued S m < 2 ^ 64"
  by (auto simp: issued_def unsigned_less [where ?'b = 64, simplified] split: option.splits)

lemma ledger_inv_holding_le:
  assumes "ledger_inv pid L" "m \<noteq> native_mint_id" "P \<subseteq> owned pid L"
  shows "(\<Sum>k\<in>P. holding (abs_ledger L) m k) < 2 ^ 64"
proof -
  have "(\<Sum>k\<in>P. holding (abs_ledger L) m k) \<le> (\<Sum>k\<in>owned pid L. holding (abs_ledger L) m k)"
    using assms(3) by (intro sum_mono2) auto
  with issued_less [of "abs_ledger L" m] show ?thesis
    unfolding ledger_inv_supply [OF assms(1,2)] by (auto split: if_splits)
qed

lemma ledger_inv_no_overflow:
  assumes "ledger_inv pid L" "m \<noteq> native_mint_id" "k \<noteq> j"
    and "live (abs_ledger L) k a" "acct_mint a = m" "owner (L k) = pid"
    and "live (abs_ledger L) j b" "acct_mint b = m" "owner (L j) = pid"
  shows "unat (amount a) + unat (amount b) < 2 ^ 64"
  using ledger_inv_holding_le [OF assms(1,2), of "{k, j}"] assms
  by (simp add: owned_def holding_live)

lemma ledger_inv_native:
  assumes "ledger_inv pid L" "owner (L k) = pid" "live (abs_ledger L) k a"
  shows "is_native a \<longleftrightarrow> acct_mint a = native_mint_id" "is_native a \<Longrightarrow> amount a \<le> lamports (L k)"
    "is_native a \<Longrightarrow> \<not> is_frozen a"
  using assms by (auto simp: ledger_inv_def token_inv_def native_ok_def owned_def)

section \<open>Fixed supplies\<close>

definition fixed_at :: "pubkey \<Rightarrow> ledger \<Rightarrow> pubkey \<Rightarrow> nat \<Rightarrow> bool" where
  "fixed_at pid L k n \<longleftrightarrow> owner (L k) = pid \<and> (\<exists>m. live_mint (abs_ledger L) k m \<and>
     mint_authority m = None \<and> unat (mint_supply m) \<le> n)"

lemma chain_step_fixed:
  assumes "chain_step h pid L L'" "ledger_inv pid L" "fixed_at pid L k n"
  shows "fixed_at pid L' k n"
  using assms(1)
proof cases
  case (token_run infos input)
  from process_refines [OF token_run(1)] have
    step: "token_step (authorized pid L infos) (abs_ledger L) (abs_ledger L')" and
    "owner (L' k) = owner (L k)"
    by (auto simp: refines_def same_frame_def)
  moreover from assms(3) obtain m where m: "live_mint (abs_ledger L) k m"
    "mint_authority m = None" "unat (mint_supply m) \<le> n" by (auto simp: fixed_at_def)
  ultimately show ?thesis
    using mint_step [OF step m(1)] assms(3) by (auto simp: fixed_at_def word_le_nat_alt)
next
  case (other_run prog)
  have "owner (L k) \<noteq> prog" using assms(3) other_run(1) by (auto simp: fixed_at_def)
  with within_rules_foreign [OF other_run(2) this] at_cong(2) [of L' k L] show ?thesis
    using assms(3) by (simp add: fixed_at_def live_mint_def)
next
  case (sysvar_write d)
  have "k \<noteq> instructions_id" using assms(2,3) by (auto simp: fixed_at_def ledger_inv_def)
  with sysvar_write have "L' k = L k" by simp
  then show ?thesis
    using assms(3) at_cong(2) [of L' k L] by (simp add: fixed_at_def live_mint_def)
qed

lemma chain_fixed:
  assumes "chain h pid L L'" "ledger_inv pid L" "fixed_at pid L k n"
  shows "fixed_at pid L' k n"
  using assms
  by (induction rule: rtranclp_induct) (auto intro: chain_step_fixed chain_inv)

section \<open>Multisignature accounts\<close>

text \<open>The type invariant of an initialized multisignature: between 1 and 11 positions and signers.\<close>

definition multisigs_ok :: "pubkey \<Rightarrow> ledger \<Rightarrow> bool" where
  "multisigs_ok pid L \<longleftrightarrow> (\<forall>k ms. owner (L k) = pid \<longrightarrow> multisig_at L k = Some ms \<longrightarrow>
     ms_is_initialized ms \<longrightarrow>
     is_valid_signer_index (unat (ms_n ms)) \<and> is_valid_signer_index (unat (ms_m ms)))"

lemma multisigs_ok_fit: "multisigs_ok pid L \<Longrightarrow> positions_fit pid L"
  by (auto simp: multisigs_ok_def positions_fit_def is_valid_signer_index_def)

lemma multisig_of_zeros:
  assumes "multisig_at L k = Some ms" "data (L k) = replicate (length (data (L k))) 0"
  shows "\<not> ms_is_initialized ms"
proof -
  have "data (L k) = replicate 355 0"
    using assms at_length(3) [OF assms(1)] by (simp add: multisig_LEN_def)
  with assms(1) show ?thesis
    by (auto simp: multisig_at_def view_Some_iff unpack_unchecked_def multisig_unpack_from_slice_def
        unpack_bool_def result_ok Let_def)
qed

lemma token_step_multisigs:
  assumes "token_step A S S'" "multisigs S' k = Some ms" "multisigs S k \<noteq> Some ms"
  shows "is_valid_signer_index (unat (ms_n ms)) \<and> is_valid_signer_index (unat (ms_m ms))"
  using assms by cases (auto simp: is_valid_signer_index_def MAX_SIGNERS_def unat_of_nat split: if_splits)

lemma chain_step_multisigs:
  assumes "chain_step h pid L L'" "ledger_inv pid L" "multisigs_ok pid L"
  shows "multisigs_ok pid L'"
  unfolding multisigs_ok_def
proof (intro allI impI)
  fix k ms
  assume own: "owner (L' k) = pid" and at: "multisig_at L' k = Some ms" and init: "ms_is_initialized ms"
  have "owner (L k) = pid \<and> multisig_at L k = Some ms \<or>
      is_valid_signer_index (unat (ms_n ms)) \<and> is_valid_signer_index (unat (ms_m ms))"
    using assms(1)
  proof cases
    case (token_run infos input)
    from process_refines [OF token_run(1)] own at token_step_multisigs [of _ "abs_ledger L" "abs_ledger L'" k ms]
    show ?thesis by (auto simp: refines_def same_frame_def)
  next
    case (other_run prog)
    have "owner (L k) = pid"
      using within_rules_new_owner [OF other_run(2), of k] multisig_of_zeros [OF at] init own by metis
    then have "data (L' k) = data (L k)"
      using within_rules_foreign(2) [OF other_run(2), of k] other_run(1) by auto
    with \<open>owner (L k) = pid\<close> at show ?thesis by (simp add: multisig_at_def view_def)
  next
    case (sysvar_write d)
    have "k \<noteq> instructions_id" using assms(2) own sysvar_write by (auto simp: ledger_inv_def)
    with sysvar_write own at show ?thesis by (auto simp: multisig_at_def)
  qed
  with assms(3) init show
    "is_valid_signer_index (unat (ms_n ms)) \<and> is_valid_signer_index (unat (ms_m ms))"
    by (auto simp: multisigs_ok_def)
qed

lemma chain_multisigs:
  assumes "chain h pid L L'" "ledger_inv pid L" "multisigs_ok pid L"
  shows "multisigs_ok pid L'"
  using assms
  by (induction rule: rtranclp_induct) (auto intro: chain_step_multisigs chain_inv)

section \<open>Foreign programs\<close>

lemma foreign_execute:
  assumes "execute_instruction h ip m ci pidx ctx = Ok ctx'" "invoke_stack ctx = []" "loaded m ctx"
    and "\<And>p. p \<in> all_programs ip \<Longrightarrow> sandboxed p"
    and prog: "account_keys m ! unat (program_id_index ci) \<noteq> pid" and own: "owner (ctx_store ctx k) = pid"
  shows "owner (ctx_store ctx' k) = pid \<and> data (ctx_store ctx' k) = data (ctx_store ctx k) \<and>
    lamports (ctx_store ctx k) \<le> lamports (ctx_store ctx' k)"
proof -
  obtain q where "compiled_program_id ci (account_keys m) = (Ok q :: (InstructionError, pubkey) result)"
    and rules: "within_rules q (ctx_store ctx) (ctx_store ctx')"
    by (rule execute_instruction_rules [OF assms(1-4)])
  then have "q \<noteq> pid" using prog by (auto simp: compiled_program_id_def result_ok)
  with within_rules_foreign [OF rules, of k] own show ?thesis by auto
qed

section \<open>Errors across the program boundary\<close>

text \<open>
  The error a program returns comes back to a caller as the same error; only the text of a Borsh
  error is lost on the way.
\<close>

fun without_text :: "ProgramError \<Rightarrow> ProgramError" where
  "without_text (ProgramError.BorshIoError s) = ProgramError.BorshIoError ''Unknown''"
| "without_text e = e"

lemma instruction_error_custom:
  fixes e :: u32
  shows "instruction_error_from (ucast e) = InstructionError.Custom e"
proof -
  have "drop_bit BUILTIN_BIT_SHIFT (ucast e :: u64) = 0"
  proof (rule word_unat_eq_iff [THEN iffD2])
    have "unat e < 2 ^ 32" using unsigned_less [of e] by simp
    then have "unat (ucast e :: u64) < 2 ^ 32"
      by (simp add: unsigned_ucast_eq take_bit_nat_eq_self)
    then show "unat (drop_bit BUILTIN_BIT_SHIFT (ucast e :: u64)) = unat (0 :: u64)"
      by (subst unat_drop_bit_eq) (simp add: BUILTIN_BIT_SHIFT_def drop_bit_eq_div)
  qed
  moreover have "ucast (ucast e :: u64) = e" by (simp add: ucast_down_ucast_id is_down)
  ultimately show ?thesis
    by (simp add: instruction_error_from_def to_builtin_def BUILTIN_BIT_SHIFT_def
        ucast_u32_neq_builtin)
qed

lemma error_crosses_boundary:
  "program_error_try_from (instruction_error_from (program_error_to_u64 e)) = Ok (without_text e)"
  by (cases e) (auto simp: instruction_error_custom, simp_all add: instruction_error_from_def
      to_builtin_def BUILTIN_BIT_SHIFT_def)

end
