(* ===== verification/Token_Liveness.thy ===== *)
theory Token_Liveness
  imports Token_Safety
begin

text \<open>
  The converse of the refinement, for the instructions that move value: when a step of the
  specification is enabled and its key is authorized, the handler succeeds and takes exactly
  that step.
\<close>

section \<open>Reading, writing and spending\<close>

lemma write_account_total:
  assumes "acct_at L (key i) = Some a"
  obtains L' where "write_account L i v = Ok L'"
proof -
  have "length (info_data L i) = account_LEN"
    using at_length(1) [OF assms] by (simp add: info_data_def)
  from account.typed_write_total [OF this, of v] that show ?thesis
    by (auto simp: write_account_def)
qed

lemma write_mint_total:
  assumes "mint_at L (key i) = Some m"
  obtains L' where "write_mint L i v = Ok L'"
proof -
  have "length (info_data L i) = mint_LEN"
    using at_length(2) [OF assms] by (simp add: info_data_def)
  from mint.typed_write_total [OF this, of v] that show ?thesis
    by (auto simp: write_mint_def)
qed

lemma spend_authority_total:
  assumes "may_spend (key ai) amt a" "validate_owner pid L (key ai) ai iter = Ok ()" "\<not> self"
  obtains a' where "spend_authority pid L a amt self ai iter = Ok a'" "amount a' = amount a"
    "is_native a' = is_native a" "a'\<lparr>amount := amount a - amt\<rparr> = debit (key ai) amt a"
proof (cases "delegate a = Some (key ai)")
  case True
  let ?l = "delegated_amount a - amt"
  let ?a = "if ?l = 0 then a\<lparr>delegated_amount := ?l, delegate := None\<rparr> else a\<lparr>delegated_amount := ?l\<rparr>"
  have c: "checked_sub (delegated_amount a) amt = Some ?l" "\<not> delegated_amount a < amt"
    using assms(1) True by (auto simp: checked_u64 may_spend_def)
  show ?thesis
  proof (rule that)
    show "spend_authority pid L a amt self ai iter = Ok ?a"
      using True assms(2,3) c by (simp add: spend_authority_def)
    show "?a\<lparr>amount := amount a - amt\<rparr> = debit (key ai) amt a"
      using True by (cases a) (simp add: debit_def)
  qed (simp_all add: is_native_def)
next
  case False
  show ?thesis
  proof (rule that)
    show "spend_authority pid L a amt self ai iter = Ok a"
      using False assms(1,2) by (simp add: spend_authority_def may_spend_def)
  qed (use False in \<open>simp_all add: debit_def\<close>)
qed

section \<open>Transfers\<close>

lemma process_transfer_total:
  assumes a: "live (abs_ledger L) (key si) a" and b: "live (abs_ledger L) (key di) b"
    and "key si \<noteq> key di" "\<not> is_frozen a" "\<not> is_frozen b" "acct_mint a = acct_mint b"
    and spend: "may_spend (key ai) amt a" and v: "validate_owner pid L (key ai) ai rest = Ok ()"
    and "fits (amount b) amt" "\<not> is_native a"
  obtains L' where "process_transfer pid L (si # di # ai # rest) amt None = Ok L'"
    "acct_at L' = (acct_at L)(key si \<mapsto> debit (key ai) amt a, key di \<mapsto> credit amt b)"
    "mint_at L' = mint_at L" "multisig_at L' = multisig_at L"
    "\<And>k. lamports (L' k) = lamports (L k)"
proof -
  obtain a' where a': "spend_authority pid L a amt False ai rest = Ok a'" "amount a' = amount a"
    "is_native a' = is_native a" "a'\<lparr>amount := amount a - amt\<rparr> = debit (key ai) amt a"
    using spend_authority_total [OF spend v] by blast
  have rd: "read_account L si = Ok a" "read_account L di = Ok b"
    using a b by (simp_all add: read_account_Ok_iff live_def)
  have c: "checked_sub (amount a) amt = Some (amount a - amt)" "\<not> amount a < amt"
    "checked_add (amount b) amt = Some (amount b + amt)"
    using spend assms(9) by (auto simp: checked_u64 may_spend_def)
  have at: "acct_at L (key si) = Some a" "acct_at L (key di) = Some b"
    using a b by (simp_all add: live_def)
  obtain L1 where L1: "write_account L si (debit (key ai) amt a) = Ok L1"
    by (rule write_account_total [OF at(1)])
  note w1 = write_account_OkD [OF L1]
  have "acct_at L1 (key di) = Some b" using at w1(1) assms(3) by simp
  then obtain L2 where L2: "write_account L1 di (credit amt b) = Ok L2"
    by (rule write_account_total)
  note w2 = write_account_OkD [OF L2]
  have nn: "\<not> is_native (debit (key ai) amt a)"
    using assms(10) by (simp add: is_native_def debit_def)
  show ?thesis
  proof (rule that)
    show "process_transfer pid L (si # di # ai # rest) amt None = Ok L2"
      using assms(3-6) rd a' c L1 L2 nn
      by (simp add: process_transfer_def next_expected_mint_def check_expected_mint_def Let_def
          credit_def)
  qed (use w1 w2 in \<open>auto simp: fun_eq_iff\<close>)
qed

section \<open>Minting and burning\<close>

lemma write_account_mint_total:
  assumes "live (abs_ledger L) (key i) a" "live_mint (abs_ledger L) (key j) m"
  obtains L1 L2 where "write_account L i a' = Ok L1" "write_mint L1 j m' = Ok L2"
    "acct_at L2 = (acct_at L)(key i \<mapsto> a')" "mint_at L2 = (mint_at L)(key j \<mapsto> m')"
    "multisig_at L2 = multisig_at L" "\<And>k. lamports (L2 k) = lamports (L k)"
proof -
  have at: "acct_at L (key i) = Some a" "mint_at L (key j) = Some m"
    using assms by (simp_all add: live_def live_mint_def)
  obtain L1 where L1: "write_account L i a' = Ok L1"
    by (rule write_account_total [OF at(1)])
  note w1 = write_account_OkD [OF L1]
  have "mint_at L1 (key j) = Some m" using at w1(2) by simp
  then obtain L2 where L2: "write_mint L1 j m' = Ok L2"
    by (rule write_mint_total)
  note w2 = write_mint_OkD [OF L2]
  show ?thesis
    by (rule that [OF L1 L2]) (use w1 w2 in \<open>auto simp: fun_eq_iff\<close>)
qed

lemma process_mint_to_total:
  assumes a: "live (abs_ledger L) (key di) a" and m: "live_mint (abs_ledger L) (key mi) m"
    and "acct_mint a = key mi" "\<not> is_frozen a" "\<not> is_native a" "mint_authority m = Some (key ai)"
    and "validate_owner pid L (key ai) ai rest = Ok ()"
    and "fits (amount a) amt" "fits (mint_supply m) amt"
  obtains L' where "process_mint_to pid L (mi # di # ai # rest) amt None = Ok L'"
    "acct_at L' = (acct_at L)(key di \<mapsto> credit amt a)"
    "mint_at L' = (mint_at L)(key mi \<mapsto> m\<lparr>mint_supply := mint_supply m + amt\<rparr>)"
    "multisig_at L' = multisig_at L" "\<And>k. lamports (L' k) = lamports (L k)"
proof -
  have rd: "read_account L di = Ok a" "read_mint L mi = Ok m"
    using a m by (simp_all add: read_account_Ok_iff read_mint_Ok_iff live_def live_mint_def)
  have c: "checked_add (amount a) amt = Some (amount a + amt)"
    "checked_add (mint_supply m) amt = Some (mint_supply m + amt)"
    using assms(8,9) by (auto simp: checked_u64)
  obtain L1 L2 where w: "write_account L di (credit amt a) = Ok L1"
    "write_mint L1 mi (m\<lparr>mint_supply := mint_supply m + amt\<rparr>) = Ok L2"
    and at: "acct_at L2 = (acct_at L)(key di \<mapsto> credit amt a)"
    "mint_at L2 = (mint_at L)(key mi \<mapsto> m\<lparr>mint_supply := mint_supply m + amt\<rparr>)"
    "multisig_at L2 = multisig_at L" "\<And>k. lamports (L2 k) = lamports (L k)"
    by (rule write_account_mint_total [OF a m]) blast
  show ?thesis
    by (rule that [OF _ at]) (use assms(3-7) rd c w in \<open>simp add: process_mint_to_def credit_def\<close>)
qed

lemma process_burn_total:
  assumes a: "live (abs_ledger L) (key si) a" and m: "live_mint (abs_ledger L) (key mi) m"
    and "acct_mint a = key mi" "\<not> is_frozen a" "\<not> is_native a"
    and spend: "may_spend (key ai) amt a" and v: "validate_owner pid L (key ai) ai rest = Ok ()"
    and "amt \<le> mint_supply m"
  obtains L' where "process_burn pid L (si # mi # ai # rest) amt None = Ok L'"
    "acct_at L' = (acct_at L)(key si \<mapsto> debit (key ai) amt a)"
    "mint_at L' = (mint_at L)(key mi \<mapsto> m\<lparr>mint_supply := mint_supply m - amt\<rparr>)"
    "multisig_at L' = multisig_at L" "\<And>k. lamports (L' k) = lamports (L k)"
proof -
  obtain a' where a': "spend_authority pid L a amt False ai rest = Ok a'" "amount a' = amount a"
    "is_native a' = is_native a" "a'\<lparr>amount := amount a - amt\<rparr> = debit (key ai) amt a"
    using spend_authority_total [OF spend v] by blast
  have rd: "read_account L si = Ok a" "read_mint L mi = Ok m"
    using a m by (simp_all add: read_account_Ok_iff read_mint_Ok_iff live_def live_mint_def)
  have c: "checked_sub (amount a) amt = Some (amount a - amt)" "\<not> amount a < amt"
    "checked_sub (mint_supply m) amt = Some (mint_supply m - amt)"
    using spend assms(8) by (auto simp: checked_u64 may_spend_def)
  obtain L1 L2 where w: "write_account L si (debit (key ai) amt a) = Ok L1"
    "write_mint L1 mi (m\<lparr>mint_supply := mint_supply m - amt\<rparr>) = Ok L2"
    and at: "acct_at L2 = (acct_at L)(key si \<mapsto> debit (key ai) amt a)"
    "mint_at L2 = (mint_at L)(key mi \<mapsto> m\<lparr>mint_supply := mint_supply m - amt\<rparr>)"
    "multisig_at L2 = multisig_at L" "\<And>k. lamports (L2 k) = lamports (L k)"
    by (rule write_account_mint_total [OF a m]) blast
  show ?thesis
    by (rule that [OF _ at]) (use assms(3-5) a' rd c w in \<open>simp add: process_burn_def\<close>)
qed

end
