(* ===== verification/Scenario.thy ===== *)
theory Scenario
  imports Chain_Facts Token_Liveness Message_Facts
begin

text \<open>
  A small ledger with one mint and two token accounts, and a message that transfers between them,
  run through the whole stack. The general theorems are instantiated here.
\<close>

section \<open>The ledger\<close>

definition token_account :: "pubkey \<Rightarrow> u64 \<Rightarrow> Account" where
  "token_account own n = \<lparr>acct_mint = 7, acct_owner = own, amount = n, delegate = None,
     acct_state = Initialized, acct_is_native = None, delegated_amount = 0, close_authority = None\<rparr>"

definition sample_mint :: Mint where
  "sample_mint = \<lparr>mint_authority = None, mint_supply = 55, decimals = 2,
     mint_is_initialized = True, freeze_authority = Some 12\<rparr>"

definition open_mint :: Mint where
  "open_mint = sample_mint\<lparr>mint_authority := Some 10\<rparr>"

fun bytes_of :: "bytes program_result \<Rightarrow> bytes" where
  "bytes_of (Ok d) = d"
| "bytes_of _ = []"

definition held :: "pubkey \<Rightarrow> bytes \<Rightarrow> AccountSharedData" where
  "held own d = \<lparr>lamports = 1000, data = d, owner = own, executable = False, rent_epoch = 0\<rparr>"

definition ledger_with :: "Account \<Rightarrow> Mint \<Rightarrow> ledger" where
  "ledger_with a mi = (\<lambda>_. default_account)
     (1 := held token_id (bytes_of (account_pack a (replicate account_LEN 0))),
      2 := held token_id (bytes_of (account_pack (token_account 9 5) (replicate account_LEN 0))),
      7 := held token_id (bytes_of (mint_pack mi (replicate mint_LEN 0))),
      10 := held system_program_id [],
      token_id := (held bpf_loader_id [])\<lparr>executable := True\<rparr>)"

definition sample_ledger :: ledger where
  "sample_ledger = ledger_with (token_account 10 50) sample_mint"

definition sample_rent :: Rent where
  "sample_rent = \<lparr>lamports_per_byte_year = 1, exemption_threshold = 0, burn_percent = 50\<rparr>"

definition sample_host :: host where
  "sample_host = \<lparr>f64_scale = (\<lambda>x _. 2 * x), bincode_rent = (\<lambda>_. Some sample_rent),
     syscall_rent = Ok sample_rent\<rparr>"

lemma view_bytes_of:
  assumes "length src = account_LEN"
  shows "view account_LEN account_unpack_from_slice (held own (bytes_of (account_pack a src))) = Some a"
proof -
  obtain d where "account_pack a src = Ok d"
    using account.pack_total [OF _ assms] by auto
  with account.view_write [OF this, of "held own []"] show ?thesis by (simp add: held_def)
qed

lemma view_bytes_of_mint:
  assumes "length src = mint_LEN"
  shows "view mint_LEN mint_unpack_from_slice (held own (bytes_of (mint_pack a src))) = Some a"
proof -
  obtain d where "mint_pack a src = Ok d"
    using mint.pack_total [OF _ assms] by auto
  with mint.view_write [OF this, of "held own []"] show ?thesis by (simp add: held_def)
qed

lemma view_empty:
  assumes "data acc = []"
  shows "view account_LEN account_unpack_from_slice acc = None"
    "view mint_LEN mint_unpack_from_slice acc = None"
    "view multisig_LEN multisig_unpack_from_slice acc = None"
  using assms by (simp_all add: view_wrong_length layout_LENs)

lemma sample_ids [simp]:
  "token_id \<noteq> 0" "token_id \<noteq> 5" "token_id \<noteq> 6" "token_id \<noteq> 1" "token_id \<noteq> 2" "token_id \<noteq> 7" "token_id \<noteq> 10"
  "1 \<noteq> token_id" "2 \<noteq> token_id" "7 \<noteq> token_id" "10 \<noteq> token_id" "0 \<noteq> token_id"
  by (simp_all add: token_id_def)

lemma ledger_with_no_data: "k \<notin> {1, 2, 7} \<Longrightarrow> data (ledger_with a mi k) = []"
  by (simp add: ledger_with_def held_def default_account_def)

lemma ledger_with_owner [simp]:
  "owner (ledger_with a mi 1) = token_id" "owner (ledger_with a mi 2) = token_id"
  "owner (ledger_with a mi 7) = token_id"
  by (simp_all add: ledger_with_def held_def)

lemma ledger_with_accts: "acct_at (ledger_with a mi) = [1 \<mapsto> a, 2 \<mapsto> token_account 9 5]"
proof
  fix k
  have 7: "acct_at (ledger_with a mi) 7 = None"
    using at_exclusive(2) [of "ledger_with a mi" 7 mi]
    by (simp add: mint_at_def ledger_with_def view_bytes_of_mint)
  consider "k = 1" | "k = 2" | "k = 7" | "data (ledger_with a mi k) = []" "k \<notin> {1, 2, 7}"
    using ledger_with_no_data by blast
  then show "acct_at (ledger_with a mi) k = [1 \<mapsto> a, 2 \<mapsto> token_account 9 5] k"
    by cases (use 7 in \<open>simp_all add: acct_at_def view_empty\<close>,
      simp_all add: ledger_with_def view_bytes_of)
qed

lemma ledger_with_mints: "mint_at (ledger_with a mi) = [7 \<mapsto> mi]"
proof
  fix k
  have 12: "mint_at (ledger_with a mi) 1 = None" "mint_at (ledger_with a mi) 2 = None"
    using at_exclusive(1) ledger_with_accts by (simp_all add: fun_eq_iff)
  consider "k = 1" | "k = 2" | "k = 7" | "data (ledger_with a mi k) = []" "k \<notin> {1, 2, 7}"
    using ledger_with_no_data by blast
  then show "mint_at (ledger_with a mi) k = [7 \<mapsto> mi] k"
    by cases (use 12 in \<open>simp_all add: mint_at_def view_empty\<close>,
      simp_all add: ledger_with_def view_bytes_of_mint)
qed

lemmas sample_accts = ledger_with_accts [of "token_account 10 50" sample_mint, folded sample_ledger_def]
lemmas sample_mints = ledger_with_mints [of "token_account 10 50" sample_mint, folded sample_ledger_def]
lemmas sample_no_data = ledger_with_no_data [of _ "token_account 10 50" sample_mint, folded sample_ledger_def]
lemmas sample_owner = ledger_with_owner [of "token_account 10 50" sample_mint, folded sample_ledger_def]
declare sample_owner [simp]

lemmas sample_ledger_fields = sample_ledger_def ledger_with_def

lemma sample_multisigs [simp]: "multisig_at sample_ledger k = None"
proof -
  consider "k = 1" | "k = 2" | "k = 7" | "data (sample_ledger k) = []"
    using sample_no_data [of k] by blast
  then show ?thesis
    using at_exclusive(1,2) [of sample_ledger k] sample_accts sample_mints
    by cases (auto simp: multisig_at_def view_empty)
qed

text \<open>A key that is not a multisignature authorizes by signing.\<close>

lemma plain_key_signs:
  assumes "is_signer i" "data (L (key i)) = []"
  shows "validate_owner pid L (key i) i [] = Ok ()"
  using assms by (intro validate_owner_complete) (simp_all add: multisig_LEN_def)

lemma sample_owned: "owned token_id sample_ledger = {1, 2, 7}"
  by (auto simp: owned_def sample_ledger_fields held_def default_account_def system_program_id_def
      bpf_loader_id_def token_id_def)

lemmas sample_defs = token_account_def sample_mint_def account_is_initialized_def is_frozen_def
  is_native_def

lemma sample_inv: "ledger_inv token_id sample_ledger"
proof -
  have "supply_ok {1, 2, 7} (abs_ledger sample_ledger)"
    by (auto simp: supply_ok_def holding_def issued_def sample_accts sample_mints sample_defs)
  moreover have "fresh_ok {1, 2, 7} (abs_ledger sample_ledger)"
    by (auto simp: fresh_ok_def sample_mints sample_defs)
  moreover have "native_ok {1, 2, 7} (abs_ledger sample_ledger)"
    by (auto simp: native_ok_def live_def sample_accts sample_defs native_mint_id_def)
  moreover have "instructions_id \<notin> owned token_id sample_ledger"
    by (simp add: sample_owned instructions_id_def)
  then have "owner (sample_ledger instructions_id) \<noteq> token_id" by (simp add: owned_def)
  ultimately show ?thesis
    by (simp add: ledger_inv_def token_inv_def sample_owned)
qed

section \<open>A transfer\<close>

definition info :: "pubkey \<Rightarrow> bool \<Rightarrow> AccountInfo" where
  "info k s = \<lparr>key = k, is_signer = s, is_writable = True\<rparr>"

definition sample_infos :: "AccountInfo list" where
  "sample_infos = [info 1 False, info 2 False, info 10 True]"

lemma info_simps [simp]: "key (info k s) = k" "is_signer (info k s) = s"
  by (simp_all add: info_def)

definition sample_input :: bytes where
  "sample_input = token_instruction_pack (Transfer 10)"

lemma sample_transfer:
  obtains L' where "process sample_host token_id sample_ledger sample_infos sample_input = Ok L'"
    "acct_at L' = [1 \<mapsto> token_account 10 40, 2 \<mapsto> token_account 9 15]"
    "mint_at L' = [7 \<mapsto> sample_mint]" "\<And>k. lamports (L' k) = lamports (sample_ledger k)"
proof -
  have v: "validate_owner token_id sample_ledger (key (info 10 True)) (info 10 True) [] = Ok ()"
    by (rule plain_key_signs) (simp_all add: sample_no_data)
  have live: "live (abs_ledger sample_ledger) (key (info 1 False)) (token_account 10 50)"
    "live (abs_ledger sample_ledger) (key (info 2 False)) (token_account 9 5)"
    by (simp_all add: live_def sample_accts) (simp_all add: sample_defs)
  obtain L' where L': "process_transfer token_id sample_ledger sample_infos 10 None = Ok L'"
    "acct_at L' = (acct_at sample_ledger)
       (1 \<mapsto> debit 10 10 (token_account 10 50), 2 \<mapsto> credit 10 (token_account 9 5))"
    "mint_at L' = mint_at sample_ledger" "\<And>k. lamports (L' k) = lamports (sample_ledger k)"
    by (rule process_transfer_total [OF live _ _ _ _ _ v, of 10])
      (simp_all add: sample_defs may_spend_def fits_def sample_infos_def)
  have "token_instruction_unpack sample_input = Ok (Transfer 10)"
    by (simp add: sample_input_def token_instruction_unpack_def)
  with L'(1) have "process sample_host token_id sample_ledger sample_infos sample_input = Ok L'"
    by (simp add: process_def)
  moreover have "acct_at L' = [1 \<mapsto> token_account 10 40, 2 \<mapsto> token_account 9 15]"
    using L'(2) by (simp add: sample_accts debit_def credit_def token_account_def fun_eq_iff)
  ultimately show ?thesis using L'(3,4) that sample_mints by simp
qed

section \<open>The message that carries it\<close>

definition sample_message :: Message where
  "sample_message = \<lparr>header = \<lparr>num_required_signatures = 1, num_readonly_signed_accounts = 0,
       num_readonly_unsigned_accounts = 1\<rparr>,
     account_keys = [10, 1, 2, token_id], recent_blockhash = 0,
     instructions = [\<lparr>program_id_index = 3, ci_accounts = [1, 2, 0], ci_data = sample_input\<rparr>]\<rparr>"

definition sample_processor :: InstructionProcessor where
  "sample_processor =
     (let p = bpf_runner sample_host token_id (\<lambda>_ _ _. Err InvalidInstructionData)
      in \<lparr>programs = [(bpf_loader_id, p)], native_loader = p\<rparr>)"

definition sample_context :: InvokeContext where
  "sample_context = \<lparr>instruction_index = 0, invoke_stack = [], ctx_rent = sample_rent,
     pre_accounts = [], ctx_keys = [10, 1, 2, token_id], ctx_store = sample_ledger,
     ctx_borrowed = (\<lambda>_. False), max_invoke_depth = 4, max_units = 200000, tx_meter = 200000,
     own_meter = None, feature_active = (\<lambda>_. True), ctx_timings = default_timings,
     ctx_blockhash = 77, ctx_lamports_per_signature = 5000\<rparr>"

lemma sample_loaded: "loaded sample_message sample_context"
  by (simp add: loaded_def sample_message_def sample_context_def)

lemma sample_located:
  "located sample_message (ctx_keys sample_context) (zip (instructions sample_message) [[3]])"
  by (simp add: located_def sample_message_def sample_context_def)

lemma sample_hosts: "p \<in> all_programs sample_processor \<Longrightarrow> token_host p sample_host token_id"
  using runner.token_host_axioms by (auto simp: all_programs_def sample_processor_def Let_def)

lemma sample_writable:
  "msg_is_writable sample_message 0 d = Ok True" "msg_is_writable sample_message 1 d = Ok True"
  "msg_is_writable sample_message 2 d = Ok True"
  by (simp_all add: msg_is_writable_def sample_message_def is_key_called_as_program_def Let_def
      at_index_def is_sysvar_id_def ALL_IDS_def BUILTIN_PROGRAMS_KEYS_def rent_id_def instructions_id_def
      system_program_id_def bpf_loader_id_def bpf_loader_deprecated_id_def
      bpf_loader_upgradeable_id_def)

definition sample_frame :: StackFrame where
  "sample_frame = frame_new 1 (info token_id False\<lparr>is_writable := False\<rparr> # sample_infos)"

definition sample_pushed :: InvokeContext where
  "sample_pushed = sample_context\<lparr>
     pre_accounts := map (\<lambda>k. pre_account_new k (sample_ledger k)) [1, 2, 10],
     invoke_stack := [sample_frame]\<rparr>"

lemma sample_push:
  "ctx_push sample_context sample_message (instructions sample_message ! 0) [3] None = Ok sample_pushed"
proof -
  have "collect_result (keyed_account (sample_context\<lparr>pre_accounts := p\<rparr>) sample_message None) [1, 2, 0] =
      (Ok sample_infos :: (InstructionError, AccountInfo list) result)" for p
    by (simp add: keyed_account_def Let_def sample_writable [simplified] sample_context_def at_index_def
        msg_is_signer_def sample_infos_def info_def)
      (simp add: sample_message_def)
  then show ?thesis
    by (simp add: ctx_push_def sample_pushed_def)
      (simp add: sample_message_def sample_context_def check_reentrancy_def at_index_def
        visit_each_account_def snapshot_work_def Let_def keyed_program_def frame_new_def
        sample_frame_def info_def)
qed

lemma sample_runs:
  assumes L': "process sample_host token_id sample_ledger sample_infos sample_input = Ok L'"
  shows "processor_process_instruction sample_processor sample_input sample_pushed =
    Ok (sample_pushed\<lparr>ctx_store := L'\<rparr>)"
proof -
  have f: "frame_infos sample_frame = sample_infos" "frame_program_id sample_frame = Some token_id"
    "keyed_accounts sample_frame = info token_id False\<lparr>is_writable := False\<rparr> # sample_infos"
    "range_start sample_frame = 0" "range_end sample_frame = 4"
    by (simp_all add: frame_infos_def frame_new_def frame_program_id_def sample_infos_def sample_frame_def)
  have p: "invoke_stack sample_pushed = [sample_frame]" "ctx_store sample_pushed = sample_ledger"
    "ctx_borrowed sample_pushed = (\<lambda>_. False)"
    by (simp_all add: sample_pushed_def sample_context_def)
  have "(\<lambda>k. if k \<in> key ` set sample_infos then L' k else ctx_store sample_pushed k) = L'"
    using process_refines [OF L'] by (auto simp: refines_def fun_eq_iff p)
  then have "bpf_runner sample_host token_id other 0 sample_input sample_pushed =
      Ok (sample_pushed\<lparr>ctx_store := L'\<rparr>)" for other
    using L' by (simp add: bpf_runner_def p f Let_def)
  moreover have "get_keyed_accounts sample_pushed = Ok (keyed_accounts sample_frame)"
    by (simp add: get_keyed_accounts_def p f Let_def segment_def sample_infos_def)
  moreover have "owner (sample_ledger token_id) = bpf_loader_id" "bpf_loader_id \<noteq> native_loader_id"
    by (simp_all add: sample_ledger_fields held_def bpf_loader_id_def native_loader_id_def)
  ultimately show ?thesis
    by (simp add: processor_process_instruction_def dispatch_def f p sample_processor_def Let_def)
qed

lemma sample_verify:
  assumes L': "process sample_host token_id sample_ledger sample_infos sample_input = Ok L'"
    and lam: "\<And>k. lamports (L' k) = lamports (sample_ledger k)"
  obtains t where "ctx_verify sample_host (sample_pushed\<lparr>ctx_store := L'\<rparr>) sample_message
    (instructions sample_message ! 0) [3] = Ok (sample_pushed\<lparr>ctx_store := L', ctx_timings := t\<rparr>)"
proof -
  let ?c = "sample_pushed\<lparr>ctx_store := L'\<rparr>"
  have fr: "owner (L' k) = owner (sample_ledger k)" "executable (L' k) = executable (sample_ledger k)"
    "rent_epoch (L' k) = rent_epoch (sample_ledger k)"
    "length (data (L' k)) = length (data (sample_ledger k))" for k
    using process_refines [OF L'] by (auto simp: refines_def same_frame_def)
  have own: "owner (sample_ledger 1) = token_id" "owner (sample_ledger 2) = token_id"
    "\<not> executable (sample_ledger 1)" "\<not> executable (sample_ledger 2)"
    and len: "data (sample_ledger 10) = []" "length (data (sample_ledger 1)) = account_LEN"
      "length (data (sample_ledger 2)) = account_LEN"
    and lam0: "lamports (sample_ledger 1) = 1000" "lamports (sample_ledger 2) = 1000"
      "lamports (sample_ledger 10) = 1000"
    using at_length(1) [of sample_ledger] sample_accts sample_no_data
    by (simp_all add: fun_eq_iff) (simp_all add: sample_ledger_fields held_def)
  have "data (L' 10) = []" using fr(4) [of 10] len by simp
  then have ok: "\<exists>t'. pre_account_verify sample_host (pre_account_new k (sample_ledger k)) token_id
      True sample_rent (L' k) t True True = Ok t'" if "k \<in> {1, 2, 10}" for k t
    unfolding pre_account_verify_iff
    using that own len
    by (auto simp: pre_account_new_def allowed_def size_allowed_def fr lam MAX_PERMITTED_DATA_LENGTH_def
        account_LEN_def)
  have c: "ctx_keys ?c = [10, 1, 2, token_id]" "ctx_borrowed ?c = (\<lambda>_. False)" "ctx_store ?c = L'"
    "pre_accounts ?c = map (\<lambda>k. pre_account_new k (sample_ledger k)) [1, 2, 10]"
    "ctx_rent ?c = sample_rent" "feature_active ?c = (\<lambda>_. True)"
    by (simp_all add: sample_pushed_def sample_context_def)
  have pre: "lamports (pre_account (pre_account_new k a)) = lamports a" for k a
    by (simp add: pre_account_new_def)
  obtain t1 where t1: "pre_account_verify sample_host (pre_account_new 1 (sample_ledger 1)) token_id
      True sample_rent (L' 1) (ctx_timings ?c) True True = Ok t1" using ok by blast
  obtain t2 where t2: "pre_account_verify sample_host (pre_account_new 2 (sample_ledger 2)) token_id
      True sample_rent (L' 2) t1 True True = Ok t2" using ok by blast
  obtain t3 where t3: "pre_account_verify sample_host (pre_account_new 10 (sample_ledger 10)) token_id
      True sample_rent (L' 10) t2 True True = Ok t3" using ok by blast
  have w1: "verify_work sample_host ?c sample_message token_id 0 1 (ctx_timings ?c, 0, 0) =
      Ok (t1, 1000, 1000)"
    using t1 by (simp add: verify_work_def c at_index_def sample_writable [simplified] Let_def pre lam lam0
        add_sums_def checked_add_def)
  have w2: "verify_work sample_host ?c sample_message token_id 1 2 (t1, 1000, 1000) =
      Ok (t2, 2000, 2000)"
    using t2 by (simp add: verify_work_def c at_index_def sample_writable Let_def pre lam lam0
        add_sums_def checked_add_def)
  have w3: "verify_work sample_host ?c sample_message token_id (Suc 1) 0 (t2, 2000, 2000) =
      Ok (t3, 3000, 3000)"
    using t3 by (simp add: verify_work_def c at_index_def sample_writable Let_def pre lam lam0
        add_sums_def checked_add_def)
  have "ci_accounts (instructions sample_message ! 0) = [1, 2, 0]"
    "compiled_program_id (instructions sample_message ! 0) (account_keys sample_message) =
      (Ok token_id :: (InstructionError, pubkey) result)"
    by (simp_all add: sample_message_def compiled_program_id_def at_index_def)
  then have "ctx_verify sample_host ?c sample_message (instructions sample_message ! 0) [3] =
      Ok (?c\<lparr>ctx_timings := t3\<rparr>)"
    using w1 w2 w3 by (simp add: ctx_verify_def visit_each_account_def c at_index_def)
  then show ?thesis by (rule that)
qed

lemma sample_sandboxed: "p \<in> all_programs sample_processor \<Longrightarrow> sandboxed p"
  using sample_hosts [of p] by (simp add: token_host_def)

text \<open>The instruction executes, the message runs, and ten tokens have moved.\<close>

lemma sample_executes:
  obtains L' t where
    "execute_instruction sample_host sample_processor sample_message (instructions sample_message ! 0)
       [3] sample_context = Ok (sample_pushed\<lparr>ctx_store := L', ctx_timings := t\<rparr>)"
    "acct_at L' = [1 \<mapsto> token_account 10 40, 2 \<mapsto> token_account 9 15]" "same_frame sample_ledger L'"
proof -
  obtain L' where L': "process sample_host token_id sample_ledger sample_infos sample_input = Ok L'"
    "acct_at L' = [1 \<mapsto> token_account 10 40, 2 \<mapsto> token_account 9 15]"
    "\<And>k. lamports (L' k) = lamports (sample_ledger k)"
    by (rule sample_transfer) blast
  obtain t where t: "ctx_verify sample_host (sample_pushed\<lparr>ctx_store := L'\<rparr>) sample_message
      (instructions sample_message ! 0) [3] = Ok (sample_pushed\<lparr>ctx_store := L', ctx_timings := t\<rparr>)"
    by (rule sample_verify [OF L'(1,3)])
  have "ci_data (instructions sample_message ! 0) = sample_input" by (simp add: sample_message_def)
  then have "execute_instruction sample_host sample_processor sample_message
      (instructions sample_message ! 0) [3] sample_context =
      Ok (sample_pushed\<lparr>ctx_store := L', ctx_timings := t\<rparr>)"
    by (simp add: execute_instruction_def sample_push sample_runs [OF L'(1)] t)
  moreover have "same_frame sample_ledger L'"
    using process_refines [OF L'(1)] by (simp add: refines_def)
  ultimately show ?thesis using L'(2) by (intro that)
qed

lemma sample_message_runs:
  obtains ctx' t where "process_message sample_host sample_processor sample_message (\<lambda>_. 0) [[3]]
      sample_context default_timings = Ok (ctx', t)"
    "acct_at (ctx_store ctx') = [1 \<mapsto> token_account 10 40, 2 \<mapsto> token_account 9 15]"
    "same_frame sample_ledger (ctx_store ctx')"
proof -
  obtain L' t where ex: "execute_instruction sample_host sample_processor sample_message
      (instructions sample_message ! 0) [3] sample_context =
      Ok (sample_pushed\<lparr>ctx_store := L', ctx_timings := t\<rparr>)"
    and L': "acct_at L' = [1 \<mapsto> token_account 10 40, 2 \<mapsto> token_account 9 15]" "same_frame sample_ledger L'"
    by (rule sample_executes)
  let ?ci = "instructions sample_message ! 0"
  have ci: "zip (instructions sample_message) [[3]] = [(?ci, [3])]"
    "compiled_program_id ?ci (account_keys sample_message) = (Ok token_id :: ('e, pubkey) result)" for t :: 'e
    by (simp_all add: sample_message_def compiled_program_id_def at_index_def)
  have "fixup_instructions_sysvar sample_message 0 sample_context =
      (Ok sample_context :: (TransactionError, _) result)"
    by (simp add: fixup_instructions_sysvar_def sample_context_def sample_message_def instructions_id_def
        token_id_def)
  moreover have "\<not> is_precompile token_id f" for f
    by (simp add: is_precompile_def PRECOMPILES_def precompile_check_id_def token_id_def
        secp256k1_program_id_def ed25519_program_id_def)
  moreover have "sample_context\<lparr>instruction_index := 0\<rparr> = sample_context"
    "sample_context\<lparr>instruction_index := 0, invoke_stack := [], pre_accounts := [],
       own_meter := None, ctx_timings := default_timings\<rparr> = sample_context"
    by (simp_all add: sample_context_def)
  ultimately have "\<exists>t'. process_message sample_host sample_processor sample_message (\<lambda>_. 0) [[3]]
      sample_context default_timings =
      Ok (ctx_pop (sample_pushed\<lparr>ctx_store := L', ctx_timings := t\<rparr>), t')"
    using ex by (simp add: process_message_def ci Let_def)
  moreover have "ctx_store (ctx_pop (sample_pushed\<lparr>ctx_store := L', ctx_timings := t\<rparr>)) = L'"
    by (simp add: ctx_pop_def sample_pushed_def sample_context_def)
  ultimately show ?thesis using L' that by metis
qed

section \<open>Thawing an account\<close>

definition frozen_ledger :: ledger where
  "frozen_ledger = ledger_with ((token_account 10 50)\<lparr>acct_state := Frozen\<rparr>) sample_mint"

definition thaw_infos :: "AccountInfo list" where
  "thaw_infos = [info 1 False, info 7 False, info 12 True]"

lemmas frozen_accts = ledger_with_accts
  [of "(token_account 10 50)\<lparr>acct_state := Frozen\<rparr>" sample_mint, folded frozen_ledger_def]
lemmas frozen_mints = ledger_with_mints
  [of "(token_account 10 50)\<lparr>acct_state := Frozen\<rparr>" sample_mint, folded frozen_ledger_def]

lemma sample_thaw:
  obtains L' where "process sample_host token_id frozen_ledger thaw_infos [11] = Ok L'"
    "acct_at L' 1 = Some (token_account 10 50)"
proof -
  have v: "validate_owner token_id frozen_ledger 12 (info 12 True) [] = Ok ()"
    using plain_key_signs [of "info 12 True" frozen_ledger token_id]
    by (simp add: frozen_ledger_def ledger_with_no_data)
  have rd: "read_account frozen_ledger (info 1 False) = Ok ((token_account 10 50)\<lparr>acct_state := Frozen\<rparr>)"
    "read_mint frozen_ledger (info 7 False) = Ok sample_mint"
    by (simp_all add: read_account_Ok_iff read_mint_Ok_iff frozen_accts frozen_mints sample_defs)
  have "acct_at frozen_ledger (key (info 1 False)) = Some ((token_account 10 50)\<lparr>acct_state := Frozen\<rparr>)"
    by (simp add: frozen_accts)
  then obtain L' where L': "write_account frozen_ledger (info 1 False) (token_account 10 50) = Ok L'"
    by (rule write_account_total)
  have "token_instruction_unpack [11] = Ok ThawAccount"
    by (simp add: token_instruction_unpack_def)
  with rd v L' have "process sample_host token_id frozen_ledger thaw_infos [11] = Ok L'"
    by (simp add: process_def process_toggle_freeze_account_def thaw_infos_def sample_defs)
  moreover have "acct_at L' 1 = Some (token_account 10 50)"
    using fun_cong [OF write_account_OkD(1) [OF L'], of 1] by simp
  ultimately show ?thesis by (rule that)
qed

section \<open>A multisignature that nobody can use\<close>

definition multisig_ledger :: ledger where
  "multisig_ledger = sample_ledger(3 := (held token_id (replicate multisig_LEN 0))\<lparr>lamports := 5000\<rparr>)"

definition multisig_infos :: "AccountInfo list" where
  "multisig_infos = [info 3 False, info 20 False]"

definition blank_multisig :: Multisig where
  "blank_multisig = \<lparr>ms_m = 0, ms_n = 0, ms_is_initialized = False, ms_signers = replicate 11 0\<rparr>"

lemma unpack_blank_multisig:
  "multisig_unpack_unchecked (replicate multisig_LEN 0) = Ok blank_multisig"
proof -
  have "pubkey_new_from_array (replicate 32 0) = 0"
    unfolding pubkey_new_from_array_def by (rule from_le_zeros)
  then have "keys_of_chunks n (replicate (32 * n) 0) = replicate n 0" for n
    by (induction n) (simp_all add: take_replicate drop_replicate)
  from this [of 11] show ?thesis
    by (simp add: unpack_unchecked_def multisig_unpack_from_slice_def multisig_LEN_def MAX_SIGNERS_def
        segment_zeros unpack_bool_def blank_multisig_def Let_def)
qed

definition stuck_multisig :: Multisig where
  "stuck_multisig = \<lparr>ms_m = 2, ms_n = 1, ms_is_initialized = True, ms_signers = 20 # replicate 10 0\<rparr>"

text \<open>The program sets it up: two signers out of one.\<close>

lemma stuck_multisig_created:
  obtains L' where
    "process sample_host token_id multisig_ledger multisig_infos
       (token_instruction_pack (InitializeMultisig2 2)) = Ok L'"
    "multisig_at L' 3 = Some stuck_multisig" "owner (L' 3) = token_id"
proof -
  let ?i = "info 3 False"
  have len: "info_data multisig_ledger ?i = replicate multisig_LEN 0"
    "info_lamports multisig_ledger ?i = 5000" "data_len multisig_ledger ?i = 355"
    by (simp_all add: multisig_ledger_def held_def info_data_def info_lamports_def data_len_def
        multisig_LEN_def)
  have ex: "is_exempt sample_host sample_rent 5000 355"
    by (simp add: is_exempt_def minimum_balance_def sample_host_def sample_rent_def
        ACCOUNT_STORAGE_OVERHEAD_def Let_def)
  have wf: "multisig_wf stuck_multisig" by (simp add: multisig_wf_def stuck_multisig_def MAX_SIGNERS_def)
  obtain L' where L': "write_multisig multisig_ledger ?i stuck_multisig = Ok L'"
    using multisig.typed_write_total [OF _ wf, of multisig_ledger ?i] len
    by (auto simp: write_multisig_def)
  have "blank_multisig\<lparr>ms_m := 2, ms_n := 1, ms_signers := 20 # replicate 10 0,
      ms_is_initialized := True\<rparr> = stuck_multisig"
    by (simp add: blank_multisig_def stuck_multisig_def)
  moreover have "assign_signers (ms_signers blank_multisig) 0 [info 20 False] =
      Ok (20 # replicate 10 0)"
    by (simp add: blank_multisig_def numeral_eq_Suc)
  moreover have "token_instruction_unpack (token_instruction_pack (InitializeMultisig2 2)) =
      Ok (InitializeMultisig2 2)"
    by (rule token_instruction_roundtrip)
  ultimately have "process sample_host token_id multisig_ledger multisig_infos
       (token_instruction_pack (InitializeMultisig2 2)) = Ok L'"
    using L' ex
    by (simp add: process_def process_initialize_multisig2_def initialize_multisig_impl_def
        multisig_infos_def read_rent_def rent_get_def sample_host_def [THEN arg_cong, of syscall_rent]
        len unpack_blank_multisig is_valid_signer_index_def MIN_SIGNERS_def MAX_SIGNERS_def Let_def)
      (simp add: blank_multisig_def)
  moreover have "owner (L' 3) = token_id"
    using write_multisig_OkD(5) [OF L' wf] by (simp add: same_frame_def multisig_ledger_def held_def)
  moreover have "multisig_at L' 3 = Some stuck_multisig"
    using fun_cong [OF write_multisig_OkD(1) [OF L' wf], of 3] by simp
  ultimately show ?thesis by (intro that)
qed

section \<open>Compiled messages\<close>

definition pay_instruction :: Instruction where
  "pay_instruction = \<lparr>program_id = token_id,
     accounts = [account_meta_new 1 False, account_meta_new 2 False, account_meta_new_readonly 10 True],
     instr_data = sample_input\<rparr>"

definition promoting_instruction :: Instruction where
  "promoting_instruction = \<lparr>program_id = token_id,
     accounts = [account_meta_new_readonly 5 True, account_meta_new_readonly 6 True,
       account_meta_new 6 False], instr_data = []\<rparr>"

lemmas eval_get_keys = get_keys_def unique_metas_def all_metas_def get_program_ids_def
  meta_rank_def account_meta_new_def account_meta_new_readonly_def Let_def

lemma pay_builder: "transfer token_id 1 2 10 [] 10 = Ok pay_instruction"
  by (simp add: transfer_def instruction_new_def check_program_account_def authority_metas_def
      pay_instruction_def sample_input_def)

lemma pay_keys: "key_table [pay_instruction] (Some 10) = [10, 1, 2, token_id]"
  by (simp add: eval_get_keys pay_instruction_def)

lemma pay_message:
  "message_new_with_blockhash [pay_instruction] (Some 10) 0 = Ok m \<Longrightarrow> account_keys m = [10, 1, 2, token_id]"
  "\<exists>m. message_new_with_blockhash [pay_instruction] (Some 10) 0 = Ok m \<and>
     account_keys m = [10, 1, 2, token_id]"
  using pay_keys by (auto simp: message_new_Ok compiled_message_keys)

lemma promoted_keys:
  "get_keys [promoting_instruction] (Some 10) = \<lparr>signed_keys = [10, 5, 6], unsigned_keys = [token_id],
     keys_readonly_signed = 1, keys_readonly_unsigned = 1\<rparr>"
  by (simp add: eval_get_keys promoting_instruction_def)

lemma plain_keys:
  "\<not> is_sysvar_id 1" "1 \<notin> set BUILTIN_PROGRAMS_KEYS" "\<not> is_sysvar_id 5" "5 \<notin> set BUILTIN_PROGRAMS_KEYS"
  by (simp_all add: is_sysvar_id_def ALL_IDS_def BUILTIN_PROGRAMS_KEYS_def rent_id_def
      instructions_id_def system_program_id_def bpf_loader_id_def bpf_loader_deprecated_id_def
      bpf_loader_upgradeable_id_def)

lemma promoted_message:
  "\<exists>m. message_new_with_blockhash [promoting_instruction] (Some 10) 0 =
       (Ok m :: (unit, Message) result) \<and>
     account_keys m ! 1 = 5 \<and> account_keys m ! 2 = 6 \<and>
     msg_is_writable m 1 False = (Ok True :: (unit, bool) result) \<and>
     msg_is_writable m 2 False = (Ok False :: (unit, bool) result)"
  unfolding message_new_Ok
  by (simp add: compiled_message_def promoted_keys msg_is_writable_def Let_def at_index_def plain_keys)

lemma sample_serialized:
  obtains d where "serialize_instructions sample_message = (Ok d :: ('e, bytes) result)"
    "length d < 2 ^ 16"
proof -
  have r: "\<forall>ci\<in>set (instructions sample_message). in_range sample_message ci"
    by (simp add: sample_message_def in_range_def)
  show ?thesis
    by (rule that [OF serialize_instructions_Ok [OF r]])
      (simp add: sample_message_def entry_def meta_bytes_def sample_input_def)
qed

end
