(* ===== verification/Math.thy ===== *)
theory Math
  imports Prelude
begin

text \<open>
  The math library (\<open>libraries/math/src\<close>): ceiling division, the integer square root and the
  fixed-point numbers. \<open>Option\<close> values that a panic can interrupt are results whose only error
  is \<open>None\<close>; \<open>U256\<close> is a 256-bit word.
\<close>

type_synonym u256 = "256 word"
type_synonym 'a outcome = "(unit, 'a) result"

text \<open>The \<open>?\<close> operator on an \<open>Option\<close>.\<close>

definition opt :: "'a option \<Rightarrow> 'a outcome" where
  "opt x = ok_or x ()"

definition checked_rem :: "'a::len word \<Rightarrow> 'a word \<Rightarrow> 'a word option" where
  "checked_rem a b = (if b = 0 then None else Some (a mod b))"

text \<open>\<open>U256::as_u128\<close> panics when the number does not fit; \<open>u128::try_from\<close> fails instead.\<close>

definition as_u128 :: "u256 \<Rightarrow> u128 outcome" where
  "as_u128 x = (if unat x < 2 ^ 128 then Ok (ucast x) else Panic)"

definition u128_try_from :: "u256 \<Rightarrow> u128 option" where
  "u128_try_from x = (if unat x < 2 ^ 128 then Some (ucast x) else None)"

section \<open>Ceiling division\<close>

definition checked_ceil_div :: "'a::len word \<Rightarrow> 'a word \<Rightarrow> ('a word \<times> 'a word) outcome" where
  "checked_ceil_div self rhs =
     bind (opt (checked_div self rhs)) (\<lambda>quotient.
     if quotient = 0 then Err () else
     bind (opt (checked_rem self rhs)) (\<lambda>remainder.
     if 0 < remainder then
       bind (opt (checked_add quotient 1)) (\<lambda>quotient.
       bind (opt (checked_div self quotient)) (\<lambda>rhs.
       bind (opt (checked_rem self quotient)) (\<lambda>remainder.
       if 0 < remainder then bind (opt (checked_add rhs 1)) (\<lambda>rhs. Ok (quotient, rhs))
       else Ok (quotient, rhs))))
     else Ok (quotient, rhs)))"

section \<open>Integer square root\<close>

definition leading_zeros :: "'a::len word \<Rightarrow> nat" where
  "leading_zeros x = length (takeWhile Not (map (bit x) (rev [0..<LENGTH('a)])))"

definition checked_shl :: "'a::len word \<Rightarrow> nat \<Rightarrow> 'a word option" where
  "checked_shl x n = (if n < LENGTH('a) then Some (push_bit n x) else None)"

definition checked_shr :: "'a::len word \<Rightarrow> nat \<Rightarrow> 'a word option" where
  "checked_shr x n = (if n < LENGTH('a) then Some (drop_bit n x) else None)"

lemma drop_bit_2_less: "b \<noteq> 0 \<Longrightarrow> unat (drop_bit 2 b) < unat b" for b :: "'a::len word"
  by (subst unat_drop_bit_eq) (simp add: drop_bit_eq_div word_neq_0_conv word_less_nat_alt)

lemma checked_shr_2_less: "b \<noteq> 0 \<Longrightarrow> checked_shr b 2 = Some c \<Longrightarrow> unat c < unat b"
  by (auto simp: checked_shr_def drop_bit_2_less split: if_splits)

function sqrt_loop :: "'a::len word \<Rightarrow> 'a word \<Rightarrow> 'a word \<Rightarrow> 'a word option" where
  "sqrt_loop b n res =
     (if b = 0 then Some res else
      Option.bind (checked_add res b) (\<lambda>result_with_bit.
      Option.bind
        (if result_with_bit \<le> n then
           Option.bind (checked_sub n result_with_bit) (\<lambda>n.
           Option.bind (Option.bind (checked_shr res 1) (\<lambda>half. checked_add half b)) (\<lambda>res.
           Some (n, res)))
         else Option.bind (checked_shr res 1) (\<lambda>res. Some (n, res))) (\<lambda>(n, res).
      Option.bind (checked_shr b 2) (\<lambda>b. sqrt_loop b n res))))"
  by pat_completeness auto

termination
  by (relation "measure (\<lambda>(b, _, _). unat b)") (auto simp: checked_shr_2_less)

definition int_sqrt :: "'a::len word \<Rightarrow> 'a word option" where
  "int_sqrt radicand =
     (if radicand = 0 then Some 0 else
      let max_shift = leading_zeros (0 :: 'a word) - 1;
          shift = (max_shift - leading_zeros radicand) div 2 * 2
      in Option.bind (checked_shl 1 shift) (\<lambda>b. sqrt_loop b radicand 0))"

section \<open>Fixed-point numbers\<close>

definition ONE :: u128 where
  "ONE = 1000000000000"

record PreciseNumber =
  pn_value :: u256

definition precise :: "u256 \<Rightarrow> PreciseNumber" where
  "precise v = \<lparr>pn_value = v\<rparr>"

definition pn_unit :: u256 where
  "pn_unit = ucast ONE"

definition rounding_correction :: u256 where
  "rounding_correction = ucast (ONE div 2)"

definition precision :: u256 where
  "precision = 100"

definition MAX_APPROXIMATION_ITERATIONS :: nat where
  "MAX_APPROXIMATION_ITERATIONS = 100"

definition min_pow_base :: u256 where
  "min_pow_base = 1"

definition max_pow_base :: u256 where
  "max_pow_base = ucast (2 * ONE)"

definition precise_new :: "u128 \<Rightarrow> PreciseNumber outcome" where
  "precise_new v = bind (opt (checked_mul (ucast v) pn_unit)) (\<lambda>v. Ok (precise v))"

definition to_imprecise :: "PreciseNumber \<Rightarrow> u128 outcome" where
  "to_imprecise x =
     bind (opt (checked_add (pn_value x) rounding_correction)) (\<lambda>v.
     bind (opt (checked_div v pn_unit)) as_u128)"

definition unsigned_sub :: "PreciseNumber \<Rightarrow> PreciseNumber \<Rightarrow> PreciseNumber \<times> bool" where
  "unsigned_sub x y =
     (case checked_sub (pn_value x) (pn_value y) of
        None \<Rightarrow> (precise (pn_value y - pn_value x), True)
      | Some v \<Rightarrow> (precise v, False))"

definition almost_eq :: "PreciseNumber \<Rightarrow> PreciseNumber \<Rightarrow> u256 \<Rightarrow> bool" where
  "almost_eq x y prec = (pn_value (fst (unsigned_sub x y)) < prec)"

definition less_than :: "PreciseNumber \<Rightarrow> PreciseNumber \<Rightarrow> bool" where
  "less_than x y = (pn_value x < pn_value y)"

definition greater_than :: "PreciseNumber \<Rightarrow> PreciseNumber \<Rightarrow> bool" where
  "greater_than x y = (pn_value y < pn_value x)"

definition less_than_or_equal :: "PreciseNumber \<Rightarrow> PreciseNumber \<Rightarrow> bool" where
  "less_than_or_equal x y = (pn_value x \<le> pn_value y)"

definition greater_than_or_equal :: "PreciseNumber \<Rightarrow> PreciseNumber \<Rightarrow> bool" where
  "greater_than_or_equal x y = (pn_value y \<le> pn_value x)"

definition precise_floor :: "PreciseNumber \<Rightarrow> PreciseNumber outcome" where
  "precise_floor x =
     bind (opt (checked_div (pn_value x) pn_unit)) (\<lambda>v.
     bind (opt (checked_mul v pn_unit)) (\<lambda>v. Ok (precise v)))"

definition precise_ceiling :: "PreciseNumber \<Rightarrow> PreciseNumber outcome" where
  "precise_ceiling x =
     bind (opt (checked_sub pn_unit 1)) (\<lambda>d.
     bind (opt (checked_add (pn_value x) d)) (\<lambda>v.
     bind (opt (checked_div v pn_unit)) (\<lambda>v.
     bind (opt (checked_mul v pn_unit)) (\<lambda>v. Ok (precise v)))))"

definition precise_div :: "PreciseNumber \<Rightarrow> PreciseNumber \<Rightarrow> PreciseNumber outcome" where
  "precise_div x y =
     (if y = precise 0 then Err () else
      case checked_mul (pn_value x) pn_unit of
        Some v \<Rightarrow>
          bind (opt (checked_add v rounding_correction)) (\<lambda>v.
          bind (opt (checked_div v (pn_value y))) (\<lambda>v. Ok (precise v)))
      | None \<Rightarrow>
          bind (opt (checked_add (pn_value x) rounding_correction)) (\<lambda>v.
          bind (opt (checked_div v (pn_value y))) (\<lambda>v.
          bind (opt (checked_mul v pn_unit)) (\<lambda>v. Ok (precise v)))))"

definition precise_mul :: "PreciseNumber \<Rightarrow> PreciseNumber \<Rightarrow> PreciseNumber outcome" where
  "precise_mul x y =
     (case checked_mul (pn_value x) (pn_value y) of
        Some v \<Rightarrow>
          bind (opt (checked_add v rounding_correction)) (\<lambda>v.
          bind (opt (checked_div v pn_unit)) (\<lambda>v. Ok (precise v)))
      | None \<Rightarrow>
          bind (if pn_value y \<le> pn_value x
                then bind (opt (checked_div (pn_value x) pn_unit)) (\<lambda>v.
                     opt (checked_mul v (pn_value y)))
                else bind (opt (checked_div (pn_value y) pn_unit)) (\<lambda>v.
                     opt (checked_mul v (pn_value x)))) (\<lambda>v. Ok (precise v)))"

definition precise_add :: "PreciseNumber \<Rightarrow> PreciseNumber \<Rightarrow> PreciseNumber outcome" where
  "precise_add x y = bind (opt (checked_add (pn_value x) (pn_value y))) (\<lambda>v. Ok (precise v))"

definition precise_sub :: "PreciseNumber \<Rightarrow> PreciseNumber \<Rightarrow> PreciseNumber outcome" where
  "precise_sub x y = bind (opt (checked_sub (pn_value x) (pn_value y))) (\<lambda>v. Ok (precise v))"

text \<open>The loop of \<open>checked_pow\<close>: squares the base and halves the exponent.\<close>

function pow_loop :: "PreciseNumber \<Rightarrow> PreciseNumber \<Rightarrow> u128 \<Rightarrow> PreciseNumber outcome" where
  "pow_loop res squared_base e =
     (if e = 0 then Ok res else
      bind (precise_mul squared_base squared_base) (\<lambda>squared_base.
      bind (if e mod 2 \<noteq> 0 then precise_mul res squared_base else Ok res) (\<lambda>res.
      pow_loop res squared_base (e div 2))))"
  by pat_completeness auto

termination
  by (relation "measure (\<lambda>(_, _, e). unat e)")
    (auto simp: unat_div word_neq_0_conv word_less_nat_alt)

definition precise_pow :: "PreciseNumber \<Rightarrow> u128 \<Rightarrow> PreciseNumber outcome" where
  "precise_pow x e = pow_loop (if e mod 2 = 0 then precise pn_unit else x) x (e div 2)"

text \<open>
  The loop of the Taylor series, from \<open>k\<close> for the remaining number of rounds; \<open>negative\<close> is the
  sign of the next term.
\<close>

primrec taylor_loop ::
  "nat \<Rightarrow> nat \<Rightarrow> PreciseNumber \<Rightarrow> bool \<Rightarrow> PreciseNumber \<Rightarrow> PreciseNumber \<Rightarrow> PreciseNumber \<Rightarrow> bool \<Rightarrow>
   PreciseNumber outcome" where
  "taylor_loop 0 k x_minus_a x_neg exponent_plus_one trm guess negative = Ok guess"
| "taylor_loop (Suc rounds) k x_minus_a x_neg exponent_plus_one trm guess negative =
     bind (precise_new (of_nat k)) (\<lambda>pk.
     let (current_exponent, exponent_neg) = unsigned_sub exponent_plus_one pk in
     bind (precise_mul trm current_exponent) (\<lambda>trm.
     bind (precise_mul trm x_minus_a) (\<lambda>trm.
     bind (precise_div trm pk) (\<lambda>trm.
     if pn_value trm < precision then Ok guess else
     let negative = (if x_neg then \<not> negative else negative);
         negative = (if exponent_neg then \<not> negative else negative) in
     bind (if negative then precise_sub guess trm else precise_add guess trm) (\<lambda>guess.
     taylor_loop rounds (Suc k) x_minus_a x_neg exponent_plus_one trm guess negative)))))"

definition pow_approximation :: "PreciseNumber \<Rightarrow> PreciseNumber \<Rightarrow> nat \<Rightarrow> PreciseNumber outcome" where
  "pow_approximation x exponent max_iterations =
     (if pn_value x < min_pow_base then Panic else
      if max_pow_base < pn_value x then Panic else
      if exponent = precise 0 then Ok (precise pn_unit) else
      let (x_minus_a, x_neg) = unsigned_sub x (precise pn_unit) in
      bind (precise_add exponent (precise pn_unit)) (\<lambda>exponent_plus_one.
      taylor_loop (max_iterations - 1) 1 x_minus_a x_neg exponent_plus_one (precise pn_unit)
        (precise pn_unit) False))"

definition pow_fraction :: "PreciseNumber \<Rightarrow> PreciseNumber \<Rightarrow> PreciseNumber outcome" where
  "pow_fraction x exponent =
     (if pn_value x < min_pow_base then Panic else
      if max_pow_base < pn_value x then Panic else
      bind (precise_floor exponent) (\<lambda>whole_exponent.
      bind (to_imprecise whole_exponent) (\<lambda>e.
      bind (precise_pow x e) (\<lambda>precise_whole.
      let (remainder_exponent, negative) = unsigned_sub exponent whole_exponent in
      if negative then Panic else
      if pn_value remainder_exponent = 0 then Ok precise_whole else
      bind (pow_approximation x remainder_exponent MAX_APPROXIMATION_ITERATIONS)
        (\<lambda>precise_remainder.
      precise_mul precise_whole precise_remainder)))))"

text \<open>The Newton iteration for the root; a power that fails counts as a zero term.\<close>

primrec newton_loop ::
  "nat \<Rightarrow> PreciseNumber \<Rightarrow> PreciseNumber \<Rightarrow> PreciseNumber \<Rightarrow> u128 \<Rightarrow> PreciseNumber \<Rightarrow> PreciseNumber \<Rightarrow>
   PreciseNumber outcome" where
  "newton_loop 0 x root root_minus_one root_minus_one_whole guess last_guess = Ok guess"
| "newton_loop (Suc rounds) x root root_minus_one root_minus_one_whole guess last_guess =
     bind (precise_mul root_minus_one guess) (\<lambda>first_term.
     bind (case precise_pow guess root_minus_one_whole of
             Ok num \<Rightarrow> precise_div x num
           | Err _ \<Rightarrow> precise_new 0
           | Panic \<Rightarrow> Panic) (\<lambda>second_term.
     bind (bind (precise_add first_term second_term) (\<lambda>s. precise_div s root)) (\<lambda>guess.
     if almost_eq last_guess guess precision then Ok guess
     else newton_loop rounds x root root_minus_one root_minus_one_whole guess guess)))"

definition newtonian_root_approximation ::
  "PreciseNumber \<Rightarrow> PreciseNumber \<Rightarrow> PreciseNumber \<Rightarrow> nat \<Rightarrow> PreciseNumber outcome" where
  "newtonian_root_approximation x root guess iterations =
     (if x = precise 0 then Ok (precise 0) else
      if root = precise 0 then Err () else
      bind (precise_new 1) (\<lambda>one.
      bind (precise_sub root one) (\<lambda>root_minus_one.
      bind (to_imprecise root_minus_one) (\<lambda>root_minus_one_whole.
      newton_loop iterations x root root_minus_one root_minus_one_whole guess guess))))"

definition maximum_sqrt_base :: "PreciseNumber outcome" where
  "maximum_sqrt_base = (case precise_new (- 1) of Ok x \<Rightarrow> Ok x | _ \<Rightarrow> Panic)"

definition minimum_sqrt_base :: PreciseNumber where
  "minimum_sqrt_base = precise 0"

definition precise_sqrt :: "PreciseNumber \<Rightarrow> PreciseNumber outcome" where
  "precise_sqrt x =
     (if less_than x minimum_sqrt_base then Err () else
      bind maximum_sqrt_base (\<lambda>maximum.
      if greater_than x maximum then Err () else
      bind (precise_new 2) (\<lambda>two.
      bind (precise_new 1) (\<lambda>one.
      bind (bind (precise_add x one) (\<lambda>s. precise_div s two)) (\<lambda>guess.
      newtonian_root_approximation x two guess MAX_APPROXIMATION_ITERATIONS)))))"

end
