(* ===== verification/Math_Facts.thy ===== *)
theory Math_Facts
  imports Math
begin

text \<open>
  Ceiling division and the integer square root compute what their names say, at every width, and
  fixed-point numbers give back the integers they were made of.
\<close>

lemma opt_Ok_iff [result_ok]: "opt x = Ok y \<longleftrightarrow> x = Some y"
  by (simp add: opt_def ok_or_Ok_iff)

lemma opt_no_panic [simp]: "opt x \<noteq> Panic"
  by (simp add: opt_def)

lemma opt_simps [simp]: "opt (Some x) = Ok x" "opt None = Err ()"
  by (simp_all add: opt_def)

lemma checked_rem_Some_iff: "checked_rem a b = Some c \<longleftrightarrow> b \<noteq> 0 \<and> unat c = unat a mod unat b"
  by (auto simp: checked_rem_def unat_mod word_unat_eq_iff split: if_splits)

section \<open>Ceiling division\<close>

text \<open>The least number of parts of size \<open>b\<close> that cover \<open>a\<close>.\<close>

definition ceil_div :: "nat \<Rightarrow> nat \<Rightarrow> nat" where
  "ceil_div a b = (if a mod b = 0 then a div b else a div b + 1)"

lemma ceil_div_exact: "a mod b = 0 \<Longrightarrow> ceil_div a b = a div b"
  by (simp add: ceil_div_def)

lemma ceil_div_round: "0 < a mod b \<Longrightarrow> ceil_div a b = a div b + 1"
  by (simp add: ceil_div_def)

lemma ceil_div_ge:
  assumes "0 < b"
  shows "a \<le> ceil_div a b * b"
proof -
  have "a = a div b * b + a mod b" by simp
  moreover have "a mod b < b" using assms by simp
  ultimately have "a \<le> a div b * b + b" by linarith
  with div_mult_mod_eq [of a b] show ?thesis
    by (cases "a mod b = 0") (auto simp: ceil_div_def add.commute)
qed

lemma ceil_div_le:
  assumes "0 < b" "a \<le> c * b"
  shows "ceil_div a b \<le> c"
proof (cases "a mod b = 0")
  case True
  moreover have "a div b \<le> c * b div b" using assms(2) by (rule div_le_mono)
  ultimately show ?thesis using assms(1) by (simp add: ceil_div_def)
next
  case False
  then have "a \<noteq> c * b" by auto
  with assms have "a div b < c" by (simp add: div_less_iff_less_mult)
  with False show ?thesis by (simp add: ceil_div_def)
qed

lemma ceil_div_least:
  assumes "0 < b" "c < ceil_div a b"
  shows "c * b < a"
  using ceil_div_le [OF assms(1), of a c] assms(2) by (meson leI leD)

lemma checked_ceil_div_Ok_iff:
  fixes a b :: "'a::len word"
  shows "checked_ceil_div a b = Ok (q, r) \<longleftrightarrow> b \<noteq> 0 \<and> b \<le> a \<and>
    unat q = ceil_div (unat a) (unat b) \<and> unat r = ceil_div (unat a) (unat q)"
proof (cases "b \<noteq> 0 \<and> b \<le> a")
  case False
  then have "checked_ceil_div a b = Err ()"
    by (auto simp: checked_ceil_div_def checked_div_def word_unat_eq_iff unat_div word_le_nat_alt not_le)
  with False show ?thesis by auto
next
  case True
  define q0 where "q0 = a div b"
  have b: "0 < unat b" "unat b \<le> unat a"
    using True by (simp_all add: word_le_nat_alt unat_gt_0)
  have q0: "unat q0 = unat a div unat b" "0 < unat q0" "q0 \<noteq> 0"
    using b by (auto simp: q0_def unat_div div_greater_zero_iff word_unat_eq_iff)
  have rem: "checked_rem a b = Some (a mod b)" "checked_div a b = Some q0"
    using True by (simp_all add: checked_rem_def checked_div_def q0_def)
  show ?thesis
  proof (cases "a mod b = 0")
    case exact: True
    then have z: "unat a mod unat b = 0" by (metis unat_0 unat_mod)
    then have "ceil_div (unat a) (unat b) = unat q0" using b q0 by (simp add: ceil_div_exact)
    moreover have "ceil_div (unat a) (unat q0) = unat b"
      using z b q0 by (subst ceil_div_exact) (auto simp: mod_eq_0_iff_dvd)
    moreover have "checked_ceil_div a b = Ok (q0, b)"
      using rem exact q0 by (simp add: checked_ceil_div_def)
    ultimately show ?thesis using True by (auto simp: word_unat_eq_iff)
  next
    case False
    then have z: "0 < unat a mod unat b" by (metis gr0I unat_eq_zero unat_mod)
    then have b2: "2 \<le> unat b" by (metis One_nat_def Suc_1 Suc_leI b(1) less_one mod_by_1 nat_neq_iff)
    have "unat q0 + 1 \<le> unat a"
      using q0 b b2 by (metis (no_types) Suc_eq_plus1 Suc_leI div_less_dividend less_le_trans one_less_numeral_iff
          semiring_norm(76))
    moreover have a: "unat a < 2 ^ LENGTH('a)" by (rule unsigned_less)
    ultimately have add: "unat q0 + 1 < 2 ^ LENGTH('a)" by (rule le_less_trans)
    define q1 where "q1 = q0 + 1"
    have q1: "unat q1 = unat q0 + 1" "checked_add q0 1 = Some q1"
      using add by (simp_all add: q1_def unat_word_ariths checked_add_def)
    have "checked_ceil_div a b = bind (opt (checked_div a q1)) (\<lambda>rhs.
       bind (opt (checked_rem a q1)) (\<lambda>remainder.
       if 0 < remainder then bind (opt (checked_add rhs 1)) (\<lambda>rhs. Ok (q1, rhs)) else Ok (q1, rhs)))"
      using rem q0(3) False q1(2) by (simp add: checked_ceil_div_def word_gt_0)
    also have "\<dots> = Ok (q, r) \<longleftrightarrow> q = q1 \<and> unat r = ceil_div (unat a) (unat q1)"
    proof (cases "a mod q1 = 0")
      case True
      then have "unat a mod unat q1 = 0" by (metis unat_0 unat_mod)
      moreover have "q1 \<noteq> 0" using q1(1) by auto
      ultimately show ?thesis
        using True by (auto simp: checked_div_def checked_rem_def ceil_div_exact unat_div
            word_unat_eq_iff [of _ r])
    next
      case nz: False
      then have m: "0 < unat a mod unat q1" by (metis gr0I unat_eq_zero unat_mod)
      have "unat a div unat q1 + 1 \<le> unat a"
        using q1 q0 b by (metis Suc_eq_plus1 Suc_leI add_gr_0 div_less_dividend less_add_same_cancel2 less_le_trans)
      then have "unat (a div q1) + 1 < 2 ^ LENGTH('a)"
        using a unfolding unat_div by (rule le_less_trans)
      then have "checked_add (a div q1) 1 = Some (a div q1 + 1)"
        "unat (a div q1 + 1) = unat a div unat q1 + 1"
        unfolding checked_add_def unat_word_ariths(1) unat_div [symmetric] by simp_all
      moreover have "q1 \<noteq> 0" using q1(1) by auto
      ultimately show ?thesis
        using nz m by (auto simp: checked_div_def checked_rem_def ceil_div_round word_gt_0
            word_unat_eq_iff [of _ r])
    qed
    finally have "checked_ceil_div a b = Ok (q, r) \<longleftrightarrow>
      q = q1 \<and> unat r = ceil_div (unat a) (unat q1)" .
    moreover have "unat q1 = ceil_div (unat a) (unat b)"
      using z q0 q1 by (simp add: ceil_div_round)
    ultimately show ?thesis using True by (auto simp: word_unat_eq_iff [of q])
  qed
qed

lemma checked_ceil_div_no_panic [simp]: "checked_ceil_div a b \<noteq> Panic"
  by (auto simp: checked_ceil_div_def bind_Panic_iff)

lemma ceil_div_self_le: "0 < b \<Longrightarrow> ceil_div a b \<le> a"
  by (intro ceil_div_le) auto

lemma ceil_div_pos: "0 < b \<Longrightarrow> b \<le> a \<Longrightarrow> 0 < ceil_div a b"
  by (auto simp: ceil_div_def div_greater_zero_iff)

lemma unat_of_nat_small: "n \<le> unat x \<Longrightarrow> unat (of_nat n :: 'a word) = n" for x :: "'a::len word"
  using le_less_trans [of n "unat x" "2 ^ LENGTH('a)"] unsigned_less [of x]
  by (simp add: unsigned_of_nat take_bit_nat_eq_self)

lemma checked_ceil_div_eq:
  fixes a b :: "'a::len word"
  shows "checked_ceil_div a b =
    (if b = 0 \<or> a < b then Err ()
     else Ok (of_nat (ceil_div (unat a) (unat b)),
              of_nat (ceil_div (unat a) (ceil_div (unat a) (unat b)))))"
proof (cases "b = 0 \<or> a < b")
  case True
  then have "checked_ceil_div a b \<noteq> Ok qr" for qr
    by (cases qr) (auto simp: checked_ceil_div_Ok_iff)
  then show ?thesis using True by (cases "checked_ceil_div a b") auto
next
  case False
  then have b: "0 < unat b" "unat b \<le> unat a" by (auto simp: unat_gt_0 word_le_nat_alt not_less)
  have "checked_ceil_div a b =
      Ok (of_nat (ceil_div (unat a) (unat b)), of_nat (ceil_div (unat a) (ceil_div (unat a) (unat b))))"
    unfolding checked_ceil_div_Ok_iff
    using False by (simp add: not_less unat_of_nat_small [OF ceil_div_self_le [OF b(1)]]
        unat_of_nat_small [OF ceil_div_self_le [OF ceil_div_pos [OF b]]])
  then show ?thesis using False by (simp only: if_False)
qed

section \<open>Integer square root\<close>

lemma checked_shr_1 [simp]:
  "1 < LENGTH('a) \<Longrightarrow> checked_shr x 1 = Some (drop_bit 1 x)" for x :: "'a::len word"
  by (simp add: checked_shr_def)

lemma unat_drop_bit: "unat (drop_bit n x) = unat x div 2 ^ n" for x :: "'a::len word"
  by (subst unat_drop_bit_eq) (simp add: drop_bit_eq_div)

lemma four_power: "(4 :: nat) ^ n = 2 ^ n * 2 ^ n"
  by (simp flip: power_mult_distrib)

text \<open>
  One round, on natural numbers. \<open>x\<close> is the root found so far, a multiple of \<open>2 ^ (k + 1)\<close>; the
  loop keeps \<open>N - x * x\<close> in \<open>n\<close> and \<open>x * 2 ^ (k + 1)\<close> in the result.
\<close>

lemma root_bound:
  fixes x N :: nat
  assumes "x * x \<le> N" "N < 2 ^ (2 * w)" "2 ^ (k + 1) dvd x" "k < w"
  shows "x * 2 ^ (k + 1) + 4 ^ k < 2 ^ (2 * w)"
proof -
  have "x * x < 2 ^ w * 2 ^ w" using assms(1,2) by (simp add: mult_2 power_add)
  then have "x < 2 ^ w" by (metis mult_le_mono not_le)
  obtain c where c: "x = 2 ^ (k + 1) * c" using assms(3) by auto
  obtain d where d: "w = k + 1 + d" using assms(4) by (metis Suc_eq_plus1 less_iff_Suc_add add_Suc add.commute)
  have "c < 2 ^ d" using \<open>x < 2 ^ w\<close> by (simp add: c d power_add)
  then have "c + 1 \<le> 2 ^ d" by simp
  then have "(c + 1) * 4 ^ (k + 1) \<le> 2 ^ d * 4 ^ (k + 1)" by (rule mult_le_mono1)
  also have "(2 :: nat) ^ d * 4 ^ (k + 1) \<le> 2 ^ (2 * w)"
  proof -
    have "(2 :: nat) ^ (2 * w) = 2 ^ d * 4 ^ (k + 1) * 2 ^ d"
      by (simp add: d four_power mult_2 power_add)
    then show ?thesis by simp
  qed
  finally have "c * 4 ^ (k + 1) + 4 ^ (k + 1) \<le> 2 ^ (2 * w)" by (simp add: algebra_simps)
  moreover have x: "x * 2 ^ (k + 1) = c * 4 ^ (k + 1)" by (simp add: c four_power)
  have "(4 :: nat) ^ k < 4 ^ (k + 1)" by simp
  ultimately show ?thesis unfolding x by linarith
qed

definition sqrt_state :: "nat \<Rightarrow> nat \<Rightarrow> nat \<Rightarrow> nat \<Rightarrow> nat \<Rightarrow> bool" where
  "sqrt_state N k x n res \<longleftrightarrow> n + x * x = N \<and> res = x * 2 ^ k \<and> 2 ^ k dvd x \<and>
     N < (x + 2 ^ k) * (x + 2 ^ k)"

lemma sqrt_round:
  fixes b n res :: "'a::len word"
  assumes w: "LENGTH('a) = 2 * w" "2 < LENGTH('a)" and N: "N < 2 ^ (2 * w)" and k: "k < w"
    and b: "unat b = 4 ^ k" and st: "sqrt_state N (Suc k) x (unat n) (unat res)"
  obtains x' n' res' where "sqrt_loop b n res = sqrt_loop (drop_bit 2 b) n' res'"
    "sqrt_state N k x' (unat n') (unat res')"
proof -
  let ?s = "x * 2 ^ (k + 1) + 4 ^ k"
  have n: "unat n + x * x = N" "unat res = x * 2 ^ (k + 1)" "2 ^ (k + 1) dvd x"
    and ub: "N < (x + 2 ^ (k + 1)) * (x + 2 ^ (k + 1))"
    using st by (simp_all add: sqrt_state_def)
  have fit: "?s < 2 ^ LENGTH('a)" using root_bound [of x N w k] n N k w by simp
  then have s: "checked_add res b = Some (res + b)" "unat (res + b) = ?s"
    by (simp_all add: checked_add_def unat_word_ariths n b)
  have half: "unat (drop_bit 1 res) = x * 2 ^ k" by (simp add: unat_drop_bit n)
  have dvd: "2 ^ k dvd x" using n(3) by (auto elim!: dvdE)
  have sq: "(x + 2 ^ k) * (x + 2 ^ k) = x * x + ?s" by (simp add: four_power algebra_simps)
  have shr: "checked_shr res 1 = Some (drop_bit 1 res)" "checked_shr b 2 = Some (drop_bit 2 b)"
    using w by (simp_all add: checked_shr_def)
  have b0: "b \<noteq> 0" using b by auto
  show ?thesis
  proof (cases "res + b \<le> n")
    case True
    then have le: "?s \<le> unat n" using s by (simp add: word_le_nat_alt)
    have "x * 2 ^ k + 4 ^ k < 2 ^ LENGTH('a)" using fit by simp
    then have r: "checked_add (drop_bit 1 res) b = Some (drop_bit 1 res + b)"
      "unat (drop_bit 1 res + b) = x * 2 ^ k + 4 ^ k"
      unfolding checked_add_def unat_word_ariths(1) half b by simp_all
    have "sqrt_loop b n res = sqrt_loop (drop_bit 2 b) (n - (res + b)) (drop_bit 1 res + b)"
      using b0 s(1) r(1) shr True by (simp add: checked_sub_def)
    moreover have "unat (n - (res + b)) = unat n - ?s"
      using True s(2) by (simp add: unat_sub)
    with le n r(2) sq ub dvd have
      "sqrt_state N k (x + 2 ^ k) (unat (n - (res + b))) (unat (drop_bit 1 res + b))"
      by (simp add: sqrt_state_def algebra_simps four_power)
    ultimately show ?thesis by (rule that)
  next
    case False
    then have lt: "unat n < ?s" using s by (simp add: word_le_nat_alt)
    have "sqrt_loop b n res = sqrt_loop (drop_bit 2 b) n (drop_bit 1 res)"
      using b0 s(1) shr False by simp
    moreover have "sqrt_state N k x (unat n) (unat (drop_bit 1 res))"
      using n lt half dvd sq by (simp add: sqrt_state_def)
    ultimately show ?thesis by (rule that)
  qed
qed

lemma sqrt_loop_correct:
  fixes b n res :: "'a::len word"
  assumes w: "LENGTH('a) = 2 * w" "2 < LENGTH('a)" and N: "N < 2 ^ (2 * w)"
    and "k < w" "unat b = 4 ^ k" "sqrt_state N (Suc k) x (unat n) (unat res)"
  shows "\<exists>r. sqrt_loop b n res = Some r \<and> unat r * unat r \<le> N \<and> N < (unat r + 1) * (unat r + 1)"
  using assms(4-)
proof (induction k arbitrary: b n res x)
  case (0 b n res x)
  obtain x' n' res' where r: "sqrt_loop b n res = sqrt_loop (drop_bit 2 b) n' res'"
    "sqrt_state N 0 x' (unat n') (unat res')"
    by (rule sqrt_round [OF w N 0])
  moreover have "drop_bit 2 b = 0" using 0(2) by (simp add: word_unat_eq_iff unat_drop_bit)
  ultimately show ?case by (auto simp: sqrt_state_def)
next
  case (Suc k b n res x)
  obtain x' n' res' where r: "sqrt_loop b n res = sqrt_loop (drop_bit 2 b) n' res'"
    "sqrt_state N (Suc k) x' (unat n') (unat res')"
    by (rule sqrt_round [OF w N Suc.prems])
  have "unat (drop_bit 2 b) = 4 ^ k" using Suc.prems(2) by (simp add: unat_drop_bit)
  from Suc.IH [OF _ this r(2)] Suc.prems(1) r(1) show ?case by simp
qed

text \<open>The position of the highest bit.\<close>

lemma highest_bit:
  assumes "\<exists>i<n. P i"
  shows "\<exists>m<n. length (takeWhile Not (map P (rev [0..<n]))) = n - 1 - m \<and> P m \<and>
    (\<forall>i. m < i \<and> i < n \<longrightarrow> \<not> P i)"
  using assms
proof (induction n)
  case (Suc n)
  show ?case
  proof (cases "P n")
    case False
    with Suc.prems have "\<exists>i<n. P i" by (auto simp: less_Suc_eq)
    with Suc.IH obtain m where "m < n" "length (takeWhile Not (map P (rev [0..<n]))) = n - 1 - m"
      "P m" "\<forall>i. m < i \<and> i < n \<longrightarrow> \<not> P i" by blast
    with False show ?thesis by (intro exI [of _ m]) (auto simp: less_Suc_eq)
  qed (auto intro!: exI [of _ n])
qed simp

lemma leading_zeros_bounds:
  fixes x :: "'a::len word"
  assumes "x \<noteq> 0"
  obtains m where "leading_zeros x = LENGTH('a) - 1 - m" "m < LENGTH('a)" "2 ^ m \<le> unat x"
    "unat x < 2 ^ (m + 1)"
proof -
  obtain i where "bit x i" using assms by (metis bit_eq_iff bit_0_eq bot_apply bot_bool_def)
  moreover then have "i < LENGTH('a)" by (rule bit_imp_le_length)
  ultimately obtain m where m: "m < LENGTH('a)" "leading_zeros x = LENGTH('a) - 1 - m" "bit x m"
    "\<forall>i. m < i \<and> i < LENGTH('a) \<longrightarrow> \<not> bit x i"
    using highest_bit [of "LENGTH('a)" "bit x"] by (auto simp: leading_zeros_def)
  have "odd (unat x div 2 ^ m)" using m(3) by (simp add: bit_unsigned_iff flip: bit_iff_odd)
  then have "0 < unat x div 2 ^ m" by (rule odd_pos)
  then have "2 ^ m \<le> unat x" by (simp add: div_greater_zero_iff)
  moreover have "bit x i \<Longrightarrow> i < m + 1" for i
    using m(4) bit_imp_le_length [of x i] by (cases "m < i") auto
  then have "take_bit (m + 1) (unat x) = unat x"
    by (intro bit_eqI) (auto simp: bit_take_bit_iff bit_unsigned_iff)
  then have "unat x < 2 ^ (m + 1)" by (metis take_bit_nat_less_exp)
  ultimately show ?thesis using m that by blast
qed

lemma leading_zeros_0: "leading_zeros (0 :: 'a::len word) = LENGTH('a)"
proof -
  have "takeWhile Not (map (bit (0 :: 'a word)) ns) = map (bit (0 :: 'a word)) ns" for ns
    by (rule takeWhile_eq_all_conv [THEN iffD2]) simp
  then show ?thesis by (simp only: leading_zeros_def length_map length_rev length_upt diff_zero)
qed

lemma int_sqrt_correct:
  fixes radicand :: "'a::len word"
  assumes w: "LENGTH('a) = 2 * w" "2 < LENGTH('a)"
  shows "\<exists>r. int_sqrt radicand = Some r \<and> unat r * unat r \<le> unat radicand \<and>
    unat radicand < (unat r + 1) * (unat r + 1)"
proof (cases "radicand = 0")
  case False
  let ?N = "unat radicand"
  obtain m where m: "leading_zeros radicand = LENGTH('a) - 1 - m" "m < LENGTH('a)"
    "2 ^ m \<le> ?N" "?N < 2 ^ (m + 1)"
    using leading_zeros_bounds [OF False] .
  define k where "k = m div 2"
  have k: "k < w" "2 * k \<le> m" "m + 1 \<le> 2 * (k + 1)" using m(2) w by (auto simp: k_def)
  have shift: "(LENGTH('a) - 1 - leading_zeros radicand) div 2 * 2 = 2 * k"
    using m(1,2) by (simp add: k_def)
  have "2 * k < LENGTH('a)" using k m by simp
  then have shl: "checked_shl (1 :: 'a word) (2 * k) = Some (push_bit (2 * k) 1)"
    by (simp add: checked_shl_def)
  have b: "unat (push_bit (2 * k) (1 :: 'a word)) = 4 ^ k"
  proof -
    have "unat (push_bit (2 * k) (1 :: 'a word)) = take_bit LENGTH('a) (2 ^ (2 * k))"
      unfolding unsigned_push_bit_eq by (simp add: push_bit_eq_mult)
    also have "\<dots> = 2 ^ (2 * k)"
      using \<open>2 * k < _\<close> by (intro take_bit_nat_eq_self) simp
    finally show ?thesis by (simp add: power_mult)
  qed
  have "?N < 2 ^ (2 * (k + 1))"
    by (rule less_le_trans [OF m(4) power_increasing [OF k(3)]]) simp
  also have "\<dots> = 2 ^ (k + 1) * 2 ^ (k + 1)" by (simp only: mult_2 power_add)
  finally have "?N < 2 ^ (k + 1) * 2 ^ (k + 1)" .
  then have "sqrt_state ?N (Suc k) 0 (unat radicand) (unat (0 :: 'a word))"
    by (simp add: sqrt_state_def)
  moreover have "?N < 2 ^ (2 * w)" using unsigned_less [of radicand] w by simp
  ultimately have "\<exists>r. sqrt_loop (push_bit (2 * k) 1) radicand 0 = Some r \<and> unat r * unat r \<le> ?N \<and>
      ?N < (unat r + 1) * (unat r + 1)"
    using sqrt_loop_correct [OF w _ k(1) b] by blast
  moreover have "int_sqrt radicand = sqrt_loop (push_bit (2 * k) 1) radicand 0"
    unfolding int_sqrt_def Let_def leading_zeros_0 shift shl
    using False by (simp del: sqrt_loop.simps push_bit_of_1)
  ultimately show ?thesis by (simp only:)
qed (simp add: int_sqrt_def)

section \<open>Fixed-point numbers\<close>

lemma unat_pn_unit [simp]: "unat pn_unit = 10 ^ 12"
  by (simp add: pn_unit_def ONE_def)

lemma unat_rounding_correction [simp]: "unat rounding_correction = 5 * 10 ^ 11"
  by (simp add: rounding_correction_def ONE_def)

lemma unat_ucast_256: "unat (ucast v :: u256) = unat v" for v :: u128
proof -
  have "unat v < 2 ^ 128" using unsigned_less [of v] by simp
  then show ?thesis by (simp add: unsigned_ucast_eq take_bit_nat_eq_self)
qed

lemma precise_new_Ok: "\<exists>x. precise_new v = Ok x \<and> unat (pn_value x) = unat v * 10 ^ 12"
proof -
  have "unat v < 2 ^ 128" using unsigned_less [of v] by simp
  then have "unat v * 10 ^ 12 < 2 ^ 256"
    by (rule less_le_trans [OF mult_strict_right_mono]) simp_all
  then have "checked_mul (ucast v) pn_unit = Some (ucast v * pn_unit)"
    by (simp add: checked_mul_def unat_ucast_256)
  then show ?thesis
    using checked_mul_Some_iff [of "ucast v" pn_unit "ucast v * pn_unit"]
    by (auto simp: precise_new_def precise_def unat_ucast_256)
qed

lemma to_imprecise_new: "bind (precise_new v) to_imprecise = Ok v"
proof -
  obtain x where x: "precise_new v = Ok x" "unat (pn_value x) = unat v * 10 ^ 12"
    using precise_new_Ok by blast
  have v: "unat v < 2 ^ 128" using unsigned_less [of v] by simp
  define s where "s = pn_value x + rounding_correction"
  have s: "checked_add (pn_value x) rounding_correction = Some s" "unat s = unat v * 10 ^ 12 + 5 * 10 ^ 11"
    using v x(2) by (auto simp: s_def checked_add_def unat_word_ariths)
  have "unat (s div pn_unit) = unat v" using s(2) by (simp add: unat_div)
  moreover then have "ucast (s div pn_unit) = v"
    by (intro word_unat_eq_iff [THEN iffD2]) (use v in \<open>simp add: unsigned_ucast_eq take_bit_nat_eq_self_iff\<close>)
  ultimately have "bind (opt (checked_div s pn_unit)) as_u128 = Ok v"
    using v by (auto simp: checked_div_def as_u128_def) (metis unat_0 unat_pn_unit power_eq_0_iff zero_neq_numeral)+
  then show ?thesis using x s by (simp add: to_imprecise_def)
qed

text \<open>
  Division adds half of \<open>ONE\<close> to the scaled numerator whatever the divisor is, so a small number
  divided by itself is not one.
\<close>

lemma precise_div_self:
  assumes "v \<noteq> 0" "unat v * 10 ^ 12 + 5 * 10 ^ 11 < 2 ^ 256"
  shows "\<exists>q. precise_div (precise v) (precise v) = Ok (precise q) \<and>
    unat q = 10 ^ 12 + 5 * 10 ^ 11 div unat v"
proof -
  define m where "m = v * pn_unit"
  have m: "checked_mul v pn_unit = Some m" "unat m = unat v * 10 ^ 12"
    using assms(2) by (simp_all add: m_def checked_mul_def unat_word_ariths)
  define s where "s = m + rounding_correction"
  have s: "checked_add m rounding_correction = Some s" "unat s = unat v * 10 ^ 12 + 5 * 10 ^ 11"
    using assms(2) m(2) by (simp_all add: s_def checked_add_def unat_word_ariths)
  have "0 < unat v" using assms(1) by (simp add: unat_gt_0)
  then have "unat (s div v) = 10 ^ 12 + 5 * 10 ^ 11 div unat v"
    using s(2) by (simp add: unat_div div_mult_self3)
  moreover have "precise_div (precise v) (precise v) = Ok (precise (s div v))"
    using assms(1) m(1) s(1) by (simp add: precise_div_def precise_def checked_div_def)
  ultimately show ?thesis by blast
qed

text \<open>Whole numbers, and that repeated squaring computes their powers.\<close>

definition whole :: "nat \<Rightarrow> PreciseNumber" where
  "whole n = precise (of_nat (n * 10 ^ 12))"

definition fits_square :: "nat \<Rightarrow> bool" where
  "fits_square n = (n * 10 ^ 12 * (n * 10 ^ 12) + 5 * 10 ^ 11 < 2 ^ 256)"

lemma fits_square_mono: "fits_square b \<Longrightarrow> a \<le> b \<Longrightarrow> fits_square a"
  unfolding fits_square_def
  by (erule le_less_trans [rotated]) (intro add_right_mono mult_le_mono order_refl)

lemma fits_square_less:
  assumes "fits_square n"
  shows "n * 10 ^ 12 < 2 ^ 256"
proof -
  have "n * 10 ^ 12 \<le> n * 10 ^ 12 * (n * 10 ^ 12)" by (rule le_square)
  with assms show ?thesis unfolding fits_square_def by linarith
qed

lemma unat_whole: "n * 10 ^ 12 < 2 ^ 256 \<Longrightarrow> unat (pn_value (whole n)) = n * 10 ^ 12"
  unfolding whole_def precise_def PreciseNumber.select_convs unsigned_of_nat of_nat_id
  by (rule take_bit_nat_eq_self) simp

lemma precise_mul_whole:
  assumes "fits_square c" "a \<le> c" "b \<le> c" "a * b \<le> c"
  shows "precise_mul (whole a) (whole b) = Ok (whole (a * b))"
proof -
  note small = fits_square_less [OF fits_square_mono [OF assms(1)]]
  have ab: "unat (pn_value (whole a)) = a * 10 ^ 12" "unat (pn_value (whole b)) = b * 10 ^ 12"
    using small [OF assms(2)] small [OF assms(3)] by (simp_all only: unat_whole)
  have "a * 10 ^ 12 * (b * 10 ^ 12) \<le> c * 10 ^ 12 * (c * 10 ^ 12)"
    by (intro mult_le_mono assms order_refl)
  then have le: "a * 10 ^ 12 * (b * 10 ^ 12) + 5 * 10 ^ 11 < 2 ^ 256"
    using assms(1) unfolding fits_square_def by linarith
  define m where "m = pn_value (whole a) * pn_value (whole b)"
  have m: "checked_mul (pn_value (whole a)) (pn_value (whole b)) = Some m"
      "unat m = a * 10 ^ 12 * (b * 10 ^ 12)"
    using le unfolding m_def checked_mul_def unat_word_ariths ab by simp_all
  define s where "s = m + rounding_correction"
  have s: "checked_add m rounding_correction = Some s"
      "unat s = a * 10 ^ 12 * (b * 10 ^ 12) + 5 * 10 ^ 11"
    using le unfolding s_def checked_add_def unat_word_ariths m(2) unat_rounding_correction by simp_all
  have "unat (s div pn_unit) = (5 * 10 ^ 11 + a * b * 10 ^ 12 * 10 ^ 12) div 10 ^ 12"
    unfolding unat_div s(2) unat_pn_unit by (simp add: algebra_simps)
  also have "\<dots> = a * b * 10 ^ 12" by (subst div_mult_self1) simp_all
  also have "\<dots> = unat (pn_value (whole (a * b)))"
    using small [OF assms(4)] by (simp only: unat_whole)
  finally have "s div pn_unit = pn_value (whole (a * b))" by (simp only: word_unat_eq_iff)
  moreover have "checked_div s pn_unit = Some (s div pn_unit)"
    by (metis checked_div_def unat_0 unat_pn_unit power_eq_0_iff zero_neq_numeral)
  moreover have "precise (pn_value (whole (a * b))) = whole (a * b)" by (simp add: whole_def precise_def)
  ultimately show ?thesis using m(1) s(1) by (simp add: precise_mul_def)
qed

lemma pow_loop_whole:
  assumes "0 < s" "0 < r" "fits_square (r * (s * s) ^ unat e)" "fits_square s"
  shows "pow_loop (whole r) (whole s) e = Ok (whole (r * (s * s) ^ unat e))"
  using assms
proof (induction "unat e" arbitrary: e r s rule: less_induct)
  case less
  show ?case
  proof (cases "e = 0")
    case False
    let ?B = "r * (s * s) ^ unat e"
    have e: "0 < unat e" "unat (e div 2) = unat e div 2"
      using False by (simp_all add: unat_gt_0 unat_div)
    have pos: "0 < s * s" "0 < ?B" using less.prems by simp_all
    have le: "s * s \<le> ?B" "r \<le> ?B" "s \<le> ?B"
    proof -
      have "(s * s) ^ 1 \<le> (s * s) ^ unat e" using e pos by (intro power_increasing) auto
      also have "\<dots> \<le> ?B" using less.prems(2) by simp
      finally show "s * s \<le> ?B" by simp
      then show "s \<le> ?B" by (rule le_trans [OF le_square])
      show "r \<le> ?B" using pos by simp
    qed
    have sq: "precise_mul (whole s) (whole s) = Ok (whole (s * s))"
      using less.prems(3) le by (intro precise_mul_whole)
    define r' where "r' = (if odd (unat e) then r * (s * s) else r)"
    have "(s * s) ^ unat e = (s * s) ^ (unat e mod 2) * ((s * s) ^ 2) ^ (unat e div 2)"
      unfolding power_mult [symmetric] power_add [symmetric] by simp
    then have B: "r' * (s * s * (s * s)) ^ (unat e div 2) = ?B"
      by (cases "even (unat e)")
        (simp_all add: r'_def power2_eq_square mult.assoc odd_iff_mod_2_eq_one even_iff_mod_2_eq_zero)
    have "unat (e mod 2) = unat e mod 2" by (simp add: unat_mod)
    then have odd: "e mod 2 \<noteq> 0 \<longleftrightarrow> odd (unat e)"
      by (simp add: odd_iff_mod_2_eq_one unat_eq_zero [symmetric] del: unat_eq_zero)
    have r': "0 < r'" using less.prems(1,2) by (simp add: r'_def)
    have "1 \<le> (s * s * (s * s)) ^ (unat e div 2)" using pos by (intro one_le_power) simp
    then have "r' * 1 \<le> r' * (s * s * (s * s)) ^ (unat e div 2)" by (rule mult_le_mono2)
    then have r'B: "r' \<le> ?B" unfolding B by simp
    have "(if e mod 2 \<noteq> 0 then precise_mul (whole r) (whole (s * s)) else Ok (whole r)) = Ok (whole r')"
      using precise_mul_whole [OF less.prems(3) le(2,1)] r'B odd by (auto simp: r'_def)
    then have "pow_loop (whole r) (whole s) e = pow_loop (whole r') (whole (s * s)) (e div 2)"
      using False sq by (subst pow_loop.simps) simp
    also have "\<dots> = Ok (whole (r' * (s * s * (s * s)) ^ unat (e div 2)))"
    proof (rule less.hyps)
      show "unat (e div 2) < unat e" using e by simp
      show "fits_square (r' * (s * s * (s * s)) ^ unat (e div 2))"
        unfolding e(2) B by (rule less.prems(3))
    qed (rule pos r' fits_square_mono [OF less.prems(3) le(1)])+
    finally show ?thesis using B e by simp
  qed simp
qed

lemma precise_pow_whole:
  assumes "0 < b" "fits_square b" "fits_square (b ^ unat e)"
  shows "precise_pow (whole b) e = Ok (whole (b ^ unat e))"
proof -
  have one: "precise pn_unit = whole 1" by (simp add: whole_def pn_unit_def ONE_def)
  have "unat (e mod 2) = unat e mod 2" by (simp add: unat_mod)
  then have odd: "e mod 2 = 0 \<longleftrightarrow> even (unat e)"
    by (simp add: even_iff_mod_2_eq_zero unat_eq_zero [symmetric] del: unat_eq_zero)
  have half: "unat (e div 2) = unat e div 2" by (simp add: unat_div)
  have "b ^ unat e = b ^ (unat e mod 2) * (b ^ 2) ^ (unat e div 2)"
    unfolding power_mult [symmetric] power_add [symmetric] by simp
  then have B: "b ^ unat e = (if even (unat e) then 1 else b) * (b * b) ^ unat (e div 2)"
    unfolding half by (simp add: power2_eq_square odd_iff_mod_2_eq_one even_iff_mod_2_eq_zero)
  have "precise_pow (whole b) e = pow_loop (whole (if even (unat e) then 1 else b)) (whole b) (e div 2)"
    unfolding precise_pow_def odd one by (simp only: if_distrib)
  also have "\<dots> = Ok (whole (b ^ unat e))"
    unfolding B using assms by (intro pow_loop_whole) (auto simp flip: B)
  finally show ?thesis .
qed

end
