(* ===== verification/Swap_Curve.thy ===== *)
theory Swap_Curve
  imports Math Sdk
begin

text \<open>
  The curves of the token swap program (\<open>token-swap/program/src/curve\<close>) and its errors: how much a
  trade gives, what pool tokens are worth, and the fees. The trait object of the sources is the
  datatype \<open>calculator\<close> of the four structs that implement the trait, and a trait method is the
  dispatch over it.
\<close>

section \<open>Errors\<close>

datatype SwapError =
    AlreadyInUse | InvalidProgramAddress | InvalidOwner | InvalidOutputOwner | ExpectedMint
  | ExpectedAccount | EmptySupply | InvalidSupply | InvalidDelegate | InvalidInput
  | IncorrectSwapAccount | IncorrectPoolMint | InvalidOutput | CalculationFailure
  | InvalidInstruction | RepeatedMint | ExceededSlippage | InvalidCloseAuthority
  | InvalidFreezeAuthority | IncorrectFeeAccount | ZeroTradingTokens | FeeCalculationFailure
  | ConversionFailure | InvalidFee | IncorrectTokenProgramId | UnsupportedCurveType | InvalidCurve
  | UnsupportedCurveOperation

fun swap_error_code :: "SwapError \<Rightarrow> u32" where
  "swap_error_code AlreadyInUse = 0"
| "swap_error_code InvalidProgramAddress = 1"
| "swap_error_code InvalidOwner = 2"
| "swap_error_code InvalidOutputOwner = 3"
| "swap_error_code ExpectedMint = 4"
| "swap_error_code ExpectedAccount = 5"
| "swap_error_code EmptySupply = 6"
| "swap_error_code InvalidSupply = 7"
| "swap_error_code InvalidDelegate = 8"
| "swap_error_code InvalidInput = 9"
| "swap_error_code IncorrectSwapAccount = 10"
| "swap_error_code IncorrectPoolMint = 11"
| "swap_error_code InvalidOutput = 12"
| "swap_error_code CalculationFailure = 13"
| "swap_error_code InvalidInstruction = 14"
| "swap_error_code RepeatedMint = 15"
| "swap_error_code ExceededSlippage = 16"
| "swap_error_code InvalidCloseAuthority = 17"
| "swap_error_code InvalidFreezeAuthority = 18"
| "swap_error_code IncorrectFeeAccount = 19"
| "swap_error_code ZeroTradingTokens = 20"
| "swap_error_code FeeCalculationFailure = 21"
| "swap_error_code ConversionFailure = 22"
| "swap_error_code InvalidFee = 23"
| "swap_error_code IncorrectTokenProgramId = 24"
| "swap_error_code UnsupportedCurveType = 25"
| "swap_error_code InvalidCurve = 26"
| "swap_error_code UnsupportedCurveOperation = 27"

definition swap_into_program_error :: "SwapError \<Rightarrow> ProgramError" where
  "swap_into_program_error e = Custom (swap_error_code e)"

section \<open>Calculator basics\<close>

definition INITIAL_SWAP_POOL_AMOUNT :: u128 where
  "INITIAL_SWAP_POOL_AMOUNT = 1000000000"

definition map_zero_to_none :: "u128 \<Rightarrow> u128 option" where
  "map_zero_to_none x = (if x = 0 then None else Some x)"

datatype TradeDirection = AtoB | BtoA

datatype RoundDirection = Floor | Ceiling

fun opposite :: "TradeDirection \<Rightarrow> TradeDirection" where
  "opposite AtoB = BtoA"
| "opposite BtoA = AtoB"

record SwapWithoutFeesResult =
  source_amount_swapped :: u128
  destination_amount_swapped :: u128

record TradingTokenResult =
  token_a_amount :: u128
  token_b_amount :: u128

section \<open>The constant product curve\<close>

definition constant_product_swap :: "u128 \<Rightarrow> u128 \<Rightarrow> u128 \<Rightarrow> SwapWithoutFeesResult outcome" where
  "constant_product_swap source_amount swap_source_amount swap_destination_amount =
     bind (opt (checked_mul swap_source_amount swap_destination_amount)) (\<lambda>invariant.
     bind (opt (checked_add swap_source_amount source_amount)) (\<lambda>new_swap_source_amount.
     bind (checked_ceil_div invariant new_swap_source_amount)
       (\<lambda>(new_swap_destination_amount, new_swap_source_amount).
     bind (opt (checked_sub new_swap_source_amount swap_source_amount)) (\<lambda>source_swapped.
     bind (bind (opt (checked_sub swap_destination_amount new_swap_destination_amount))
             (\<lambda>x. opt (map_zero_to_none x))) (\<lambda>destination_swapped.
     Ok \<lparr>source_amount_swapped = source_swapped,
         destination_amount_swapped = destination_swapped\<rparr>)))))"

text \<open>One side of the ratio: the quotient, rounded up unless it is zero.\<close>

definition pool_ratio :: "u128 \<Rightarrow> u128 \<Rightarrow> u128 \<Rightarrow> u128 outcome" where
  "pool_ratio pool_tokens pool_token_supply swap_amount =
     bind (opt (checked_mul pool_tokens swap_amount)) (\<lambda>product.
     opt (checked_div product pool_token_supply))"

definition pool_ratio_ceiling :: "u128 \<Rightarrow> u128 \<Rightarrow> u128 \<Rightarrow> u128 \<Rightarrow> u128 outcome" where
  "pool_ratio_ceiling pool_tokens pool_token_supply swap_amount amt =
     bind (opt (checked_mul pool_tokens swap_amount)) (\<lambda>product.
     bind (opt (checked_rem product pool_token_supply)) (\<lambda>remainder.
     Ok (if 0 < remainder \<and> 0 < amt then amt + 1 else amt)))"

definition ratio_pool_tokens ::
  "u128 \<Rightarrow> u128 \<Rightarrow> u128 \<Rightarrow> u128 \<Rightarrow> RoundDirection \<Rightarrow> TradingTokenResult outcome" where
  "ratio_pool_tokens pool_tokens pool_token_supply swap_a swap_b round_direction =
     bind (pool_ratio pool_tokens pool_token_supply swap_a) (\<lambda>a.
     bind (pool_ratio pool_tokens pool_token_supply swap_b) (\<lambda>b.
     case round_direction of
       Floor \<Rightarrow> Ok \<lparr>token_a_amount = a, token_b_amount = b\<rparr>
     | Ceiling \<Rightarrow>
         bind (pool_ratio_ceiling pool_tokens pool_token_supply swap_a a) (\<lambda>a.
         bind (pool_ratio_ceiling pool_tokens pool_token_supply swap_b b) (\<lambda>b.
         Ok \<lparr>token_a_amount = a, token_b_amount = b\<rparr>))))"

definition round_precise :: "RoundDirection \<Rightarrow> PreciseNumber \<Rightarrow> u128 outcome" where
  "round_precise round_direction x =
     (case round_direction of
        Floor \<Rightarrow> bind (precise_floor x) to_imprecise
      | Ceiling \<Rightarrow> bind (precise_ceiling x) to_imprecise)"

definition constant_product_deposit_single ::
  "u128 \<Rightarrow> u128 \<Rightarrow> u128 \<Rightarrow> u128 \<Rightarrow> TradeDirection \<Rightarrow> RoundDirection \<Rightarrow> u128 outcome" where
  "constant_product_deposit_single source_amount swap_a swap_b pool_supply trade_direction
     round_direction =
     bind (precise_new (case trade_direction of AtoB \<Rightarrow> swap_a | BtoA \<Rightarrow> swap_b))
       (\<lambda>swap_source_amount.
     bind (precise_new source_amount) (\<lambda>source_amount.
     bind (precise_div source_amount swap_source_amount) (\<lambda>ratio.
     bind (precise_new 1) (\<lambda>one.
     bind (precise_add one ratio) (\<lambda>base.
     bind (bind (precise_sqrt base) (\<lambda>r. precise_sub r one)) (\<lambda>root.
     bind (precise_new pool_supply) (\<lambda>pool_supply.
     bind (precise_mul pool_supply root) (\<lambda>pool_tokens.
     round_precise round_direction pool_tokens))))))))"

definition constant_product_withdraw_single ::
  "u128 \<Rightarrow> u128 \<Rightarrow> u128 \<Rightarrow> u128 \<Rightarrow> TradeDirection \<Rightarrow> RoundDirection \<Rightarrow> u128 outcome" where
  "constant_product_withdraw_single source_amount swap_a swap_b pool_supply trade_direction
     round_direction =
     bind (precise_new (case trade_direction of AtoB \<Rightarrow> swap_a | BtoA \<Rightarrow> swap_b))
       (\<lambda>swap_source_amount.
     bind (precise_new source_amount) (\<lambda>source_amount.
     bind (precise_div source_amount swap_source_amount) (\<lambda>ratio.
     bind (precise_new 1) (\<lambda>one.
     bind (precise_sub one ratio) (\<lambda>base.
     bind (bind (precise_sqrt base) (\<lambda>r. precise_sub one r)) (\<lambda>root.
     bind (precise_new pool_supply) (\<lambda>pool_supply.
     bind (precise_mul pool_supply root) (\<lambda>pool_tokens.
     round_precise round_direction pool_tokens))))))))"

definition constant_product_normalized_value :: "u128 \<Rightarrow> u128 \<Rightarrow> PreciseNumber outcome" where
  "constant_product_normalized_value swap_a swap_b =
     bind (precise_new swap_a) (\<lambda>a.
     bind (precise_new swap_b) (\<lambda>b.
     bind (precise_mul a b) precise_sqrt))"

section \<open>The constant price curve\<close>

definition saturating_sub :: "'a::len word \<Rightarrow> 'a word \<Rightarrow> 'a word" where
  "saturating_sub a b = (case checked_sub a b of Some c \<Rightarrow> c | None \<Rightarrow> 0)"

definition trading_tokens_to_pool_tokens ::
  "u64 \<Rightarrow> u128 \<Rightarrow> u128 \<Rightarrow> u128 \<Rightarrow> u128 \<Rightarrow> TradeDirection \<Rightarrow> RoundDirection \<Rightarrow> u128 outcome" where
  "trading_tokens_to_pool_tokens price source_amount swap_a swap_b pool_supply trade_direction
     round_direction =
     (let price = ucast price :: u256 in
      bind (case trade_direction of
              AtoB \<Rightarrow> Ok (ucast source_amount)
            | BtoA \<Rightarrow> opt (checked_mul (ucast source_amount) price)) (\<lambda>given_value.
      bind (bind (opt (checked_mul (ucast swap_b) price)) (\<lambda>b_value.
              opt (checked_add b_value (ucast swap_a)))) (\<lambda>total_value.
      bind (opt (checked_mul (ucast pool_supply) given_value)) (\<lambda>product.
      case round_direction of
        Floor \<Rightarrow> bind (opt (checked_div product total_value)) as_u128
      | Ceiling \<Rightarrow> bind (checked_ceil_div product total_value) (\<lambda>(q, _). as_u128 q)))))"

definition constant_price_swap_without_fees ::
  "u64 \<Rightarrow> u128 \<Rightarrow> TradeDirection \<Rightarrow> SwapWithoutFeesResult outcome" where
  "constant_price_swap_without_fees price source_amount trade_direction =
     (let price = ucast price :: u128 in
      bind (case trade_direction of
              BtoA \<Rightarrow> bind (opt (checked_mul source_amount price)) (\<lambda>d. Ok (source_amount, d))
            | AtoB \<Rightarrow>
                bind (opt (checked_div source_amount price)) (\<lambda>d.
                bind (opt (checked_rem source_amount price)) (\<lambda>remainder.
                bind (if 0 < remainder then opt (checked_sub source_amount remainder)
                      else Ok source_amount) (\<lambda>s.
                Ok (s, d))))) (\<lambda>(s, d).
      bind (opt (map_zero_to_none s)) (\<lambda>s.
      bind (opt (map_zero_to_none d)) (\<lambda>d.
      Ok \<lparr>source_amount_swapped = s, destination_amount_swapped = d\<rparr>))))"

definition constant_price_normalized_value :: "u64 \<Rightarrow> u128 \<Rightarrow> u128 \<Rightarrow> PreciseNumber outcome" where
  "constant_price_normalized_value price swap_a swap_b =
     bind (opt (checked_mul swap_b (ucast price))) (\<lambda>b_value.
     bind (if saturating_sub (- 1) (ucast (- 1 :: u64)) < saturating_sub b_value (ucast (- 1 :: u64))
           then bind (opt (checked_div b_value 2)) (\<lambda>half_b.
                bind (opt (checked_div swap_a 2)) (\<lambda>half_a.
                opt (checked_add half_b half_a)))
           else bind (opt (checked_add swap_a b_value)) (\<lambda>total.
                opt (checked_div total 2)))
       precise_new)"

definition constant_price_pool_tokens ::
  "u64 \<Rightarrow> u128 \<Rightarrow> u128 \<Rightarrow> u128 \<Rightarrow> u128 \<Rightarrow> RoundDirection \<Rightarrow> TradingTokenResult outcome" where
  "constant_price_pool_tokens price pool_tokens pool_token_supply swap_a swap_b round_direction =
     bind (bind (constant_price_normalized_value price swap_a swap_b) to_imprecise) (\<lambda>total_value.
     case round_direction of
       Floor \<Rightarrow>
         bind (bind (opt (checked_mul pool_tokens total_value)) (\<lambda>product.
                 opt (checked_div product pool_token_supply))) (\<lambda>a.
         bind (bind (opt (checked_mul pool_tokens total_value)) (\<lambda>product.
               bind (opt (checked_div product (ucast price))) (\<lambda>as_b.
                 opt (checked_div as_b pool_token_supply)))) (\<lambda>b.
         Ok \<lparr>token_a_amount = a, token_b_amount = b\<rparr>))
     | Ceiling \<Rightarrow>
         bind (bind (opt (checked_mul pool_tokens total_value)) (\<lambda>product.
                 checked_ceil_div product pool_token_supply)) (\<lambda>(a, _).
         bind (bind (opt (checked_mul pool_tokens total_value)) (\<lambda>product.
                 checked_ceil_div product (ucast price))) (\<lambda>(pool_value_as_token_b, _).
         bind (checked_ceil_div pool_value_as_token_b pool_token_supply) (\<lambda>(b, _).
         Ok \<lparr>token_a_amount = a, token_b_amount = b\<rparr>))))"

section \<open>The stable curve\<close>

definition N_COINS :: nat where
  "N_COINS = 2"

definition N_COINS_SQUARED :: nat where
  "N_COINS_SQUARED = 4"

definition ITERATIONS :: nat where
  "ITERATIONS = 32"

definition compute_a :: "u64 \<Rightarrow> u64 option" where
  "compute_a amp = checked_mul amp (of_nat N_COINS)"

text \<open>The loops \<open>for _ in 1..b\<close>, which run \<open>b - 1\<close> times.\<close>

primrec power_loop :: "u256 \<Rightarrow> u256 \<Rightarrow> nat \<Rightarrow> u256 option" where
  "power_loop a res 0 = Some res"
| "power_loop a res (Suc n) = Option.bind (checked_mul res a) (\<lambda>res. power_loop a res n)"

definition checked_u8_power :: "u256 \<Rightarrow> nat \<Rightarrow> u256 option" where
  "checked_u8_power a b = power_loop a a (b - 1)"

primrec mul_loop :: "u256 \<Rightarrow> u256 \<Rightarrow> nat \<Rightarrow> u256 option" where
  "mul_loop a res 0 = Some res"
| "mul_loop a res (Suc n) = Option.bind (checked_add res a) (\<lambda>res. mul_loop a res n)"

definition checked_u8_mul :: "u256 \<Rightarrow> nat \<Rightarrow> u256 option" where
  "checked_u8_mul a b = mul_loop a a (b - 1)"

definition calculate_step :: "u256 \<Rightarrow> u64 \<Rightarrow> u128 \<Rightarrow> u256 \<Rightarrow> u256 option" where
  "calculate_step initial_d leverage sum_x d_product =
     Option.bind (checked_mul (ucast leverage) (ucast sum_x)) (\<lambda>leverage_mul.
     Option.bind (checked_u8_mul d_product N_COINS) (\<lambda>d_p_mul.
     Option.bind (Option.bind (checked_add leverage_mul d_p_mul) (\<lambda>s. checked_mul s initial_d))
       (\<lambda>l_val.
     Option.bind (Option.bind (checked_sub leverage 1) (\<lambda>l. checked_mul initial_d (ucast l)))
       (\<lambda>leverage_sub.
     Option.bind (checked_u8_mul d_product (N_COINS + 1)) (\<lambda>n_coins_sum.
     Option.bind (checked_add leverage_sub n_coins_sum) (\<lambda>r_val.
     checked_div l_val r_val))))))"

primrec d_loop :: "nat \<Rightarrow> u64 \<Rightarrow> u128 \<Rightarrow> u256 \<Rightarrow> u256 \<Rightarrow> u256 \<Rightarrow> u256 option" where
  "d_loop 0 leverage sum_x a_times b_times d = Some d"
| "d_loop (Suc n) leverage sum_x a_times b_times d =
     Option.bind (Option.bind (checked_mul d d) (\<lambda>p. checked_div p a_times)) (\<lambda>d_product.
     Option.bind (Option.bind (checked_mul d_product d) (\<lambda>p. checked_div p b_times)) (\<lambda>d_product.
     Option.bind (calculate_step d leverage sum_x d_product) (\<lambda>d'.
     if d' = d then Some d' else d_loop n leverage sum_x a_times b_times d')))"

definition compute_d :: "u64 \<Rightarrow> u128 \<Rightarrow> u128 \<Rightarrow> u128 option" where
  "compute_d leverage amount_a amount_b =
     Option.bind (Option.bind (checked_u8_mul (ucast amount_a) N_COINS) (\<lambda>x. checked_add x 1))
       (\<lambda>a_times.
     Option.bind (Option.bind (checked_u8_mul (ucast amount_b) N_COINS) (\<lambda>x. checked_add x 1))
       (\<lambda>b_times.
     Option.bind (checked_add amount_a amount_b) (\<lambda>sum_x.
     if sum_x = 0 then Some 0
     else Option.bind (d_loop ITERATIONS leverage sum_x a_times b_times (ucast sum_x))
            u128_try_from)))"

primrec y_loop :: "nat \<Rightarrow> u256 \<Rightarrow> u256 \<Rightarrow> u256 \<Rightarrow> u256 \<Rightarrow> u256 option" where
  "y_loop 0 b c d_val y = Some y"
| "y_loop (Suc n) b c d_val y =
     Option.bind (Option.bind (checked_u8_power y 2) (\<lambda>x. checked_add x c)) (\<lambda>num.
     Option.bind (Option.bind (Option.bind (checked_u8_mul y 2) (\<lambda>x. checked_add x b))
         (\<lambda>x. checked_sub x d_val)) (\<lambda>den.
     Option.bind (checked_div num den) (\<lambda>y'.
     if y' = y then Some y' else y_loop n b c d_val y')))"

definition compute_new_destination_amount :: "u64 \<Rightarrow> u128 \<Rightarrow> u128 \<Rightarrow> u128 option" where
  "compute_new_destination_amount leverage new_source_amount d_val =
     (let leverage = ucast leverage :: u256; new_source_amount = ucast new_source_amount :: u256;
          d_val = ucast d_val :: u256 in
      Option.bind (Option.bind (checked_u8_power d_val (N_COINS + 1)) (\<lambda>p.
        Option.bind (Option.bind (checked_u8_mul new_source_amount N_COINS_SQUARED)
          (\<lambda>x. checked_mul x leverage)) (\<lambda>q. checked_div p q))) (\<lambda>c.
      Option.bind (Option.bind (checked_div d_val leverage) (\<lambda>x. checked_add new_source_amount x))
        (\<lambda>b.
      Option.bind (y_loop ITERATIONS b c d_val d_val) u128_try_from)))"

definition stable_swap_without_fees :: "u64 \<Rightarrow> u128 \<Rightarrow> u128 \<Rightarrow> u128 \<Rightarrow> SwapWithoutFeesResult outcome" where
  "stable_swap_without_fees amp source_amount swap_source_amount swap_destination_amount =
     bind (opt (compute_a amp)) (\<lambda>leverage.
     bind (opt (checked_add swap_source_amount source_amount)) (\<lambda>new_source_amount.
     bind (opt (compute_d leverage swap_source_amount swap_destination_amount)) (\<lambda>d.
     bind (opt (compute_new_destination_amount leverage new_source_amount d))
       (\<lambda>new_destination_amount.
     bind (opt (checked_sub swap_destination_amount new_destination_amount)) (\<lambda>amount_swapped.
     Ok \<lparr>source_amount_swapped = source_amount, destination_amount_swapped = amount_swapped\<rparr>)))))"

definition stable_deposit_single ::
  "u64 \<Rightarrow> u128 \<Rightarrow> u128 \<Rightarrow> u128 \<Rightarrow> u128 \<Rightarrow> TradeDirection \<Rightarrow> u128 outcome" where
  "stable_deposit_single amp source_amount swap_a swap_b pool_supply trade_direction =
     (if source_amount = 0 then Ok 0 else
      bind (opt (compute_a amp)) (\<lambda>leverage.
      bind (bind (opt (compute_d leverage swap_a swap_b)) precise_new) (\<lambda>d0.
      let (deposit_amount, other_amount) =
        (case trade_direction of AtoB \<Rightarrow> (swap_a, swap_b) | BtoA \<Rightarrow> (swap_b, swap_a)) in
      bind (opt (checked_add deposit_amount source_amount)) (\<lambda>updated_amount.
      bind (bind (opt (compute_d leverage updated_amount other_amount)) precise_new) (\<lambda>d1.
      bind (precise_sub d1 d0) (\<lambda>diff.
      bind (bind (bind (precise_new pool_supply) (precise_mul diff)) (\<lambda>x. precise_div x d0))
        (\<lambda>final_amount.
      bind (precise_floor final_amount) to_imprecise)))))))"

definition stable_withdraw_single ::
  "u64 \<Rightarrow> u128 \<Rightarrow> u128 \<Rightarrow> u128 \<Rightarrow> u128 \<Rightarrow> TradeDirection \<Rightarrow> u128 outcome" where
  "stable_withdraw_single amp source_amount swap_a swap_b pool_supply trade_direction =
     (if source_amount = 0 then Ok 0 else
      bind (opt (compute_a amp)) (\<lambda>leverage.
      bind (bind (opt (compute_d leverage swap_a swap_b)) precise_new) (\<lambda>d0.
      let (withdraw_amount, other_amount) =
        (case trade_direction of AtoB \<Rightarrow> (swap_a, swap_b) | BtoA \<Rightarrow> (swap_b, swap_a)) in
      bind (opt (checked_sub withdraw_amount source_amount)) (\<lambda>updated_amount.
      bind (bind (opt (compute_d leverage updated_amount other_amount)) precise_new) (\<lambda>d1.
      bind (precise_sub d0 d1) (\<lambda>diff.
      bind (bind (bind (precise_new pool_supply) (precise_mul diff)) (\<lambda>x. precise_div x d0))
        (\<lambda>final_amount.
      bind (precise_ceiling final_amount) to_imprecise)))))))"

definition stable_normalized_value :: "u64 \<Rightarrow> u128 \<Rightarrow> u128 \<Rightarrow> PreciseNumber outcome" where
  "stable_normalized_value amp swap_a swap_b =
     bind (opt (compute_a amp)) (\<lambda>leverage.
     bind (opt (compute_d leverage swap_a swap_b)) precise_new)"

section \<open>The offset curve\<close>

definition offset_swap_without_fees ::
  "u64 \<Rightarrow> u128 \<Rightarrow> u128 \<Rightarrow> u128 \<Rightarrow> TradeDirection \<Rightarrow> SwapWithoutFeesResult outcome" where
  "offset_swap_without_fees off source_amount swap_source_amount swap_destination_amount
     trade_direction =
     bind (case trade_direction of
             AtoB \<Rightarrow> Ok swap_source_amount
           | BtoA \<Rightarrow> opt (checked_add swap_source_amount (ucast off))) (\<lambda>swap_source_amount.
     bind (case trade_direction of
             AtoB \<Rightarrow> opt (checked_add swap_destination_amount (ucast off))
           | BtoA \<Rightarrow> Ok swap_destination_amount) (\<lambda>swap_destination_amount.
     constant_product_swap source_amount swap_source_amount swap_destination_amount))"

definition offset_pool_tokens ::
  "u64 \<Rightarrow> u128 \<Rightarrow> u128 \<Rightarrow> u128 \<Rightarrow> u128 \<Rightarrow> RoundDirection \<Rightarrow> TradingTokenResult outcome" where
  "offset_pool_tokens off pool_tokens pool_token_supply swap_a swap_b round_direction =
     bind (opt (checked_add swap_b (ucast off))) (\<lambda>swap_b.
     ratio_pool_tokens pool_tokens pool_token_supply swap_a swap_b round_direction)"

definition offset_deposit_single ::
  "u64 \<Rightarrow> u128 \<Rightarrow> u128 \<Rightarrow> u128 \<Rightarrow> u128 \<Rightarrow> TradeDirection \<Rightarrow> u128 outcome" where
  "offset_deposit_single off source_amount swap_a swap_b pool_supply trade_direction =
     bind (opt (checked_add swap_b (ucast off))) (\<lambda>swap_b.
     constant_product_deposit_single source_amount swap_a swap_b pool_supply trade_direction Floor)"

definition offset_withdraw_single ::
  "u64 \<Rightarrow> u128 \<Rightarrow> u128 \<Rightarrow> u128 \<Rightarrow> u128 \<Rightarrow> TradeDirection \<Rightarrow> u128 outcome" where
  "offset_withdraw_single off source_amount swap_a swap_b pool_supply trade_direction =
     bind (opt (checked_add swap_b (ucast off))) (\<lambda>swap_b.
     constant_product_withdraw_single source_amount swap_a swap_b pool_supply trade_direction Ceiling)"

definition offset_normalized_value :: "u64 \<Rightarrow> u128 \<Rightarrow> u128 \<Rightarrow> PreciseNumber outcome" where
  "offset_normalized_value off swap_a swap_b =
     bind (opt (checked_add swap_b (ucast off))) (\<lambda>swap_b.
     constant_product_normalized_value swap_a swap_b)"

section \<open>The calculator trait\<close>

datatype calculator =
    ConstantProductCurve
  | ConstantPriceCurve (token_b_price: u64)
  | StableCurve (amp: u64)
  | OffsetCurve (token_b_offset: u64)

fun swap_without_fees ::
  "calculator \<Rightarrow> u128 \<Rightarrow> u128 \<Rightarrow> u128 \<Rightarrow> TradeDirection \<Rightarrow> SwapWithoutFeesResult outcome" where
  "swap_without_fees ConstantProductCurve n s d dir = constant_product_swap n s d"
| "swap_without_fees (ConstantPriceCurve p) n s d dir = constant_price_swap_without_fees p n dir"
| "swap_without_fees (StableCurve a) n s d dir = stable_swap_without_fees a n s d"
| "swap_without_fees (OffsetCurve off) n s d dir = offset_swap_without_fees off n s d dir"

definition new_pool_supply :: "calculator \<Rightarrow> u128" where
  "new_pool_supply c = INITIAL_SWAP_POOL_AMOUNT"

text \<open>The stable curve repeats the ratio calculation of the constant product curve line by line.\<close>

fun pool_tokens_to_trading_tokens ::
  "calculator \<Rightarrow> u128 \<Rightarrow> u128 \<Rightarrow> u128 \<Rightarrow> u128 \<Rightarrow> RoundDirection \<Rightarrow> TradingTokenResult outcome" where
  "pool_tokens_to_trading_tokens ConstantProductCurve n supply a b r = ratio_pool_tokens n supply a b r"
| "pool_tokens_to_trading_tokens (ConstantPriceCurve p) n supply a b r =
     constant_price_pool_tokens p n supply a b r"
| "pool_tokens_to_trading_tokens (StableCurve k) n supply a b r = ratio_pool_tokens n supply a b r"
| "pool_tokens_to_trading_tokens (OffsetCurve off) n supply a b r =
     offset_pool_tokens off n supply a b r"

fun calculator_deposit_single ::
  "calculator \<Rightarrow> u128 \<Rightarrow> u128 \<Rightarrow> u128 \<Rightarrow> u128 \<Rightarrow> TradeDirection \<Rightarrow> u128 outcome" where
  "calculator_deposit_single ConstantProductCurve n a b supply dir =
     constant_product_deposit_single n a b supply dir Floor"
| "calculator_deposit_single (ConstantPriceCurve p) n a b supply dir =
     trading_tokens_to_pool_tokens p n a b supply dir Floor"
| "calculator_deposit_single (StableCurve k) n a b supply dir =
     stable_deposit_single k n a b supply dir"
| "calculator_deposit_single (OffsetCurve off) n a b supply dir =
     offset_deposit_single off n a b supply dir"

fun calculator_withdraw_single ::
  "calculator \<Rightarrow> u128 \<Rightarrow> u128 \<Rightarrow> u128 \<Rightarrow> u128 \<Rightarrow> TradeDirection \<Rightarrow> u128 outcome" where
  "calculator_withdraw_single ConstantProductCurve n a b supply dir =
     constant_product_withdraw_single n a b supply dir Ceiling"
| "calculator_withdraw_single (ConstantPriceCurve p) n a b supply dir =
     trading_tokens_to_pool_tokens p n a b supply dir Ceiling"
| "calculator_withdraw_single (StableCurve k) n a b supply dir =
     stable_withdraw_single k n a b supply dir"
| "calculator_withdraw_single (OffsetCurve off) n a b supply dir =
     offset_withdraw_single off n a b supply dir"

fun calculator_validate :: "calculator \<Rightarrow> (SwapError, unit) result" where
  "calculator_validate ConstantProductCurve = Ok ()"
| "calculator_validate (ConstantPriceCurve p) = (if p = 0 then Err InvalidCurve else Ok ())"
| "calculator_validate (StableCurve k) = Ok ()"
| "calculator_validate (OffsetCurve off) = (if off = 0 then Err InvalidCurve else Ok ())"

definition validate_both_supplies :: "u64 \<Rightarrow> u64 \<Rightarrow> (SwapError, unit) result" where
  "validate_both_supplies a b =
     (if a = 0 then Err EmptySupply else if b = 0 then Err EmptySupply else Ok ())"

definition validate_a_supply :: "u64 \<Rightarrow> (SwapError, unit) result" where
  "validate_a_supply a = (if a = 0 then Err EmptySupply else Ok ())"

fun validate_supply :: "calculator \<Rightarrow> u64 \<Rightarrow> u64 \<Rightarrow> (SwapError, unit) result" where
  "validate_supply ConstantProductCurve a b = validate_both_supplies a b"
| "validate_supply (ConstantPriceCurve p) a b = validate_a_supply a"
| "validate_supply (StableCurve k) a b = validate_both_supplies a b"
| "validate_supply (OffsetCurve off) a b = validate_a_supply a"

fun allows_deposits :: "calculator \<Rightarrow> bool" where
  "allows_deposits (OffsetCurve off) = False"
| "allows_deposits _ = True"

fun normalized_value :: "calculator \<Rightarrow> u128 \<Rightarrow> u128 \<Rightarrow> PreciseNumber outcome" where
  "normalized_value ConstantProductCurve a b = constant_product_normalized_value a b"
| "normalized_value (ConstantPriceCurve p) a b = constant_price_normalized_value p a b"
| "normalized_value (StableCurve k) a b = stable_normalized_value k a b"
| "normalized_value (OffsetCurve off) a b = offset_normalized_value off a b"

section \<open>Fees\<close>

record Fees =
  trade_fee_numerator :: u64
  trade_fee_denominator :: u64
  owner_trade_fee_numerator :: u64
  owner_trade_fee_denominator :: u64
  owner_withdraw_fee_numerator :: u64
  owner_withdraw_fee_denominator :: u64
  host_fee_numerator :: u64
  host_fee_denominator :: u64

definition calculate_fee :: "u128 \<Rightarrow> u128 \<Rightarrow> u128 \<Rightarrow> u128 outcome" where
  "calculate_fee token_amount fee_numerator fee_denominator =
     (if fee_numerator = 0 \<or> token_amount = 0 then Ok 0 else
      bind (opt (checked_mul token_amount fee_numerator)) (\<lambda>product.
      bind (opt (checked_div product fee_denominator)) (\<lambda>fee.
      if fee = 0 then Ok 1 else Ok fee)))"

definition validate_fraction :: "u64 \<Rightarrow> u64 \<Rightarrow> (SwapError, unit) result" where
  "validate_fraction num den =
     (if den = 0 \<and> num = 0 then Ok () else if den \<le> num then Err InvalidFee else Ok ())"

definition owner_withdraw_fee :: "Fees \<Rightarrow> u128 \<Rightarrow> u128 outcome" where
  "owner_withdraw_fee f pool_tokens = calculate_fee pool_tokens
     (ucast (owner_withdraw_fee_numerator f)) (ucast (owner_withdraw_fee_denominator f))"

definition trading_fee :: "Fees \<Rightarrow> u128 \<Rightarrow> u128 outcome" where
  "trading_fee f trading_tokens = calculate_fee trading_tokens
     (ucast (trade_fee_numerator f)) (ucast (trade_fee_denominator f))"

definition owner_trading_fee :: "Fees \<Rightarrow> u128 \<Rightarrow> u128 outcome" where
  "owner_trading_fee f trading_tokens = calculate_fee trading_tokens
     (ucast (owner_trade_fee_numerator f)) (ucast (owner_trade_fee_denominator f))"

definition host_fee :: "Fees \<Rightarrow> u128 \<Rightarrow> u128 outcome" where
  "host_fee f owner_fee = calculate_fee owner_fee
     (ucast (host_fee_numerator f)) (ucast (host_fee_denominator f))"

definition fees_validate :: "Fees \<Rightarrow> (SwapError, unit) result" where
  "fees_validate f =
     bind (validate_fraction (trade_fee_numerator f) (trade_fee_denominator f)) (\<lambda>_.
     bind (validate_fraction (owner_trade_fee_numerator f) (owner_trade_fee_denominator f)) (\<lambda>_.
     bind (validate_fraction (owner_withdraw_fee_numerator f) (owner_withdraw_fee_denominator f)) (\<lambda>_.
     bind (validate_fraction (host_fee_numerator f) (host_fee_denominator f)) (\<lambda>_.
     Ok ()))))"

section \<open>Swap curves\<close>

datatype CurveType = ConstantProduct | ConstantPrice | Stable | Offset

record SwapCurve =
  curve_type :: CurveType
  calculator :: calculator

record SwapResult =
  new_swap_source_amount :: u128
  new_swap_destination_amount :: u128
  res_source_amount_swapped :: u128
  res_destination_amount_swapped :: u128
  trade_fee :: u128
  owner_fee :: u128

definition curve_swap ::
  "SwapCurve \<Rightarrow> u128 \<Rightarrow> u128 \<Rightarrow> u128 \<Rightarrow> TradeDirection \<Rightarrow> Fees \<Rightarrow> SwapResult outcome" where
  "curve_swap c source_amount swap_source_amount swap_destination_amount trade_direction fees =
     bind (trading_fee fees source_amount) (\<lambda>tfee.
     bind (owner_trading_fee fees source_amount) (\<lambda>ofee.
     bind (opt (checked_add tfee ofee)) (\<lambda>total_fees.
     bind (opt (checked_sub source_amount total_fees)) (\<lambda>source_amount_less_fees.
     bind (swap_without_fees (calculator c) source_amount_less_fees swap_source_amount
             swap_destination_amount trade_direction) (\<lambda>r.
     bind (opt (checked_add (source_amount_swapped r) total_fees)) (\<lambda>source_swapped.
     bind (opt (checked_add swap_source_amount source_swapped)) (\<lambda>new_source.
     bind (opt (checked_sub swap_destination_amount (destination_amount_swapped r)))
       (\<lambda>new_destination.
     Ok \<lparr>new_swap_source_amount = new_source,
         new_swap_destination_amount = new_destination,
         res_source_amount_swapped = source_swapped,
         res_destination_amount_swapped = destination_amount_swapped r,
         trade_fee = tfee,
         owner_fee = ofee\<rparr>))))))))"

text \<open>Half of a single-sided amount is traded, so the fee is that of trading half of it.\<close>

definition less_half_trade_fee :: "Fees \<Rightarrow> u128 \<Rightarrow> u128 outcome" where
  "less_half_trade_fee fees source_amount =
     bind (opt (checked_div source_amount 2)) (\<lambda>half.
     bind (trading_fee fees (max 1 half)) (\<lambda>fee.
     opt (checked_sub source_amount fee)))"

definition deposit_single_token_type ::
  "SwapCurve \<Rightarrow> u128 \<Rightarrow> u128 \<Rightarrow> u128 \<Rightarrow> u128 \<Rightarrow> TradeDirection \<Rightarrow> Fees \<Rightarrow> u128 outcome" where
  "deposit_single_token_type c source_amount swap_a swap_b pool_supply trade_direction fees =
     (if source_amount = 0 then Ok 0 else
      bind (less_half_trade_fee fees source_amount) (\<lambda>source_amount.
      calculator_deposit_single (calculator c) source_amount swap_a swap_b pool_supply
        trade_direction))"

definition withdraw_single_token_type_exact_out ::
  "SwapCurve \<Rightarrow> u128 \<Rightarrow> u128 \<Rightarrow> u128 \<Rightarrow> u128 \<Rightarrow> TradeDirection \<Rightarrow> Fees \<Rightarrow> u128 outcome" where
  "withdraw_single_token_type_exact_out c source_amount swap_a swap_b pool_supply trade_direction
     fees =
     (if source_amount = 0 then Ok 0 else
      bind (less_half_trade_fee fees source_amount) (\<lambda>source_amount.
      calculator_withdraw_single (calculator c) source_amount swap_a swap_b pool_supply
        trade_direction))"

end
