(* ===== verification/Swap_State.thy ===== *)
theory Swap_State
  imports Swap_Curve Token_Instruction
begin

text \<open>
  The account of the token swap program and its instructions (\<open>token-swap/program/src/state.rs\<close>,
  \<open>curve/base.rs\<close>, \<open>curve/fees.rs\<close>, \<open>instruction.rs\<close>, \<open>constraints.rs\<close>): the byte layouts, the
  decoder, the client builders. Fees, curves and the swap account implement \<open>Pack\<close> and are
  interpretations of \<^term>\<open>pack_format\<close>.
\<close>

section \<open>Encodings of fees and curves\<close>

definition fees_LEN :: nat where
  "fees_LEN = 64"

definition fees_pack_into_slice :: "Fees \<Rightarrow> bytes \<Rightarrow> bytes program_result" where
  "fees_pack_into_slice f output =
     (if length output < 64 then Panic else
      Ok (u64_to_le_bytes (trade_fee_numerator f)
          @ u64_to_le_bytes (trade_fee_denominator f)
          @ u64_to_le_bytes (owner_trade_fee_numerator f)
          @ u64_to_le_bytes (owner_trade_fee_denominator f)
          @ u64_to_le_bytes (owner_withdraw_fee_numerator f)
          @ u64_to_le_bytes (owner_withdraw_fee_denominator f)
          @ u64_to_le_bytes (host_fee_numerator f)
          @ u64_to_le_bytes (host_fee_denominator f)
          @ drop 64 output))"

definition fees_unpack_from_slice :: "bytes \<Rightarrow> Fees program_result" where
  "fees_unpack_from_slice input =
     (if length input < 64 then Panic else
      Ok \<lparr>trade_fee_numerator = u64_from_le_bytes (segment 0 8 input),
          trade_fee_denominator = u64_from_le_bytes (segment 8 8 input),
          owner_trade_fee_numerator = u64_from_le_bytes (segment 16 8 input),
          owner_trade_fee_denominator = u64_from_le_bytes (segment 24 8 input),
          owner_withdraw_fee_numerator = u64_from_le_bytes (segment 32 8 input),
          owner_withdraw_fee_denominator = u64_from_le_bytes (segment 40 8 input),
          host_fee_numerator = u64_from_le_bytes (segment 48 8 input),
          host_fee_denominator = u64_from_le_bytes (segment 56 8 input)\<rparr>)"

fun curve_type_as_u8 :: "CurveType \<Rightarrow> u8" where
  "curve_type_as_u8 ConstantProduct = 0"
| "curve_type_as_u8 ConstantPrice = 1"
| "curve_type_as_u8 Stable = 2"
| "curve_type_as_u8 Offset = 3"

definition curve_type_try_from :: "u8 \<Rightarrow> CurveType program_result" where
  "curve_type_try_from b =
     (if b = 0 then Ok ConstantProduct else if b = 1 then Ok ConstantPrice
      else if b = 2 then Ok Stable else if b = 3 then Ok Offset else Err InvalidAccountData)"

text \<open>The eight bytes of a parameter at the start of a slice; the constant product has none.\<close>

definition put_u64 :: "u64 \<Rightarrow> bytes \<Rightarrow> bytes program_result" where
  "put_u64 x output = (if length output < 8 then Panic else Ok (u64_to_le_bytes x @ drop 8 output))"

definition get_u64 :: "bytes \<Rightarrow> u64 program_result" where
  "get_u64 input = (if length input < 8 then Panic else Ok (u64_from_le_bytes (segment 0 8 input)))"

fun calculator_pack_into_slice :: "calculator \<Rightarrow> bytes \<Rightarrow> bytes program_result" where
  "calculator_pack_into_slice ConstantProductCurve output = Ok output"
| "calculator_pack_into_slice (ConstantPriceCurve p) output = put_u64 p output"
| "calculator_pack_into_slice (StableCurve k) output = put_u64 k output"
| "calculator_pack_into_slice (OffsetCurve off) output = put_u64 off output"

fun calculator_unpack_from_slice :: "CurveType \<Rightarrow> bytes \<Rightarrow> calculator program_result" where
  "calculator_unpack_from_slice ConstantProduct input = Ok ConstantProductCurve"
| "calculator_unpack_from_slice ConstantPrice input =
     bind (get_u64 input) (\<lambda>p. Ok (ConstantPriceCurve p))"
| "calculator_unpack_from_slice Stable input = bind (get_u64 input) (\<lambda>k. Ok (StableCurve k))"
| "calculator_unpack_from_slice Offset input = bind (get_u64 input) (\<lambda>off. Ok (OffsetCurve off))"

definition curve_LEN :: nat where
  "curve_LEN = 33"

definition curve_unpack_from_slice :: "bytes \<Rightarrow> SwapCurve program_result" where
  "curve_unpack_from_slice input =
     (if length input < 33 then Panic else
      bind (curve_type_try_from (input ! 0)) (\<lambda>ct.
      bind (calculator_unpack_from_slice ct (segment 1 32 input)) (\<lambda>c.
      Ok \<lparr>curve_type = ct, calculator = c\<rparr>)))"

definition curve_pack_into_slice :: "SwapCurve \<Rightarrow> bytes \<Rightarrow> bytes program_result" where
  "curve_pack_into_slice cv output =
     (if length output < 33 then Panic else
      bind (calculator_pack_into_slice (calculator cv) (segment 1 32 output)) (\<lambda>c.
      Ok ([curve_type_as_u8 (curve_type cv)] @ c @ drop 33 output)))"

text \<open>Every constructor of a curve pairs the type with its calculator.\<close>

fun type_of_calculator :: "calculator \<Rightarrow> CurveType" where
  "type_of_calculator ConstantProductCurve = ConstantProduct"
| "type_of_calculator (ConstantPriceCurve p) = ConstantPrice"
| "type_of_calculator (StableCurve k) = Stable"
| "type_of_calculator (OffsetCurve off) = Offset"

definition curve_wf :: "SwapCurve \<Rightarrow> bool" where
  "curve_wf cv \<longleftrightarrow> curve_type cv = type_of_calculator (calculator cv)"

definition default_curve :: SwapCurve where
  "default_curve = \<lparr>curve_type = ConstantProduct, calculator = ConstantProductCurve\<rparr>"

text \<open>The \<open>PartialEq\<close> of the sources compares the encodings.\<close>

definition curve_eq :: "SwapCurve \<Rightarrow> SwapCurve \<Rightarrow> bool" where
  "curve_eq x y \<longleftrightarrow>
     curve_pack_into_slice x (replicate 33 0) = curve_pack_into_slice y (replicate 33 0)"

section \<open>The swap account\<close>

record SwapV1 =
  swap_is_initialized :: bool
  bump_seed :: u8
  token_program_id :: pubkey
  token_a :: pubkey
  token_b :: pubkey
  pool_mint :: pubkey
  token_a_mint :: pubkey
  token_b_mint :: pubkey
  pool_fee_account :: pubkey
  swap_fees :: Fees
  swap_curve :: SwapCurve

definition swap_LEN :: nat where
  "swap_LEN = 323"

definition swap_pack_into_slice :: "SwapV1 \<Rightarrow> bytes \<Rightarrow> bytes program_result" where
  "swap_pack_into_slice s output =
     (if length output < 323 then Panic else
      bind (fees_pack_into_slice (swap_fees s) (segment 226 64 output)) (\<lambda>f.
      bind (curve_pack_into_slice (swap_curve s) (segment 290 33 output)) (\<lambda>c.
      Ok ([bool_as_u8 (swap_is_initialized s)]
          @ [bump_seed s]
          @ pubkey_to_bytes (token_program_id s)
          @ pubkey_to_bytes (token_a s)
          @ pubkey_to_bytes (token_b s)
          @ pubkey_to_bytes (pool_mint s)
          @ pubkey_to_bytes (token_a_mint s)
          @ pubkey_to_bytes (token_b_mint s)
          @ pubkey_to_bytes (pool_fee_account s)
          @ f @ c @ drop 323 output))))"

definition swap_unpack_from_slice :: "bytes \<Rightarrow> SwapV1 program_result" where
  "swap_unpack_from_slice input =
     (if length input < 323 then Panic else
      bind (unpack_bool (input ! 0)) (\<lambda>ini.
      bind (fees_unpack_from_slice (segment 226 64 input)) (\<lambda>f.
      bind (curve_unpack_from_slice (segment 290 33 input)) (\<lambda>c.
      Ok \<lparr>swap_is_initialized = ini,
          bump_seed = input ! 1,
          token_program_id = pubkey_new_from_array (segment 2 32 input),
          token_a = pubkey_new_from_array (segment 34 32 input),
          token_b = pubkey_new_from_array (segment 66 32 input),
          pool_mint = pubkey_new_from_array (segment 98 32 input),
          token_a_mint = pubkey_new_from_array (segment 130 32 input),
          token_b_mint = pubkey_new_from_array (segment 162 32 input),
          pool_fee_account = pubkey_new_from_array (segment 194 32 input),
          swap_fees = f,
          swap_curve = c\<rparr>))))"

text \<open>\<open>SwapVersion\<close>: one byte for the version in front of the account.\<close>

definition LATEST_LEN :: nat where
  "LATEST_LEN = 1 + swap_LEN"

definition swap_version_pack :: "SwapV1 \<Rightarrow> bytes \<Rightarrow> bytes program_result" where
  "swap_version_pack s dst =
     (case dst of
        [] \<Rightarrow> Panic
      | _ # rest \<Rightarrow> bind (pack swap_LEN swap_pack_into_slice s rest) (\<lambda>d. Ok (1 # d)))"

definition swap_version_unpack :: "bytes \<Rightarrow> SwapV1 program_result" where
  "swap_version_unpack input =
     (case input of
        [] \<Rightarrow> Err InvalidAccountData
      | version # rest \<Rightarrow>
          if version = 1 then unpack swap_LEN swap_unpack_from_slice swap_is_initialized rest
          else Err UninitializedAccount)"

definition swap_version_is_initialized :: "bytes \<Rightarrow> ('e, bool) result" where
  "swap_version_is_initialized input =
     (case swap_version_unpack input of
        Ok s \<Rightarrow> Ok (swap_is_initialized s)
      | Err _ \<Rightarrow> Ok False
      | Panic \<Rightarrow> Panic)"

section \<open>Instructions\<close>

text \<open>The operand structs of the sources are the arguments of the constructors, in field order.\<close>

datatype SwapInstruction =
    Initialize Fees SwapCurve
  | Swap u64 u64
  | DepositAllTokenTypes u64 u64 u64
  | WithdrawAllTokenTypes u64 u64 u64
  | DepositSingleTokenTypeExactAmountIn u64 u64
  | WithdrawSingleTokenTypeExactAmountOut u64 u64

definition swap_err :: "SwapError \<Rightarrow> 'a program_result" where
  "swap_err e = Err (swap_into_program_error e)"

definition swap_unpack_u64 :: "bytes \<Rightarrow> (u64 \<times> bytes) program_result" where
  "swap_unpack_u64 input =
     (if 8 \<le> length input then Ok (u64_from_le_bytes (take 8 input), drop 8 input)
      else swap_err SwapError.InvalidInstruction)"

definition unpack_initialize :: "bytes \<Rightarrow> SwapInstruction program_result" where
  "unpack_initialize rest =
     (if fees_LEN \<le> length rest then
        bind (unpack_unchecked fees_LEN fees_unpack_from_slice (take fees_LEN rest)) (\<lambda>f.
        bind (unpack_unchecked curve_LEN curve_unpack_from_slice (drop fees_LEN rest)) (\<lambda>c.
        Ok (Initialize f c)))
      else swap_err SwapError.InvalidInstruction)"

definition unpack_two :: "(u64 \<Rightarrow> u64 \<Rightarrow> SwapInstruction) \<Rightarrow> bytes \<Rightarrow> SwapInstruction program_result" where
  "unpack_two con rest =
     bind (swap_unpack_u64 rest) (\<lambda>(x, rest).
     bind (swap_unpack_u64 rest) (\<lambda>(y, _).
     Ok (con x y)))"

definition unpack_three ::
  "(u64 \<Rightarrow> u64 \<Rightarrow> u64 \<Rightarrow> SwapInstruction) \<Rightarrow> bytes \<Rightarrow> SwapInstruction program_result" where
  "unpack_three con rest =
     bind (swap_unpack_u64 rest) (\<lambda>(x, rest).
     bind (swap_unpack_u64 rest) (\<lambda>(y, rest).
     bind (swap_unpack_u64 rest) (\<lambda>(z, _).
     Ok (con x y z))))"

definition swap_instruction_unpack :: "bytes \<Rightarrow> SwapInstruction program_result" where
  "swap_instruction_unpack input =
     bind (ok_or (split_first input) (swap_into_program_error SwapError.InvalidInstruction))
       (\<lambda>(tag, rest).
     if tag = 0 then unpack_initialize rest
     else if tag = 1 then unpack_two Swap rest
     else if tag = 2 then unpack_three DepositAllTokenTypes rest
     else if tag = 3 then unpack_three WithdrawAllTokenTypes rest
     else if tag = 4 then unpack_two DepositSingleTokenTypeExactAmountIn rest
     else if tag = 5 then unpack_two WithdrawSingleTokenTypeExactAmountOut rest
     else swap_err SwapError.InvalidInstruction)"

fun swap_instruction_pack :: "SwapInstruction \<Rightarrow> bytes program_result" where
  "swap_instruction_pack (Initialize f c) =
     bind (fees_pack_into_slice f (replicate fees_LEN 0)) (\<lambda>fees_slice.
     bind (curve_pack_into_slice c (replicate curve_LEN 0)) (\<lambda>swap_curve_slice.
     Ok ([0] @ fees_slice @ swap_curve_slice)))"
| "swap_instruction_pack (Swap x y) = Ok ([1] @ u64_to_le_bytes x @ u64_to_le_bytes y)"
| "swap_instruction_pack (DepositAllTokenTypes x y z) =
     Ok ([2] @ u64_to_le_bytes x @ u64_to_le_bytes y @ u64_to_le_bytes z)"
| "swap_instruction_pack (WithdrawAllTokenTypes x y z) =
     Ok ([3] @ u64_to_le_bytes x @ u64_to_le_bytes y @ u64_to_le_bytes z)"
| "swap_instruction_pack (DepositSingleTokenTypeExactAmountIn x y) =
     Ok ([4] @ u64_to_le_bytes x @ u64_to_le_bytes y)"
| "swap_instruction_pack (WithdrawSingleTokenTypeExactAmountOut x y) =
     Ok ([5] @ u64_to_le_bytes x @ u64_to_le_bytes y)"

definition swap_instruction_new ::
  "pubkey \<Rightarrow> AccountMeta list \<Rightarrow> SwapInstruction \<Rightarrow> Instruction program_result" where
  "swap_instruction_new pid metas ix =
     bind (swap_instruction_pack ix) (\<lambda>d.
     Ok \<lparr>program_id = pid, accounts = metas, instr_data = d\<rparr>)"

definition swap_initialize ::
  "pubkey \<Rightarrow> pubkey \<Rightarrow> pubkey \<Rightarrow> pubkey \<Rightarrow> pubkey \<Rightarrow> pubkey \<Rightarrow> pubkey \<Rightarrow> pubkey \<Rightarrow> pubkey \<Rightarrow>
   Fees \<Rightarrow> SwapCurve \<Rightarrow> Instruction program_result" where
  "swap_initialize pid token_pid swap authority a b pool fee destination f c =
     swap_instruction_new pid
       [account_meta_new swap True,
        account_meta_new_readonly authority False,
        account_meta_new_readonly a False,
        account_meta_new_readonly b False,
        account_meta_new pool False,
        account_meta_new_readonly fee False,
        account_meta_new destination False,
        account_meta_new_readonly token_pid False]
       (Initialize f c)"

definition deposit_all_token_types ::
  "pubkey \<Rightarrow> pubkey \<Rightarrow> pubkey \<Rightarrow> pubkey \<Rightarrow> pubkey \<Rightarrow> pubkey \<Rightarrow> pubkey \<Rightarrow> pubkey \<Rightarrow> pubkey \<Rightarrow>
   pubkey \<Rightarrow> pubkey \<Rightarrow> u64 \<times> u64 \<times> u64 \<Rightarrow> Instruction program_result" where
  "deposit_all_token_types pid token_pid swap authority user deposit_a deposit_b a b pool destination
     = (\<lambda>(x, y, z). swap_instruction_new pid
       [account_meta_new_readonly swap False,
        account_meta_new_readonly authority False,
        account_meta_new_readonly user True,
        account_meta_new deposit_a False,
        account_meta_new deposit_b False,
        account_meta_new a False,
        account_meta_new b False,
        account_meta_new pool False,
        account_meta_new destination False,
        account_meta_new_readonly token_pid False]
       (DepositAllTokenTypes x y z))"

definition withdraw_all_token_types ::
  "pubkey \<Rightarrow> pubkey \<Rightarrow> pubkey \<Rightarrow> pubkey \<Rightarrow> pubkey \<Rightarrow> pubkey \<Rightarrow> pubkey \<Rightarrow> pubkey \<Rightarrow> pubkey \<Rightarrow>
   pubkey \<Rightarrow> pubkey \<Rightarrow> pubkey \<Rightarrow> u64 \<times> u64 \<times> u64 \<Rightarrow> Instruction program_result" where
  "withdraw_all_token_types pid token_pid swap authority user pool fee source a b dest_a dest_b
     = (\<lambda>(x, y, z). swap_instruction_new pid
       [account_meta_new_readonly swap False,
        account_meta_new_readonly authority False,
        account_meta_new_readonly user True,
        account_meta_new pool False,
        account_meta_new source False,
        account_meta_new a False,
        account_meta_new b False,
        account_meta_new dest_a False,
        account_meta_new dest_b False,
        account_meta_new fee False,
        account_meta_new_readonly token_pid False]
       (WithdrawAllTokenTypes x y z))"

definition deposit_single_token_type_exact_amount_in ::
  "pubkey \<Rightarrow> pubkey \<Rightarrow> pubkey \<Rightarrow> pubkey \<Rightarrow> pubkey \<Rightarrow> pubkey \<Rightarrow> pubkey \<Rightarrow> pubkey \<Rightarrow> pubkey \<Rightarrow>
   pubkey \<Rightarrow> u64 \<times> u64 \<Rightarrow> Instruction program_result" where
  "deposit_single_token_type_exact_amount_in pid token_pid swap authority user source a b pool
     destination = (\<lambda>(x, y). swap_instruction_new pid
       [account_meta_new_readonly swap False,
        account_meta_new_readonly authority False,
        account_meta_new_readonly user True,
        account_meta_new source False,
        account_meta_new a False,
        account_meta_new b False,
        account_meta_new pool False,
        account_meta_new destination False,
        account_meta_new_readonly token_pid False]
       (DepositSingleTokenTypeExactAmountIn x y))"

definition withdraw_single_token_type_exact_amount_out ::
  "pubkey \<Rightarrow> pubkey \<Rightarrow> pubkey \<Rightarrow> pubkey \<Rightarrow> pubkey \<Rightarrow> pubkey \<Rightarrow> pubkey \<Rightarrow> pubkey \<Rightarrow> pubkey \<Rightarrow>
   pubkey \<Rightarrow> pubkey \<Rightarrow> u64 \<times> u64 \<Rightarrow> Instruction program_result" where
  "withdraw_single_token_type_exact_amount_out pid token_pid swap authority user pool fee source a b
     destination = (\<lambda>(x, y). swap_instruction_new pid
       [account_meta_new_readonly swap False,
        account_meta_new_readonly authority False,
        account_meta_new_readonly user True,
        account_meta_new pool False,
        account_meta_new source False,
        account_meta_new a False,
        account_meta_new b False,
        account_meta_new destination False,
        account_meta_new fee False,
        account_meta_new_readonly token_pid False]
       (WithdrawSingleTokenTypeExactAmountOut x y))"

definition swap_tokens ::
  "pubkey \<Rightarrow> pubkey \<Rightarrow> pubkey \<Rightarrow> pubkey \<Rightarrow> pubkey \<Rightarrow> pubkey \<Rightarrow> pubkey \<Rightarrow> pubkey \<Rightarrow> pubkey \<Rightarrow>
   pubkey \<Rightarrow> pubkey \<Rightarrow> pubkey option \<Rightarrow> u64 \<times> u64 \<Rightarrow> Instruction program_result" where
  "swap_tokens pid token_pid swap authority user source swap_source swap_destination destination pool
     fee host = (\<lambda>(x, y). swap_instruction_new pid
       ([account_meta_new_readonly swap False,
         account_meta_new_readonly authority False,
         account_meta_new_readonly user True,
         account_meta_new source False,
         account_meta_new swap_source False,
         account_meta_new swap_destination False,
         account_meta_new destination False,
         account_meta_new pool False,
         account_meta_new fee False,
         account_meta_new_readonly token_pid False]
        @ (case host of Some k \<Rightarrow> [account_meta_new k False] | None \<Rightarrow> []))
       (Swap x y))"

section \<open>Constraints\<close>

record SwapConstraints =
  owner_key :: string
  valid_curve_types :: "CurveType list"
  constraint_fees :: Fees

definition validate_curve :: "SwapConstraints \<Rightarrow> SwapCurve \<Rightarrow> unit program_result" where
  "validate_curve sc cv =
     (if \<exists>x\<in>set (valid_curve_types sc). x = curve_type cv then Ok ()
      else swap_err UnsupportedCurveType)"

definition validate_fees :: "SwapConstraints \<Rightarrow> Fees \<Rightarrow> unit program_result" where
  "validate_fees sc f =
     (let m = constraint_fees sc in
      if trade_fee_numerator m \<le> trade_fee_numerator f
         \<and> trade_fee_denominator f = trade_fee_denominator m
         \<and> owner_trade_fee_numerator m \<le> owner_trade_fee_numerator f
         \<and> owner_trade_fee_denominator f = owner_trade_fee_denominator m
         \<and> owner_withdraw_fee_numerator m \<le> owner_withdraw_fee_numerator f
         \<and> owner_withdraw_fee_denominator f = owner_withdraw_fee_denominator m
         \<and> host_fee_numerator f = host_fee_numerator m
         \<and> host_fee_denominator f = host_fee_denominator m
      then Ok () else swap_err InvalidFee)"

definition PRODUCTION_FEES :: Fees where
  "PRODUCTION_FEES =
     \<lparr>trade_fee_numerator = 0, trade_fee_denominator = 10000,
      owner_trade_fee_numerator = 5, owner_trade_fee_denominator = 10000,
      owner_withdraw_fee_numerator = 0, owner_withdraw_fee_denominator = 0,
      host_fee_numerator = 20, host_fee_denominator = 100\<rparr>"

definition VALID_CURVE_TYPES :: "CurveType list" where
  "VALID_CURVE_TYPES = [ConstantPrice, ConstantProduct]"

text \<open>The owner's key is an environment variable of the production build.\<close>

definition production_constraints :: "string \<Rightarrow> SwapConstraints" where
  "production_constraints owner_address =
     \<lparr>owner_key = owner_address, valid_curve_types = VALID_CURVE_TYPES,
      constraint_fees = PRODUCTION_FEES\<rparr>"

section \<open>The layouts implement Pack\<close>

lemma swap_err_Ok [simp]: "swap_err e \<noteq> Ok x" "swap_err e \<noteq> Panic"
  by (simp_all add: swap_err_def)

lemma early_swap_err_Ok_iff [result_ok]:
  "(if c then swap_err e else r) = Ok y \<longleftrightarrow> \<not> c \<and> r = Ok y"
  by simp

lemma late_swap_err_Ok_iff [result_ok]:
  "(if c then r else swap_err e) = Ok y \<longleftrightarrow> c \<and> r = Ok y"
  by simp

lemma curve_type_try_from_as_u8 [simp]: "curve_type_try_from (curve_type_as_u8 ct) = Ok ct"
  by (cases ct) (simp_all add: curve_type_try_from_def)

lemma curve_type_as_u8_try_from: "curve_type_try_from b = Ok ct \<Longrightarrow> curve_type_as_u8 ct = b"
  by (auto simp: curve_type_try_from_def split: if_splits)

lemma fees_segments:
  "length src = 64 \<Longrightarrow>
   segment 0 8 src @ segment 8 8 src @ segment 16 8 src @ segment 24 8 src @ segment 32 8 src
     @ segment 40 8 src @ segment 48 8 src @ segment 56 8 src = src"
  using concat_segments [of 0 "[8, 8, 8, 8, 8, 8, 8, 8]" src] by simp

interpretation fees_format: pack_format fees_LEN fees_unpack_from_slice fees_pack_into_slice
  "\<lambda>_. True" "\<lambda>_. True"
proof (unfold_locales, goal_cases)
  case (1 v dst)
  then show ?case
    by (simp add: fees_LEN_def fees_unpack_from_slice_def fees_pack_into_slice_def layout_simps)
next
  case (2 src v)
  then show ?case
    using fees_segments [of src]
    by (auto simp: fees_LEN_def fees_unpack_from_slice_def fees_pack_into_slice_def)
qed (simp_all add: fees_LEN_def fees_unpack_from_slice_def)

lemma calculator_pack_slice:
  assumes "length dst = 32"
  shows "\<exists>d. calculator_pack_into_slice c dst = Ok d \<and> length d = 32 \<and>
    calculator_unpack_from_slice (type_of_calculator c) d = Ok c"
  using assms by (cases c) (simp_all add: put_u64_def get_u64_def layout_simps)

lemma calculator_unpack_slice:
  assumes "length src = 32" "calculator_unpack_from_slice ct src = Ok c"
  shows "calculator_pack_into_slice c src = Ok src" "type_of_calculator c = ct"
proof -
  have "segment 0 8 src @ drop 8 src = src" by (simp add: segment_def)
  then show "calculator_pack_into_slice c src = Ok src" "type_of_calculator c = ct"
    using assms by (cases ct; auto simp: put_u64_def get_u64_def)+
qed

lemma calculator_unpack_no_panic: "length src = 32 \<Longrightarrow> calculator_unpack_from_slice ct src \<noteq> Panic"
  by (cases ct) (simp_all add: get_u64_def)

lemma curve_segments: "length src = 33 \<Longrightarrow> [src ! 0] @ segment 1 32 src = src"
  using concat_segments [of 0 "[1, 32]" src] by (simp add: segment_single)

interpretation curve_format: pack_format curve_LEN curve_unpack_from_slice curve_pack_into_slice
  "\<lambda>_. True" curve_wf
proof (unfold_locales, goal_cases)
  case (1 v dst)
  then have "length (segment 1 32 dst) = 32" by (simp add: curve_LEN_def)
  then obtain d where "calculator_pack_into_slice (calculator v) (segment 1 32 dst) = Ok d"
    "length d = 32" "calculator_unpack_from_slice (curve_type v) d = Ok (calculator v)"
    using calculator_pack_slice [of "segment 1 32 dst" "calculator v"] 1(1) by (auto simp: curve_wf_def)
  with 1 show ?case
    by (simp add: curve_LEN_def curve_unpack_from_slice_def curve_pack_into_slice_def layout_simps)
next
  case (2 src v)
  then have "length (segment 1 32 src) = 32" by (simp add: curve_LEN_def)
  with 2 curve_segments [of src] show ?case
    by (auto simp: curve_LEN_def curve_unpack_from_slice_def curve_pack_into_slice_def result_ok
        calculator_unpack_slice(1) curve_type_as_u8_try_from)
next
  case (3 src v)
  then show ?case
    by (auto simp: curve_LEN_def curve_unpack_from_slice_def curve_wf_def result_ok
        dest!: calculator_unpack_slice(2) [rotated])
next
  case (4 src)
  then have "length (segment 1 32 src) = 32" by (simp add: curve_LEN_def)
  with 4 show ?case
    by (auto simp: curve_LEN_def curve_unpack_from_slice_def bind_Panic_iff curve_type_try_from_def
        calculator_unpack_no_panic split: if_splits)
qed

lemma swap_segments:
  "length src = 323 \<Longrightarrow>
   [src ! 0] @ [src ! 1] @ segment 2 32 src @ segment 34 32 src @ segment 66 32 src
     @ segment 98 32 src @ segment 130 32 src @ segment 162 32 src @ segment 194 32 src
     @ segment 226 64 src @ segment 290 33 src = src"
  using concat_segments [of 0 "[1, 1, 32, 32, 32, 32, 32, 32, 32, 64, 33]" src]
  by (simp add: segment_single numeral_2_eq_2)

interpretation swap_format: pack_format swap_LEN swap_unpack_from_slice swap_pack_into_slice
  swap_is_initialized "\<lambda>s. curve_wf (swap_curve s)"
proof (unfold_locales, goal_cases)
  case (1 v dst)
  have "length (segment 226 64 dst) = fees_LEN" "length (segment 290 33 dst) = curve_LEN"
    using 1(2) by (simp_all add: swap_LEN_def fees_LEN_def curve_LEN_def)
  then obtain f c where f: "fees_pack_into_slice (swap_fees v) (segment 226 64 dst) = Ok f"
      "length f = 64" "fees_unpack_from_slice f = Ok (swap_fees v)"
    and c: "curve_pack_into_slice (swap_curve v) (segment 290 33 dst) = Ok c"
      "length c = 33" "curve_unpack_from_slice c = Ok (swap_curve v)"
    using fees_format.pack_slice [of "segment 226 64 dst" "swap_fees v"]
      curve_format.pack_slice [OF 1(1), of "segment 290 33 dst"]
    by (auto simp: fees_LEN_def curve_LEN_def)
  show ?case
    using 1(2) f c
    by (simp add: swap_LEN_def swap_unpack_from_slice_def swap_pack_into_slice_def layout_simps)
next
  case (2 src v)
  have "length (segment 226 64 src) = fees_LEN" "length (segment 290 33 src) = curve_LEN"
    using 2(1) by (simp_all add: swap_LEN_def fees_LEN_def curve_LEN_def)
  with 2 swap_segments [of src] show ?case
    by (auto simp: swap_LEN_def swap_unpack_from_slice_def swap_pack_into_slice_def result_ok
        fees_format.pack_unpack_slice curve_format.pack_unpack_slice bool_as_u8_unpack)
next
  case (3 src v)
  then show ?case
    by (auto simp: swap_LEN_def curve_LEN_def swap_unpack_from_slice_def result_ok
        dest!: curve_format.unpack_wf [rotated])
next
  case (4 src)
  have "length (segment 226 64 src) = fees_LEN" "length (segment 290 33 src) = curve_LEN"
    using 4 by (simp_all add: swap_LEN_def fees_LEN_def curve_LEN_def)
  with 4 show ?case
    by (auto simp: swap_LEN_def swap_unpack_from_slice_def bind_Panic_iff
        fees_format.unpack_no_panic curve_format.unpack_no_panic)
qed

text \<open>The account with its version byte, and the instructions, survive encoding and decoding.\<close>

lemma swap_version_roundtrip:
  assumes "curve_wf (swap_curve s)" "swap_is_initialized s" "length dst = LATEST_LEN"
  shows "\<exists>d. swap_version_pack s dst = Ok d \<and> length d = LATEST_LEN \<and> swap_version_unpack d = Ok s"
proof -
  obtain v rest where dst: "dst = v # rest" "length rest = swap_LEN"
    using assms(3) by (cases dst) (auto simp: LATEST_LEN_def)
  obtain d where "pack swap_LEN swap_pack_into_slice s rest = Ok d"
    using swap_format.pack_total [OF assms(1) dst(2)] by blast
  with swap_format.unpack_pack [OF this assms(1,2)] swap_format.pack_OkD [OF this assms(1)] dst
  show ?thesis by (auto simp: swap_version_pack_def swap_version_unpack_def LATEST_LEN_def)
qed

lemma swap_version_unpack_OkD:
  assumes "swap_version_unpack d = Ok s"
  shows "swap_is_initialized s" "curve_wf (swap_curve s)" "length d = LATEST_LEN" "hd d = 1"
  using assms
  by (auto simp: swap_version_unpack_def swap_format.unpack_Ok_iff LATEST_LEN_def
      swap_format.unpack_wf split: list.splits if_splits)

lemma swap_version_unpack_no_panic: "swap_version_unpack d \<noteq> Panic"
  using swap_format.unpack_never_panics by (auto simp: swap_version_unpack_def split: list.split)

lemma curve_eq_iff: "curve_wf x \<Longrightarrow> curve_wf y \<Longrightarrow> curve_eq x y \<longleftrightarrow> x = y"
  using curve_format.pack_slice [of x "replicate 33 0"] curve_format.pack_slice [of y "replicate 33 0"]
  by (auto simp: curve_eq_def curve_LEN_def)

fun wf_instruction :: "SwapInstruction \<Rightarrow> bool" where
  "wf_instruction (Initialize f c) = curve_wf c"
| "wf_instruction _ = True"

lemma swap_instruction_roundtrip:
  assumes "wf_instruction ix"
  shows "bind (swap_instruction_pack ix) swap_instruction_unpack = Ok ix"
proof (cases ix)
  case (Initialize f c)
  obtain fb where fb: "fees_pack_into_slice f (replicate fees_LEN 0) = Ok fb" "length fb = fees_LEN"
    "fees_unpack_from_slice fb = Ok f"
    using fees_format.pack_slice [of "replicate fees_LEN 0" f] by auto
  obtain cb where cb: "curve_pack_into_slice c (replicate curve_LEN 0) = Ok cb"
    "length cb = curve_LEN" "curve_unpack_from_slice cb = Ok c"
    using curve_format.pack_slice [of c "replicate curve_LEN 0"] assms Initialize by auto
  show ?thesis
    using Initialize fb cb
    by (simp add: swap_instruction_unpack_def unpack_initialize_def unpack_unchecked_def)
qed (simp_all add: swap_instruction_unpack_def unpack_two_def unpack_three_def swap_unpack_u64_def)

end
