(* ===== verification/Pda.thy ===== *)
theory Pda
  imports Sdk
begin

text \<open>
  Program derived addresses (\<open>sdk/program/src/pubkey.rs\<close>): keys off the curve that only a program
  can sign for. The hash and the curve test are third-party code and stay parameters; a digest is
  32 bytes, which is a key.
\<close>

datatype PubkeyError = MaxSeedLengthExceeded | InvalidSeeds | IllegalOwner

record crypto =
  sha256 :: "bytes \<Rightarrow> pubkey"
  bytes_are_curve_point :: "pubkey \<Rightarrow> bool"

definition MAX_SEED_LEN :: nat where
  "MAX_SEED_LEN = 32"

definition MAX_SEEDS :: nat where
  "MAX_SEEDS = 16"

text \<open>The bytes of \<open>ProgramDerivedAddress\<close>.\<close>

definition PDA_MARKER :: bytes where
  "PDA_MARKER = [80, 114, 111, 103, 114, 97, 109, 68, 101, 114, 105, 118, 101, 100, 65, 100, 100, 114,
     101, 115, 115]"

fun pubkey_error_into :: "PubkeyError \<Rightarrow> ProgramError" where
  "pubkey_error_into PubkeyError.MaxSeedLengthExceeded = ProgramError.MaxSeedLengthExceeded"
| "pubkey_error_into PubkeyError.InvalidSeeds = ProgramError.InvalidSeeds"
| "pubkey_error_into PubkeyError.IllegalOwner = ProgramError.IllegalOwner"

definition create_with_seed :: "crypto \<Rightarrow> pubkey \<Rightarrow> bytes \<Rightarrow> pubkey \<Rightarrow> (PubkeyError, pubkey) result" where
  "create_with_seed c base seed own =
     (if MAX_SEED_LEN < length seed then Err PubkeyError.MaxSeedLengthExceeded
      else if drop (32 - length PDA_MARKER) (pubkey_to_bytes own) = PDA_MARKER
      then Err PubkeyError.IllegalOwner
      else Ok (sha256 c (pubkey_to_bytes base @ seed @ pubkey_to_bytes own)))"

definition create_program_address ::
  "crypto \<Rightarrow> bytes list \<Rightarrow> pubkey \<Rightarrow> (PubkeyError, pubkey) result" where
  "create_program_address c seeds pid =
     (if MAX_SEEDS < length seeds then Err PubkeyError.MaxSeedLengthExceeded
      else if \<exists>seed\<in>set seeds. MAX_SEED_LEN < length seed then Err PubkeyError.MaxSeedLengthExceeded
      else let hash = sha256 c (concat seeds @ pubkey_to_bytes pid @ PDA_MARKER) in
        if bytes_are_curve_point c hash then Err PubkeyError.InvalidSeeds else Ok hash)"

text \<open>The loop over the bump seeds, from 255 down for the given number of rounds.\<close>

primrec find_loop ::
  "nat \<Rightarrow> crypto \<Rightarrow> bytes list \<Rightarrow> pubkey \<Rightarrow> u8 \<Rightarrow> (pubkey \<times> u8) option" where
  "find_loop 0 c seeds pid bump = None"
| "find_loop (Suc n) c seeds pid bump =
     (case create_program_address c (seeds @ [[bump]]) pid of
        Ok address \<Rightarrow> Some (address, bump)
      | Err PubkeyError.InvalidSeeds \<Rightarrow> find_loop n c seeds pid (bump - 1)
      | _ \<Rightarrow> None)"

definition try_find_program_address ::
  "crypto \<Rightarrow> bytes list \<Rightarrow> pubkey \<Rightarrow> (pubkey \<times> u8) option" where
  "try_find_program_address c seeds pid = find_loop 255 c seeds pid 255"

definition find_program_address ::
  "crypto \<Rightarrow> bytes list \<Rightarrow> pubkey \<Rightarrow> ('e, pubkey \<times> u8) result" where
  "find_program_address c seeds pid =
     (case try_find_program_address c seeds pid of Some r \<Rightarrow> Ok r | None \<Rightarrow> Panic)"

lemma u8_le: "x \<le> 255" for x :: u8
proof -
  have "unat x < 2 ^ 8" using unsigned_less [of x, where ?'a = nat] by simp
  then show ?thesis by (simp add: word_le_nat_alt)
qed

section \<open>What is found can be created, and is the first\<close>

lemma create_program_address_off_curve:
  "create_program_address c seeds pid = Ok a \<Longrightarrow> \<not> bytes_are_curve_point c a"
  by (auto simp: create_program_address_def Let_def split: if_splits)

lemma find_loop_Some:
  assumes "find_loop n c seeds pid bump = Some (a, b)" "n \<le> unat bump"
  shows "create_program_address c (seeds @ [[b]]) pid = Ok a \<and> b \<le> bump \<and>
    unat bump < unat b + n \<and>
    (\<forall>x. b < x \<and> x \<le> bump \<longrightarrow> create_program_address c (seeds @ [[x]]) pid = Err PubkeyError.InvalidSeeds)"
  using assms
proof (induction n arbitrary: bump)
  case (Suc n)
  show ?case
  proof (cases "create_program_address c (seeds @ [[bump]]) pid")
    case (Ok address)
    with Suc.prems(1) show ?thesis by auto
  next
    case (Err e)
    with Suc.prems(1) have e: "e = PubkeyError.InvalidSeeds"
      and f: "find_loop n c seeds pid (bump - 1) = Some (a, b)"
      by (auto split: PubkeyError.splits)
    have bump: "unat (bump - 1) = unat bump - 1" "1 \<le> unat bump"
      using Suc.prems(2) by (auto simp: unat_sub word_le_nat_alt)
    have "n \<le> unat (bump - 1)" using bump Suc.prems(2) by simp
    note IH = Suc.IH [OF f this]
    have "x \<le> bump - 1 \<or> x = bump" if "x \<le> bump" for x
      using that bump by (auto simp: word_le_nat_alt word_unat_eq_iff)
    with IH Err e bump show ?thesis by (auto simp: word_le_nat_alt word_less_nat_alt)
  next
    case Panic
    with Suc.prems(1) show ?thesis by simp
  qed
qed simp

lemma find_program_address_first:
  assumes "find_program_address c seeds pid = (Ok (a, b) :: ('e, pubkey \<times> u8) result)"
  shows "create_program_address c (seeds @ [[b]]) pid = Ok a" "1 \<le> b"
    "b < x \<Longrightarrow> create_program_address c (seeds @ [[x]]) pid = Err PubkeyError.InvalidSeeds"
proof -
  have "find_loop 255 c seeds pid 255 = Some (a, b)"
    using assms by (auto simp: find_program_address_def try_find_program_address_def split: option.splits)
  moreover have "(255 :: nat) \<le> unat (255 :: u8)" by simp
  ultimately have *: "create_program_address c (seeds @ [[b]]) pid = Ok a \<and> b \<le> 255 \<and>
      unat (255 :: u8) < unat b + 255 \<and> (\<forall>x. b < x \<and> x \<le> 255 \<longrightarrow>
        create_program_address c (seeds @ [[x]]) pid = Err PubkeyError.InvalidSeeds)"
    by (rule find_loop_Some)
  moreover have "x \<le> 255" by (simp add: u8_le)
  ultimately show "create_program_address c (seeds @ [[b]]) pid = Ok a" "1 \<le> b"
    "b < x \<Longrightarrow> create_program_address c (seeds @ [[x]]) pid = Err PubkeyError.InvalidSeeds"
    by (auto simp: word_le_nat_alt)
qed

text \<open>The search fails only when no bump seed from 1 gives an address.\<close>

lemma create_program_address_too_long:
  assumes "create_program_address c (seeds @ [[y]]) pid = Err e" "e \<noteq> PubkeyError.InvalidSeeds"
  shows "create_program_address c (seeds @ [[x]]) pid = Err e"
  using assms by (auto simp: create_program_address_def Let_def split: if_splits)

lemma create_program_address_no_panic: "create_program_address c seeds pid \<noteq> Panic"
  by (simp add: create_program_address_def Let_def)

lemma find_loop_None:
  assumes "find_loop n c seeds pid bump = None" "n \<le> unat bump" "x \<le> bump" "unat bump < unat x + n"
  shows "create_program_address c (seeds @ [[x]]) pid \<noteq> Ok a"
  using assms
proof (induction n arbitrary: bump)
  case (Suc n)
  show ?case
  proof (cases "create_program_address c (seeds @ [[bump]]) pid")
    case (Err e)
    show ?thesis
    proof (cases "e = PubkeyError.InvalidSeeds \<and> x \<noteq> bump")
      case True
      have bump: "unat (bump - 1) = unat bump - 1" "1 \<le> unat bump"
        using Suc.prems(2) by (auto simp: unat_sub word_le_nat_alt)
      show ?thesis
        using True Err bump Suc.prems
        by (intro Suc.IH [of "bump - 1"]) (auto simp: word_le_nat_alt word_unat_eq_iff)
    next
      case False
      with Err create_program_address_too_long [OF Err] show ?thesis by auto
    qed
  next
    case (Ok a')
    with Suc.prems(1) show ?thesis by simp
  next
    case Panic
    with create_program_address_no_panic [of c "seeds @ [[bump]]" pid] show ?thesis by simp
  qed
qed (simp add: word_le_nat_alt)

lemma find_program_address_Panic:
  assumes "find_program_address c seeds pid = (Panic :: ('e, pubkey \<times> u8) result)" "1 \<le> x"
  shows "create_program_address c (seeds @ [[x]]) pid \<noteq> Ok a"
proof -
  have "find_loop 255 c seeds pid 255 = None"
    using assms by (auto simp: find_program_address_def try_find_program_address_def split: option.splits)
  moreover have "x \<le> 255" by (simp add: u8_le)
  ultimately show ?thesis
    using assms(2) by (intro find_loop_None [of 255 c seeds pid 255]) (auto simp: word_le_nat_alt)
qed

end
