(* ===== verification/Swap_Processor.thy ===== *)
theory Swap_Processor
  imports Swap_State Pda Token_Processor
begin

text \<open>
  The handlers of the token swap program (\<open>token-swap/program/src/processor.rs\<close>). They move tokens
  by calling the token program through \<open>invoke_signed\<close>; what the runtime makes of such a call is a
  parameter here, the field of the record \<open>swap_host\<close>, and \<open>Swap_Calls\<close> says what is relied on.
  Parsing a base58 key is third-party code and a parameter too. Log messages are left out.
\<close>

record swap_host =
  swap_crypto :: crypto
  parse_pubkey :: "string \<Rightarrow> pubkey option"
  invoke_signed :: "ledger \<Rightarrow> Instruction \<Rightarrow> AccountInfo list \<Rightarrow> bytes list list \<Rightarrow> ledger program_result"

section \<open>Conversions\<close>

text \<open>\<open>to_u128\<close> cannot fail; it is the cast to 128 bits.\<close>

definition to_u64 :: "u128 \<Rightarrow> (SwapError, u64) result" where
  "to_u64 val = (if unat val < 2 ^ 64 then Ok (ucast val) else Err ConversionFailure)"

definition from_swap :: "(SwapError, 'a) result \<Rightarrow> 'a program_result" where
  "from_swap r = map_err swap_into_program_error r"

text \<open>\<open>.ok_or(e)?\<close> on an \<open>Option\<close> that a panic can interrupt.\<close>

definition or_else :: "'a outcome \<Rightarrow> SwapError \<Rightarrow> 'a program_result" where
  "or_else r e = map_err (\<lambda>_. swap_into_program_error e) r"

section \<open>Reading accounts\<close>

definition unpack_token_account :: "ledger \<Rightarrow> AccountInfo \<Rightarrow> pubkey \<Rightarrow> (SwapError, Account) result" where
  "unpack_token_account L i token_program =
     (if info_owner L i \<noteq> token_program then Err IncorrectTokenProgramId
      else map_err (\<lambda>_. ExpectedAccount) (account_unpack (info_data L i)))"

definition unpack_mint :: "ledger \<Rightarrow> AccountInfo \<Rightarrow> pubkey \<Rightarrow> (SwapError, Mint) result" where
  "unpack_mint L i token_program =
     (if info_owner L i \<noteq> token_program then Err IncorrectTokenProgramId
      else map_err (\<lambda>_. ExpectedMint) (mint_unpack (info_data L i)))"

definition authority_id :: "swap_host \<Rightarrow> pubkey \<Rightarrow> pubkey \<Rightarrow> u8 \<Rightarrow> (SwapError, pubkey) result" where
  "authority_id sh pid my_info bump =
     map_err (\<lambda>_. InvalidProgramAddress)
       (create_program_address (swap_crypto sh) [pubkey_to_bytes my_info, [bump]] pid)"

section \<open>Calls into the token program\<close>

definition authority_signature_seeds :: "pubkey \<Rightarrow> u8 \<Rightarrow> bytes list list" where
  "authority_signature_seeds swap bump = [[pubkey_to_bytes swap, [bump]]]"

definition token_burn ::
  "swap_host \<Rightarrow> ledger \<Rightarrow> pubkey \<Rightarrow> AccountInfo \<Rightarrow> AccountInfo \<Rightarrow> AccountInfo \<Rightarrow> AccountInfo \<Rightarrow> u8 \<Rightarrow> u64 \<Rightarrow>
   ledger program_result" where
  "token_burn sh L swap token_program burn_account mint authority bump amt =
     bind (burn (key token_program) (key burn_account) (key mint) (key authority) [] amt) (\<lambda>ix.
     invoke_signed sh L ix [burn_account, mint, authority, token_program]
       (authority_signature_seeds swap bump))"

definition token_mint_to ::
  "swap_host \<Rightarrow> ledger \<Rightarrow> pubkey \<Rightarrow> AccountInfo \<Rightarrow> AccountInfo \<Rightarrow> AccountInfo \<Rightarrow> AccountInfo \<Rightarrow> u8 \<Rightarrow> u64 \<Rightarrow>
   ledger program_result" where
  "token_mint_to sh L swap token_program mint destination authority bump amt =
     bind (mint_to (key token_program) (key mint) (key destination) (key authority) [] amt) (\<lambda>ix.
     invoke_signed sh L ix [mint, destination, authority, token_program]
       (authority_signature_seeds swap bump))"

definition token_transfer ::
  "swap_host \<Rightarrow> ledger \<Rightarrow> pubkey \<Rightarrow> AccountInfo \<Rightarrow> AccountInfo \<Rightarrow> AccountInfo \<Rightarrow> AccountInfo \<Rightarrow> u8 \<Rightarrow> u64 \<Rightarrow>
   ledger program_result" where
  "token_transfer sh L swap token_program source destination authority bump amt =
     bind (transfer (key token_program) (key source) (key destination) (key authority) [] amt) (\<lambda>ix.
     invoke_signed sh L ix [source, destination, authority, token_program]
       (authority_signature_seeds swap bump))"

definition check_accounts ::
  "swap_host \<Rightarrow> ledger \<Rightarrow> SwapV1 \<Rightarrow> pubkey \<Rightarrow> AccountInfo \<Rightarrow> AccountInfo \<Rightarrow> AccountInfo \<Rightarrow> AccountInfo \<Rightarrow>
   AccountInfo \<Rightarrow> AccountInfo \<Rightarrow> AccountInfo option \<Rightarrow> AccountInfo option \<Rightarrow> AccountInfo option \<Rightarrow>
   unit program_result" where
  "check_accounts sh L ts pid swap_info authority_info a_info b_info pool_mint_info
     token_program_info user_a_info user_b_info fee_info =
     (if info_owner L swap_info \<noteq> pid then Err IncorrectProgramId else
      bind (from_swap (authority_id sh pid (key swap_info) (bump_seed ts))) (\<lambda>authority.
      if key authority_info \<noteq> authority then swap_err InvalidProgramAddress else
      if key a_info \<noteq> token_a ts then swap_err IncorrectSwapAccount else
      if key b_info \<noteq> token_b ts then swap_err IncorrectSwapAccount else
      if key pool_mint_info \<noteq> pool_mint ts then swap_err IncorrectPoolMint else
      if key token_program_info \<noteq> token_program_id ts then swap_err IncorrectTokenProgramId else
      if (case user_a_info of Some i \<Rightarrow> key a_info = key i | None \<Rightarrow> False)
      then swap_err InvalidInput else
      if (case user_b_info of Some i \<Rightarrow> key b_info = key i | None \<Rightarrow> False)
      then swap_err InvalidInput else
      if (case fee_info of Some i \<Rightarrow> key i \<noteq> pool_fee_account ts | None \<Rightarrow> False)
      then swap_err IncorrectFeeAccount else
      Ok ()))"

section \<open>Creating a pool\<close>

definition check_constraints ::
  "swap_host \<Rightarrow> SwapConstraints option \<Rightarrow> Account \<Rightarrow> SwapCurve \<Rightarrow> Fees \<Rightarrow> unit program_result" where
  "check_constraints sh constraints fee_account cv f =
     (case constraints of
        Some sc \<Rightarrow>
          bind (ok_or (parse_pubkey sh (owner_key sc)) (swap_into_program_error InvalidOwner)) (\<lambda>k.
          if acct_owner fee_account \<noteq> k then swap_err InvalidOwner else
          bind (validate_curve sc cv) (\<lambda>_.
          validate_fees sc f))
      | None \<Rightarrow> Ok ())"

definition process_initialize ::
  "swap_host \<Rightarrow> pubkey \<Rightarrow> ledger \<Rightarrow> Fees \<Rightarrow> SwapCurve \<Rightarrow> AccountInfo list \<Rightarrow> SwapConstraints option \<Rightarrow>
   ledger program_result" where
  "process_initialize sh pid L f cv infos constraints =
     bind (next_account_info infos) (\<lambda>(swap_info, iter).
     bind (next_account_info iter) (\<lambda>(authority_info, iter).
     bind (next_account_info iter) (\<lambda>(a_info, iter).
     bind (next_account_info iter) (\<lambda>(b_info, iter).
     bind (next_account_info iter) (\<lambda>(pool_mint_info, iter).
     bind (next_account_info iter) (\<lambda>(fee_account_info, iter).
     bind (next_account_info iter) (\<lambda>(destination_info, iter).
     bind (next_account_info iter) (\<lambda>(token_program_info, iter).
     let token_program = key token_program_info in
     bind (swap_version_is_initialized (info_data L swap_info)) (\<lambda>in_use.
     if in_use then swap_err SwapError.AlreadyInUse else
     bind (find_program_address (swap_crypto sh) [pubkey_to_bytes (key swap_info)] pid)
       (\<lambda>(swap_authority, bump).
     if key authority_info \<noteq> swap_authority then swap_err InvalidProgramAddress else
     bind (from_swap (unpack_token_account L a_info token_program)) (\<lambda>a.
     bind (from_swap (unpack_token_account L b_info token_program)) (\<lambda>b.
     bind (from_swap (unpack_token_account L fee_account_info token_program)) (\<lambda>fee_account.
     bind (from_swap (unpack_token_account L destination_info token_program)) (\<lambda>destination.
     bind (from_swap (unpack_mint L pool_mint_info token_program)) (\<lambda>mint.
     if key authority_info \<noteq> acct_owner a then swap_err InvalidOwner else
     if key authority_info \<noteq> acct_owner b then swap_err InvalidOwner else
     if key authority_info = acct_owner destination then swap_err InvalidOutputOwner else
     if key authority_info = acct_owner fee_account then swap_err InvalidOutputOwner else
     if Some (key authority_info) \<noteq> mint_authority mint then swap_err InvalidOwner else
     if acct_mint a = acct_mint b then swap_err RepeatedMint else
     bind (from_swap (validate_supply (calculator cv) (amount a) (amount b))) (\<lambda>_.
     if delegate a \<noteq> None then swap_err InvalidDelegate else
     if delegate b \<noteq> None then swap_err InvalidDelegate else
     if close_authority a \<noteq> None then swap_err InvalidCloseAuthority else
     if close_authority b \<noteq> None then swap_err InvalidCloseAuthority else
     if mint_supply mint \<noteq> 0 then swap_err InvalidSupply else
     if freeze_authority mint \<noteq> None then swap_err InvalidFreezeAuthority else
     if key pool_mint_info \<noteq> acct_mint fee_account then swap_err IncorrectPoolMint else
     bind (check_constraints sh constraints fee_account cv f) (\<lambda>_.
     bind (from_swap (fees_validate f)) (\<lambda>_.
     bind (from_swap (calculator_validate (calculator cv))) (\<lambda>_.
     bind (from_swap (to_u64 (new_pool_supply (calculator cv)))) (\<lambda>initial_amount.
     bind (token_mint_to sh L (key swap_info) token_program_info pool_mint_info destination_info
             authority_info bump initial_amount) (\<lambda>L.
     bind (swap_version_pack
        \<lparr>swap_is_initialized = True, bump_seed = bump, token_program_id = token_program,
         token_a = key a_info, token_b = key b_info, pool_mint = key pool_mint_info,
         token_a_mint = acct_mint a, token_b_mint = acct_mint b,
         pool_fee_account = key fee_account_info, swap_fees = f, swap_curve = cv\<rparr>
        (info_data L swap_info)) (\<lambda>d.
     Ok (set_data L swap_info d)))))))))))))))))))))))"

section \<open>Trading\<close>

text \<open>
  The owner's share of a trade: pool tokens worth the owner fee are minted to the fee account, less
  the host's part when the instruction names a host account.
\<close>

definition pay_host_fee ::
  "swap_host \<Rightarrow> ledger \<Rightarrow> SwapV1 \<Rightarrow> AccountInfo \<Rightarrow> AccountInfo \<Rightarrow> AccountInfo \<Rightarrow> AccountInfo \<Rightarrow>
   AccountInfo list \<Rightarrow> u128 \<Rightarrow> (ledger \<times> u128) program_result" where
  "pay_host_fee sh L ts swap_info authority_info pool_mint_info token_program_info iter
     pool_token_amount =
     (case next_account_info iter of
        Ok (host_fee_account_info, _) \<Rightarrow>
          bind (from_swap (unpack_token_account L host_fee_account_info (token_program_id ts)))
            (\<lambda>host_fee_account.
          if key pool_mint_info \<noteq> acct_mint host_fee_account then swap_err IncorrectPoolMint else
          bind (or_else (host_fee (swap_fees ts) pool_token_amount) FeeCalculationFailure) (\<lambda>hfee.
          if 0 < hfee then
            bind (or_else (opt (checked_sub pool_token_amount hfee)) FeeCalculationFailure)
              (\<lambda>pool_token_amount.
            bind (from_swap (to_u64 hfee)) (\<lambda>amt.
            bind (token_mint_to sh L (key swap_info) token_program_info pool_mint_info
                    host_fee_account_info authority_info (bump_seed ts) amt) (\<lambda>L.
            Ok (L, pool_token_amount))))
          else Ok (L, pool_token_amount)))
      | _ \<Rightarrow> Ok (L, pool_token_amount))"

definition pay_owner_fee ::
  "swap_host \<Rightarrow> ledger \<Rightarrow> SwapV1 \<Rightarrow> AccountInfo \<Rightarrow> AccountInfo \<Rightarrow> AccountInfo \<Rightarrow> AccountInfo \<Rightarrow>
   AccountInfo \<Rightarrow> AccountInfo list \<Rightarrow> u128 \<Rightarrow> ledger program_result" where
  "pay_owner_fee sh L ts swap_info authority_info pool_mint_info fee_info token_program_info iter
     pool_token_amount =
     (if 0 < pool_token_amount then
        bind (pay_host_fee sh L ts swap_info authority_info pool_mint_info token_program_info iter
                pool_token_amount) (\<lambda>(L, pool_token_amount).
        bind (from_swap (to_u64 pool_token_amount)) (\<lambda>amt.
        token_mint_to sh L (key swap_info) token_program_info pool_mint_info fee_info authority_info
          (bump_seed ts) amt))
      else Ok L)"

definition direction_of :: "SwapV1 \<Rightarrow> pubkey \<Rightarrow> TradeDirection" where
  "direction_of ts swap_source = (if swap_source = token_a ts then AtoB else BtoA)"

definition process_swap ::
  "swap_host \<Rightarrow> pubkey \<Rightarrow> ledger \<Rightarrow> u64 \<Rightarrow> u64 \<Rightarrow> AccountInfo list \<Rightarrow> ledger program_result" where
  "process_swap sh pid L amount_in minimum_amount_out infos =
     bind (next_account_info infos) (\<lambda>(swap_info, iter).
     bind (next_account_info iter) (\<lambda>(authority_info, iter).
     bind (next_account_info iter) (\<lambda>(user_transfer_authority_info, iter).
     bind (next_account_info iter) (\<lambda>(source_info, iter).
     bind (next_account_info iter) (\<lambda>(swap_source_info, iter).
     bind (next_account_info iter) (\<lambda>(swap_destination_info, iter).
     bind (next_account_info iter) (\<lambda>(destination_info, iter).
     bind (next_account_info iter) (\<lambda>(pool_mint_info, iter).
     bind (next_account_info iter) (\<lambda>(pool_fee_account_info, iter).
     bind (next_account_info iter) (\<lambda>(token_program_info, iter).
     if info_owner L swap_info \<noteq> pid then Err IncorrectProgramId else
     bind (swap_version_unpack (info_data L swap_info)) (\<lambda>ts.
     bind (from_swap (authority_id sh pid (key swap_info) (bump_seed ts))) (\<lambda>authority.
     if key authority_info \<noteq> authority then swap_err InvalidProgramAddress else
     if \<not> (key swap_source_info = token_a ts \<or> key swap_source_info = token_b ts)
     then swap_err IncorrectSwapAccount else
     if \<not> (key swap_destination_info = token_a ts \<or> key swap_destination_info = token_b ts)
     then swap_err IncorrectSwapAccount else
     if key swap_source_info = key swap_destination_info then swap_err InvalidInput else
     if key swap_source_info = key source_info then swap_err InvalidInput else
     if key swap_destination_info = key destination_info then swap_err InvalidInput else
     if key pool_mint_info \<noteq> pool_mint ts then swap_err IncorrectPoolMint else
     if key pool_fee_account_info \<noteq> pool_fee_account ts then swap_err IncorrectFeeAccount else
     if key token_program_info \<noteq> token_program_id ts then swap_err IncorrectTokenProgramId else
     bind (from_swap (unpack_token_account L swap_source_info (token_program_id ts)))
       (\<lambda>source_account.
     bind (from_swap (unpack_token_account L swap_destination_info (token_program_id ts)))
       (\<lambda>dest_account.
     bind (from_swap (unpack_mint L pool_mint_info (token_program_id ts))) (\<lambda>mint.
     let trade_direction = direction_of ts (key swap_source_info) in
     bind (or_else (curve_swap (swap_curve ts) (ucast amount_in) (ucast (amount source_account))
             (ucast (amount dest_account)) trade_direction (swap_fees ts)) ZeroTradingTokens) (\<lambda>r.
     if res_destination_amount_swapped r < ucast minimum_amount_out
     then swap_err ExceededSlippage else
     let (swap_a, swap_b) = (case trade_direction of
         AtoB \<Rightarrow> (new_swap_source_amount r, new_swap_destination_amount r)
       | BtoA \<Rightarrow> (new_swap_destination_amount r, new_swap_source_amount r)) in
     bind (from_swap (to_u64 (res_source_amount_swapped r))) (\<lambda>amt.
     bind (token_transfer sh L (key swap_info) token_program_info source_info swap_source_info
             user_transfer_authority_info (bump_seed ts) amt) (\<lambda>L.
     bind (or_else (withdraw_single_token_type_exact_out (swap_curve ts) (owner_fee r) swap_a swap_b
             (ucast (mint_supply mint)) trade_direction (swap_fees ts)) FeeCalculationFailure)
       (\<lambda>pool_token_amount.
     bind (pay_owner_fee sh L ts swap_info authority_info pool_mint_info pool_fee_account_info
             token_program_info iter pool_token_amount) (\<lambda>L.
     bind (from_swap (to_u64 (res_destination_amount_swapped r))) (\<lambda>amt.
     token_transfer sh L (key swap_info) token_program_info swap_destination_info destination_info
       authority_info (bump_seed ts) amt)))))))))))))))))))))"

section \<open>Deposits and withdrawals of both sides\<close>

definition process_deposit_all_token_types ::
  "swap_host \<Rightarrow> pubkey \<Rightarrow> ledger \<Rightarrow> u64 \<Rightarrow> u64 \<Rightarrow> u64 \<Rightarrow> AccountInfo list \<Rightarrow> ledger program_result" where
  "process_deposit_all_token_types sh pid L pool_token_amount maximum_a maximum_b infos =
     bind (next_account_info infos) (\<lambda>(swap_info, iter).
     bind (next_account_info iter) (\<lambda>(authority_info, iter).
     bind (next_account_info iter) (\<lambda>(user_transfer_authority_info, iter).
     bind (next_account_info iter) (\<lambda>(source_a_info, iter).
     bind (next_account_info iter) (\<lambda>(source_b_info, iter).
     bind (next_account_info iter) (\<lambda>(a_info, iter).
     bind (next_account_info iter) (\<lambda>(b_info, iter).
     bind (next_account_info iter) (\<lambda>(pool_mint_info, iter).
     bind (next_account_info iter) (\<lambda>(dest_info, iter).
     bind (next_account_info iter) (\<lambda>(token_program_info, iter).
     bind (swap_version_unpack (info_data L swap_info)) (\<lambda>ts.
     let c = calculator (swap_curve ts) in
     if \<not> allows_deposits c then swap_err UnsupportedCurveOperation else
     bind (check_accounts sh L ts pid swap_info authority_info a_info b_info pool_mint_info
             token_program_info (Some source_a_info) (Some source_b_info) None) (\<lambda>_.
     bind (from_swap (unpack_token_account L a_info (token_program_id ts))) (\<lambda>a.
     bind (from_swap (unpack_token_account L b_info (token_program_id ts))) (\<lambda>b.
     bind (from_swap (unpack_mint L pool_mint_info (token_program_id ts))) (\<lambda>mint.
     let current_supply = ucast (mint_supply mint) :: u128;
         (pool_tokens, supply) =
           (if 0 < current_supply then (ucast pool_token_amount, current_supply)
            else (new_pool_supply c, new_pool_supply c)) in
     bind (or_else (pool_tokens_to_trading_tokens c pool_tokens supply (ucast (amount a))
             (ucast (amount b)) Ceiling) ZeroTradingTokens) (\<lambda>results.
     bind (from_swap (to_u64 (token_a_amount results))) (\<lambda>a_amount.
     if maximum_a < a_amount then swap_err ExceededSlippage else
     if a_amount = 0 then swap_err ZeroTradingTokens else
     bind (from_swap (to_u64 (token_b_amount results))) (\<lambda>b_amount.
     if maximum_b < b_amount then swap_err ExceededSlippage else
     if b_amount = 0 then swap_err ZeroTradingTokens else
     bind (from_swap (to_u64 pool_tokens)) (\<lambda>pool_tokens.
     bind (token_transfer sh L (key swap_info) token_program_info source_a_info a_info
             user_transfer_authority_info (bump_seed ts) a_amount) (\<lambda>L.
     bind (token_transfer sh L (key swap_info) token_program_info source_b_info b_info
             user_transfer_authority_info (bump_seed ts) b_amount) (\<lambda>L.
     token_mint_to sh L (key swap_info) token_program_info pool_mint_info dest_info authority_info
       (bump_seed ts) pool_tokens)))))))))))))))))))))"

text \<open>The fee on pool tokens, waived for the fee account, and its payment.\<close>

definition withdraw_fee_of ::
  "SwapV1 \<Rightarrow> AccountInfo \<Rightarrow> AccountInfo \<Rightarrow> u128 \<Rightarrow> u128 program_result" where
  "withdraw_fee_of ts fee_info source_info pool_tokens =
     (if key fee_info = key source_info then Ok 0
      else or_else (owner_withdraw_fee (swap_fees ts) pool_tokens) FeeCalculationFailure)"

definition pay_withdraw_fee ::
  "swap_host \<Rightarrow> ledger \<Rightarrow> SwapV1 \<Rightarrow> AccountInfo \<Rightarrow> AccountInfo \<Rightarrow> AccountInfo \<Rightarrow> AccountInfo \<Rightarrow>
   AccountInfo \<Rightarrow> u128 \<Rightarrow> ledger program_result" where
  "pay_withdraw_fee sh L ts swap_info token_program_info source_info fee_info
     user_transfer_authority_info fee =
     (if 0 < fee then
        bind (from_swap (to_u64 fee)) (\<lambda>amt.
        token_transfer sh L (key swap_info) token_program_info source_info fee_info
          user_transfer_authority_info (bump_seed ts) amt)
      else Ok L)"

definition process_withdraw_all_token_types ::
  "swap_host \<Rightarrow> pubkey \<Rightarrow> ledger \<Rightarrow> u64 \<Rightarrow> u64 \<Rightarrow> u64 \<Rightarrow> AccountInfo list \<Rightarrow> ledger program_result" where
  "process_withdraw_all_token_types sh pid L pool_token_amount minimum_a minimum_b infos =
     bind (next_account_info infos) (\<lambda>(swap_info, iter).
     bind (next_account_info iter) (\<lambda>(authority_info, iter).
     bind (next_account_info iter) (\<lambda>(user_transfer_authority_info, iter).
     bind (next_account_info iter) (\<lambda>(pool_mint_info, iter).
     bind (next_account_info iter) (\<lambda>(source_info, iter).
     bind (next_account_info iter) (\<lambda>(a_info, iter).
     bind (next_account_info iter) (\<lambda>(b_info, iter).
     bind (next_account_info iter) (\<lambda>(dest_a_info, iter).
     bind (next_account_info iter) (\<lambda>(dest_b_info, iter).
     bind (next_account_info iter) (\<lambda>(fee_info, iter).
     bind (next_account_info iter) (\<lambda>(token_program_info, iter).
     bind (swap_version_unpack (info_data L swap_info)) (\<lambda>ts.
     bind (check_accounts sh L ts pid swap_info authority_info a_info b_info pool_mint_info
             token_program_info (Some dest_a_info) (Some dest_b_info) (Some fee_info)) (\<lambda>_.
     bind (from_swap (unpack_token_account L a_info (token_program_id ts))) (\<lambda>a.
     bind (from_swap (unpack_token_account L b_info (token_program_id ts))) (\<lambda>b.
     bind (from_swap (unpack_mint L pool_mint_info (token_program_id ts))) (\<lambda>mint.
     bind (withdraw_fee_of ts fee_info source_info (ucast pool_token_amount)) (\<lambda>fee.
     bind (or_else (opt (checked_sub (ucast pool_token_amount) fee)) CalculationFailure)
       (\<lambda>pool_tokens.
     bind (or_else (pool_tokens_to_trading_tokens (calculator (swap_curve ts)) pool_tokens
             (ucast (mint_supply mint)) (ucast (amount a)) (ucast (amount b)) Floor)
           ZeroTradingTokens) (\<lambda>results.
     bind (from_swap (to_u64 (token_a_amount results))) (\<lambda>a_amount.
     let a_amount = min (amount a) a_amount in
     if a_amount < minimum_a then swap_err ExceededSlippage else
     if a_amount = 0 \<and> amount a \<noteq> 0 then swap_err ZeroTradingTokens else
     bind (from_swap (to_u64 (token_b_amount results))) (\<lambda>b_amount.
     let b_amount = min (amount b) b_amount in
     if b_amount < minimum_b then swap_err ExceededSlippage else
     if b_amount = 0 \<and> amount b \<noteq> 0 then swap_err ZeroTradingTokens else
     bind (pay_withdraw_fee sh L ts swap_info token_program_info source_info fee_info
             user_transfer_authority_info fee) (\<lambda>L.
     bind (from_swap (to_u64 pool_tokens)) (\<lambda>pool_tokens.
     bind (token_burn sh L (key swap_info) token_program_info source_info pool_mint_info
             user_transfer_authority_info (bump_seed ts) pool_tokens) (\<lambda>L.
     bind (if 0 < a_amount
           then token_transfer sh L (key swap_info) token_program_info a_info dest_a_info
                  authority_info (bump_seed ts) a_amount
           else Ok L) (\<lambda>L.
     if 0 < b_amount
     then token_transfer sh L (key swap_info) token_program_info b_info dest_b_info
            authority_info (bump_seed ts) b_amount
     else Ok L)))))))))))))))))))))))))"

section \<open>Deposits and withdrawals of one side\<close>

definition side_of :: "Account \<Rightarrow> Account \<Rightarrow> Account \<Rightarrow> TradeDirection program_result" where
  "side_of user a b =
     (if acct_mint user = acct_mint a then Ok AtoB
      else if acct_mint user = acct_mint b then Ok BtoA
      else swap_err IncorrectSwapAccount)"

definition process_deposit_single_token_type_exact_amount_in ::
  "swap_host \<Rightarrow> pubkey \<Rightarrow> ledger \<Rightarrow> u64 \<Rightarrow> u64 \<Rightarrow> AccountInfo list \<Rightarrow> ledger program_result" where
  "process_deposit_single_token_type_exact_amount_in sh pid L source_token_amount
     minimum_pool_token_amount infos =
     bind (next_account_info infos) (\<lambda>(swap_info, iter).
     bind (next_account_info iter) (\<lambda>(authority_info, iter).
     bind (next_account_info iter) (\<lambda>(user_transfer_authority_info, iter).
     bind (next_account_info iter) (\<lambda>(source_info, iter).
     bind (next_account_info iter) (\<lambda>(a_info, iter).
     bind (next_account_info iter) (\<lambda>(b_info, iter).
     bind (next_account_info iter) (\<lambda>(pool_mint_info, iter).
     bind (next_account_info iter) (\<lambda>(destination_info, iter).
     bind (next_account_info iter) (\<lambda>(token_program_info, iter).
     bind (swap_version_unpack (info_data L swap_info)) (\<lambda>ts.
     let c = calculator (swap_curve ts) in
     if \<not> allows_deposits c then swap_err UnsupportedCurveOperation else
     bind (from_swap (unpack_token_account L source_info (token_program_id ts))) (\<lambda>source_account.
     bind (from_swap (unpack_token_account L a_info (token_program_id ts))) (\<lambda>a.
     bind (from_swap (unpack_token_account L b_info (token_program_id ts))) (\<lambda>b.
     bind (side_of source_account a b) (\<lambda>trade_direction.
     let (source_a_info, source_b_info) = (case trade_direction of
         AtoB \<Rightarrow> (Some source_info, None) | BtoA \<Rightarrow> (None, Some source_info)) in
     bind (check_accounts sh L ts pid swap_info authority_info a_info b_info pool_mint_info
             token_program_info source_a_info source_b_info None) (\<lambda>_.
     bind (from_swap (unpack_mint L pool_mint_info (token_program_id ts))) (\<lambda>mint.
     let supply = ucast (mint_supply mint) :: u128 in
     bind (if 0 < supply
           then or_else (deposit_single_token_type (swap_curve ts) (ucast source_token_amount)
                  (ucast (amount a)) (ucast (amount b)) supply trade_direction (swap_fees ts))
                  ZeroTradingTokens
           else Ok (new_pool_supply c)) (\<lambda>pool_tokens.
     bind (from_swap (to_u64 pool_tokens)) (\<lambda>pool_tokens.
     if pool_tokens < minimum_pool_token_amount then swap_err ExceededSlippage else
     if pool_tokens = 0 then swap_err ZeroTradingTokens else
     bind (case trade_direction of
             AtoB \<Rightarrow> token_transfer sh L (key swap_info) token_program_info source_info a_info
                 user_transfer_authority_info (bump_seed ts) source_token_amount
           | BtoA \<Rightarrow> token_transfer sh L (key swap_info) token_program_info source_info b_info
                 user_transfer_authority_info (bump_seed ts) source_token_amount) (\<lambda>L.
     token_mint_to sh L (key swap_info) token_program_info pool_mint_info destination_info
       authority_info (bump_seed ts) pool_tokens)))))))))))))))))))"

definition process_withdraw_single_token_type_exact_amount_out ::
  "swap_host \<Rightarrow> pubkey \<Rightarrow> ledger \<Rightarrow> u64 \<Rightarrow> u64 \<Rightarrow> AccountInfo list \<Rightarrow> ledger program_result" where
  "process_withdraw_single_token_type_exact_amount_out sh pid L destination_token_amount
     maximum_pool_token_amount infos =
     bind (next_account_info infos) (\<lambda>(swap_info, iter).
     bind (next_account_info iter) (\<lambda>(authority_info, iter).
     bind (next_account_info iter) (\<lambda>(user_transfer_authority_info, iter).
     bind (next_account_info iter) (\<lambda>(pool_mint_info, iter).
     bind (next_account_info iter) (\<lambda>(source_info, iter).
     bind (next_account_info iter) (\<lambda>(a_info, iter).
     bind (next_account_info iter) (\<lambda>(b_info, iter).
     bind (next_account_info iter) (\<lambda>(destination_info, iter).
     bind (next_account_info iter) (\<lambda>(fee_info, iter).
     bind (next_account_info iter) (\<lambda>(token_program_info, iter).
     bind (swap_version_unpack (info_data L swap_info)) (\<lambda>ts.
     bind (from_swap (unpack_token_account L destination_info (token_program_id ts)))
       (\<lambda>destination_account.
     bind (from_swap (unpack_token_account L a_info (token_program_id ts))) (\<lambda>a.
     bind (from_swap (unpack_token_account L b_info (token_program_id ts))) (\<lambda>b.
     bind (side_of destination_account a b) (\<lambda>trade_direction.
     let (destination_a_info, destination_b_info) = (case trade_direction of
         AtoB \<Rightarrow> (Some destination_info, None) | BtoA \<Rightarrow> (None, Some destination_info)) in
     bind (check_accounts sh L ts pid swap_info authority_info a_info b_info pool_mint_info
             token_program_info destination_a_info destination_b_info (Some fee_info)) (\<lambda>_.
     bind (from_swap (unpack_mint L pool_mint_info (token_program_id ts))) (\<lambda>mint.
     bind (or_else (withdraw_single_token_type_exact_out (swap_curve ts)
             (ucast destination_token_amount) (ucast (amount a)) (ucast (amount b))
             (ucast (mint_supply mint)) trade_direction (swap_fees ts)) ZeroTradingTokens)
       (\<lambda>burn_amount.
     bind (withdraw_fee_of ts fee_info source_info burn_amount) (\<lambda>fee.
     bind (or_else (opt (checked_add burn_amount fee)) CalculationFailure) (\<lambda>pool_tokens.
     bind (from_swap (to_u64 pool_tokens)) (\<lambda>total.
     if maximum_pool_token_amount < total then swap_err ExceededSlippage else
     if pool_tokens = 0 then swap_err ZeroTradingTokens else
     bind (pay_withdraw_fee sh L ts swap_info token_program_info source_info fee_info
             user_transfer_authority_info fee) (\<lambda>L.
     bind (from_swap (to_u64 burn_amount)) (\<lambda>burn_amount.
     bind (token_burn sh L (key swap_info) token_program_info source_info pool_mint_info
             user_transfer_authority_info (bump_seed ts) burn_amount) (\<lambda>L.
     case trade_direction of
       AtoB \<Rightarrow> token_transfer sh L (key swap_info) token_program_info a_info destination_info
           authority_info (bump_seed ts) destination_token_amount
     | BtoA \<Rightarrow> token_transfer sh L (key swap_info) token_program_info b_info destination_info
           authority_info (bump_seed ts) destination_token_amount))))))))))))))))))))))))"

section \<open>Dispatch\<close>

definition process_with_constraints ::
  "swap_host \<Rightarrow> pubkey \<Rightarrow> ledger \<Rightarrow> AccountInfo list \<Rightarrow> bytes \<Rightarrow> SwapConstraints option \<Rightarrow>
   ledger program_result" where
  "process_with_constraints sh pid L infos input constraints =
     bind (swap_instruction_unpack input) (\<lambda>ix.
     case ix of
       Initialize f cv \<Rightarrow> process_initialize sh pid L f cv infos constraints
     | Swap amount_in minimum_amount_out \<Rightarrow> process_swap sh pid L amount_in minimum_amount_out infos
     | DepositAllTokenTypes n a b \<Rightarrow> process_deposit_all_token_types sh pid L n a b infos
     | WithdrawAllTokenTypes n a b \<Rightarrow> process_withdraw_all_token_types sh pid L n a b infos
     | DepositSingleTokenTypeExactAmountIn n m \<Rightarrow>
         process_deposit_single_token_type_exact_amount_in sh pid L n m infos
     | WithdrawSingleTokenTypeExactAmountOut n m \<Rightarrow>
         process_withdraw_single_token_type_exact_amount_out sh pid L n m infos)"

end
