(* ===== verification/Swap_Curve_Facts.thy ===== *)
theory Swap_Curve_Facts
  imports Swap_Curve Math_Facts
begin

text \<open>
  What the curves promise. A trade takes at most what is offered and never lowers the value of the
  pool, for every curve that has a closed form; conversions between pool tokens and trading tokens
  round in favour of the pool; validated fees never exceed the amount they are taken from.
\<close>

section \<open>Widening\<close>

lemma unat_u64_u128 [simp]: "unat (ucast x :: u128) = unat x" for x :: u64
proof -
  have "unat x < 2 ^ 64" using unsigned_less [of x] by simp
  then show ?thesis by (simp add: unsigned_ucast_eq take_bit_nat_eq_self)
qed

lemma unat_u64_u256 [simp]: "unat (ucast x :: u256) = unat x" for x :: u64
proof -
  have "unat x < 2 ^ 64" using unsigned_less [of x] by simp
  then show ?thesis by (simp add: unsigned_ucast_eq take_bit_nat_eq_self)
qed

lemma u128_less: "unat x < 2 ^ 128" for x :: u128
  using unsigned_less [of x] by simp

lemma u64_less: "unat x < 2 ^ 64" for x :: u64
  using unsigned_less [of x] by simp

lemma map_zero_to_none_Some_iff: "map_zero_to_none x = Some y \<longleftrightarrow> x = y \<and> x \<noteq> 0"
  by (auto simp: map_zero_to_none_def)

lemmas curve_ok = result_ok checked_Some_iff checked_rem_Some_iff map_zero_to_none_Some_iff

section \<open>The constant product\<close>

text \<open>The reserve that keeps the product is at least the old one when fewer tokens remain outside.\<close>

lemma ceil_div_ge_left:
  assumes "q \<le> d" "0 < q"
  shows "s \<le> ceil_div (s * d) q"
proof -
  have "s * q \<le> s * d" using assms(1) by simp
  also have "\<dots> \<le> ceil_div (s * d) q * q" by (rule ceil_div_ge [OF assms(2)])
  finally show ?thesis using assms(2) by simp
qed

lemma constant_product_swap_Ok_iff:
  "constant_product_swap n s d = Ok r \<longleftrightarrow>
     unat s * unat d < 2 ^ 128 \<and> unat s + unat n < 2 ^ 128 \<and> 0 < unat s + unat n \<and>
     unat s + unat n \<le> unat s * unat d \<and> ceil_div (unat s * unat d) (unat s + unat n) < unat d \<and>
     unat (source_amount_swapped r) =
       ceil_div (unat s * unat d) (ceil_div (unat s * unat d) (unat s + unat n)) - unat s \<and>
     unat (destination_amount_swapped r) =
       unat d - ceil_div (unat s * unat d) (unat s + unat n)" (is "?L \<longleftrightarrow> ?R")
proof
  assume ?L
  then obtain inv ns q rr x y :: u128 where *: "unat inv = unat s * unat d" "unat ns = unat s + unat n"
    "checked_ceil_div inv ns = Ok (q, rr)" "unat s \<le> unat rr" "unat x = unat rr - unat s"
    "unat q \<le> unat d" "unat y = unat d - unat q" "y \<noteq> 0"
    "r = \<lparr>source_amount_swapped = x, destination_amount_swapped = y\<rparr>"
    unfolding constant_product_swap_def by (auto simp: curve_ok)
  then show ?R
    using u128_less [of inv] u128_less [of ns]
    by (auto simp: checked_ceil_div_Ok_iff word_le_nat_alt unat_gt_0 [symmetric] simp del: unat_gt_0)
next
  assume R: ?R
  let ?inv = "unat s * unat d" and ?ns = "unat s + unat n"
  let ?q = "ceil_div ?inv ?ns" and ?rr = "ceil_div ?inv (ceil_div ?inv ?ns)"
  have q: "0 < ?q" using R by (intro ceil_div_pos) auto
  have rr: "?rr \<le> ?inv" "unat s \<le> ?rr" using q R by (auto intro: ceil_div_self_le ceil_div_ge_left)
  have w: "unat (of_nat m :: u128) = m" if "m < 2 ^ 128" for m
    using that by (simp add: unsigned_of_nat take_bit_nat_eq_self)
  have less: "?q < 2 ^ 128" "?rr < 2 ^ 128"
    using R rr(1) u128_less [of d] by linarith+
  have ceil: "checked_ceil_div (of_nat ?inv :: u128) (of_nat ?ns) = Ok (of_nat ?q, of_nat ?rr)"
    using R less by (simp add: checked_ceil_div_Ok_iff w word_le_nat_alt unat_gt_0 [symmetric]
        del: unat_gt_0 of_nat_mult of_nat_add)
  have "checked_mul s d = Some (of_nat ?inv)" "checked_add s n = Some (of_nat ?ns)"
    using R by (simp_all add: checked_Some_iff w del: of_nat_mult of_nat_add)
  moreover have "checked_sub (of_nat ?rr) s = Some (source_amount_swapped r)"
    "checked_sub d (of_nat ?q) = Some (destination_amount_swapped r)"
    using R less rr(2) by (simp_all add: checked_Some_iff w)
  moreover have "map_zero_to_none (destination_amount_swapped r) = Some (destination_amount_swapped r)"
    using R by (auto simp: map_zero_to_none_def)
  ultimately show ?L using ceil by (simp add: constant_product_swap_def del: of_nat_mult of_nat_add)
qed

text \<open>The product of the reserves never falls, and no more is taken than was offered.\<close>

lemma constant_product_swap_value:
  assumes "constant_product_swap n s d = Ok r"
  shows "unat (source_amount_swapped r) \<le> unat n" "unat (destination_amount_swapped r) \<le> unat d"
    "unat s * unat d \<le>
      (unat s + unat (source_amount_swapped r)) * (unat d - unat (destination_amount_swapped r))"
proof -
  let ?inv = "unat s * unat d" and ?ns = "unat s + unat n"
  let ?q = "ceil_div ?inv ?ns" and ?rr = "ceil_div ?inv (ceil_div ?inv ?ns)"
  have r: "0 < ?ns" "?ns \<le> ?inv" "?q < unat d" "unat (source_amount_swapped r) = ?rr - unat s"
    "unat (destination_amount_swapped r) = unat d - ?q"
    using assms by (simp_all add: constant_product_swap_Ok_iff)
  have q: "0 < ?q" using r by (intro ceil_div_pos)
  have "?inv \<le> ?ns * ?q" using ceil_div_ge [OF r(1), of ?inv] by (simp add: mult.commute)
  then have "?rr \<le> ?ns" by (rule ceil_div_le [OF q])
  then show "unat (source_amount_swapped r) \<le> unat n" using r(4) by simp
  show "unat (destination_amount_swapped r) \<le> unat d" using r(5) by simp
  have "unat s \<le> ?rr" using q r(3) by (intro ceil_div_ge_left) auto
  then have "unat s + unat (source_amount_swapped r) = ?rr" using r(4) by simp
  moreover have "unat d - unat (destination_amount_swapped r) = ?q" using r(3,5) by simp
  ultimately show "?inv \<le> (unat s + unat (source_amount_swapped r)) *
      (unat d - unat (destination_amount_swapped r))"
    using ceil_div_ge [OF q, of ?inv] by simp
qed

section \<open>The other closed forms\<close>

lemma constant_price_swap_exact:
  assumes "constant_price_swap_without_fees p n dir = Ok r"
  shows "case dir of
      AtoB \<Rightarrow> unat (source_amount_swapped r) = unat p * unat (destination_amount_swapped r) \<and>
        unat (destination_amount_swapped r) = unat n div unat p
    | BtoA \<Rightarrow> unat (source_amount_swapped r) = unat n \<and>
        unat (destination_amount_swapped r) = unat n * unat p"
proof (cases dir)
  case BtoA
  with assms show ?thesis
    by (auto simp: constant_price_swap_without_fees_def Let_def curve_ok)
next
  case AtoB
  obtain m x :: u128 where *: "unat m = unat n mod unat p"
    "unat (destination_amount_swapped r) = unat n div unat p"
    "(if 0 < m then opt (checked_sub n m) else Ok n) = Ok x" "source_amount_swapped r = x"
    using assms AtoB by (auto simp: constant_price_swap_without_fees_def Let_def curve_ok)
  have "unat x = unat n - unat m"
    using *(3) by (cases "m = 0") (auto simp: curve_ok word_gt_0)
  with * AtoB show ?thesis by (simp add: minus_mod_eq_mult_div)
qed

text \<open>
  What a pool is worth on the curves with a closed form, as the side that is sold to the pool and
  the side that is bought from it.
\<close>

fun worth :: "calculator \<Rightarrow> TradeDirection \<Rightarrow> nat \<Rightarrow> nat \<Rightarrow> nat" where
  "worth ConstantProductCurve dir s d = s * d"
| "worth (ConstantPriceCurve p) AtoB s d = s + unat p * d"
| "worth (ConstantPriceCurve p) BtoA s d = unat p * s + d"
| "worth (OffsetCurve off) AtoB s d = s * (d + unat off)"
| "worth (OffsetCurve off) BtoA s d = (s + unat off) * d"

definition closed_form :: "calculator \<Rightarrow> bool" where
  "closed_form c = (case c of StableCurve k \<Rightarrow> False | _ \<Rightarrow> True)"

section \<open>The contract of a curve\<close>

text \<open>
  A curve never takes more than is offered and never lowers what the pool is worth; more tokens on
  the side that is sold never make it worth less.
\<close>

lemma curve_swapE:
  assumes "curve_swap cv n s d dir fees = Ok r"
  obtains total less :: u128 and w where "trading_fee fees n = Ok (trade_fee r)"
    "owner_trading_fee fees n = Ok (owner_fee r)"
    "unat total = unat (trade_fee r) + unat (owner_fee r)" "unat total \<le> unat n"
    "unat less = unat n - unat total" "swap_without_fees (calculator cv) less s d dir = Ok w"
    "unat (res_source_amount_swapped r) = unat (source_amount_swapped w) + unat total"
    "unat (new_swap_source_amount r) = unat s + unat (res_source_amount_swapped r)"
    "res_destination_amount_swapped r = destination_amount_swapped w"
    "unat (destination_amount_swapped w) \<le> unat d"
    "unat (new_swap_destination_amount r) = unat d - unat (destination_amount_swapped w)"
  using assms unfolding curve_swap_def by (auto simp: curve_ok)

locale curve_contract =
  fixes c :: calculator and value_of :: "TradeDirection \<Rightarrow> nat \<Rightarrow> nat \<Rightarrow> nat"
  assumes swap_takes:
      "swap_without_fees c n s d dir = Ok r \<Longrightarrow> unat (source_amount_swapped r) \<le> unat n"
    and swap_value:
      "swap_without_fees c n s d dir = Ok r \<Longrightarrow> unat (destination_amount_swapped r) \<le> unat d \<Longrightarrow>
       value_of dir (unat s) (unat d) \<le> value_of dir (unat s + unat (source_amount_swapped r))
         (unat d - unat (destination_amount_swapped r))"
    and value_mono: "a \<le> a' \<Longrightarrow> value_of dir a b \<le> value_of dir a' b"
begin

lemma curve_swap_value:
  assumes "curve_swap cv n s d dir fees = Ok r" "calculator cv = c"
  shows "value_of dir (unat s) (unat d) \<le>
      value_of dir (unat (new_swap_source_amount r)) (unat (new_swap_destination_amount r))"
    and "unat (res_source_amount_swapped r) \<le> unat n"
proof -
  obtain total less :: u128 and w where *: "unat total \<le> unat n" "unat less = unat n - unat total"
    "swap_without_fees c less s d dir = Ok w"
    "unat (res_source_amount_swapped r) = unat (source_amount_swapped w) + unat total"
    "unat (new_swap_source_amount r) = unat s + unat (res_source_amount_swapped r)"
    "unat (destination_amount_swapped w) \<le> unat d"
    "unat (new_swap_destination_amount r) = unat d - unat (destination_amount_swapped w)"
    using assms(2) curve_swapE [OF assms(1)] by metis
  have "value_of dir (unat s) (unat d) \<le> value_of dir (unat s + unat (source_amount_swapped w))
      (unat d - unat (destination_amount_swapped w))"
    using swap_value [OF *(3,6)] .
  also have "\<dots> \<le> value_of dir (unat (new_swap_source_amount r)) (unat (new_swap_destination_amount r))"
    unfolding *(7) using *(4,5) by (intro value_mono) simp
  finally show "value_of dir (unat s) (unat d) \<le>
      value_of dir (unat (new_swap_source_amount r)) (unat (new_swap_destination_amount r))" .
  show "unat (res_source_amount_swapped r) \<le> unat n" using swap_takes [OF *(3)] * by simp
qed

end

interpretation product_curve: curve_contract ConstantProductCurve "worth ConstantProductCurve"
  using constant_product_swap_value by unfold_locales auto

interpretation price_curve: curve_contract "ConstantPriceCurve p" "worth (ConstantPriceCurve p)" for p
proof (unfold_locales, goal_cases)
  case (1 n s d dir r)
  then show ?case
    using constant_price_swap_exact [of p n dir r]
    by (cases dir) (auto simp: mult.commute [of "unat p"])
next
  case (2 n s d dir r)
  then show ?case
    using constant_price_swap_exact [of p n dir r]
    by (cases dir) (auto simp: algebra_simps diff_mult_distrib2)
next
  case (3 a a' dir b)
  then show ?case by (cases dir) simp_all
qed

interpretation offset_curve: curve_contract "OffsetCurve off" "worth (OffsetCurve off)" for off
proof (unfold_locales, goal_cases)
  case (1 n s d dir r)
  then show ?case
    by (cases dir) (auto simp: offset_swap_without_fees_def curve_ok dest: constant_product_swap_value(1))
next
  case (2 n s d dir r)
  then show ?case
  proof (cases dir)
    case AtoB
    with 2 obtain d' where d': "unat d' = unat d + unat off" "constant_product_swap n s d' = Ok r"
      by (auto simp: offset_swap_without_fees_def curve_ok)
    show ?thesis using constant_product_swap_value(3) [OF d'(2)] d'(1) 2(2) AtoB
      by (simp add: algebra_simps)
  next
    case BtoA
    with 2 obtain s' where s': "unat s' = unat s + unat off" "constant_product_swap n s' d = Ok r"
      by (auto simp: offset_swap_without_fees_def curve_ok)
    show ?thesis using constant_product_swap_value(3) [OF s'(2)] s'(1) BtoA
      by (simp add: algebra_simps)
  qed
next
  case (3 a a' dir b)
  then show ?case by (cases dir) simp_all
qed

lemma curve_swap_worth:
  assumes "curve_swap cv n s d dir fees = Ok r" "closed_form (calculator cv)"
  shows "worth (calculator cv) dir (unat s) (unat d) \<le>
      worth (calculator cv) dir (unat (new_swap_source_amount r)) (unat (new_swap_destination_amount r))"
    and "unat (res_source_amount_swapped r) \<le> unat n"
  using assms product_curve.curve_swap_value [OF assms(1)] price_curve.curve_swap_value [OF assms(1)]
    offset_curve.curve_swap_value [OF assms(1)]
  by (auto simp: closed_form_def split: calculator.splits)

section \<open>Fees\<close>

definition fee_of :: "nat \<Rightarrow> nat \<Rightarrow> nat \<Rightarrow> nat" where
  "fee_of n num den = (if num = 0 \<or> n = 0 then 0 else max 1 (n * num div den))"

lemma validate_fraction_Ok_iff:
  "validate_fraction num den = Ok () \<longleftrightarrow> num < den \<or> num = 0 \<and> den = 0"
  by (auto simp: validate_fraction_def not_less)

lemma fee_of_le:
  assumes "num < den \<or> num = 0"
  shows "fee_of n num den \<le> n"
proof -
  have "n * num div den \<le> n * den div den" if "num < den"
    using that by (intro div_le_mono mult_le_mono2) simp
  with assms show ?thesis by (auto simp: fee_of_def)
qed

text \<open>On amounts of 64 bits a validated fee is always computed, and never exceeds the amount.\<close>

lemma calculate_fee_exact:
  fixes num den :: u64
  assumes "validate_fraction num den = Ok ()" "unat n < 2 ^ 64"
  shows "\<exists>fee. calculate_fee n (ucast num) (ucast den) = Ok fee \<and>
    unat fee = fee_of (unat n) (unat num) (unat den) \<and> unat fee \<le> unat n"
proof (cases "num = 0 \<or> n = 0")
  case True
  then have "calculate_fee n (ucast num) (ucast den) = Ok 0" by (auto simp: calculate_fee_def)
  with True show ?thesis by (auto simp: fee_of_def)
next
  case False
  then have den: "num < den" using assms(1) by (auto simp: validate_fraction_Ok_iff)
  have "unat n * unat num < 2 ^ 64 * 2 ^ 64"
    using assms(2) u64_less [of num] by (intro mult_strict_mono) auto
  then have less: "unat n * unat num < 2 ^ 128" by simp
  define m where "m = n * ucast num"
  have m: "checked_mul n (ucast num) = Some m" "unat m = unat n * unat num"
    using less by (simp_all add: m_def checked_mul_def unat_word_ariths)
  have "(ucast den :: u128) \<noteq> 0" using den by (auto simp: word_unat_eq_iff word_less_nat_alt)
  moreover have "(ucast num :: u128) \<noteq> 0" using False by (simp add: word_unat_eq_iff)
  ultimately have "calculate_fee n (ucast num) (ucast den) =
      Ok (if m div ucast den = 0 then 1 else m div ucast den)"
    using False m(1) by (simp add: calculate_fee_def checked_div_def)
  moreover have "unat (m div ucast den) = unat n * unat num div unat den" by (simp add: unat_div m(2))
  then have "unat (if m div ucast den = 0 then 1 else m div ucast den :: u128) =
      fee_of (unat n) (unat num) (unat den)"
    using False by (auto simp: fee_of_def word_unat_eq_iff max_def)
  ultimately show ?thesis
    using fee_of_le [of "unat num" "unat den" "unat n"] den by (auto simp: word_less_nat_alt)
qed

lemma fees_validate_Ok_iff:
  "fees_validate f = Ok () \<longleftrightarrow>
     validate_fraction (trade_fee_numerator f) (trade_fee_denominator f) = Ok () \<and>
     validate_fraction (owner_trade_fee_numerator f) (owner_trade_fee_denominator f) = Ok () \<and>
     validate_fraction (owner_withdraw_fee_numerator f) (owner_withdraw_fee_denominator f) = Ok () \<and>
     validate_fraction (host_fee_numerator f) (host_fee_denominator f) = Ok ()"
  by (simp add: fees_validate_def curve_ok)

section \<open>Pool tokens\<close>

lemma pool_ratio_Ok_iff:
  "pool_ratio n S x = Ok q \<longleftrightarrow> S \<noteq> 0 \<and> unat n * unat x < 2 ^ 128 \<and> unat q = unat n * unat x div unat S"
proof
  assume "pool_ratio n S x = Ok q"
  then obtain m :: u128 where "unat m = unat n * unat x" "S \<noteq> 0" "unat q = unat m div unat S"
    by (auto simp: pool_ratio_def curve_ok)
  with u128_less [of m] show "S \<noteq> 0 \<and> unat n * unat x < 2 ^ 128 \<and> unat q = unat n * unat x div unat S"
    by simp
next
  assume *: "S \<noteq> 0 \<and> unat n * unat x < 2 ^ 128 \<and> unat q = unat n * unat x div unat S"
  then have "checked_mul n x = Some (n * x)" "unat (n * x) = unat n * unat x"
    by (simp_all add: checked_mul_def unat_word_ariths)
  with * show "pool_ratio n S x = Ok q"
    by (simp add: pool_ratio_def opt_Ok_iff checked_div_Some_iff del: unat_mult_lem)
qed

text \<open>Rounding up never overflows.\<close>

lemma pool_ratio_ceiling_Ok:
  assumes "pool_ratio n S x = Ok q" "pool_ratio_ceiling n S x q = Ok q'"
  shows "unat q' = (if q = 0 then 0 else ceil_div (unat n * unat x) (unat S))"
proof -
  have S: "S \<noteq> 0" "unat q = unat n * unat x div unat S" using assms(1) by (simp_all add: pool_ratio_Ok_iff)
  obtain rem :: u128 where rem: "unat rem = unat n * unat x mod unat S"
    "q' = (if 0 < rem \<and> 0 < q then q + 1 else q)"
    using assms(2) by (auto simp: pool_ratio_ceiling_def curve_ok)
  have "unat (q + 1) = unat q + 1" if "0 < rem"
  proof -
    have "unat S \<noteq> 1" using that rem(1) by (auto simp: word_gt_0 word_unat_eq_iff)
    then have "2 \<le> unat S" using S(1) by (metis One_nat_def Suc_leI less_Suc_eq_le less_one linorder_neqE_nat
          numeral_2_eq_2 unat_gt_0 word_gt_0)
    then have "unat q \<le> unat n * unat x div 2" unfolding S(2) by (rule div_le_mono2 [rotated]) simp
    also have "\<dots> < 2 ^ 127"
      using assms(1) by (simp add: pool_ratio_Ok_iff less_mult_imp_div_less)
    finally show ?thesis by (simp add: unat_word_ariths)
  qed
  then show ?thesis
    using rem S by (auto simp: ceil_div_def word_gt_0 unat_eq_zero [symmetric] simp del: unat_eq_zero)
qed

text \<open>
  Withdrawing rounds down and depositing rounds up: what one pool token stands for never falls,
  on either side of the pool.
\<close>

lemma floor_favours_pool:
  assumes "t = n * x div S" "n \<le> S" "0 < (S :: nat)"
  shows "x * (S - n) \<le> (x - t) * S" "t \<le> x"
proof -
  have "t * S \<le> n * x" unfolding assms(1) by (simp add: div_times_less_eq_dividend)
  then show "x * (S - n) \<le> (x - t) * S" by (simp add: diff_mult_distrib diff_mult_distrib2 mult.commute)
  have "t \<le> S * x div S" unfolding assms(1) using assms(2) by (intro div_le_mono mult_le_mono1)
  then show "t \<le> x" using assms(3) by simp
qed

lemma ceiling_favours_pool:
  assumes "t = ceil_div (n * x) S" "0 < (S :: nat)"
  shows "x * (S + n) \<le> (x + t) * S"
  using ceil_div_ge [OF assms(2), of "n * x"] unfolding assms(1) by (simp add: algebra_simps)

lemma ratio_pool_tokens_Floor:
  assumes "ratio_pool_tokens n S a b Floor = Ok r"
  shows "0 < unat S" "unat (token_a_amount r) = unat n * unat a div unat S"
    "unat (token_b_amount r) = unat n * unat b div unat S"
  using assms by (auto simp: ratio_pool_tokens_def result_ok pool_ratio_Ok_iff unat_gt_0)

lemma ratio_pool_tokens_Ceiling:
  assumes "ratio_pool_tokens n S a b Ceiling = Ok r"
  shows "0 < unat S"
    "token_a_amount r = 0 \<or> unat (token_a_amount r) = ceil_div (unat n * unat a) (unat S)"
    "token_b_amount r = 0 \<or> unat (token_b_amount r) = ceil_div (unat n * unat b) (unat S)"
proof -
  obtain x y where *: "pool_ratio n S a = Ok x" "pool_ratio n S b = Ok y"
    "pool_ratio_ceiling n S a x = Ok (token_a_amount r)"
    "pool_ratio_ceiling n S b y = Ok (token_b_amount r)"
    using assms by (auto simp: ratio_pool_tokens_def result_ok)
  show "0 < unat S" using *(1) by (simp add: pool_ratio_Ok_iff unat_gt_0)
  show "token_a_amount r = 0 \<or> unat (token_a_amount r) = ceil_div (unat n * unat a) (unat S)"
    "token_b_amount r = 0 \<or> unat (token_b_amount r) = ceil_div (unat n * unat b) (unat S)"
    using pool_ratio_ceiling_Ok [OF *(1,3)] pool_ratio_ceiling_Ok [OF *(2,4)]
    by (auto simp: word_unat_eq_iff)
qed

section \<open>Single-sided conversions at a constant price\<close>

lemma as_u128_Ok_iff [result_ok]: "as_u128 x = Ok y \<longleftrightarrow> unat x < 2 ^ 128 \<and> unat y = unat x"
proof -
  have "unat (ucast x :: u128) = unat x" if "unat x < 2 ^ 128"
    using that by (simp add: unsigned_ucast_eq take_bit_nat_eq_self)
  then show ?thesis
    by (auto simp: as_u128_def word_unat_eq_iff [of _ y])
qed

definition price_value :: "u64 \<Rightarrow> TradeDirection \<Rightarrow> nat \<Rightarrow> nat" where
  "price_value p dir n = (case dir of AtoB \<Rightarrow> n | BtoA \<Rightarrow> n * unat p)"

lemma trading_tokens_to_pool_tokens_Ok:
  assumes "trading_tokens_to_pool_tokens p n a b S dir rd = Ok t"
  shows "0 < unat b * unat p + unat a"
    "unat t = (case rd of
       Floor \<Rightarrow> unat S * price_value p dir (unat n) div (unat b * unat p + unat a)
     | Ceiling \<Rightarrow> ceil_div (unat S * price_value p dir (unat n)) (unat b * unat p + unat a))"
proof -
  obtain total m :: u256 where *:
    "unat total = unat b * unat p + unat a" "unat m = unat S * price_value p dir (unat n)"
    "(case rd of Floor \<Rightarrow> bind (opt (checked_div m total)) as_u128
      | Ceiling \<Rightarrow> bind (checked_ceil_div m total) (\<lambda>(q, _). as_u128 q)) = Ok t"
    using assms by (cases dir)
      (auto simp: trading_tokens_to_pool_tokens_def Let_def curve_ok unat_ucast_256 price_value_def)
  have "total \<noteq> 0 \<and> unat t = (case rd of Floor \<Rightarrow> unat m div unat total
      | Ceiling \<Rightarrow> ceil_div (unat m) (unat total))"
    using *(3) by (cases rd) (auto simp: curve_ok as_u128_Ok_iff checked_ceil_div_Ok_iff)
  then show "0 < unat b * unat p + unat a"
    "unat t = (case rd of
       Floor \<Rightarrow> unat S * price_value p dir (unat n) div (unat b * unat p + unat a)
     | Ceiling \<Rightarrow> ceil_div (unat S * price_value p dir (unat n)) (unat b * unat p + unat a))"
    using * by (auto simp: unat_gt_0 simp flip: *(1) split: RoundDirection.splits)
qed

text \<open>
  A single-sided withdrawal converts the amount less the fee, although the whole amount is paid
  out: the fee lowers what is burned.
\<close>

lemma less_half_trade_fee_Ok:
  assumes "less_half_trade_fee fees n = Ok m" "fees_validate fees = Ok ()" "unat n < 2 ^ 64"
  shows "unat m = unat n - fee_of (max 1 (unat n div 2)) (unat (trade_fee_numerator fees))
    (unat (trade_fee_denominator fees))"
proof -
  obtain fee half :: u128 where *: "unat half = unat n div 2"
    "trading_fee fees (max 1 half) = Ok fee" "unat m = unat n - unat fee"
    using assms(1) by (auto simp: less_half_trade_fee_def curve_ok)
  have half: "unat (max 1 half) = max 1 (unat n div 2)"
    using *(1) by (auto simp: max_def word_le_nat_alt)
  also have "\<dots> < 2 ^ 64" using assms(3) by auto
  finally have "unat fee = fee_of (max 1 (unat n div 2)) (unat (trade_fee_numerator fees))
      (unat (trade_fee_denominator fees))"
    using calculate_fee_exact [of "trade_fee_numerator fees" "trade_fee_denominator fees" "max 1 half"]
      assms(2) *(2) half by (auto simp: fees_validate_Ok_iff trading_fee_def)
  with *(3) show ?thesis by simp
qed

lemma price_withdraw_single:
  assumes "withdraw_single_token_type_exact_out cv n a b S AtoB fees = Ok t"
    and "calculator cv = ConstantPriceCurve p" "fees_validate fees = Ok ()" "unat n < 2 ^ 64" "n \<noteq> 0"
  shows "unat t = ceil_div (unat S * (unat n - fee_of (max 1 (unat n div 2))
      (unat (trade_fee_numerator fees)) (unat (trade_fee_denominator fees)))) (unat b * unat p + unat a)"
proof -
  obtain m where "less_half_trade_fee fees n = Ok m"
    "trading_tokens_to_pool_tokens p m a b S AtoB Ceiling = Ok t"
    using assms(1,2,5) by (auto simp: withdraw_single_token_type_exact_out_def result_ok)
  then show ?thesis
    using less_half_trade_fee_Ok [OF _ assms(3,4)] trading_tokens_to_pool_tokens_Ok(2)
    by (fastforce simp: price_value_def)
qed

text \<open>The special case of the normalized value near the limits is never taken.\<close>

lemma saturating_sub_mono: "x \<le> y \<Longrightarrow> saturating_sub x z \<le> saturating_sub y z"
  for x y z :: "'a::len word"
proof (cases "z \<le> x")
  case True
  assume "x \<le> y"
  with True have "z \<le> y" by (rule order_trans)
  with True \<open>x \<le> y\<close> show ?thesis
    by (simp add: saturating_sub_def checked_sub_def word_le_nat_alt unat_sub)
qed (simp add: saturating_sub_def checked_sub_def)

lemma constant_price_normalized_value_eq:
  "constant_price_normalized_value p a b =
     bind (opt (checked_mul b (ucast p))) (\<lambda>v. bind (opt (checked_add a v)) (\<lambda>t.
       bind (opt (checked_div t 2)) precise_new))"
proof -
  have "\<not> saturating_sub (- 1) (ucast (- 1 :: u64)) < saturating_sub v (ucast (- 1 :: u64))"
    for v :: u128
    by (simp only: not_less) (rule saturating_sub_mono, rule word_n1_ge)
  then have "(if saturating_sub (- 1) (ucast (- 1 :: u64)) < saturating_sub v (ucast (- 1 :: u64))
        then x else y) = y" for v :: u128 and x y :: "u128 outcome"
    by (simp only: if_False)
  moreover have "bind (bind m f) g = bind m (\<lambda>x. bind (f x) g)"
    for m :: "u128 outcome" and f :: "u128 \<Rightarrow> u128 outcome" and g :: "u128 \<Rightarrow> PreciseNumber outcome"
    by (cases m) auto
  ultimately show ?thesis unfolding constant_price_normalized_value_def by (simp only:)
qed

section \<open>Degenerate stable curves\<close>

lemma calculate_step_0: "calculate_step d 0 sum_x d_product = None"
  by (auto simp: calculate_step_def checked_sub_def Option.bind_eq_None_conv)

lemma compute_new_destination_amount_0: "compute_new_destination_amount 0 x d = None"
  by (auto simp: compute_new_destination_amount_def Let_def Option.bind_eq_None_conv checked_div_def
      checked_mul_def)

lemma stable_degenerate:
  assumes "amp' = 0 \<or> 2 ^ 63 \<le> unat amp'"
  shows "stable_swap_without_fees amp' n s d = Err ()"
proof (cases "amp' = 0")
  case True
  then have "compute_a amp' = Some 0" by (simp add: compute_a_def checked_mul_def)
  then show ?thesis
    by (cases "checked_add s n"; cases "compute_d 0 s d")
      (simp_all add: stable_swap_without_fees_def compute_new_destination_amount_0)
next
  case False
  with assms have "compute_a amp' = None" by (auto simp: compute_a_def checked_mul_def N_COINS_def)
  then show ?thesis by (simp add: stable_swap_without_fees_def)
qed

end
