(* ===== verification/Swap_Calls.thy ===== *)
theory Swap_Calls
  imports Swap_Processor Swap_Curve_Facts Token_Panics
begin

text \<open>
  What the swap program relies on when it calls the token program, as a locale: a successful call
  ran the token program on the accounts of the instruction, and only keys that had signed for the
  caller, or that the caller's seeds derive, count as signers. Then what the calls of the processor do to balances.
\<close>

section \<open>Effects of the token program\<close>

lemma process_transfer_effect:
  assumes "process_transfer pid L (si # di # ai # rest) amt None = Ok L'"
  obtains a b where "acct_at L (key si) = Some a" "acct_at L (key di) = Some b"
    "acct_mint a = acct_mint b" "amt \<le> amount a"
    "acct_at L' = (if key si = key di then acct_at L
       else (acct_at L)(key si \<mapsto> debit (key ai) amt a, key di \<mapsto> credit amt b))"
    "key si \<noteq> key di \<Longrightarrow> fits (amount b) amt"
    "mint_at L' = mint_at L" "same_frame L L'" "\<And>k. k \<noteq> key si \<Longrightarrow> k \<noteq> key di \<Longrightarrow> L' k = L k"
    "may_spend (key ai) amt a" "authorized pid L (si # di # ai # rest) (key ai)"
proof -
  from assms obtain a b a' where a: "acct_at L (key si) = Some a"
    and b: "acct_at L (key di) = Some b" and m: "acct_mint a = acct_mint b" and amt: "amt \<le> amount a"
    and spend: "spend_authority pid L a amt (key si = key di) ai rest = Ok a'"
    and r: "key si = key di \<longrightarrow> L' = L"
      "key si \<noteq> key di \<longrightarrow> amt \<le> amount a' \<and> fits (amount b) amt \<and>
        (\<exists>M. (is_native a' \<longrightarrow> move_lamports L si di amt = Ok M) \<and> (\<not> is_native a' \<longrightarrow> M = L) \<and>
          (\<exists>N. write_account M si (a'\<lparr>amount := amount a' - amt\<rparr>) = Ok N \<and>
          write_account N di (credit amt b) = Ok L'))"
    by (fastforce simp: process_transfer_def next_expected_mint_def Let_def result_ok if_Ok_iff
        checked_u64 is_native_def credit_def)
  have sub: "ai \<in> set (si # di # ai # rest)" "set rest \<subseteq> set (si # di # ai # rest)" by auto
  note spent = spend_authority_Ok [OF spend sub amt]
  show ?thesis
  proof (cases "key si = key di")
    case True
    with r(1) a b m amt spent show ?thesis by (intro that [of a b]) auto
  next
    case False
    from r(2) False obtain M N where fit: "fits (amount b) amt"
      and M: "is_native a' \<Longrightarrow> move_lamports L si di amt = Ok M" "\<not> is_native a' \<Longrightarrow> M = L"
      and N: "write_account M si (a'\<lparr>amount := amount a' - amt\<rparr>) = Ok N"
      and L': "write_account N di (credit amt b) = Ok L'" by auto
    have deb: "a'\<lparr>amount := amount a' - amt\<rparr> = debit (key ai) amt a" using spent False by auto
    have mM: "mint_at M = mint_at L \<and> acct_at M = acct_at L \<and> same_frame L M \<and>
        (\<forall>k. k \<noteq> key si \<longrightarrow> k \<noteq> key di \<longrightarrow> M k = L k)"
    proof (cases "is_native a'")
      case True
      then show ?thesis using move_lamports_Ok [OF M(1) [OF True] False]
        by (auto simp: abs_ledger_def)
    qed (use M(2) in simp)
    note w = write_account_OkD [OF N] write_account_OkD [OF L']
    show ?thesis
      by (rule that [OF a b m amt])
        (use False fit w mM deb spent in \<open>auto intro: same_frame_trans\<close>)
  qed
qed

lemma process_mint_to_effect:
  assumes "process_mint_to pid L (mi # di # oi # rest) amt None = Ok L'"
  obtains a m where "acct_at L (key di) = Some a" "acct_mint a = key mi" "mint_at L (key mi) = Some m"
    "acct_at L' = (acct_at L)(key di \<mapsto> credit amt a)" "fits (amount a) amt"
    "mint_at L' = (mint_at L)(key mi \<mapsto> m\<lparr>mint_supply := mint_supply m + amt\<rparr>)"
    "fits (mint_supply m) amt" "same_frame L L'"
    "\<And>k. k \<noteq> key mi \<Longrightarrow> k \<noteq> key di \<Longrightarrow> L' k = L k"
proof -
  from assms obtain a m t M where "acct_at L (key di) = Some a" "key mi = acct_mint a"
    "mint_at L (key mi) = Some m" "fits (amount a) amt" "fits (mint_supply m) amt"
    and M: "write_account L di (credit amt a) = Ok M"
    and w: "write_mint M mi (m\<lparr>mint_supply := mint_supply m + amt\<rparr>) = Ok L'"
    by (fastforce simp: process_mint_to_def result_ok checked_u64 credit_def split: option.splits)
  then show ?thesis
    using write_account_OkD [OF M] write_mint_OkD [OF w]
    by (intro that [of a m]) (auto intro: same_frame_trans)
qed

lemma process_burn_effect:
  assumes "process_burn pid L (si # mi # ai # rest) amt None = Ok L'"
  obtains a m where "acct_at L (key si) = Some a" "acct_mint a = key mi" "mint_at L (key mi) = Some m"
    "acct_at L' = (acct_at L)(key si \<mapsto> debit (key ai) amt a)" "amt \<le> amount a"
    "mint_at L' = (mint_at L)(key mi \<mapsto> m\<lparr>mint_supply := mint_supply m - amt\<rparr>)"
    "amt \<le> mint_supply m" "same_frame L L'"
    "\<And>k. k \<noteq> key mi \<Longrightarrow> k \<noteq> key si \<Longrightarrow> L' k = L k"
proof -
  from assms obtain a m a' M where a: "acct_at L (key si) = Some a" "key mi = acct_mint a"
    "mint_at L (key mi) = Some m" "amt \<le> amount a" "amt \<le> mint_supply m"
    and spend: "spend_authority pid L a amt False ai rest = Ok a'"
    and M: "write_account L si (a'\<lparr>amount := amount a' - amt\<rparr>) = Ok M"
    and w: "write_mint M mi (m\<lparr>mint_supply := mint_supply m - amt\<rparr>) = Ok L'"
    by (fastforce simp: process_burn_def result_ok checked_u64 split: option.splits)
  have sub: "ai \<in> set (si # mi # ai # rest)" "set rest \<subseteq> set (si # mi # ai # rest)" by auto
  have "a'\<lparr>amount := amount a' - amt\<rparr> = debit (key ai) amt a"
    using spend_authority_Ok [OF spend sub a(4)] by simp
  with a show ?thesis
    using write_account_OkD [OF M] write_mint_OkD [OF w]
    by (intro that [of a m]) (auto intro: same_frame_trans)
qed

section \<open>Balances\<close>

definition balance :: "ledger \<Rightarrow> pubkey \<Rightarrow> nat" where
  "balance L k = (case acct_at L k of Some a \<Rightarrow> unat (amount a) | None \<Rightarrow> 0)"

definition mint_of :: "ledger \<Rightarrow> pubkey \<Rightarrow> pubkey option" where
  "mint_of L k = map_option acct_mint (acct_at L k)"

definition supply_of :: "ledger \<Rightarrow> pubkey \<Rightarrow> nat" where
  "supply_of L k = (case mint_at L k of Some m \<Rightarrow> unat (mint_supply m) | None \<Rightarrow> 0)"

lemma amount_debit: "amt \<le> amount a \<Longrightarrow> unat (amount (debit t amt a)) = unat (amount a) - unat amt"
  by (simp add: debit_def unat_sub)

lemma amount_credit: "fits (amount a) amt \<Longrightarrow> unat (amount (credit amt a)) = unat (amount a) + unat amt"
  by (simp add: credit_def fits_def unat_word_ariths)

lemma acct_mint_debit_credit [simp]:
  "acct_mint (debit t amt a) = acct_mint a" "acct_mint (credit amt a) = acct_mint a"
  by (simp_all add: debit_def credit_def)

section \<open>The contract of a call\<close>

definition may_sign :: "crypto \<Rightarrow> pubkey \<Rightarrow> (pubkey \<Rightarrow> bool) \<Rightarrow> bytes list list \<Rightarrow> pubkey \<Rightarrow> bool" where
  "may_sign c caller has_signed seeds k \<longleftrightarrow>
     has_signed k \<or> (\<exists>s\<in>set seeds. create_program_address c s caller = Ok k)"

locale token_cpi =
  fixes sh :: swap_host and h :: host and pid :: pubkey and has_signed :: "pubkey \<Rightarrow> bool"
  assumes call_runs:
    "invoke_signed sh L ix infos seeds = Ok L' \<Longrightarrow> program_id ix = token_id \<Longrightarrow>
     length (accounts ix) < 255 \<Longrightarrow> \<exists>cinfos. map key cinfos = map meta_pubkey (accounts ix) \<and>
       (\<forall>i\<in>set cinfos. is_signer i \<longrightarrow> may_sign (swap_crypto sh) pid has_signed seeds (key i)) \<and>
       process h token_id L cinfos (instr_data ix) = Ok L'"
begin

lemma call_token:
  assumes inv: "invoke_signed sh L (instruction_new token_id i
      ([account_meta_new k1 False, account_meta_new k2 False] @ authority_metas k3 [])) infos seeds = Ok L'"
  obtains c1 c2 c3 where "process_instruction h token_id L [c1, c2, c3] i = Ok L'"
    "key c1 = k1" "key c2 = k2" "key c3 = k3"
    "\<And>c. c \<in> {c1, c2, c3} \<Longrightarrow> is_signer c \<Longrightarrow> may_sign (swap_crypto sh) pid has_signed seeds (key c)"
proof -
  have "\<exists>cs. map key cs = [k1, k2, k3] \<and>
      (\<forall>c\<in>set cs. is_signer c \<longrightarrow> may_sign (swap_crypto sh) pid has_signed seeds (key c)) \<and>
      process_instruction h token_id L cs i = Ok L'"
    using call_runs [OF inv] unfolding process_packed [of h, symmetric]
    by (simp add: instruction_new_def authority_metas_def account_meta_new_def
        account_meta_new_readonly_def del: token_instruction_pack.simps)
  then obtain cs where cs: "map key cs = [k1, k2, k3] \<and>
      (\<forall>c\<in>set cs. is_signer c \<longrightarrow> may_sign (swap_crypto sh) pid has_signed seeds (key c)) \<and>
      process_instruction h token_id L cs i = Ok L'" ..
  then obtain c1 c2 c3 where "cs = [c1, c2, c3]" "key c1 = k1" "key c2 = k2" "key c3 = k3"
    by (auto simp: map_eq_Cons_conv)
  with cs show ?thesis by (intro that [of c1 c2 c3]) auto
qed

lemma token_transfer_call:
  assumes "token_transfer sh L swap tp si di ai bump amt = Ok L'"
  obtains c1 c2 c3 where "process_transfer token_id L [c1, c2, c3] amt None = Ok L'"
    "key c1 = key si" "key c2 = key di" "key c3 = key ai" "key tp = token_id"
    "\<And>c. c \<in> {c1, c2, c3} \<Longrightarrow> is_signer c \<Longrightarrow> may_sign (swap_crypto sh) pid has_signed
       (authority_signature_seeds swap bump) (key c)"
proof -
  have tp: "key tp = token_id"
    and inv: "invoke_signed sh L (instruction_new token_id (Transfer amt)
      ([account_meta_new (key si) False, account_meta_new (key di) False] @ authority_metas (key ai) []))
      [si, di, ai, tp] (authority_signature_seeds swap bump) = Ok L'"
    using assms by (auto simp: token_transfer_def transfer_def check_program_account_def result_ok
        split: if_splits)
  obtain c1 c2 c3 where c: "process_transfer token_id L [c1, c2, c3] amt None = Ok L'"
    "key c1 = key si" "key c2 = key di" "key c3 = key ai"
    "\<And>c. c \<in> {c1, c2, c3} \<Longrightarrow> is_signer c \<Longrightarrow> may_sign (swap_crypto sh) pid has_signed
       (authority_signature_seeds swap bump) (key c)"
    by (rule call_token [OF inv]) simp
  show ?thesis by (rule that [OF c(1-4) tp c(5)])
qed

lemma token_transfer_balances:
  assumes "token_transfer sh L swap tp si di ai bump amt = Ok L'"
  shows "mint_of L' = mint_of L" "mint_of L (key si) = mint_of L (key di)" "mint_of L (key si) \<noteq> None"
    "unat amt \<le> balance L (key si)" "mint_at L' = mint_at L" "same_frame L L'"
    "key si = key di \<Longrightarrow> balance L' = balance L"
    "key si \<noteq> key di \<Longrightarrow> balance L' = (balance L)(key si := balance L (key si) - unat amt,
       key di := balance L (key di) + unat amt)"
    "k \<noteq> key si \<Longrightarrow> k \<noteq> key di \<Longrightarrow> L' k = L k"
proof -
  obtain c1 c2 c3 where c: "process_transfer token_id L [c1, c2, c3] amt None = Ok L'"
    "key c1 = key si" "key c2 = key di"
    by (rule token_transfer_call [OF assms]) blast
  obtain a b where e: "acct_at L (key si) = Some a" "acct_at L (key di) = Some b"
    "acct_mint a = acct_mint b" "amt \<le> amount a"
    "acct_at L' = (if key si = key di then acct_at L
       else (acct_at L)(key si \<mapsto> debit (key c3) amt a, key di \<mapsto> credit amt b))"
    "key si \<noteq> key di \<Longrightarrow> fits (amount b) amt"
    "mint_at L' = mint_at L" "same_frame L L'" "\<And>k. k \<noteq> key si \<Longrightarrow> k \<noteq> key di \<Longrightarrow> L' k = L k"
    by (rule process_transfer_effect [OF c(1), unfolded c(2,3)]) blast
  show "mint_of L' = mint_of L" "mint_of L (key si) = mint_of L (key di)" "mint_of L (key si) \<noteq> None"
    "unat amt \<le> balance L (key si)"
    using e(1-5) by (auto simp: mint_of_def balance_def fun_eq_iff word_le_nat_alt)
  show "key si = key di \<Longrightarrow> balance L' = balance L" using e(5) by (simp add: balance_def fun_eq_iff)
  show "key si \<noteq> key di \<Longrightarrow> balance L' = (balance L)(key si := balance L (key si) - unat amt,
       key di := balance L (key di) + unat amt)"
    using e(1-6) by (auto simp: balance_def fun_eq_iff amount_debit amount_credit)
  show "mint_at L' = mint_at L" "same_frame L L'" "k \<noteq> key si \<Longrightarrow> k \<noteq> key di \<Longrightarrow> L' k = L k"
    by (fact e)+
qed

lemma token_mint_to_call:
  assumes "token_mint_to sh L swap tp mi di ai bump amt = Ok L'"
  obtains c1 c2 c3 where "process_mint_to token_id L [c1, c2, c3] amt None = Ok L'"
    "key c1 = key mi" "key c2 = key di"
proof -
  have inv: "invoke_signed sh L (instruction_new token_id (MintTo amt)
      ([account_meta_new (key mi) False, account_meta_new (key di) False] @ authority_metas (key ai) []))
      [mi, di, ai, tp] (authority_signature_seeds swap bump) = Ok L'"
    using assms by (auto simp: token_mint_to_def mint_to_def check_program_account_def result_ok
        split: if_splits)
  show ?thesis by (rule call_token [OF inv]) (simp add: that)
qed

lemma token_mint_to_balances:
  assumes "token_mint_to sh L swap tp mi di ai bump amt = Ok L'"
  shows "mint_of L' = mint_of L" "mint_of L (key di) = Some (key mi)"
    "balance L' = (balance L)(key di := balance L (key di) + unat amt)"
    "supply_of L' = (supply_of L)(key mi := supply_of L (key mi) + unat amt)" "same_frame L L'"
    "k \<noteq> key mi \<Longrightarrow> k \<noteq> key di \<Longrightarrow> L' k = L k"
proof -
  obtain c1 c2 c3 where c: "process_mint_to token_id L [c1, c2, c3] amt None = Ok L'"
    "key c1 = key mi" "key c2 = key di"
    by (rule token_mint_to_call [OF assms])
  obtain a m where e: "acct_at L (key di) = Some a" "acct_mint a = key mi" "mint_at L (key mi) = Some m"
    "acct_at L' = (acct_at L)(key di \<mapsto> credit amt a)" "fits (amount a) amt"
    "mint_at L' = (mint_at L)(key mi \<mapsto> m\<lparr>mint_supply := mint_supply m + amt\<rparr>)"
    "fits (mint_supply m) amt" "same_frame L L'" "\<And>k. k \<noteq> key mi \<Longrightarrow> k \<noteq> key di \<Longrightarrow> L' k = L k"
    by (rule process_mint_to_effect [OF c(1), unfolded c(2,3)]) blast
  show "mint_of L' = mint_of L" "mint_of L (key di) = Some (key mi)"
    "balance L' = (balance L)(key di := balance L (key di) + unat amt)"
    using e(1-5) by (auto simp: mint_of_def balance_def fun_eq_iff amount_credit)
  show "supply_of L' = (supply_of L)(key mi := supply_of L (key mi) + unat amt)"
    using e(3,6,7) by (auto simp: supply_of_def fun_eq_iff fits_def unat_word_ariths)
  show "same_frame L L'" "k \<noteq> key mi \<Longrightarrow> k \<noteq> key di \<Longrightarrow> L' k = L k" by (fact e)+
qed

lemma token_burn_call:
  assumes "token_burn sh L swap tp si mi ai bump amt = Ok L'"
  obtains c1 c2 c3 where "process_burn token_id L [c1, c2, c3] amt None = Ok L'"
    "key c1 = key si" "key c2 = key mi"
proof -
  have inv: "invoke_signed sh L (instruction_new token_id (Burn amt)
      ([account_meta_new (key si) False, account_meta_new (key mi) False] @ authority_metas (key ai) []))
      [si, mi, ai, tp] (authority_signature_seeds swap bump) = Ok L'"
    using assms by (auto simp: token_burn_def burn_def check_program_account_def result_ok
        split: if_splits)
  show ?thesis by (rule call_token [OF inv]) (simp add: that)
qed

lemma token_burn_balances:
  assumes "token_burn sh L swap tp si mi ai bump amt = Ok L'"
  shows "mint_of L' = mint_of L" "mint_of L (key si) = Some (key mi)"
    "unat amt \<le> balance L (key si)" "balance L' = (balance L)(key si := balance L (key si) - unat amt)"
    "supply_of L' = (supply_of L)(key mi := supply_of L (key mi) - unat amt)" "same_frame L L'"
    "unat amt \<le> supply_of L (key mi)" "k \<noteq> key mi \<Longrightarrow> k \<noteq> key si \<Longrightarrow> L' k = L k"
proof -
  obtain c1 c2 c3 where c: "process_burn token_id L [c1, c2, c3] amt None = Ok L'"
    "key c1 = key si" "key c2 = key mi"
    by (rule token_burn_call [OF assms])
  obtain a m where e: "acct_at L (key si) = Some a" "acct_mint a = key mi" "mint_at L (key mi) = Some m"
    "acct_at L' = (acct_at L)(key si \<mapsto> debit (key c3) amt a)" "amt \<le> amount a"
    "mint_at L' = (mint_at L)(key mi \<mapsto> m\<lparr>mint_supply := mint_supply m - amt\<rparr>)"
    "amt \<le> mint_supply m" "same_frame L L'" "\<And>k. k \<noteq> key mi \<Longrightarrow> k \<noteq> key si \<Longrightarrow> L' k = L k"
    by (rule process_burn_effect [OF c(1), unfolded c(2,3)]) blast
  show "mint_of L' = mint_of L" "mint_of L (key si) = Some (key mi)" "unat amt \<le> balance L (key si)"
    "balance L' = (balance L)(key si := balance L (key si) - unat amt)"
    using e(1-5) by (auto simp: mint_of_def balance_def fun_eq_iff amount_debit word_le_nat_alt)
  show "supply_of L' = (supply_of L)(key mi := supply_of L (key mi) - unat amt)"
    "unat amt \<le> supply_of L (key mi)"
    using e(3,6,7) by (auto simp: supply_of_def fun_eq_iff unat_sub word_le_nat_alt)
  show "same_frame L L'" "k \<noteq> key mi \<Longrightarrow> k \<noteq> key si \<Longrightarrow> L' k = L k" by (fact e)+
qed

end

end
