(* ===== verification/Cpi.thy ===== *)
theory Cpi
  imports Chain Pda
begin

text \<open>
  Cross program invocation: how a running program calls another one. The message of the inner
  instruction and its privilege checks, the native entry point and the run of the callee are from
  \<open>program-runtime/src/instruction_processor.rs\<close>; the system call \<open>invoke_signed\<close> is from
  \<open>programs/bpf_loader/src/syscalls.rs\<close>.

  The caller's copies of the accounts in its virtual memory and the account cells are one ledger
  here, so the copies from and to that memory do not show; what they check does. The error of a
  failed call is kept, the context it leaves is not: a failed call ends the calling program.
  Recording of inner instructions and return data are left out.
\<close>

section \<open>Loader accounts\<close>

datatype UpgradeableLoaderState =
    Uninitialized
  | Buffer "pubkey option"
  | Program (programdata_address: pubkey)
  | ProgramData u64 "pubkey option"

text \<open>
  What the system call takes from outside: hashing, the bincode decoder of loader accounts, the
  registered programs, and the limits of the compute budget.
\<close>

record cpi_env =
  cpi_crypto :: crypto
  loader_state :: "bytes \<Rightarrow> UpgradeableLoaderState option"
  cpi_programs :: "(pubkey \<times> program) list"
  cpi_native_loader :: program
  invoke_units :: u64
  max_cpi_instruction_size :: nat

section \<open>The message of the inner instruction\<close>

definition get_account :: "InvokeContext \<Rightarrow> pubkey \<Rightarrow> nat option" where
  "get_account ctx k =
     map_option fst (find (\<lambda>(i, k'). k' = k) (rev (enumerate 0 (ctx_keys ctx))))"

definition find_keyed :: "AccountInfo list \<Rightarrow> pubkey \<Rightarrow> (InstructionError, AccountInfo) result" where
  "find_keyed kas k = ok_or (find (\<lambda>a. key a = k) kas) MissingAccount"

fun check_privileges ::
  "AccountInfo list \<Rightarrow> pubkey list \<Rightarrow> AccountMeta list \<Rightarrow> (InstructionError, unit) result" where
  "check_privileges callee signers [] = Ok ()"
| "check_privileges callee signers (account # rest) =
     bind (find_keyed callee (meta_pubkey account)) (\<lambda>ka.
     if meta_is_writable account \<and> \<not> is_writable ka then Err PrivilegeEscalation else
     if meta_is_signer account \<and> \<not> (is_signer ka \<or> meta_pubkey account \<in> set signers)
     then Err PrivilegeEscalation else
     check_privileges callee signers rest)"

definition programdata_index ::
  "cpi_env \<Rightarrow> InvokeContext \<Rightarrow> AccountSharedData \<Rightarrow> (InstructionError, nat list) result" where
  "programdata_index env ctx program_account =
     (if owner program_account = bpf_loader_upgradeable_id then
        bind (ok_or (loader_state env (data program_account)) InvalidAccountData) (\<lambda>st.
        case st of
          Program addr \<Rightarrow> bind (ok_or (get_account ctx addr) MissingAccount) (\<lambda>i. Ok [i])
        | _ \<Rightarrow> Err MissingAccount)
      else Ok [])"

definition create_message ::
  "cpi_env \<Rightarrow> Instruction \<Rightarrow> pubkey list \<Rightarrow> InvokeContext \<Rightarrow>
   (InstructionError, Message \<times> bool list \<times> nat list) result" where
  "create_message env ix signers ctx =
     bind (message_new [ix] None) (\<lambda>m.
     bind (get_keyed_accounts ctx) (\<lambda>caller_keyed_accounts.
     bind (collect_result (find_keyed caller_keyed_accounts) (account_keys m))
       (\<lambda>callee_keyed_accounts.
     bind (check_privileges callee_keyed_accounts signers (accounts ix)) (\<lambda>_.
     let caller_write_privileges = map is_writable callee_keyed_accounts;
         callee_program_id = program_id ix in
     bind (ok_or (Option.bind (find (\<lambda>a. key a = callee_program_id) callee_keyed_accounts)
             (\<lambda>_. get_account ctx callee_program_id)) MissingAccount) (\<lambda>program_account_index.
     if ctx_borrowed ctx callee_program_id then Panic else
     let program_account = ctx_store ctx callee_program_id in
     if \<not> executable program_account then Err AccountNotExecutable else
     bind (programdata_index env ctx program_account) (\<lambda>program_indices.
     Ok (m, caller_write_privileges, program_indices @ [program_account_index])))))))"

section \<open>Running the callee\<close>

definition env_processor :: "cpi_env \<Rightarrow> InstructionProcessor" where
  "env_processor env = foldl (\<lambda>ip (k, p). add_program ip k p)
     \<lparr>programs = [], native_loader = cpi_native_loader env\<rparr> (cpi_programs env)"

definition process_cross_program_instruction ::
  "host \<Rightarrow> cpi_env \<Rightarrow> Message \<Rightarrow> nat list \<Rightarrow> nat list \<Rightarrow> bool list \<Rightarrow> InvokeContext \<Rightarrow>
   (InstructionError, InvokeContext) result" where
  "process_cross_program_instruction h env m program_indices account_indices
     caller_write_privileges ctx =
     bind (if instructions m = [] then Err GenericError else Ok (hd (instructions m))) (\<lambda>ci.
     bind (verify_and_update h ctx ci account_indices caller_write_privileges) (\<lambda>ctx.
     bind (get_caller ctx) (\<lambda>_.
     bind (ctx_push ctx m ci program_indices (Some account_indices)) (\<lambda>ctx.
     bind (processor_process_instruction (env_processor env) (ci_data ci) ctx) (\<lambda>ctx.
     bind (collect_result
             (\<lambda>i. msg_is_writable m i (feature_active ctx demote_program_write_locks))
             [0..<length (account_keys m)]) (\<lambda>write_privileges.
     bind (verify_and_update h ctx ci account_indices write_privileges) (\<lambda>ctx.
     Ok (ctx_pop ctx))))))))"

text \<open>Reading the length of an account; the cell must not be mutably borrowed.\<close>

definition account_len :: "InvokeContext \<Rightarrow> pubkey \<Rightarrow> ('e, nat) result" where
  "account_len ctx k = (if ctx_borrowed ctx k then Panic else Ok (length (data (ctx_store ctx k))))"

definition native_account ::
  "InvokeContext \<Rightarrow> pubkey \<Rightarrow> (InstructionError, nat \<times> pubkey \<times> nat) result" where
  "native_account ctx k =
     bind (ok_or (get_account ctx k) MissingAccount) (\<lambda>i.
     bind (account_len ctx k) (\<lambda>n. Ok (i, k, n)))"

fun check_lengths ::
  "InvokeContext \<Rightarrow> (nat \<times> pubkey \<times> nat) list \<Rightarrow> (InstructionError, unit) result" where
  "check_lengths ctx [] = Ok ()"
| "check_lengths ctx ((i, k, prev_size) # rest) =
     (if feature_active ctx do_support_realloc then check_lengths ctx rest else
      bind (account_len ctx k) (\<lambda>n.
      if prev_size \<noteq> n \<and> prev_size \<noteq> 0 then Err InvalidRealloc else check_lengths ctx rest))"

definition native_invoke ::
  "host \<Rightarrow> cpi_env \<Rightarrow> Instruction \<Rightarrow> pubkey list \<Rightarrow> InvokeContext \<Rightarrow>
   (InstructionError, InvokeContext) result" where
  "native_invoke h env ix signers ctx =
     bind (create_message env ix signers ctx) (\<lambda>(m, caller_write_privileges, program_indices).
     bind (collect_result (native_account ctx) (account_keys m)) (\<lambda>accts.
     bind (process_cross_program_instruction h env m program_indices (map fst accts)
             caller_write_privileges ctx) (\<lambda>ctx.
     bind (check_lengths ctx accts) (\<lambda>_.
     Ok ctx))))"

section \<open>The system call\<close>

text \<open>The payloads of type \<open>Utf8Error\<close> are dropped.\<close>

datatype SyscallError =
    InvalidString bytes
  | Abort
  | SyscallPanic string u64 u64
  | InvokeContextBorrowFailed
  | MalformedSignerSeed bytes
  | BadSeeds PubkeyError
  | ProgramNotSupported pubkey
  | SyscallInstructionError InstructionError
  | UnalignedPointer
  | TooManySigners
  | InstructionTooLarge nat nat
  | TooManyAccounts
  | CopyOverlapping
  | ReturnDataTooLarge u64 u64

definition CPI_MAX_SIGNERS :: nat where
  "CPI_MAX_SIGNERS = 16"

definition MAX_PERMITTED_DATA_INCREASE :: nat where
  "MAX_PERMITTED_DATA_INCREASE = 1024 * 10"

definition check_instruction_size :: "cpi_env \<Rightarrow> Instruction \<Rightarrow> (SyscallError, unit) result" where
  "check_instruction_size env ix =
     (let size = length (accounts ix) * 34 + length (instr_data ix);
          max_size = max_cpi_instruction_size env in
      if max_size < size then Err (InstructionTooLarge size max_size) else Ok ())"

definition check_account_infos :: "cpi_env \<Rightarrow> nat \<Rightarrow> (SyscallError, unit) result" where
  "check_account_infos env len =
     (if max_cpi_instruction_size env < len * 32 then Err TooManyAccounts else Ok ())"

definition translate_signers ::
  "cpi_env \<Rightarrow> pubkey \<Rightarrow> bytes list list \<Rightarrow> (SyscallError, pubkey list) result" where
  "translate_signers env caller signers_seeds =
     (if CPI_MAX_SIGNERS < length signers_seeds then Err TooManySigners
      else collect_result (\<lambda>seeds.
        if MAX_SEEDS < length seeds
        then Err (SyscallInstructionError InstructionError.MaxSeedLengthExceeded)
        else map_err BadSeeds (create_program_address (cpi_crypto env) seeds caller)) signers_seeds)"

definition is_upgrade_instruction :: "bytes \<Rightarrow> bool" where
  "is_upgrade_instruction d \<longleftrightarrow> d \<noteq> [] \<and> hd d = 3"

definition is_set_authority_instruction :: "bytes \<Rightarrow> bool" where
  "is_set_authority_instruction d \<longleftrightarrow> d \<noteq> [] \<and> hd d = 4"

definition is_close_instruction :: "bytes \<Rightarrow> bool" where
  "is_close_instruction d \<longleftrightarrow> d \<noteq> [] \<and> hd d = 5"

definition check_authorized_program ::
  "pubkey \<Rightarrow> bytes \<Rightarrow> InvokeContext \<Rightarrow> (SyscallError, unit) result" where
  "check_authorized_program prog d ctx =
     (if prog = native_loader_id \<or> prog = bpf_loader_id \<or> prog = bpf_loader_deprecated_id \<or>
         (prog = bpf_loader_upgradeable_id \<and>
          \<not> (is_upgrade_instruction d \<or> is_set_authority_instruction d \<or> is_close_instruction d)) \<or>
         (feature_active ctx prevent_calling_precompiles_as_programs \<and>
          is_precompile prog (feature_active ctx))
      then Err (ProgramNotSupported prog) else Ok ())"

text \<open>
  The length an account had when the calling instruction started. The index of the account among
  the keyed accounts is shifted by the program accounts in front; a wrapped difference is out of
  range.
\<close>

definition original_len :: "AccountInfo list \<Rightarrow> nat list \<Rightarrow> pubkey \<Rightarrow> nat option" where
  "original_len kas orig_data_lens k =
     (let i = index_in (map key kas) k; off = length kas - length orig_data_lens in
      if i < length kas \<and> off \<le> i \<and> i - off < length orig_data_lens
      then Some (orig_data_lens ! (i - off)) else None)"

definition translated_account ::
  "InvokeContext \<Rightarrow> Message \<Rightarrow> AccountInfo list \<Rightarrow> nat list \<Rightarrow> AccountInfo list \<Rightarrow> nat \<times> pubkey \<Rightarrow>
   (SyscallError, nat \<times> pubkey \<times> nat option) result" where
  "translated_account ctx m kas orig_data_lens infos ik =
     (case ik of (i, k) \<Rightarrow>
      bind (ok_or (get_account ctx k) (SyscallInstructionError MissingAccount)) (\<lambda>account_index.
      bind (at_index (instructions m) 0) (\<lambda>ci.
      if i = unat (program_id_index ci) then Ok (account_index, k, None) else
      if ctx_borrowed ctx k then Panic else
      if executable (ctx_store ctx k) then Ok (account_index, k, None) else
      if k \<in> key ` set infos then
        bind (msg_is_writable m i (feature_active ctx demote_program_write_locks)) (\<lambda>w.
        if w then
          bind (ok_or (original_len kas orig_data_lens k) (SyscallInstructionError MissingAccount))
            (\<lambda>n. Ok (account_index, k, Some n))
        else Ok (account_index, k, None))
      else Err (SyscallInstructionError MissingAccount))))"

fun check_reallocs ::
  "InvokeContext \<Rightarrow> InvokeContext \<Rightarrow> (nat \<times> pubkey \<times> nat option) list \<Rightarrow>
   (SyscallError, unit) result" where
  "check_reallocs pre ctx [] = Ok ()"
| "check_reallocs pre ctx ((i, k, None) # rest) = check_reallocs pre ctx rest"
| "check_reallocs pre ctx ((i, k, Some original) # rest) =
     bind (account_len ctx k) (\<lambda>new_len.
     let len = length (data (ctx_store pre k)); realloc = feature_active ctx do_support_realloc in
     if len \<noteq> new_len \<and>
        (\<not> realloc \<and> len \<noteq> 0 \<or>
         (if realloc then original else len) + MAX_PERMITTED_DATA_INCREASE < new_len)
     then Err (SyscallInstructionError InvalidRealloc)
     else check_reallocs pre ctx rest)"

definition syscall_invoke_signed ::
  "host \<Rightarrow> cpi_env \<Rightarrow> nat list \<Rightarrow> Instruction \<Rightarrow> AccountInfo list \<Rightarrow> bytes list list \<Rightarrow> InvokeContext \<Rightarrow>
   (SyscallError, InvokeContext) result" where
  "syscall_invoke_signed h env orig_data_lens ix infos signers_seeds ctx =
     bind (map_err SyscallInstructionError (consume ctx (invoke_units env))) (\<lambda>ctx.
     bind (check_instruction_size env ix) (\<lambda>_.
     bind (map_err SyscallInstructionError (get_caller ctx)) (\<lambda>caller_program_id.
     bind (translate_signers env caller_program_id signers_seeds) (\<lambda>signers.
     bind (map_err SyscallInstructionError (create_message env ix signers ctx))
       (\<lambda>(m, caller_write_privileges, program_indices).
     bind (check_authorized_program (program_id ix) (instr_data ix) ctx) (\<lambda>_.
     bind (check_account_infos env (length infos)) (\<lambda>_.
     bind (map_err SyscallInstructionError (get_keyed_accounts ctx)) (\<lambda>kas.
     bind (collect_result (translated_account ctx m kas orig_data_lens infos)
             (enumerate 0 (account_keys m))) (\<lambda>accts.
     bind (map_err SyscallInstructionError (process_cross_program_instruction h env m program_indices
             (map fst accts) caller_write_privileges ctx)) (\<lambda>ctx'.
     bind (check_reallocs ctx ctx' accts) (\<lambda>_.
     Ok ctx')))))))))))"

end
