(* ===== verification/Cpi_Facts.thy ===== *)
theory Cpi_Facts
  imports Cpi
begin

text \<open>
  What a cross program invocation can and cannot do: which accounts the callee gets, where the
  signatures it sees come from, and which program runs on which ledger.
\<close>

section \<open>The message of the inner instruction\<close>

lemma find_SomeD: "find P xs = Some x \<Longrightarrow> x \<in> set xs \<and> P x"
  by (induction xs) (auto split: if_splits)

lemma get_account_Some:
  assumes "get_account ctx k = Some i"
  shows "i < length (ctx_keys ctx)" "ctx_keys ctx ! i = k"
proof -
  from assms obtain k' where "find (\<lambda>(i, k'). k' = k) (rev (enumerate 0 (ctx_keys ctx))) = Some (i, k')"
    by (auto simp: get_account_def)
  then have "(i, k') \<in> set (enumerate 0 (ctx_keys ctx))" and k: "k' = k"
    by (auto dest: find_SomeD)
  then have "i < length (ctx_keys ctx) \<and> ctx_keys ctx ! i = k" by (auto simp: in_set_enumerate_eq)
  then show "i < length (ctx_keys ctx)" "ctx_keys ctx ! i = k" by simp_all
qed

lemma find_keyed_Ok_iff:
  "find_keyed kas k = Ok a \<longleftrightarrow> find (\<lambda>a. key a = k) kas = Some a"
  by (simp add: find_keyed_def result_ok)

lemma find_key: "find (\<lambda>a. key a = k) kas = Some a \<Longrightarrow> a \<in> set kas \<and> key a = k"
  by (auto dest: find_SomeD)

lemma find_keyed_list:
  assumes "collect_result (find_keyed kas) ks = Ok as" "distinct ks" "k \<in> set ks"
  shows "find (\<lambda>a. key a = k) as = find (\<lambda>a. key a = k) kas"
  using assms
proof (induction ks arbitrary: as)
  case (Cons x ks)
  from Cons.prems(1) obtain b bs where as: "as = b # bs" and b: "find (\<lambda>a. key a = x) kas = Some b"
    and bs: "collect_result (find_keyed kas) ks = Ok bs"
    by (auto simp: result_ok find_keyed_Ok_iff)
  from find_key [OF b] have x: "key b = x" by simp
  show ?case
  proof (cases "k = x")
    case True
    with x b show ?thesis by (simp add: as)
  next
    case False
    with Cons.prems Cons.IH [OF bs] x show ?thesis by (simp add: as)
  qed
qed simp

text \<open>A meta that passed the checks asks for no more than the caller has, or derives.\<close>

definition privileged :: "AccountInfo list \<Rightarrow> pubkey list \<Rightarrow> AccountMeta \<Rightarrow> bool" where
  "privileged kas signers m \<longleftrightarrow> (\<exists>ka. find (\<lambda>a. key a = meta_pubkey m) kas = Some ka \<and>
     (meta_is_writable m \<longrightarrow> is_writable ka) \<and>
     (meta_is_signer m \<longrightarrow> is_signer ka \<or> meta_pubkey m \<in> set signers))"

lemma check_privileges_Ok_iff:
  "check_privileges kas signers ms = Ok () \<longleftrightarrow> (\<forall>m\<in>set ms. privileged kas signers m)"
  by (induction ms) (auto simp: result_ok if_Ok_iff find_keyed_Ok_iff privileged_def)

lemma create_message_Ok:
  assumes "create_message env ix signers ctx = Ok (m, cwp, pidx)"
  obtains kas callee pre where "m = compiled_message [ix] None 0"
    "get_keyed_accounts ctx = Ok kas" "collect_result (find_keyed kas) (account_keys m) = Ok callee"
    "\<And>a. a \<in> set (accounts ix) \<Longrightarrow> privileged kas signers a"
    "cwp = map is_writable callee" "pidx \<noteq> []" "get_account ctx (program_id ix) = Some (last pidx)"
    "executable (ctx_store ctx (program_id ix))"
proof -
  from assms obtain kas callee i where m: "m = compiled_message [ix] None 0"
    and kas: "get_keyed_accounts ctx = Ok kas"
    and callee: "collect_result (find_keyed kas) (account_keys m) = Ok callee"
    and priv: "check_privileges callee signers (accounts ix) = Ok ()"
    and rest: "cwp = map is_writable callee" "get_account ctx (program_id ix) = Some i"
      "executable (ctx_store ctx (program_id ix))" "pidx \<noteq> []" "last pidx = i"
    by (auto simp: create_message_def message_new_def message_new_Ok result_ok Let_def
        bind_eq_Some_conv split: if_split_asm)
  have "distinct (account_keys m)" "\<And>a. a \<in> set (accounts ix) \<Longrightarrow> meta_pubkey a \<in> set (account_keys m)"
    unfolding m compiled_message_keys by (rule distinct_key_table, rule keys_in_table(2) [of ix]) simp
  then have "find (\<lambda>b. key b = meta_pubkey a) callee = find (\<lambda>b. key b = meta_pubkey a) kas"
    if "a \<in> set (accounts ix)" for a
    using find_keyed_list [OF callee] that by blast
  with priv have "privileged kas signers a" if "a \<in> set (accounts ix)" for a
    using that by (simp add: check_privileges_Ok_iff privileged_def)
  with m kas callee rest show thesis by (intro that) auto
qed

section \<open>The run of the callee\<close>

lemma verify_and_update_Ok:
  assumes "verify_and_update h ctx ci aidx wp = Ok ctx'"
  obtains pas t where "ctx' = ctx\<lparr>pre_accounts := pas, ctx_timings := t\<rparr>"
  using assms by (auto simp: verify_and_update_def result_ok split: if_split_asm)

text \<open>The account a position of the inner message stands for, with its privileges.\<close>

definition stands_for ::
  "InvokeContext \<Rightarrow> Message \<Rightarrow> nat list \<Rightarrow> u8 \<Rightarrow> AccountInfo \<Rightarrow> bool" where
  "stands_for ctx m aidx a ka \<longleftrightarrow> unat a < length aidx \<and> key ka = ctx_keys ctx ! (aidx ! unat a) \<and>
     is_signer ka = msg_is_signer m (unat a) \<and>
     msg_is_writable m (unat a) (feature_active ctx demote_program_write_locks) =
       (Ok (is_writable ka) :: (InstructionError, bool) result)"

lemma keyed_account_Ok:
  "keyed_account ctx m (Some aidx) a = (Ok ka :: (InstructionError, AccountInfo) result) \<Longrightarrow>
   stands_for ctx m aidx a ka"
  by (auto simp: keyed_account_def result_ok Let_def stands_for_def)

lemma ctx_push_nested:
  assumes "ctx_push ctx m ci pidx (Some aidx) = Ok ctx'" "invoke_stack ctx \<noteq> []"
  obtains ps as where
    "ctx' = ctx\<lparr>invoke_stack := invoke_stack ctx @ [frame_new (length pidx) (ps @ as)]\<rparr>"
    "map key ps = map (\<lambda>i. ctx_keys ctx ! i) pidx" "list_all2 (stands_for ctx m aidx) (ci_accounts ci) as"
proof -
  from assms obtain ps as where
    ps: "collect_result (keyed_program ctx) pidx = (Ok ps :: (InstructionError, AccountInfo list) result)"
    and as: "collect_result (keyed_account ctx m (Some aidx)) (ci_accounts ci) =
      (Ok as :: (InstructionError, AccountInfo list) result)"
    and ctx': "ctx' = ctx\<lparr>invoke_stack := invoke_stack ctx @ [frame_new (length pidx) (ps @ as)]\<rparr>"
    unfolding ctx_push_def by (auto simp: result_ok split: if_split_asm)
  have "map key ps = map (\<lambda>i. ctx_keys ctx ! i) pidx"
    using map_result_Ok [OF ps]
    by (induction rule: list_all2_induct) (auto simp: keyed_program_def result_ok)
  moreover have "list_all2 (stands_for ctx m aidx) (ci_accounts ci) as"
    using map_result_Ok [OF as] by (rule list_all2_mono) (rule keyed_account_Ok)
  ultimately show thesis using ctx' by (intro that)
qed

lemma set_set_program: "set (set_program k p ps) \<subseteq> insert (k, p) (set ps)"
  by (induction ps) (auto split: if_splits)

lemma all_programs_add: "all_programs (add_program ip k p) \<subseteq> insert p (all_programs ip)"
  using image_mono [OF set_set_program [of k p "programs ip"], of snd]
  by (simp add: all_programs_def add_program_def) blast

lemma all_programs_foldl:
  "all_programs (foldl (\<lambda>ip (k, p). add_program ip k p) ip xs) \<subseteq> all_programs ip \<union> snd ` set xs"
proof (induction xs arbitrary: ip)
  case (Cons x xs)
  obtain k p where x: "x = (k, p)" by force
  from Cons.IH [of "add_program ip k p"] all_programs_add [of ip k p] show ?case
    unfolding x by simp blast
qed simp

lemma env_programs:
  "all_programs (env_processor env) \<subseteq> insert (cpi_native_loader env) (snd ` set (cpi_programs env))"
  unfolding env_processor_def by (rule order_trans [OF all_programs_foldl]) (simp add: all_programs_def)

lemma cross_program_run:
  assumes run: "process_cross_program_instruction h env m pidx aidx cwp ctx = Ok ctx'"
    and ci: "instructions m = [ci]" and pidx: "pidx \<noteq> []"
  obtains f as p n ctx1 ctx2 where "p \<in> all_programs (env_processor env)"
    "p n (ci_data ci) ctx1 = Ok ctx2" "invoke_stack ctx1 = invoke_stack ctx @ [f]"
    "frame_infos f = as" "frame_program_id f = Some (ctx_keys ctx ! last pidx)"
    "list_all2 (stands_for ctx m aidx) (ci_accounts ci) as"
    "ctx_store ctx1 = ctx_store ctx" "ctx_store ctx' = ctx_store ctx2"
proof -
  from run ci obtain caller w c1 c2 c3 c4 where v1: "verify_and_update h ctx ci aidx cwp = Ok c1"
    and caller: "get_caller c1 = Ok caller"
    and push: "ctx_push c1 m ci pidx (Some aidx) = Ok c2"
    and prog: "processor_process_instruction (env_processor env) (ci_data ci) c2 = Ok c3"
    and v2: "verify_and_update h c3 ci aidx w = Ok c4" and ctx': "ctx' = ctx_pop c4"
    unfolding process_cross_program_instruction_def bind_Ok_iff by auto
  from v1 obtain pas t where c1: "c1 = ctx\<lparr>pre_accounts := pas, ctx_timings := t\<rparr>"
    by (rule verify_and_update_Ok)
  have "invoke_stack c1 \<noteq> []" using caller by (auto simp: get_caller_def)
  from ctx_push_nested [OF push this] obtain ps as where
    c2: "c2 = c1\<lparr>invoke_stack := invoke_stack c1 @ [frame_new (length pidx) (ps @ as)]\<rparr>"
    and ps: "map key ps = map (\<lambda>i. ctx_keys c1 ! i) pidx"
    and as: "list_all2 (stands_for c1 m aidx) (ci_accounts ci) as" .
  from prog obtain p n where p: "p \<in> all_programs (env_processor env)" "p n (ci_data ci) c2 = Ok c3"
    by (rule processor_runs)
  from v2 obtain pas' t' where "c4 = c3\<lparr>pre_accounts := pas', ctx_timings := t'\<rparr>"
    by (rule verify_and_update_Ok)
  then have store: "ctx_store ctx' = ctx_store c3" by (simp add: ctx' ctx_pop_def)
  have len: "length ps = length pidx" using arg_cong [OF ps, of length] by simp
  have "key (ps ! (length pidx - 1)) = ctx_keys ctx ! last pidx"
    using arg_cong [OF ps, of "\<lambda>l. l ! (length pidx - 1)"] len pidx
    by (simp add: last_conv_nth c1)
  then have fp: "frame_program_id (frame_new (length pidx) (ps @ as)) = Some (ctx_keys ctx ! last pidx)"
    using len pidx by (cases pidx) (simp_all add: frame_program_id_def frame_new_def nth_append Let_def)
  have infos: "frame_infos (frame_new (length pidx) (ps @ as)) = as"
    using len by (simp add: frame_infos_def frame_new_def)
  have "stands_for c1 = stands_for ctx" by (simp add: stands_for_def fun_eq_iff c1)
  with as have "list_all2 (stands_for ctx m aidx) (ci_accounts ci) as" by simp
  from that [OF p _ infos fp this _ store] show thesis by (simp add: c2 c1)
qed

section \<open>What the callee sees\<close>

lemma key_table_length: "length (key_table [ix] None) \<le> Suc (length (accounts ix))"
proof -
  have "set (key_table [ix] None) \<subseteq> insert (program_id ix) (meta_pubkey ` set (accounts ix))"
    unfolding set_key_table
    by (auto simp: sorted_metas_def all_metas_def get_program_ids_def account_meta_new_readonly_def)
  then have "card (set (key_table [ix] None)) \<le> card (insert (program_id ix) (meta_pubkey ` set (accounts ix)))"
    by (rule card_mono [rotated]) simp
  also have "\<dots> \<le> Suc (card (meta_pubkey ` set (accounts ix)))" by (rule card_insert_le_m1) simp_all
  also have "\<dots> \<le> Suc (length (accounts ix))"
    using card_image_le [of "set (accounts ix)" meta_pubkey] card_length [of "accounts ix"] by simp
  finally show ?thesis using distinct_card [OF distinct_key_table [of "[ix]" None]] by simp
qed

lemma msg_is_writable_demote:
  "msg_is_writable m i d = (Ok True :: (InstructionError, bool) result) \<Longrightarrow>
   msg_is_writable m i False = (Ok True :: (InstructionError, bool) result)"
  by (auto simp: msg_is_writable_def Let_def result_ok split: if_splits)

lemma inner_accounts:
  assumes few: "length (accounts ix) < 255"
    and m: "m = compiled_message [ix] None 0"
    and aidx: "list_all2 (\<lambda>k i. ctx_keys ctx ! i = k) (account_keys m) aidx"
    and as: "list_all2 (stands_for ctx m aidx) (ci_accounts (hd (instructions m))) as"
  shows "map key as = map meta_pubkey (accounts ix)"
    "\<And>ka. ka \<in> set as \<Longrightarrow> is_signer ka \<longleftrightarrow> wants_signature [ix] None (key ka)"
    "(\<And>k. wants_signature [ix] None k \<Longrightarrow> wants_write [ix] None k \<Longrightarrow> wants_write_signed [ix] None k) \<Longrightarrow>
     ka \<in> set as \<Longrightarrow> is_writable ka \<Longrightarrow> wants_write [ix] None (key ka)"
proof -
  let ?ks = "key_table [ix] None"
  have len: "length ?ks < 256" using key_table_length [of ix] few by simp
  have keys: "account_keys m = ?ks" by (simp only: m compiled_message_keys)
  have ci: "compiles ?ks ix (hd (instructions m))"
    using compiled_message_compiles [of "[ix]" None 0] len by (auto simp: m list_all2_Cons1)
  have entry: "unat a < length ?ks \<and> key ka = ?ks ! unat a"
    if "stands_for ctx m aidx a ka" for a ka
    using that list_all2_nthD2 [OF aidx, of "unat a"] list_all2_lengthD [OF aidx]
    by (simp add: stands_for_def keys)
  have "map key as = map (\<lambda>a. ?ks ! unat a) (ci_accounts (hd (instructions m)))"
    using as by (induction rule: list_all2_induct) (simp_all add: entry)
  with ci show "map key as = map meta_pubkey (accounts ix)" by (simp add: compiles_def)
  have from_position: "\<exists>a. stands_for ctx m aidx a ka" if "ka \<in> set as" for ka
    using as that by (auto simp: in_set_conv_nth list_all2_conv_all_nth)
  show "is_signer ka \<longleftrightarrow> wants_signature [ix] None (key ka)" if ka: "ka \<in> set as" for ka
  proof -
    from from_position [OF ka] obtain a where a: "stands_for ctx m aidx a ka" ..
    then have "is_signer ka \<longleftrightarrow> msg_is_signer m (unat a)" by (simp add: stands_for_def)
    also have "\<dots> \<longleftrightarrow> wants_signature [ix] None (?ks ! unat a)"
      unfolding m by (rule compiled_is_signer [OF len]) (use entry [OF a] in blast)
    finally show ?thesis using entry [OF a] by simp
  qed
  assume sw: "\<And>k. wants_signature [ix] None k \<Longrightarrow> wants_write [ix] None k \<Longrightarrow> wants_write_signed [ix] None k"
    and ka: "ka \<in> set as" "is_writable ka"
  from from_position [OF ka(1)] obtain a where a: "stands_for ctx m aidx a ka" ..
  have "msg_is_writable m (unat a) False = (Ok True :: (InstructionError, bool) result)"
    using a ka(2) by (auto simp: stands_for_def intro: msg_is_writable_demote)
  moreover have "(msg_is_writable m (unat a) False :: (InstructionError, bool) result) =
      Ok (wants_write [ix] None (?ks ! unat a) \<and> \<not> is_sysvar_id (?ks ! unat a) \<and>
        ?ks ! unat a \<notin> set BUILTIN_PROGRAMS_KEYS)"
    unfolding m by (rule compiled_is_writable [OF len _ sw]) (use entry [OF a] in blast)
  ultimately show "wants_write [ix] None (key ka)" using entry [OF a] by simp
qed

text \<open>
  A call that succeeded ran the program of the instruction, on the ledger of the caller, with the
  accounts the instruction names. Every signature the callee sees was one of the caller, or is an
  address that the caller's seeds derive from the caller's own program id.
\<close>

definition calls ::
  "cpi_env \<Rightarrow> Instruction \<Rightarrow> pubkey list \<Rightarrow> InvokeContext \<Rightarrow> StackFrame \<Rightarrow> InvokeContext \<Rightarrow> bool" where
  "calls env ix signers ctx f ctx' \<longleftrightarrow>
     (\<exists>p n ctx1 ctx2. p \<in> insert (cpi_native_loader env) (snd ` set (cpi_programs env)) \<and>
        p n (instr_data ix) ctx1 = Ok ctx2 \<and> invoke_stack ctx1 = invoke_stack ctx @ [f] \<and>
        ctx_store ctx1 = ctx_store ctx \<and> ctx_store ctx' = ctx_store ctx2) \<and>
     frame_program_id f = Some (program_id ix) \<and>
     map key (frame_infos f) = map meta_pubkey (accounts ix) \<and>
     (\<forall>ka\<in>set (frame_infos f). is_signer ka \<longrightarrow> key ka \<in> set signers \<or>
        (\<exists>kas. get_keyed_accounts ctx = Ok kas \<and> (\<exists>a\<in>set kas. key a = key ka \<and> is_signer a)))"

lemma cross_program_calls:
  assumes few: "length (accounts ix) < 255"
    and create: "create_message env ix signers ctx = Ok (m, cwp, pidx)"
    and aidx: "list_all2 (\<lambda>k i. ctx_keys ctx ! i = k) (account_keys m) aidx"
    and run: "process_cross_program_instruction h env m pidx aidx cwp ctx = Ok ctx'"
  obtains f where "calls env ix signers ctx f ctx'"
    "(\<And>k. wants_signature [ix] None k \<Longrightarrow> wants_write [ix] None k \<Longrightarrow> wants_write_signed [ix] None k) \<Longrightarrow>
     \<forall>ka\<in>set (frame_infos f). is_writable ka \<longrightarrow>
       (\<exists>kas. get_keyed_accounts ctx = Ok kas \<and> (\<exists>a\<in>set kas. key a = key ka \<and> is_writable a))"
proof -
  from create obtain kas where m: "m = compiled_message [ix] None 0"
    and kas: "get_keyed_accounts ctx = Ok kas"
    and priv: "\<And>a. a \<in> set (accounts ix) \<Longrightarrow> privileged kas signers a"
    and pidx: "pidx \<noteq> []" "get_account ctx (program_id ix) = Some (last pidx)"
    by (rule create_message_Ok) blast
  have inst: "instructions m = [hd (instructions m)]" and data: "ci_data (hd (instructions m)) = instr_data ix"
    by (simp_all add: m compiled_message_def Let_def compiled_def)
  obtain f as p n c1 c2 where
    p: "p \<in> all_programs (env_processor env)" "p n (instr_data ix) c1 = Ok c2"
    "invoke_stack c1 = invoke_stack ctx @ [f]" and infos: "frame_infos f = as"
    and fp: "frame_program_id f = Some (ctx_keys ctx ! last pidx)"
    and as': "list_all2 (stands_for ctx m aidx) (ci_accounts (hd (instructions m))) as"
    and store: "ctx_store c1 = ctx_store ctx" "ctx_store ctx' = ctx_store c2"
    by (rule cross_program_run [OF run inst pidx(1), unfolded data])
  have as: "list_all2 (stands_for ctx m aidx) (ci_accounts (hd (instructions m))) (frame_infos f)"
    using as' infos by simp
  note inner = inner_accounts [OF few m aidx as]
  have held: "\<exists>a\<in>set kas. key a = meta_pubkey b \<and> (meta_is_writable b \<longrightarrow> is_writable a) \<and>
      (meta_is_signer b \<longrightarrow> is_signer a \<or> meta_pubkey b \<in> set signers)" if "b \<in> set (accounts ix)" for b
  proof -
    from priv [OF that] obtain ka where "find (\<lambda>a. key a = meta_pubkey b) kas = Some ka"
      "meta_is_writable b \<longrightarrow> is_writable ka"
      "meta_is_signer b \<longrightarrow> is_signer ka \<or> meta_pubkey b \<in> set signers"
      unfolding privileged_def by blast
    with find_key show ?thesis by blast
  qed
  have "calls env ix signers ctx f ctx'"
    unfolding calls_def
  proof (intro conjI ballI impI)
    show "\<exists>p n c1 c2. p \<in> insert (cpi_native_loader env) (snd ` set (cpi_programs env)) \<and>
        p n (instr_data ix) c1 = Ok c2 \<and> invoke_stack c1 = invoke_stack ctx @ [f] \<and>
        ctx_store c1 = ctx_store ctx \<and> ctx_store ctx' = ctx_store c2"
      using p(2,3) store subsetD [OF env_programs p(1)] by blast
    show "frame_program_id f = Some (program_id ix)"
      using fp get_account_Some(2) [OF pidx(2)] by simp
    show "map key (frame_infos f) = map meta_pubkey (accounts ix)" by (rule inner(1))
    fix ka assume ka: "ka \<in> set (frame_infos f)" "is_signer ka"
    with inner(2) obtain b where "b \<in> set (accounts ix)" "meta_pubkey b = key ka" "meta_is_signer b"
      by (auto simp: wants_signature_def)
    with held [of b] kas show "key ka \<in> set signers \<or>
        (\<exists>kas. get_keyed_accounts ctx = Ok kas \<and> (\<exists>a\<in>set kas. key a = key ka \<and> is_signer a))"
      by auto
  qed
  moreover have "\<exists>kas. get_keyed_accounts ctx = Ok kas \<and> (\<exists>a\<in>set kas. key a = key ka \<and> is_writable a)"
    if "\<And>k. wants_signature [ix] None k \<Longrightarrow> wants_write [ix] None k \<Longrightarrow> wants_write_signed [ix] None k"
      "ka \<in> set (frame_infos f)" "is_writable ka" for ka
  proof -
    from inner(3) [OF that] obtain b where "b \<in> set (accounts ix)" "meta_pubkey b = key ka" "meta_is_writable b"
      by (auto simp: wants_write_def)
    with held [of b] kas show ?thesis by auto
  qed
  ultimately show thesis by (intro that) blast+
qed

section \<open>The entry points\<close>

lemma collect_indices:
  assumes "collect_result f ks = Ok xs" "\<And>k x. k \<in> set ks \<Longrightarrow> f k = Ok x \<Longrightarrow> R k (g x)"
  shows "list_all2 R ks (map g xs)"
  using map_result_Ok [OF assms(1)] assms(2) by (induction rule: list_all2_induct) auto

lemma native_invoke_calls:
  assumes "native_invoke h env ix signers ctx = Ok ctx'" "length (accounts ix) < 255"
  obtains f where "calls env ix signers ctx f ctx'"
proof -
  from assms(1) obtain m cwp pidx accts where
    create: "create_message env ix signers ctx = Ok (m, cwp, pidx)"
    and accts: "collect_result (native_account ctx) (account_keys m) = Ok accts"
    and run: "process_cross_program_instruction h env m pidx (map fst accts) cwp ctx = Ok ctx'"
    by (auto simp: native_invoke_def result_ok)
  have "list_all2 (\<lambda>k i. ctx_keys ctx ! i = k) (account_keys m) (map fst accts)"
    by (rule collect_indices [OF accts])
      (auto simp: native_account_def result_ok dest: get_account_Some(2))
  from cross_program_calls [OF assms(2) create this run] that show thesis by blast
qed

lemma translate_signers_Ok:
  assumes "translate_signers env caller seeds = Ok signers" "k \<in> set signers"
  shows "\<exists>s\<in>set seeds. create_program_address (cpi_crypto env) s caller = Ok k"
proof -
  let ?f = "\<lambda>s. if MAX_SEEDS < length s
    then Err (SyscallInstructionError InstructionError.MaxSeedLengthExceeded)
    else map_err BadSeeds (create_program_address (cpi_crypto env) s caller)"
  have "collect_result ?f seeds = Ok signers"
    using assms(1) by (simp add: translate_signers_def split: if_split_asm)
  then have "list_all2 (\<lambda>s k. create_program_address (cpi_crypto env) s caller = Ok k) seeds (map id signers)"
    by (rule collect_indices) (simp add: map_err_Ok_iff split: if_split_asm)
  with assms(2) show ?thesis by (fastforce simp: in_set_conv_nth list_all2_conv_all_nth)
qed

lemma consume_Ok:
  assumes "consume ctx n = Ok ctx'"
  shows "ctx_store ctx' = ctx_store ctx" "ctx_keys ctx' = ctx_keys ctx"
    "invoke_stack ctx' = invoke_stack ctx"
  using assms by (auto simp: consume_def Let_def split: option.splits if_split_asm)

lemma syscall_calls:
  assumes "syscall_invoke_signed h env lens ix infos seeds ctx = Ok ctx'" "length (accounts ix) < 255"
  obtains f signers caller where "get_caller ctx = Ok caller"
    "translate_signers env caller seeds = Ok signers" "calls env ix signers ctx f ctx'"
proof -
  from assms(1) obtain ctx0 caller signers m cwp pidx kas accts where
    c0: "consume ctx (invoke_units env) = Ok ctx0" and caller: "get_caller ctx0 = Ok caller"
    and signers: "translate_signers env caller seeds = Ok signers"
    and create: "create_message env ix signers ctx0 = Ok (m, cwp, pidx)"
    and accts: "collect_result (translated_account ctx0 m kas lens infos) (enumerate 0 (account_keys m)) = Ok accts"
    and run: "process_cross_program_instruction h env m pidx (map fst accts) cwp ctx0 = Ok ctx'"
    by (auto simp: syscall_invoke_signed_def result_ok)
  have "list_all2 (\<lambda>k i. ctx_keys ctx0 ! i = snd k) (enumerate 0 (account_keys m)) (map fst accts)"
    by (rule collect_indices [OF accts])
      (auto simp: translated_account_def result_ok dest: get_account_Some(2) split: if_split_asm)
  then have "list_all2 (\<lambda>k i. ctx_keys ctx0 ! i = k) (account_keys m) (map fst accts)"
    by (auto simp: list_all2_conv_all_nth nth_enumerate_eq)
  from cross_program_calls [OF assms(2) create this run] obtain f where "calls env ix signers ctx0 f ctx'"
    by blast
  moreover have "get_keyed_accounts ctx0 = get_keyed_accounts ctx"
    unfolding get_keyed_accounts_def consume_Ok [OF c0] ..
  ultimately have "calls env ix signers ctx f ctx'" by (simp add: calls_def consume_Ok [OF c0])
  moreover have "get_caller ctx = Ok caller"
    using caller unfolding get_caller_def consume_Ok [OF c0] .
  ultimately show thesis using signers by (intro that)
qed

end
