(* ===== verification/Swap_Runtime.thy ===== *)
theory Swap_Runtime
  imports Swap_Calls Cpi_Facts
begin

text \<open>
  The swap program on the runtime: its calls into the token program are the system call
  \<open>invoke_signed\<close>, so the contract that \<open>Swap_Calls\<close> relies on is met by the runtime's own code.
\<close>

text \<open>
  The swap program writes no account between its calls, so every call starts from a context whose
  snapshots agree with the ledger. A failed system call ends the program.
\<close>

definition synced :: "ledger \<Rightarrow> PreAccount \<Rightarrow> PreAccount" where
  "synced L pa = pre_account_update pa (L (pre_key pa))"

definition runtime_host ::
  "host \<Rightarrow> cpi_env \<Rightarrow> (string \<Rightarrow> pubkey option) \<Rightarrow> nat list \<Rightarrow> InvokeContext \<Rightarrow> swap_host" where
  "runtime_host h env parse orig_data_lens ctx =
     \<lparr>swap_crypto = cpi_crypto env, parse_pubkey = parse,
      invoke_signed = (\<lambda>L ix infos seeds.
        case syscall_invoke_signed h env orig_data_lens ix infos seeds
          (ctx\<lparr>ctx_store := L, pre_accounts := map (synced L) (pre_accounts ctx)\<rparr>) of
          Ok ctx' \<Rightarrow> Ok (ctx_store ctx')
        | _ \<Rightarrow> Panic)\<rparr>"

text \<open>The keys whose signature the running instruction has.\<close>

definition signed_in :: "InvokeContext \<Rightarrow> pubkey \<Rightarrow> bool" where
  "signed_in ctx k \<longleftrightarrow> (case get_keyed_accounts ctx of
     Ok kas \<Rightarrow> list_ex (\<lambda>a. key a = k \<and> is_signer a) kas | _ \<Rightarrow> False)"

lemma calls_may_sign:
  assumes "translate_signers env caller seeds = Ok signers" "calls env ix signers ctx f ctx'"
    and "i \<in> set (frame_infos f)" "is_signer i"
  shows "may_sign (cpi_crypto env) caller (signed_in ctx) seeds (key i)"
  using assms translate_signers_Ok [OF assms(1)]
  by (fastforce simp: calls_def may_sign_def signed_in_def list_ex_iff)

locale swap_runtime =
  fixes h :: host and env :: cpi_env and parse :: "string \<Rightarrow> pubkey option" and lens :: "nat list"
    and ctx :: InvokeContext and pid :: pubkey
  assumes hosts: "p \<in> insert (cpi_native_loader env) (snd ` set (cpi_programs env)) \<Longrightarrow>
      token_host p h token_id"
    and caller: "get_caller ctx = Ok pid"

sublocale swap_runtime \<subseteq> token_cpi "runtime_host h env parse lens ctx" h pid "signed_in ctx"
proof
  fix L ix infos seeds L'
  let ?c = "ctx\<lparr>ctx_store := L, pre_accounts := map (synced L) (pre_accounts ctx)\<rparr>"
  assume inv: "invoke_signed (runtime_host h env parse lens ctx) L ix infos seeds = Ok L'"
    and tok: "program_id ix = token_id" and few: "length (accounts ix) < 255"
  from inv obtain ctx' where ctx': "syscall_invoke_signed h env lens ix infos seeds ?c = Ok ctx'"
    "L' = ctx_store ctx'"
    by (auto simp: runtime_host_def split: result.splits)
  from ctx'(1) few obtain f signers caller' where caller': "get_caller ?c = Ok caller'"
    and signers: "translate_signers env caller' seeds = Ok signers"
    and calls: "calls env ix signers ?c f ctx'"
    by (rule syscall_calls)
  have c: "caller' = pid" using caller caller' by (simp add: get_caller_def split: if_split_asm)
  have kas: "get_keyed_accounts ?c = get_keyed_accounts ctx" by (simp add: get_keyed_accounts_def)
  from calls obtain p n c1 c2 where p: "p \<in> insert (cpi_native_loader env) (snd ` set (cpi_programs env))"
    and run: "p n (instr_data ix) c1 = Ok c2" "invoke_stack c1 = invoke_stack ?c @ [f]"
    and store: "ctx_store c1 = ctx_store ?c" "ctx_store ctx' = ctx_store c2"
    unfolding calls_def by blast
  have "process h token_id L (frame_infos f) (instr_data ix) = Ok L'"
    using token_host.runs_token [OF hosts [OF p] run] calls tok store ctx'(2) by (simp add: calls_def)
  moreover have "may_sign (swap_crypto (runtime_host h env parse lens ctx)) pid (signed_in ctx) seeds (key i)"
    if "i \<in> set (frame_infos f)" "is_signer i" for i
    using calls_may_sign [OF signers calls that]
    by (simp add: may_sign_def runtime_host_def signed_in_def kas c)
  ultimately show "\<exists>cinfos. map key cinfos = map meta_pubkey (accounts ix) \<and>
      (\<forall>i\<in>set cinfos. is_signer i \<longrightarrow>
        may_sign (swap_crypto (runtime_host h env parse lens ctx)) pid (signed_in ctx) seeds (key i)) \<and>
      process h token_id L cinfos (instr_data ix) = Ok L'"
    using calls by (intro exI [of _ "frame_infos f"]) (simp add: calls_def)
qed

section \<open>The runtime's loaders\<close>

text \<open>Loaders that run the token program, and a context in which \<open>pid\<close> is the running program.\<close>

definition loader_env ::
  "host \<Rightarrow> cpi_env \<Rightarrow> pubkey list \<Rightarrow> (StackFrame \<Rightarrow> bytes \<Rightarrow> ledger \<Rightarrow> (InstructionError, ledger) result) \<Rightarrow>
   cpi_env" where
  "loader_env h env loaders other =
     env\<lparr>cpi_programs := map (\<lambda>k. (k, bpf_runner h token_id other)) loaders,
         cpi_native_loader := bpf_runner h token_id other\<rparr>"

definition running :: "InvokeContext \<Rightarrow> StackFrame list \<Rightarrow> pubkey \<Rightarrow> AccountInfo list \<Rightarrow> InvokeContext" where
  "running ctx fs pid infos = ctx\<lparr>invoke_stack :=
     fs @ [frame_new 1 (\<lparr>key = pid, is_signer = False, is_writable = False\<rparr> # infos)]\<rparr>"

lemma signed_in_running: "signed_in (running ctx fs pid infos) k \<longleftrightarrow> (\<exists>i\<in>set infos. key i = k \<and> is_signer i)"
  by (auto simp: signed_in_def running_def get_keyed_accounts_def frame_new_def segment_def list_ex_iff)

interpretation swap_rt: swap_runtime h "loader_env h env loaders other" parse lens
    "running ctx fs pid infos" pid
  for h env loaders other parse lens ctx fs pid infos
proof (rule swap_runtime.intro)
  show "token_host p h token_id" if "p \<in> insert (cpi_native_loader (loader_env h env loaders other))
      (snd ` set (cpi_programs (loader_env h env loaders other)))" for p
    using that runner.token_host_axioms by (auto simp: loader_env_def)
  show "get_caller (running ctx fs pid infos) = Ok pid"
    by (simp add: get_caller_def running_def frame_program_id_def frame_new_def Let_def)
qed

end
