(* ===== verification/Swap_Facts.thy ===== *)
theory Swap_Facts
  imports Swap_Runtime
begin

text \<open>
  The handlers of the swap program from end to end: what a successful instruction did to the pool
  and to its user, over any host that meets the contract of \<open>Swap_Calls\<close>.
\<close>

section \<open>Results\<close>

lemma from_swap_Ok_iff [result_ok]: "from_swap r = Ok x \<longleftrightarrow> r = Ok x"
  by (cases r) (simp_all add: from_swap_def)

lemma or_else_Ok_iff [result_ok]: "or_else r e = Ok x \<longleftrightarrow> r = Ok x"
  by (cases r) (simp_all add: or_else_def)

lemma to_u64_Ok_iff [result_ok]: "to_u64 v = Ok x \<longleftrightarrow> unat v = unat x"
  using u64_less [of x]
  by (auto simp: to_u64_def unsigned_ucast_eq take_bit_nat_eq_self word_unat_eq_iff)

text \<open>A curve never takes more than the user offered.\<close>

lemma swap_without_fees_takes:
  assumes "swap_without_fees c n s d dir = Ok w"
  shows "unat (source_amount_swapped w) \<le> unat n"
proof (cases c)
  case (StableCurve k)
  with assms show ?thesis by (auto simp: stable_swap_without_fees_def result_ok)
next
  case ConstantProductCurve
  with assms show ?thesis using product_curve.swap_takes by blast
next
  case (ConstantPriceCurve p)
  with assms show ?thesis using price_curve.swap_takes by blast
next
  case (OffsetCurve off)
  with assms show ?thesis using offset_curve.swap_takes by blast
qed

lemma curve_swap_takes:
  assumes "curve_swap cv n s d dir fees = Ok r"
  shows "unat (res_source_amount_swapped r) \<le> unat n"
  using assms by (rule curve_swapE) (use swap_without_fees_takes in force)

lemma process_swap_Ok:
  assumes "process_swap sh pid L n mn infos = Ok L'"
  obtains sw au ut src ssrc sdst dst pm fee tp iter ts sa da mint r amt1 amt2 L1 pool_tokens L2
  where "infos = sw # au # ut # src # ssrc # sdst # dst # pm # fee # tp # iter"
    "swap_version_unpack (info_data L sw) = Ok ts"
    "info_owner L sw = pid" "authority_id sh pid (key sw) (bump_seed ts) = Ok (key au)"
    "key ssrc \<in> {token_a ts, token_b ts}" "key sdst \<in> {token_a ts, token_b ts}"
    "key ssrc \<noteq> key sdst" "key ssrc \<noteq> key src" "key sdst \<noteq> key dst"
    "key pm = pool_mint ts" "key fee = pool_fee_account ts" "key tp = token_program_id ts"
    "unpack_token_account L ssrc (token_program_id ts) = Ok sa"
    "unpack_token_account L sdst (token_program_id ts) = Ok da"
    "unpack_mint L pm (token_program_id ts) = Ok mint"
    "curve_swap (swap_curve ts) (ucast n) (ucast (amount sa)) (ucast (amount da))
       (direction_of ts (key ssrc)) (swap_fees ts) = Ok r"
    "ucast mn \<le> res_destination_amount_swapped r"
    "unat (res_source_amount_swapped r) = unat amt1"
    "token_transfer sh L (key sw) tp src ssrc ut (bump_seed ts) amt1 = Ok L1"
    "pay_owner_fee sh L1 ts sw au pm fee tp iter pool_tokens = Ok L2"
    "unat (res_destination_amount_swapped r) = unat amt2"
    "token_transfer sh L2 (key sw) tp sdst dst au (bump_seed ts) amt2 = Ok L'"
  using assms unfolding process_swap_def
  by (clarsimp simp: result_ok swap_err_def Let_def not_less case_prod_beta)

section \<open>Fees paid in pool tokens\<close>

text \<open>Minting pool tokens leaves every account of another mint alone.\<close>

definition only_pool_tokens :: "pubkey \<Rightarrow> ledger \<Rightarrow> ledger \<Rightarrow> bool" where
  "only_pool_tokens m L L' \<longleftrightarrow> mint_of L' = mint_of L \<and>
     (\<forall>k. mint_of L k \<noteq> Some m \<longrightarrow> balance L' k = balance L k)"

lemma only_pool_tokens_refl: "only_pool_tokens m L L"
  by (simp add: only_pool_tokens_def)

lemma only_pool_tokens_trans:
  "only_pool_tokens m L M \<Longrightarrow> only_pool_tokens m M N \<Longrightarrow> only_pool_tokens m L N"
  by (simp add: only_pool_tokens_def)

context token_cpi
begin

lemma token_mint_to_only:
  "token_mint_to sh L swap tp mi di ai bump amt = Ok L' \<Longrightarrow> only_pool_tokens (key mi) L L'"
  using token_mint_to_balances [of L swap tp mi di ai bump amt L']
  by (auto simp: only_pool_tokens_def)

lemma pay_owner_fee_only:
  assumes "pay_owner_fee sh L ts sw au pm fee tp iter n = Ok L'"
  shows "only_pool_tokens (key pm) L L'"
proof (cases "0 < n")
  case True
  with assms obtain L1 n' amt where h: "pay_host_fee sh L ts sw au pm tp iter n = Ok (L1, n')"
    and m: "token_mint_to sh L1 (key sw) tp pm fee au (bump_seed ts) amt = Ok L'"
    by (auto simp: pay_owner_fee_def result_ok)
  from h have "only_pool_tokens (key pm) L L1"
    by (auto simp: pay_host_fee_def result_ok if_Ok_iff only_pool_tokens_refl dest: token_mint_to_only
        split: result.splits if_split_asm)
  with token_mint_to_only [OF m] show ?thesis by (rule only_pool_tokens_trans [rotated])
qed (use assms in \<open>simp add: pay_owner_fee_def only_pool_tokens_refl\<close>)

lemma token_transfer_authority:
  assumes "token_transfer sh L swap tp si di ai bump amt = Ok L'" "multisig_at L (key ai) = None"
  obtains a where "acct_at L (key si) = Some a" "may_spend (key ai) amt a"
    "has_signed (key ai) \<or>
     create_program_address (swap_crypto sh) [pubkey_to_bytes swap, [bump]] pid = Ok (key ai)"
proof -
  show thesis
  proof (rule token_transfer_call [OF assms(1)])
    fix c1 c2 c3
    assume c: "process_transfer token_id L [c1, c2, c3] amt None = Ok L'"
      "key c1 = key si" "key c2 = key di" "key c3 = key ai"
      and sign: "\<And>c. c \<in> {c1, c2, c3} \<Longrightarrow> is_signer c \<Longrightarrow> may_sign (swap_crypto sh) pid has_signed
        (authority_signature_seeds swap bump) (key c)"
    obtain a where a: "acct_at L (key si) = Some a" "may_spend (key ai) amt a"
      and auth: "authorized token_id L [c1, c2, c3] (key ai)"
      by (rule process_transfer_effect [OF c(1), unfolded c(2-4)]) blast
    from auth assms(2) obtain i where i: "i \<in> {c1, c2, c3}" "key i = key ai" "is_signer i"
      by (auto simp: authorized_def split: if_split_asm)
    from sign [OF i(1,3)] i(2) a show thesis
      by (intro that) (auto simp: may_sign_def authority_signature_seeds_def)
  qed
qed

section \<open>Trading\<close>

text \<open>
  The accounts of a swap instruction by position: the user's authority, the user's source, the
  pool's two sides in the direction of the trade, the user's destination.
\<close>

lemma process_swap_trade:
  assumes run: "process_swap sh pid L n mn infos = Ok L'"
    and ts: "swap_version_unpack (info_data L (infos ! 0)) = Ok ts"
    and mints: "mint_of L (token_a ts) \<noteq> mint_of L (token_b ts)"
      "mint_of L (token_a ts) \<noteq> Some (pool_mint ts)" "mint_of L (token_b ts) \<noteq> Some (pool_mint ts)"
  defines "user \<equiv> key (infos ! 3)" and "s \<equiv> key (infos ! 4)" and "d \<equiv> key (infos ! 5)"
    and "dest \<equiv> key (infos ! 6)"
  obtains paid got where "{s, d} = {token_a ts, token_b ts}" "s \<noteq> d" "paid \<le> unat n" "unat mn \<le> got"
    "balance L user = balance L' user + paid" "balance L' s = balance L s + paid"
    "balance L d = balance L' d + got" "balance L' dest = balance L dest + got"
    "closed_form (calculator (swap_curve ts)) \<Longrightarrow>
     worth (calculator (swap_curve ts)) (direction_of ts s) (balance L s) (balance L d) \<le>
     worth (calculator (swap_curve ts)) (direction_of ts s) (balance L' s) (balance L' d)"
proof -
  obtain sw au ut src ssrc sdst dst pm fee tp iter ts' sa da mint r amt1 amt2 L1 pool_tokens L2 where
    infos: "infos = sw # au # ut # src # ssrc # sdst # dst # pm # fee # tp # iter"
    and ts': "swap_version_unpack (info_data L sw) = Ok ts'"
    and "info_owner L sw = pid" "authority_id sh pid (key sw) (bump_seed ts') = Ok (key au)"
    and sides: "key ssrc \<in> {token_a ts', token_b ts'}" "key sdst \<in> {token_a ts', token_b ts'}"
    "key ssrc \<noteq> key sdst" "key ssrc \<noteq> key src" "key sdst \<noteq> key dst" "key pm = pool_mint ts'"
    "key fee = pool_fee_account ts'" "key tp = token_program_id ts'"
    and accts: "unpack_token_account L ssrc (token_program_id ts') = Ok sa"
    "unpack_token_account L sdst (token_program_id ts') = Ok da"
    and "unpack_mint L pm (token_program_id ts') = Ok mint"
    and r: "curve_swap (swap_curve ts') (ucast n) (ucast (amount sa)) (ucast (amount da))
       (direction_of ts' (key ssrc)) (swap_fees ts') = Ok r"
    and mn: "ucast mn \<le> res_destination_amount_swapped r"
    and amt1: "unat (res_source_amount_swapped r) = unat amt1"
    and t1: "token_transfer sh L (key sw) tp src ssrc ut (bump_seed ts') amt1 = Ok L1"
    and pay: "pay_owner_fee sh L1 ts' sw au pm fee tp iter pool_tokens = Ok L2"
    and amt2: "unat (res_destination_amount_swapped r) = unat amt2"
    and t2: "token_transfer sh L2 (key sw) tp sdst dst au (bump_seed ts') amt2 = Ok L'"
    by (rule process_swap_Ok [OF run])
  have ts_eq: "ts' = ts" using ts ts' by (simp add: infos)
  have keys: "user = key src" "s = key ssrc" "d = key sdst" "dest = key dst"
    by (simp_all add: user_def s_def d_def dest_def infos)
  note sides = sides [unfolded ts_eq keys(2,3) [symmetric]]
  have pool: "{s, d} = {token_a ts, token_b ts}" using sides(1-3) by auto
  note m1 = token_transfer_balances [OF t1, unfolded keys [symmetric]]
  note m2 = token_transfer_balances [OF t2, unfolded keys [symmetric]]
  have only: "only_pool_tokens (pool_mint ts) L1 L2"
    using pay_owner_fee_only [OF pay] sides(6) by simp
  have mint2: "mint_of L2 = mint_of L" using only m1(1) by (simp add: only_pool_tokens_def)
  have ne: "mint_of L s \<noteq> mint_of L d" "mint_of L s \<noteq> Some (pool_mint ts)" "mint_of L d \<noteq> Some (pool_mint ts)"
    using sides(1-3) mints by auto
  have mu: "mint_of L user = mint_of L s" and md: "mint_of L dest = mint_of L d"
    using m1(2) m2(2) by (simp_all add: mint2)
  have dist: "s \<noteq> d" "user \<noteq> s" "user \<noteq> d" "user \<noteq> dest" "dest \<noteq> s" "dest \<noteq> d"
    using sides(3-5) ne(1) mu md by (auto simp: keys)
  have fee: "balance L2 k = balance L1 k" if "mint_of L k \<noteq> Some (pool_mint ts)" for k
    using only that m1(1) by (simp add: only_pool_tokens_def)
  have b1: "balance L1 = (balance L)(user := balance L user - unat amt1, s := balance L s + unat amt1)"
    using m1(8) dist(2) by simp
  have b2: "balance L' = (balance L2)(d := balance L2 d - unat amt2, dest := balance L2 dest + unat amt2)"
    using m2(8) dist(6) by simp
  have f: "balance L2 user = balance L1 user" "balance L2 s = balance L1 s" "balance L2 d = balance L1 d"
    "balance L2 dest = balance L1 dest"
    using ne mu md by (auto intro!: fee)
  have moved: "balance L user = balance L' user + unat amt1" "balance L' s = balance L s + unat amt1"
    "balance L d = balance L' d + unat amt2" "balance L' dest = balance L dest + unat amt2"
    using m1(4) m2(4) dist f by (simp_all add: b2 b1)
  have read: "balance L s = unat (amount sa)" "balance L d = unat (amount da)"
    using accts by (auto simp: balance_def keys unpack_token_account_def result_ok
        simp flip: read_account_def)
  have new: "unat (new_swap_source_amount r) = balance L' s"
    "unat (new_swap_destination_amount r) = balance L' d"
  proof -
    have "unat (new_swap_source_amount r) = unat (amount sa) + unat (res_source_amount_swapped r) \<and>
        unat (new_swap_destination_amount r) = unat (amount da) - unat (res_destination_amount_swapped r)"
      by (rule curve_swapE [OF r]) simp
    then show "unat (new_swap_source_amount r) = balance L' s"
      "unat (new_swap_destination_amount r) = balance L' d"
      using moved(2,3) read amt1 amt2 by simp_all
  qed
  show thesis
  proof (rule that [OF pool dist(1) _ _ moved])
    show "unat amt1 \<le> unat n" using curve_swap_takes [OF r] amt1 by simp
    show "unat mn \<le> unat amt2" using mn amt2 by (simp add: word_le_nat_alt)
    assume "closed_form (calculator (swap_curve ts))"
    then show "worth (calculator (swap_curve ts)) (direction_of ts s) (balance L s) (balance L d) \<le>
     worth (calculator (swap_curve ts)) (direction_of ts s) (balance L' s) (balance L' d)"
      using curve_swap_worth(1) [OF r] by (simp add: ts_eq read new flip: keys(2))
  qed
qed

section \<open>Shares\<close>

lemma token_transfer_sides:
  assumes "token_transfer sh L swap tp si di ai bump amt = Ok L'" "key si \<noteq> key di"
  shows "mint_of L' = mint_of L" "supply_of L' = supply_of L"
    "balance L' (key si) = balance L (key si) - unat amt" "unat amt \<le> balance L (key si)"
    "balance L' (key di) = balance L (key di) + unat amt" "mint_of L (key si) = mint_of L (key di)"
    "mint_of L k \<noteq> mint_of L (key si) \<Longrightarrow> balance L' k = balance L k"
  using token_transfer_balances [OF assms(1)] assms(2) by (auto simp: supply_of_def fun_eq_iff)

lemma optional_transfer_sides:
  assumes "(if 0 < amt then token_transfer sh L swap tp si di ai bump amt else Ok L) = Ok L'"
    "key si \<noteq> key di"
  shows "mint_of L' = mint_of L" "supply_of L' = supply_of L"
    "balance L' (key si) = balance L (key si) - unat amt"
    "mint_of L k \<noteq> mint_of L (key si) \<Longrightarrow> balance L' k = balance L k"
proof -
  have *: "mint_of L' = mint_of L \<and> supply_of L' = supply_of L \<and>
      balance L' (key si) = balance L (key si) - unat amt \<and>
      (\<forall>k. mint_of L k \<noteq> mint_of L (key si) \<longrightarrow> balance L' k = balance L k)"
  proof (cases "0 < amt")
    case True
    with assms(1) have "token_transfer sh L swap tp si di ai bump amt = Ok L'" by simp
    from token_transfer_sides [OF this assms(2)] show ?thesis by blast
  next
    case False
    with assms(1) show ?thesis by (simp add: word_gt_0)
  qed
  show "mint_of L' = mint_of L" "supply_of L' = supply_of L"
    "balance L' (key si) = balance L (key si) - unat amt"
    "mint_of L k \<noteq> mint_of L (key si) \<Longrightarrow> balance L' k = balance L k"
    using * by blast+
qed

lemma pay_withdraw_fee_only:
  assumes "pay_withdraw_fee sh L ts sw tp si fi ui n = Ok L'" "mint_of L' (key si) = Some m"
  shows "only_pool_tokens m L L'" "supply_of L' = supply_of L"
proof -
  have "only_pool_tokens m L L' \<and> supply_of L' = supply_of L"
  proof (cases "0 < n")
    case True
    with assms(1) obtain amt where "token_transfer sh L (key sw) tp si fi ui (bump_seed ts) amt = Ok L'"
      by (auto simp: pay_withdraw_fee_def result_ok)
    from token_transfer_balances [OF this] assms(2) show ?thesis
      by (cases "key si = key fi") (auto simp: only_pool_tokens_def supply_of_def fun_eq_iff)
  qed (use assms(1) in \<open>simp add: pay_withdraw_fee_def only_pool_tokens_refl\<close>)
  then show "only_pool_tokens m L L'" "supply_of L' = supply_of L" by simp_all
qed

end

text \<open>What one pool token stands for does not fall, on either side of the pool.\<close>

definition share_kept :: "SwapV1 \<Rightarrow> ledger \<Rightarrow> ledger \<Rightarrow> bool" where
  "share_kept ts L L' \<longleftrightarrow> (\<forall>k\<in>{token_a ts, token_b ts}.
     balance L k * supply_of L' (pool_mint ts) \<le> balance L' k * supply_of L (pool_mint ts))"

text \<open>The curves that convert pool tokens by the ratio of the pool's own balances.\<close>

definition ratio_curve :: "calculator \<Rightarrow> bool" where
  "ratio_curve c = (case c of ConstantProductCurve \<Rightarrow> True | StableCurve k \<Rightarrow> True | _ \<Rightarrow> False)"

lemma check_accounts_Ok_iff:
  "check_accounts sh L ts pid sw au ai bi pm tp ua ub fi = Ok () \<longleftrightarrow>
     info_owner L sw = pid \<and> authority_id sh pid (key sw) (bump_seed ts) = Ok (key au) \<and>
     key ai = token_a ts \<and> key bi = token_b ts \<and> key pm = pool_mint ts \<and>
     key tp = token_program_id ts \<and> (\<forall>i. ua = Some i \<longrightarrow> key ai \<noteq> key i) \<and>
     (\<forall>i. ub = Some i \<longrightarrow> key bi \<noteq> key i) \<and> (\<forall>i. fi = Some i \<longrightarrow> key i = pool_fee_account ts)"
  by (auto simp: check_accounts_def result_ok swap_err_def split: option.splits)

lemma process_withdraw_all_Ok:
  assumes "process_withdraw_all_token_types sh pid L n mina minb infos = Ok L'"
  obtains sw au ut pm src ai bi da db fi tp iter ts a b mint fee pool_tokens r L1 L2 L3
    a_amt b_amt amt x y
  where "infos = sw # au # ut # pm # src # ai # bi # da # db # fi # tp # iter"
    "swap_version_unpack (info_data L sw) = Ok ts"
    "check_accounts sh L ts pid sw au ai bi pm tp (Some da) (Some db) (Some fi) = Ok ()"
    "unpack_token_account L ai (token_program_id ts) = Ok a"
    "unpack_token_account L bi (token_program_id ts) = Ok b"
    "unpack_mint L pm (token_program_id ts) = Ok mint"
    "pool_tokens_to_trading_tokens (calculator (swap_curve ts)) pool_tokens
       (ucast (mint_supply mint)) (ucast (amount a)) (ucast (amount b)) Floor = Ok r"
    "unat (token_a_amount r) = unat x" "a_amt = min (amount a) x" "mina \<le> a_amt"
    "unat (token_b_amount r) = unat y" "b_amt = min (amount b) y" "minb \<le> b_amt"
    "pay_withdraw_fee sh L ts sw tp src fi ut fee = Ok L1" "unat pool_tokens = unat amt"
    "token_burn sh L1 (key sw) tp src pm ut (bump_seed ts) amt = Ok L2"
    "(if 0 < a_amt then token_transfer sh L2 (key sw) tp ai da au (bump_seed ts) a_amt else Ok L2) = Ok L3"
    "(if 0 < b_amt then token_transfer sh L3 (key sw) tp bi db au (bump_seed ts) b_amt else Ok L3) = Ok L'"
  using assms unfolding process_withdraw_all_token_types_def
  by (clarsimp simp: result_ok swap_err_def Let_def not_less case_prod_beta cong: if_cong)

lemma unpack_token_account_Ok:
  "unpack_token_account L i tpid = Ok a \<Longrightarrow> balance L (key i) = unat (amount a) \<and> acct_at L (key i) = Some a"
  by (auto simp: balance_def unpack_token_account_def result_ok simp flip: read_account_def)

lemma unpack_mint_Ok:
  "unpack_mint L i tpid = Ok m \<Longrightarrow> supply_of L (key i) = unat (mint_supply m)"
  by (auto simp: supply_of_def unpack_mint_def result_ok simp flip: read_mint_def)

context token_cpi
begin

lemma process_withdraw_all_share:
  assumes run: "process_withdraw_all_token_types sh pid L n mina minb infos = Ok L'"
    and ts: "swap_version_unpack (info_data L (infos ! 0)) = Ok ts"
    and mints: "mint_of L (token_a ts) \<noteq> mint_of L (token_b ts)"
      "mint_of L (token_a ts) \<noteq> Some (pool_mint ts)" "mint_of L (token_b ts) \<noteq> Some (pool_mint ts)"
    and ratio: "ratio_curve (calculator (swap_curve ts))"
  shows "share_kept ts L L'" "balance L' (token_a ts) + unat mina \<le> balance L (token_a ts)"
    "balance L' (token_b ts) + unat minb \<le> balance L (token_b ts)"
    "supply_of L' (pool_mint ts) \<le> supply_of L (pool_mint ts)"
proof -
  obtain sw au ut pm src ai bi da db fi tp iter ts' a b mint fee pool_tokens r L1 L2 L3
    a_amt b_amt amt x y
    where infos: "infos = sw # au # ut # pm # src # ai # bi # da # db # fi # tp # iter"
    and ts': "swap_version_unpack (info_data L sw) = Ok ts'"
    and chk: "check_accounts sh L ts' pid sw au ai bi pm tp (Some da) (Some db) (Some fi) = Ok ()"
    and acc: "unpack_token_account L ai (token_program_id ts') = Ok a"
    "unpack_token_account L bi (token_program_id ts') = Ok b"
    "unpack_mint L pm (token_program_id ts') = Ok mint"
    and r: "pool_tokens_to_trading_tokens (calculator (swap_curve ts')) pool_tokens
       (ucast (mint_supply mint)) (ucast (amount a)) (ucast (amount b)) Floor = Ok r"
    and amts: "unat (token_a_amount r) = unat x" "a_amt = min (amount a) x" "mina \<le> a_amt"
    "unat (token_b_amount r) = unat y" "b_amt = min (amount b) y" "minb \<le> b_amt"
    and fee: "pay_withdraw_fee sh L ts' sw tp src fi ut fee = Ok L1"
    and amt: "unat pool_tokens = unat amt"
    and burn: "token_burn sh L1 (key sw) tp src pm ut (bump_seed ts') amt = Ok L2"
    and ta: "(if 0 < a_amt then token_transfer sh L2 (key sw) tp ai da au (bump_seed ts') a_amt else Ok L2) = Ok L3"
    and tb: "(if 0 < b_amt then token_transfer sh L3 (key sw) tp bi db au (bump_seed ts') b_amt else Ok L3) = Ok L'"
    by (rule process_withdraw_all_Ok [OF run])
  have "ts' = ts" using ts ts' by (simp add: infos)
  note all = chk [unfolded this check_accounts_Ok_iff] r [unfolded this]
  from all(1) have keys: "key ai = token_a ts" "key bi = token_b ts" "key pm = pool_mint ts"
    "key ai \<noteq> key da" "key bi \<noteq> key db" by auto
  note rd = unpack_token_account_Ok [OF acc(1)] unpack_token_account_Ok [OF acc(2)] unpack_mint_Ok [OF acc(3)]
  note bn = token_burn_balances [OF burn]
  have fee': "only_pool_tokens (pool_mint ts) L L1" "supply_of L1 = supply_of L"
    using pay_withdraw_fee_only [OF fee bn(2)] keys(3) by simp_all
  have m1: "mint_of L1 = mint_of L" and m2: "mint_of L2 = mint_of L"
    using fee'(1) bn(1) by (simp_all add: only_pool_tokens_def)
  have src: "key src \<noteq> token_a ts" "key src \<noteq> token_b ts"
    using bn(2) mints keys(3) by (auto simp: m1)
  have pool2: "balance L2 (token_a ts) = balance L (token_a ts)" "balance L2 (token_b ts) = balance L (token_b ts)"
    using fee'(1) mints src by (simp_all add: bn(4) only_pool_tokens_def)
  note sa = optional_transfer_sides [OF ta keys(4), unfolded keys m2]
  note sb = optional_transfer_sides [OF tb keys(5), unfolded keys sa(1) m2]
  have A: "balance L' (token_a ts) = balance L (token_a ts) - unat a_amt"
    using sb(4) [of "token_a ts"] sa(3) mints(1) pool2 by simp
  have B: "balance L' (token_b ts) = balance L (token_b ts) - unat b_amt"
    using sb(3) sa(4) [of "token_b ts"] mints(1) pool2 by simp
  have S: "supply_of L' (pool_mint ts) = supply_of L (pool_mint ts) - unat pool_tokens"
    "unat pool_tokens \<le> supply_of L (pool_mint ts)"
    using sb(2) sa(2) bn(5,7) fee'(2) keys(3) amt by simp_all
  have "ratio_pool_tokens pool_tokens (ucast (mint_supply mint)) (ucast (amount a)) (ucast (amount b)) Floor = Ok r"
    using all(2) ratio by (auto simp: ratio_curve_def split: calculator.splits)
  note rt = ratio_pool_tokens_Floor [OF this]
  have xy: "unat x = unat pool_tokens * balance L (token_a ts) div supply_of L (pool_mint ts)"
    "unat y = unat pool_tokens * balance L (token_b ts) div supply_of L (pool_mint ts)"
    "0 < supply_of L (pool_mint ts)"
    using rt amts(1,4) rd keys by simp_all
  note fa = floor_favours_pool [OF xy(1) S(2) xy(3)] and fb = floor_favours_pool [OF xy(2) S(2) xy(3)]
  have eq: "unat a_amt = unat x" "unat b_amt = unat y"
    using fa(2) fb(2) rd keys by (simp_all add: amts(2,5) min_def word_le_nat_alt)
  show "share_kept ts L L'" using fa(1) fb(1) by (simp add: share_kept_def A B S eq)
  show "balance L' (token_a ts) + unat mina \<le> balance L (token_a ts)"
    "balance L' (token_b ts) + unat minb \<le> balance L (token_b ts)"
    using amts(3,6) fa(2) fb(2) by (simp_all add: A B eq [symmetric] word_le_nat_alt)
  show "supply_of L' (pool_mint ts) \<le> supply_of L (pool_mint ts)" by (simp add: S)
qed

end

lemma process_deposit_all_Ok:
  assumes "process_deposit_all_token_types sh pid L n maxa maxb infos = Ok L'"
  obtains sw au ut sa sb ai bi pm di tp iter ts a b mint pool_tokens S r x y amt L1 L2
  where "infos = sw # au # ut # sa # sb # ai # bi # pm # di # tp # iter"
    "swap_version_unpack (info_data L sw) = Ok ts"
    "check_accounts sh L ts pid sw au ai bi pm tp (Some sa) (Some sb) None = Ok ()"
    "unpack_token_account L ai (token_program_id ts) = Ok a"
    "unpack_token_account L bi (token_program_id ts) = Ok b"
    "unpack_mint L pm (token_program_id ts) = Ok mint"
    "pool_tokens = (if 0 < (ucast (mint_supply mint) :: u128) then ucast n
       else new_pool_supply (calculator (swap_curve ts)))"
    "S = (if 0 < (ucast (mint_supply mint) :: u128) then ucast (mint_supply mint)
       else new_pool_supply (calculator (swap_curve ts)))"
    "pool_tokens_to_trading_tokens (calculator (swap_curve ts)) pool_tokens S
       (ucast (amount a)) (ucast (amount b)) Ceiling = Ok r"
    "unat (token_a_amount r) = unat x" "x \<le> maxa" "x \<noteq> 0"
    "unat (token_b_amount r) = unat y" "y \<le> maxb" "y \<noteq> 0" "unat pool_tokens = unat amt"
    "token_transfer sh L (key sw) tp sa ai ut (bump_seed ts) x = Ok L1"
    "token_transfer sh L1 (key sw) tp sb bi ut (bump_seed ts) y = Ok L2"
    "token_mint_to sh L2 (key sw) tp pm di au (bump_seed ts) amt = Ok L'"
  using assms unfolding process_deposit_all_token_types_def
  by (clarsimp simp: result_ok swap_err_def Let_def not_less case_prod_beta if_distrib [of fst]
      if_distrib [of snd] cong: if_cong)

context token_cpi
begin

lemma process_deposit_all_share:
  assumes run: "process_deposit_all_token_types sh pid L n maxa maxb infos = Ok L'"
    and ts: "swap_version_unpack (info_data L (infos ! 0)) = Ok ts"
    and mints: "mint_of L (token_a ts) \<noteq> mint_of L (token_b ts)"
      "mint_of L (token_a ts) \<noteq> Some (pool_mint ts)" "mint_of L (token_b ts) \<noteq> Some (pool_mint ts)"
    and ratio: "ratio_curve (calculator (swap_curve ts))" and pos: "0 < supply_of L (pool_mint ts)"
  shows "share_kept ts L L'" "balance L' (token_a ts) \<le> balance L (token_a ts) + unat maxa"
    "balance L' (token_b ts) \<le> balance L (token_b ts) + unat maxb"
    "supply_of L' (pool_mint ts) = supply_of L (pool_mint ts) + unat n"
proof -
  obtain sw au ut sa sb ai bi pm di tp iter ts' a b mint pool_tokens S' r x y amt L1 L2
    where infos: "infos = sw # au # ut # sa # sb # ai # bi # pm # di # tp # iter"
    and ts': "swap_version_unpack (info_data L sw) = Ok ts'"
    and chk: "check_accounts sh L ts' pid sw au ai bi pm tp (Some sa) (Some sb) None = Ok ()"
    and acc: "unpack_token_account L ai (token_program_id ts') = Ok a"
    "unpack_token_account L bi (token_program_id ts') = Ok b"
    "unpack_mint L pm (token_program_id ts') = Ok mint"
    and pt: "pool_tokens = (if 0 < (ucast (mint_supply mint) :: u128) then ucast n
       else new_pool_supply (calculator (swap_curve ts')))"
    "S' = (if 0 < (ucast (mint_supply mint) :: u128) then ucast (mint_supply mint)
       else new_pool_supply (calculator (swap_curve ts')))"
    and r: "pool_tokens_to_trading_tokens (calculator (swap_curve ts')) pool_tokens S'
       (ucast (amount a)) (ucast (amount b)) Ceiling = Ok r"
    and amts: "unat (token_a_amount r) = unat x" "x \<le> maxa" "x \<noteq> 0"
    "unat (token_b_amount r) = unat y" "y \<le> maxb" "y \<noteq> 0" and amt: "unat pool_tokens = unat amt"
    and ta: "token_transfer sh L (key sw) tp sa ai ut (bump_seed ts') x = Ok L1"
    and tb: "token_transfer sh L1 (key sw) tp sb bi ut (bump_seed ts') y = Ok L2"
    and mt: "token_mint_to sh L2 (key sw) tp pm di au (bump_seed ts') amt = Ok L'"
    by (rule process_deposit_all_Ok [OF run])
  have "ts' = ts" using ts ts' by (simp add: infos)
  note all = chk [unfolded this check_accounts_Ok_iff] r [unfolded this]
  from all(1) have keys: "key ai = token_a ts" "key bi = token_b ts" "key pm = pool_mint ts"
    "key sa \<noteq> key ai" "key sb \<noteq> key bi" by auto
  note rd = unpack_token_account_Ok [OF acc(1)] unpack_token_account_Ok [OF acc(2)] unpack_mint_Ok [OF acc(3)]
  have pts: "pool_tokens = ucast n" "S' = ucast (mint_supply mint)"
    using pt rd(3) pos keys(3) by (auto simp: word_gt_0 word_unat_eq_iff split: if_split_asm)
  note sa = token_transfer_sides [OF ta keys(4)]
  note sb = token_transfer_sides [OF tb keys(5), unfolded sa(1)]
  note mb = token_mint_to_balances [OF mt]
  have m2: "mint_of L2 = mint_of L" using sa(1) sb(1) by simp
  have di: "key di \<noteq> token_a ts" "key di \<noteq> token_b ts"
    using mb(2) mints keys(3) by (auto simp: m2)
  have A: "balance L' (token_a ts) = balance L (token_a ts) + unat x"
    using sa(5) sb(7) [of "token_a ts"] sb(6) mints(1) di keys by (simp add: mb(3))
  have B: "balance L' (token_b ts) = balance L (token_b ts) + unat y"
    using sb(5) sa(7) [of "token_b ts"] sa(6) mints(1) di keys by (simp add: mb(3))
  have S: "supply_of L' (pool_mint ts) = supply_of L (pool_mint ts) + unat n"
    using mb(4) sa(2) sb(2) keys(3) amt by (simp add: pts)
  then show "supply_of L' (pool_mint ts) = supply_of L (pool_mint ts) + unat n" .
  have "ratio_pool_tokens (ucast n) (ucast (mint_supply mint)) (ucast (amount a)) (ucast (amount b)) Ceiling = Ok r"
    using all(2) ratio by (auto simp: pts ratio_curve_def split: calculator.splits)
  note rt = ratio_pool_tokens_Ceiling [OF this]
  have xy: "unat x = ceil_div (unat n * balance L (token_a ts)) (supply_of L (pool_mint ts))"
    "unat y = ceil_div (unat n * balance L (token_b ts)) (supply_of L (pool_mint ts))"
    using rt amts(1,3,4,6) rd keys by (auto simp: word_unat_eq_iff)
  show "share_kept ts L L'"
    using ceiling_favours_pool [OF xy(1) pos] ceiling_favours_pool [OF xy(2) pos]
    by (simp add: share_kept_def A B S)
  show "balance L' (token_a ts) \<le> balance L (token_a ts) + unat maxa"
    "balance L' (token_b ts) \<le> balance L (token_b ts) + unat maxb"
    using amts(2,5) by (simp_all add: A B word_le_nat_alt)
qed

end

end
