(* ===== verification/Swap_Pool.thy ===== *)
theory Swap_Pool
  imports Swap_Facts
begin

text \<open>
  The invariant of a pool: what \<open>process_initialize\<close> establishes and every instruction of the swap
  program keeps, over any host that meets the contract of \<open>Swap_Calls\<close>.
\<close>

section \<open>What the calls leave alone\<close>

text \<open>
  The calls of the swap program move balances and supplies and change nothing else: owners, mints
  and authorities stay, no delegate appears, and other accounts keep their bytes.
\<close>

definition same_terms :: "Account \<Rightarrow> Account \<Rightarrow> bool" where
  "same_terms a a' \<longleftrightarrow> acct_owner a' = acct_owner a \<and> acct_mint a' = acct_mint a \<and>
     close_authority a' = close_authority a \<and> (delegate a = None \<longrightarrow> delegate a' = None)"

definition same_authorities :: "Mint \<Rightarrow> Mint \<Rightarrow> bool" where
  "same_authorities m m' \<longleftrightarrow> mint_authority m' = mint_authority m \<and> freeze_authority m' = freeze_authority m"

definition tokens_only :: "ledger \<Rightarrow> ledger \<Rightarrow> bool" where
  "tokens_only L L' \<longleftrightarrow> (\<forall>k. rel_option same_terms (acct_at L k) (acct_at L' k) \<and>
     rel_option same_authorities (mint_at L k) (mint_at L' k) \<and>
     (acct_at L k = None \<longrightarrow> mint_at L k = None \<longrightarrow> L' k = L k))"

lemma same_terms_refl: "same_terms a a"
  by (simp add: same_terms_def)

lemma same_authorities_refl: "same_authorities m m"
  by (simp add: same_authorities_def)

lemma tokens_only_refl: "tokens_only L L"
  by (simp add: tokens_only_def option.rel_refl same_terms_refl same_authorities_refl)

lemma tokens_only_trans: "tokens_only L M \<Longrightarrow> tokens_only M N \<Longrightarrow> tokens_only L N"
  unfolding tokens_only_def
proof (intro allI conjI impI, goal_cases)
  case (1 k)
  then have "rel_option same_terms (acct_at L k) (acct_at M k)"
    "rel_option same_terms (acct_at M k) (acct_at N k)" by blast+
  then show ?case by (auto simp: rel_option_iff same_terms_def split: option.splits)
next
  case (2 k)
  then have "rel_option same_authorities (mint_at L k) (mint_at M k)"
    "rel_option same_authorities (mint_at M k) (mint_at N k)" by blast+
  then show ?case by (auto simp: rel_option_iff same_authorities_def split: option.splits)
next
  case (3 k)
  then have "M k = L k" by blast
  moreover have "acct_at M k = None" "mint_at M k = None"
    using 3 by (metis option.rel_sel)+
  ultimately show ?case using 3(2) by (metis (no_types))
qed

lemma same_terms_debit [simp]: "same_terms a (debit t amt a)" "same_terms a (credit amt a)"
  by (auto simp: same_terms_def debit_def credit_def)

context token_cpi
begin

lemma token_transfer_tokens:
  assumes "token_transfer sh L swap tp si di ai bump amt = Ok L'"
  shows "tokens_only L L'"
proof -
  obtain c1 c2 c3 where c: "process_transfer token_id L [c1, c2, c3] amt None = Ok L'"
    "key c1 = key si" "key c2 = key di"
    by (rule token_transfer_call [OF assms]) blast
  obtain a b where e: "acct_at L (key si) = Some a" "acct_at L (key di) = Some b"
    "acct_at L' = (if key si = key di then acct_at L
       else (acct_at L)(key si \<mapsto> debit (key c3) amt a, key di \<mapsto> credit amt b))"
    "mint_at L' = mint_at L" and out: "\<And>k. k \<noteq> key si \<Longrightarrow> k \<noteq> key di \<Longrightarrow> L' k = L k"
    by (rule process_transfer_effect [OF c(1), unfolded c(2,3)]) blast
  have "L' k = L k" if "acct_at L k = None" for k
    by (rule out) (use e(1,2) that in auto)
  with e show ?thesis
    by (auto simp: tokens_only_def option.rel_refl same_terms_refl same_authorities_refl)
qed

lemma token_mint_to_tokens:
  assumes "token_mint_to sh L swap tp mi di ai bump amt = Ok L'"
  shows "tokens_only L L'"
proof -
  obtain c1 c2 c3 where c: "process_mint_to token_id L [c1, c2, c3] amt None = Ok L'"
    "key c1 = key mi" "key c2 = key di"
    by (rule token_mint_to_call [OF assms]) blast
  obtain a m where e: "acct_at L (key di) = Some a" "mint_at L (key mi) = Some m"
    "acct_at L' = (acct_at L)(key di \<mapsto> credit amt a)"
    "mint_at L' = (mint_at L)(key mi \<mapsto> m\<lparr>mint_supply := mint_supply m + amt\<rparr>)"
    "\<And>k. k \<noteq> key mi \<Longrightarrow> k \<noteq> key di \<Longrightarrow> L' k = L k"
    by (rule process_mint_to_effect [OF c(1), unfolded c(2,3)]) blast
  then show ?thesis
    by (auto simp: tokens_only_def option.rel_refl same_terms_refl same_authorities_refl same_authorities_def)
qed

lemma token_burn_tokens:
  assumes "token_burn sh L swap tp si mi ai bump amt = Ok L'"
  shows "tokens_only L L'"
proof -
  obtain c1 c2 c3 where c: "process_burn token_id L [c1, c2, c3] amt None = Ok L'"
    "key c1 = key si" "key c2 = key mi"
    by (rule token_burn_call [OF assms]) blast
  obtain a m where e: "acct_at L (key si) = Some a" "mint_at L (key mi) = Some m"
    "acct_at L' = (acct_at L)(key si \<mapsto> debit (key c3) amt a)"
    "mint_at L' = (mint_at L)(key mi \<mapsto> m\<lparr>mint_supply := mint_supply m - amt\<rparr>)"
    "\<And>k. k \<noteq> key mi \<Longrightarrow> k \<noteq> key si \<Longrightarrow> L' k = L k"
    by (rule process_burn_effect [OF c(1), unfolded c(2,3)]) blast
  then show ?thesis
    by (auto simp: tokens_only_def option.rel_refl same_terms_refl same_authorities_refl same_authorities_def)
qed

lemma pay_owner_fee_tokens:
  assumes "pay_owner_fee sh L ts sw au pm fee tp iter n = Ok L'"
  shows "tokens_only L L'"
proof (cases "0 < n")
  case True
  with assms obtain L1 n' amt where h: "pay_host_fee sh L ts sw au pm tp iter n = Ok (L1, n')"
    and m: "token_mint_to sh L1 (key sw) tp pm fee au (bump_seed ts) amt = Ok L'"
    by (auto simp: pay_owner_fee_def result_ok)
  from h have "tokens_only L L1"
    by (auto simp: pay_host_fee_def result_ok if_Ok_iff tokens_only_refl dest: token_mint_to_tokens
        split: result.splits if_split_asm)
  with token_mint_to_tokens [OF m] show ?thesis by (rule tokens_only_trans [rotated])
qed (use assms in \<open>simp add: pay_owner_fee_def tokens_only_refl\<close>)

lemma pay_withdraw_fee_tokens:
  "pay_withdraw_fee sh L ts sw tp si fi ui n = Ok L' \<Longrightarrow> tokens_only L L'"
  by (auto simp: pay_withdraw_fee_def result_ok tokens_only_refl dest: token_transfer_tokens
      split: if_split_asm)

lemma optional_transfer_tokens:
  "(if b then token_transfer sh L swap tp si di ai bump amt else Ok L) = Ok L' \<Longrightarrow> tokens_only L L'"
  by (auto simp: tokens_only_refl dest: token_transfer_tokens split: if_split_asm)

lemmas call_tokens = token_transfer_tokens token_mint_to_tokens token_burn_tokens
  pay_owner_fee_tokens pay_withdraw_fee_tokens optional_transfer_tokens

lemma process_swap_tokens:
  assumes "process_swap sh pid L n mn infos = Ok L'"
  shows "tokens_only L L'"
  using assms by (rule process_swap_Ok) (blast intro: tokens_only_trans dest: call_tokens)

lemma process_deposit_all_tokens:
  assumes "process_deposit_all_token_types sh pid L n a b infos = Ok L'"
  shows "tokens_only L L'"
  using assms by (rule process_deposit_all_Ok) (blast intro: tokens_only_trans dest: call_tokens)

lemma process_withdraw_all_tokens:
  assumes "process_withdraw_all_token_types sh pid L n a b infos = Ok L'"
  shows "tokens_only L L'"
  using assms by (rule process_withdraw_all_Ok) (blast intro: tokens_only_trans dest: call_tokens)

lemma process_deposit_single_tokens:
  assumes "process_deposit_single_token_type_exact_amount_in sh pid L n m infos = Ok L'"
  shows "tokens_only L L'"
proof -
  obtain dir and ts :: SwapV1 and sw :: AccountInfo and au ut si ai bi pm di tp amt M where
    t: "(case dir of
         AtoB \<Rightarrow> token_transfer sh L (key sw) tp si ai ut (bump_seed ts) n
       | BtoA \<Rightarrow> token_transfer sh L (key sw) tp si bi ut (bump_seed ts) n) = Ok M"
    and m: "token_mint_to sh M (key sw) tp pm di au (bump_seed ts) amt = Ok L'"
    using assms unfolding process_deposit_single_token_type_exact_amount_in_def
    by (clarsimp simp: result_ok swap_err_def Let_def case_prod_beta cong: TradeDirection.case_cong)
  from t have "tokens_only L M" by (cases dir) (auto dest: token_transfer_tokens)
  then show ?thesis using token_mint_to_tokens [OF m] by (rule tokens_only_trans)
qed

lemma process_withdraw_single_tokens:
  assumes "process_withdraw_single_token_type_exact_amount_out sh pid L n m infos = Ok L'"
  shows "tokens_only L L'"
proof -
  obtain dir ts sw au ut pm si ai bi di fi tp fee amt M N where
    f: "pay_withdraw_fee sh L ts sw tp si fi ut fee = Ok M"
    and b: "token_burn sh M (key sw) tp si pm ut (bump_seed ts) amt = Ok N"
    and t: "(case dir of
         AtoB \<Rightarrow> token_transfer sh N (key sw) tp ai di au (bump_seed ts) n
       | BtoA \<Rightarrow> token_transfer sh N (key sw) tp bi di au (bump_seed ts) n) = Ok L'"
    using assms unfolding process_withdraw_single_token_type_exact_amount_out_def
    by (clarsimp simp: result_ok swap_err_def Let_def case_prod_beta cong: TradeDirection.case_cong)
  from t have "tokens_only N L'" by (cases dir) (auto dest: token_transfer_tokens)
  with pay_withdraw_fee_tokens [OF f] token_burn_tokens [OF b] show ?thesis
    by (blast intro: tokens_only_trans)
qed

end

section \<open>The invariant of a pool\<close>

text \<open>
  A pool in good order: its account decodes to valid fees and a valid curve, both sides belong to the pool's
  authority alone and hold different mints, and only the authority mints pool tokens. The authority
  is the address that the pool's key and bump seed derive.
\<close>

definition pool_side :: "pubkey \<Rightarrow> pubkey \<Rightarrow> Account \<Rightarrow> bool" where
  "pool_side auth m a \<longleftrightarrow>
     acct_owner a = auth \<and> acct_mint a = m \<and> delegate a = None \<and> close_authority a = None"

definition pool_wf :: "crypto \<Rightarrow> pubkey \<Rightarrow> ledger \<Rightarrow> pubkey \<Rightarrow> SwapV1 \<Rightarrow> bool" where
  "pool_wf c pid L k ts \<longleftrightarrow>
     swap_version_unpack (data (L k)) = Ok ts \<and> fees_validate (swap_fees ts) = Ok () \<and>
     calculator_validate (calculator (swap_curve ts)) = Ok () \<and> token_a_mint ts \<noteq> token_b_mint ts \<and>
     (\<exists>auth a b m. create_program_address c [pubkey_to_bytes k, [bump_seed ts]] pid = Ok auth \<and>
        acct_at L (token_a ts) = Some a \<and> pool_side auth (token_a_mint ts) a \<and>
        acct_at L (token_b ts) = Some b \<and> pool_side auth (token_b_mint ts) b \<and>
        mint_at L (pool_mint ts) = Some m \<and> mint_authority m = Some auth \<and> freeze_authority m = None)"

lemma swap_account_not_token:
  assumes "length (data (L k)) = LATEST_LEN"
  shows "acct_at L k = None" "mint_at L k = None"
  using assms at_length [of L k]
  by (auto simp: LATEST_LEN_def swap_LEN_def layout_LENs intro: option.exhaust [of "acct_at L k"]
      option.exhaust [of "mint_at L k"])

lemma pool_side_terms: "same_terms a a' \<Longrightarrow> pool_side auth m a \<Longrightarrow> pool_side auth m a'"
  by (simp add: same_terms_def pool_side_def)

lemma pool_wf_tokens:
  assumes "tokens_only L L'" "pool_wf c pid L k ts"
  shows "pool_wf c pid L' k ts"
proof -
  have un: "swap_version_unpack (data (L k)) = Ok ts" using assms(2) by (simp add: pool_wf_def)
  have "acct_at L k = None" "mint_at L k = None"
    using swap_account_not_token [of L k] swap_version_unpack_OkD(3) [OF un] by simp_all
  with assms(1) have L': "L' k = L k" by (simp add: tokens_only_def)
  from assms(2) obtain auth a b m where *:
    "create_program_address c [pubkey_to_bytes k, [bump_seed ts]] pid = Ok auth"
    "acct_at L (token_a ts) = Some a" "pool_side auth (token_a_mint ts) a"
    "acct_at L (token_b ts) = Some b" "pool_side auth (token_b_mint ts) b"
    "mint_at L (pool_mint ts) = Some m" "mint_authority m = Some auth" "freeze_authority m = None"
    by (auto simp: pool_wf_def)
  have rel: "rel_option same_terms (acct_at L k) (acct_at L' k)"
    "rel_option same_authorities (mint_at L k) (mint_at L' k)" for k
    using assms(1) by (simp_all add: tokens_only_def)
  obtain a' b' m' where "acct_at L' (token_a ts) = Some a'" "same_terms a a'"
    "acct_at L' (token_b ts) = Some b'" "same_terms b b'"
    "mint_at L' (pool_mint ts) = Some m'" "same_authorities m m'"
    using rel(1) [of "token_a ts"] rel(1) [of "token_b ts"] rel(2) [of "pool_mint ts"] *(2,4,6)
    by (auto simp: option_rel_Some1)
  with * assms(2) L' show ?thesis
    by (auto simp: pool_wf_def same_authorities_def intro: pool_side_terms)
qed

section \<open>Creating a pool\<close>

lemma swap_instruction_unpack_wf: "swap_instruction_unpack input = Ok ix \<Longrightarrow> wf_instruction ix"
  by (auto simp: swap_instruction_unpack_def unpack_initialize_def unpack_two_def unpack_three_def
      unpack_unchecked_def swap_err_def result_ok split: if_splits
      dest!: curve_format.unpack_wf [rotated])

lemma swap_version_pack_OkD:
  assumes "swap_version_pack s dst = Ok d" "curve_wf (swap_curve s)" "swap_is_initialized s"
  shows "length dst = LATEST_LEN" "length d = LATEST_LEN" "swap_version_unpack d = Ok s"
proof -
  show len: "length dst = LATEST_LEN"
    using assms(1) by (auto simp: swap_version_pack_def pack_def LATEST_LEN_def split: list.splits if_split_asm)
  from swap_version_roundtrip [OF assms(2,3) len] assms(1)
  show "length d = LATEST_LEN" "swap_version_unpack d = Ok s" by auto
qed

lemma process_initialize_Ok:
  assumes "process_initialize sh pid L f cv infos con = Ok L'"
  obtains sw au ai bi pm fi di tp iter bump a b fee_acct dest mint amt L1 d ts
  where "infos = sw # au # ai # bi # pm # fi # di # tp # iter"
    "swap_version_is_initialized (info_data L sw) = (Ok False :: bool program_result)"
    "find_program_address (swap_crypto sh) [pubkey_to_bytes (key sw)] pid =
       (Ok (key au, bump) :: (pubkey \<times> u8) program_result)"
    "unpack_token_account L ai (key tp) = Ok a" "unpack_token_account L bi (key tp) = Ok b"
    "unpack_token_account L fi (key tp) = Ok fee_acct"
    "unpack_token_account L di (key tp) = Ok dest"
    "unpack_mint L pm (key tp) = Ok mint"
    "acct_owner a = key au" "acct_owner b = key au" "acct_owner dest \<noteq> key au"
    "acct_owner fee_acct \<noteq> key au" "mint_authority mint = Some (key au)" "acct_mint a \<noteq> acct_mint b"
    "validate_supply (calculator cv) (amount a) (amount b) = Ok ()"
    "delegate a = None" "delegate b = None" "close_authority a = None" "close_authority b = None"
    "mint_supply mint = 0" "freeze_authority mint = None" "acct_mint fee_acct = key pm"
    "check_constraints sh con fee_acct cv f = Ok ()" "fees_validate f = Ok ()"
    "calculator_validate (calculator cv) = Ok ()" "unat (new_pool_supply (calculator cv)) = unat amt"
    "token_mint_to sh L (key sw) tp pm di au bump amt = Ok L1"
    "ts = \<lparr>swap_is_initialized = True, bump_seed = bump, token_program_id = key tp,
       token_a = key ai, token_b = key bi, pool_mint = key pm, token_a_mint = acct_mint a,
       token_b_mint = acct_mint b, pool_fee_account = key fi, swap_fees = f, swap_curve = cv\<rparr>"
    "swap_version_pack ts (info_data L1 sw) = Ok d" "L' = set_data L1 sw d"
  using assms unfolding process_initialize_def
  apply (simp only: result_ok split_paired_Ex prod.case prod.inject result.inject Let_def swap_err_def not_not)
  apply (elim exE conjE)
  apply (hypsubst+)?
  subgoal premises p
    apply (rule p(1))
    apply ((rule refl | rule p | (rule sym, rule p) | (rule not_sym, rule p) | (rule trans, rule p, simp add: p(3)))+)
    done
  done

lemma set_data_swap_account:
  assumes "length (data (L (key i))) = LATEST_LEN" "length d = LATEST_LEN"
  shows "acct_at (set_data L i d) = acct_at L" "mint_at (set_data L i d) = mint_at L"
proof -
  have "acct_at (set_data L i d) k = acct_at L k \<and> mint_at (set_data L i d) k = mint_at L k" for k
    using assms swap_account_not_token [of L k] swap_account_not_token [of "set_data L i d" k]
    by (cases "k = key i") (auto simp: set_data_def acct_at_def mint_at_def)
  then show "acct_at (set_data L i d) = acct_at L" "mint_at (set_data L i d) = mint_at L" by auto
qed

lemma pool_wf_set_data:
  assumes "length (data (L (key i))) = LATEST_LEN" "length d = LATEST_LEN"
    "pool_wf c pid L k ts" "k \<noteq> key i"
  shows "pool_wf c pid (set_data L i d) k ts"
  using assms by (simp add: pool_wf_def set_data_swap_account) (simp add: set_data_def)

context token_cpi
begin

lemma process_initialize_pool:
  assumes "process_initialize sh pid L f cv infos con = Ok L'" "curve_wf cv"
  obtains sw au ai bi pm fi di tp iter ts where "infos = sw # au # ai # bi # pm # fi # di # tp # iter"
    "pool_wf (swap_crypto sh) pid L' (key sw) ts" "swap_fees ts = f" "swap_curve ts = cv"
    "token_a ts = key ai" "token_b ts = key bi" "pool_mint ts = key pm"
    "supply_of L (key pm) = 0" "supply_of L' (key pm) = unat (new_pool_supply (calculator cv))"
    "\<And>k us. pool_wf (swap_crypto sh) pid L k us \<Longrightarrow> pool_wf (swap_crypto sh) pid L' k us"
proof -
  obtain sw au ai bi pm fi di tp iter bump a b fee_acct dest mint amt L1 d ts where
    infos: "infos = sw # au # ai # bi # pm # fi # di # tp # iter"
    and new: "swap_version_is_initialized (info_data L sw) = (Ok False :: bool program_result)"
    and pda: "find_program_address (swap_crypto sh) [pubkey_to_bytes (key sw)] pid =
       (Ok (key au, bump) :: (pubkey \<times> u8) program_result)"
    and un: "unpack_token_account L ai (key tp) = Ok a" "unpack_token_account L bi (key tp) = Ok b"
      "unpack_mint L pm (key tp) = Ok mint"
    and side: "acct_owner a = key au" "acct_owner b = key au" "acct_mint a \<noteq> acct_mint b"
      "delegate a = None" "delegate b = None" "close_authority a = None" "close_authority b = None"
    and mint: "mint_authority mint = Some (key au)" "mint_supply mint = 0" "freeze_authority mint = None"
    and valid: "fees_validate f = Ok ()" "calculator_validate (calculator cv) = Ok ()"
    and amt: "unat (new_pool_supply (calculator cv)) = unat amt"
    and call: "token_mint_to sh L (key sw) tp pm di au bump amt = Ok L1"
    and ts: "ts = \<lparr>swap_is_initialized = True, bump_seed = bump, token_program_id = key tp,
       token_a = key ai, token_b = key bi, pool_mint = key pm, token_a_mint = acct_mint a,
       token_b_mint = acct_mint b, pool_fee_account = key fi, swap_fees = f, swap_curve = cv\<rparr>"
    and pack: "swap_version_pack ts (info_data L1 sw) = Ok d" and L': "L' = set_data L1 sw d"
    by (rule process_initialize_Ok [OF assms(1)]) blast
  have d: "length (data (L1 (key sw))) = LATEST_LEN" "length d = LATEST_LEN"
    "swap_version_unpack d = Ok ts"
    using swap_version_pack_OkD [OF pack] assms(2) by (simp_all add: ts info_data_def)
  note same = set_data_swap_account [of L1 sw d, OF d(1,2), folded L']
  have only: "tokens_only L L1" by (rule token_mint_to_tokens [OF call])
  have rel: "rel_option same_terms (acct_at L k) (acct_at L1 k)"
    "rel_option same_authorities (mint_at L k) (mint_at L1 k)" for k
    using only by (simp_all add: tokens_only_def)
  have at: "acct_at L (key ai) = Some a" "acct_at L (key bi) = Some b" "mint_at L (key pm) = Some mint"
    using un unpack_token_account_Ok unpack_mint_Ok by (auto simp: unpack_mint_def result_ok simp flip: read_mint_def)
  obtain a' b' m' where at': "acct_at L1 (key ai) = Some a'" "same_terms a a'"
    "acct_at L1 (key bi) = Some b'" "same_terms b b'"
    "mint_at L1 (key pm) = Some m'" "same_authorities mint m'"
    using rel(1) [of "key ai"] rel(1) [of "key bi"] rel(2) [of "key pm"] at
    by (auto simp: option_rel_Some1)
  have wf: "pool_wf (swap_crypto sh) pid L' (key sw) ts"
    using find_program_address_first(1) [OF pda] side mint valid at' same d(3)
    by (auto simp: pool_wf_def ts pool_side_def same_terms_def same_authorities_def)
       (simp add: L' set_data_def ts)
  have old: "pool_wf (swap_crypto sh) pid L' k us" if "pool_wf (swap_crypto sh) pid L k us" for k us
  proof -
    have "swap_version_unpack (data (L k)) = Ok us" using that by (simp add: pool_wf_def)
    then have "k \<noteq> key sw" using new swap_version_unpack_OkD(1) [of "data (L k)" us]
      by (auto simp: swap_version_is_initialized_def info_data_def)
    with pool_wf_set_data [of L1 sw d, OF d(1,2) pool_wf_tokens [OF only that]] show ?thesis by (simp add: L')
  qed
  have "supply_of L (key pm) = 0" using unpack_mint_Ok [OF un(3)] mint(2) by simp
  moreover have "supply_of L' (key pm) = supply_of L1 (key pm)" using same(2) by (simp add: supply_of_def)
  then have "supply_of L' (key pm) = supply_of L (key pm) + unat amt"
    using token_mint_to_balances(4) [OF call] by simp
  ultimately show ?thesis
    using that [OF infos wf _ _ _ _ _ _ _ old] amt by (simp add: ts)
qed

text \<open>No instruction disturbs a pool that is in good order, and \<open>Initialize\<close> only adds one.\<close>

lemma process_with_constraints_pool:
  assumes "process_with_constraints sh pid L infos input con = Ok L'"
    "pool_wf (swap_crypto sh) pid L k ts"
  shows "pool_wf (swap_crypto sh) pid L' k ts"
proof -
  obtain ix where ix: "swap_instruction_unpack input = Ok ix"
    using assms(1) by (auto simp: process_with_constraints_def result_ok)
  show ?thesis
  proof (cases ix)
    case (Initialize f cv)
    then have "process_initialize sh pid L f cv infos con = Ok L'" "curve_wf cv"
      using assms(1) ix swap_instruction_unpack_wf [OF ix] by (simp_all add: process_with_constraints_def)
    then show ?thesis by (rule process_initialize_pool) (use assms(2) in blast)
  qed (use assms ix in \<open>auto simp: process_with_constraints_def
        intro: pool_wf_tokens process_swap_tokens process_deposit_all_tokens
          process_withdraw_all_tokens process_deposit_single_tokens process_withdraw_single_tokens\<close>)
qed

end

end
