(* ===== verification/Swap_Scenario.thy ===== *)
theory Swap_Scenario
  imports Swap_Pool Scenario
begin

text \<open>
  A pool of two tokens, its user and a host that runs the token program directly: the instructions
  of the swap program succeed there, so the general theorems on them have instances.
\<close>

section \<open>A host that runs the token program directly\<close>

definition direct_host :: "host \<Rightarrow> crypto \<Rightarrow> pubkey \<Rightarrow> (pubkey \<Rightarrow> bool) \<Rightarrow> swap_host" where
  "direct_host h c pid has_signed =
     \<lparr>swap_crypto = c, parse_pubkey = (\<lambda>_. None),
      invoke_signed = (\<lambda>L ix infos seeds. process h token_id L
        (map (\<lambda>m. \<lparr>key = meta_pubkey m,
            is_signer = meta_is_signer m \<and> may_sign c pid has_signed seeds (meta_pubkey m),
            is_writable = meta_is_writable m\<rparr>) (accounts ix)) (instr_data ix))\<rparr>"

interpretation direct: token_cpi "direct_host h c pid has_signed" h pid has_signed
  for h c pid has_signed
  by unfold_locales (force simp: direct_host_def comp_def)

lemma direct_host_crypto [simp]: "swap_crypto (direct_host h c pid has_signed) = c"
  by (simp add: direct_host_def)

text \<open>A key without data authorizes by signing, and no call of the swap program gives it data.\<close>

definition plain :: "ledger \<Rightarrow> pubkey \<Rightarrow> bool" where
  "plain L k \<longleftrightarrow> data (L k) = []"

lemma plain_kept:
  assumes "tokens_only L L'" "plain L k"
  shows "plain L' k"
proof -
  have "acct_at L k = None" "mint_at L k = None"
    using assms(2) by (simp_all add: plain_def acct_at_def mint_at_def view_empty)
  with assms show ?thesis by (simp add: tokens_only_def plain_def)
qed

lemma plain_signer_valid:
  "plain L k \<Longrightarrow> validate_owner token_id L k \<lparr>key = k, is_signer = True, is_writable = w\<rparr> [] = Ok ()"
  using plain_key_signs [of "\<lparr>key = k, is_signer = True, is_writable = w\<rparr>" L] by (simp add: plain_def)

lemmas direct_call_defs = direct_host_def instruction_new_def authority_metas_def account_meta_new_def
  account_meta_new_readonly_def check_program_account_def process_packed

text \<open>Each call succeeds when the step of the token program is enabled.\<close>

lemma direct_transfer:
  assumes "key tp = token_id" and pl: "plain L (key ai)"
    and sign: "may_sign c pid has_signed (authority_signature_seeds swap bump) (key ai)"
    and a: "live (abs_ledger L) (key si) a" and b: "live (abs_ledger L) (key di) b"
    and "key si \<noteq> key di" "\<not> is_frozen a" "\<not> is_frozen b" "acct_mint a = acct_mint b"
    and "may_spend (key ai) amt a" "fits (amount b) amt" "\<not> is_native a"
  obtains L' where "token_transfer (direct_host h c pid has_signed) L swap tp si di ai bump amt = Ok L'"
    "acct_at L' = (acct_at L)(key si \<mapsto> debit (key ai) amt a, key di \<mapsto> credit amt b)"
    "mint_at L' = mint_at L" "tokens_only L L'"
proof -
  let ?i = "\<lambda>k sg w. \<lparr>key = k, is_signer = sg, is_writable = w\<rparr>"
  obtain L' where L': "process_transfer token_id L
      (?i (key si) False True # ?i (key di) False True # ?i (key ai) True False # []) amt None = Ok L'"
    "acct_at L' = (acct_at L)(key si \<mapsto> debit (key ai) amt a, key di \<mapsto> credit amt b)"
    "mint_at L' = mint_at L"
    by (rule process_transfer_total [of L "?i (key si) False True" a "?i (key di) False True" b
        "?i (key ai) True False" amt token_id "[]"])
      (use assms plain_signer_valid [OF pl] in auto)
  have "token_transfer (direct_host h c pid has_signed) L swap tp si di ai bump amt = Ok L'"
    using L'(1) assms(1) sign
    by (simp add: token_transfer_def transfer_def direct_call_defs del: token_instruction_pack.simps)
  from that [OF this L'(2,3) direct.token_transfer_tokens [OF this]] show thesis .
qed

lemma direct_mint_to:
  assumes "key tp = token_id" and pl: "plain L (key ai)"
    and sign: "may_sign c pid has_signed (authority_signature_seeds swap bump) (key ai)"
    and a: "live (abs_ledger L) (key di) a" and m: "live_mint (abs_ledger L) (key mi) m"
    and "acct_mint a = key mi" "\<not> is_frozen a" "\<not> is_native a" "mint_authority m = Some (key ai)"
    and "fits (amount a) amt" "fits (mint_supply m) amt"
  obtains L' where "token_mint_to (direct_host h c pid has_signed) L swap tp mi di ai bump amt = Ok L'"
    "acct_at L' = (acct_at L)(key di \<mapsto> credit amt a)"
    "mint_at L' = (mint_at L)(key mi \<mapsto> m\<lparr>mint_supply := mint_supply m + amt\<rparr>)" "tokens_only L L'"
proof -
  let ?i = "\<lambda>k sg w. \<lparr>key = k, is_signer = sg, is_writable = w\<rparr>"
  obtain L' where L': "process_mint_to token_id L
      (?i (key mi) False True # ?i (key di) False True # ?i (key ai) True False # []) amt None = Ok L'"
    "acct_at L' = (acct_at L)(key di \<mapsto> credit amt a)"
    "mint_at L' = (mint_at L)(key mi \<mapsto> m\<lparr>mint_supply := mint_supply m + amt\<rparr>)"
    by (rule process_mint_to_total [of L "?i (key di) False True" a "?i (key mi) False True" m
        "?i (key ai) True False" token_id "[]" amt])
      (use assms plain_signer_valid [OF pl] in auto)
  have "token_mint_to (direct_host h c pid has_signed) L swap tp mi di ai bump amt = Ok L'"
    using L'(1) assms(1) sign
    by (simp add: token_mint_to_def mint_to_def direct_call_defs del: token_instruction_pack.simps)
  from that [OF this L'(2,3) direct.token_mint_to_tokens [OF this]] show thesis .
qed

lemma direct_burn:
  assumes "key tp = token_id" and pl: "plain L (key ai)"
    and sign: "may_sign c pid has_signed (authority_signature_seeds swap bump) (key ai)"
    and a: "live (abs_ledger L) (key si) a" and m: "live_mint (abs_ledger L) (key mi) m"
    and "acct_mint a = key mi" "\<not> is_frozen a" "\<not> is_native a" "may_spend (key ai) amt a"
    and "amt \<le> mint_supply m"
  obtains L' where "token_burn (direct_host h c pid has_signed) L swap tp si mi ai bump amt = Ok L'"
    "acct_at L' = (acct_at L)(key si \<mapsto> debit (key ai) amt a)"
    "mint_at L' = (mint_at L)(key mi \<mapsto> m\<lparr>mint_supply := mint_supply m - amt\<rparr>)" "tokens_only L L'"
proof -
  let ?i = "\<lambda>k sg w. \<lparr>key = k, is_signer = sg, is_writable = w\<rparr>"
  obtain L' where L': "process_burn token_id L
      (?i (key si) False True # ?i (key mi) False True # ?i (key ai) True False # []) amt None = Ok L'"
    "acct_at L' = (acct_at L)(key si \<mapsto> debit (key ai) amt a)"
    "mint_at L' = (mint_at L)(key mi \<mapsto> m\<lparr>mint_supply := mint_supply m - amt\<rparr>)"
    by (rule process_burn_total [of L "?i (key si) False True" a "?i (key mi) False True" m
        "?i (key ai) True False" amt token_id "[]"])
      (use assms plain_signer_valid [OF pl] in auto)
  have "token_burn (direct_host h c pid has_signed) L swap tp si mi ai bump amt = Ok L'"
    using L'(1) assms(1) sign
    by (simp add: token_burn_def burn_def direct_call_defs del: token_instruction_pack.simps)
  from that [OF this L'(2,3) direct.token_burn_tokens [OF this]] show thesis .
qed

section \<open>The ledger\<close>

text \<open>A ledger with the given token accounts and mints, and other accounts elsewhere.\<close>

definition bank :: "(pubkey \<rightharpoonup> Account) \<Rightarrow> (pubkey \<rightharpoonup> Mint) \<Rightarrow> ledger \<Rightarrow> ledger" where
  "bank A M rest k =
     (case A k of Some a \<Rightarrow> held token_id (bytes_of (account_pack a (replicate account_LEN 0)))
      | None \<Rightarrow> (case M k of Some m \<Rightarrow> held token_id (bytes_of (mint_pack m (replicate mint_LEN 0)))
                 | None \<Rightarrow> rest k))"

lemma bank_at:
  assumes "\<And>k. length (data (rest k)) \<notin> {account_LEN, mint_LEN}" "\<And>k. A k = None \<or> M k = None"
  shows "acct_at (bank A M rest) = A" "mint_at (bank A M rest) = M"
proof -
  have "acct_at (bank A M rest) k = A k \<and> mint_at (bank A M rest) k = M k" for k
  proof (cases "A k")
    case (Some a)
    then have "acct_at (bank A M rest) k = Some a" by (simp add: bank_def acct_at_def view_bytes_of)
    then show ?thesis using at_exclusive(1) assms(2) [of k] Some by simp
  next
    case None
    note A = this
    show ?thesis
    proof (cases "M k")
      case (Some m)
      then have "mint_at (bank A M rest) k = Some m"
        using A by (simp add: bank_def mint_at_def view_bytes_of_mint)
      then show ?thesis using at_exclusive(2) A Some by simp
    next
      case None
      then show ?thesis using A assms(1) [of k] by (simp add: bank_def at_defs view_wrong_length)
    qed
  qed
  then show "acct_at (bank A M rest) = A" "mint_at (bank A M rest) = M" by auto
qed

lemma bank_owner: "A k \<noteq> None \<or> M k \<noteq> None \<Longrightarrow> owner (bank A M rest k) = token_id"
  by (auto simp: bank_def held_def split: option.splits)

text \<open>
  The pool at key 1 of program 99: sides 2 and 3 with 1000 tokens each, pool mint 4, fee account 5.
  User 10 has 500 tokens of each side at 6 and 7, and pool tokens at 8. Every seed derives key 50.
\<close>

definition sample_crypto :: crypto where
  "sample_crypto = \<lparr>sha256 = (\<lambda>_. 50), bytes_are_curve_point = (\<lambda>_. False)\<rparr>"

definition side_account :: "pubkey \<Rightarrow> pubkey \<Rightarrow> u64 \<Rightarrow> Account" where
  "side_account mk own n = (token_account own n)\<lparr>acct_mint := mk\<rparr>"

definition pool_token_mint :: "u64 \<Rightarrow> Mint" where
  "pool_token_mint s = \<lparr>mint_authority = Some 50, mint_supply = s, decimals = 2,
     mint_is_initialized = True, freeze_authority = None\<rparr>"

definition no_fees :: Fees where
  "no_fees = \<lparr>trade_fee_numerator = 0, trade_fee_denominator = 0, owner_trade_fee_numerator = 0,
     owner_trade_fee_denominator = 0, owner_withdraw_fee_numerator = 0,
     owner_withdraw_fee_denominator = 0, host_fee_numerator = 0, host_fee_denominator = 0\<rparr>"

definition product_curve :: SwapCurve where
  "product_curve = \<lparr>curve_type = ConstantProduct, calculator = ConstantProductCurve\<rparr>"

definition sample_pool :: SwapV1 where
  "sample_pool = \<lparr>swap_is_initialized = True, bump_seed = 255, token_program_id = token_id,
     token_a = 2, token_b = 3, pool_mint = 4, token_a_mint = 21, token_b_mint = 22,
     pool_fee_account = 5, swap_fees = no_fees, swap_curve = product_curve\<rparr>"

definition sample_accounts :: "u64 \<Rightarrow> pubkey \<rightharpoonup> Account" where
  "sample_accounts n = [2 \<mapsto> side_account 21 50 1000, 3 \<mapsto> side_account 22 50 1000,
     5 \<mapsto> side_account 4 60 0, 6 \<mapsto> side_account 21 10 500, 7 \<mapsto> side_account 22 10 500,
     8 \<mapsto> side_account 4 10 n]"

definition pool_ledger :: "u64 \<Rightarrow> u64 \<Rightarrow> bytes \<Rightarrow> ledger" where
  "pool_ledger s n d = bank (sample_accounts n) [4 \<mapsto> pool_token_mint s]
     ((\<lambda>_. default_account)(1 := held 99 d))"

definition sample_pool_bytes :: bytes where
  "sample_pool_bytes = bytes_of (swap_version_pack sample_pool (replicate LATEST_LEN 0))"

definition swap_host_10 :: swap_host where
  "swap_host_10 = direct_host sample_host sample_crypto 99 (\<lambda>k. k = 10)"

definition at_key :: "pubkey \<Rightarrow> AccountInfo" where
  "at_key k = \<lparr>key = k, is_signer = k = 10, is_writable = True\<rparr>"

lemma key_at_key [simp]: "key (at_key k) = k"
  by (simp add: at_key_def)

lemma sample_pool_bytes:
  "length sample_pool_bytes = LATEST_LEN" "swap_version_unpack sample_pool_bytes = Ok sample_pool"
  using swap_version_roundtrip [of sample_pool "replicate LATEST_LEN 0"]
  by (auto simp: sample_pool_bytes_def sample_pool_def product_curve_def curve_wf_def)

lemma pool_ledger_at:
  assumes "length d = LATEST_LEN"
  shows "acct_at (pool_ledger s n d) = sample_accounts n"
    "mint_at (pool_ledger s n d) = [4 \<mapsto> pool_token_mint s]"
  unfolding pool_ledger_def using assms
  by (auto intro!: bank_at simp: held_def default_account_def LATEST_LEN_def swap_LEN_def layout_LENs
      sample_accounts_def split: if_splits)

lemma pool_ledger_plain: "k \<notin> {1, 2, 3, 4, 5, 6, 7, 8} \<Longrightarrow> plain (pool_ledger s n d) k"
  by (simp add: plain_def pool_ledger_def bank_def sample_accounts_def default_account_def)

lemma pool_ledger_1 [simp]: "pool_ledger s n d 1 = held 99 d"
  by (simp add: pool_ledger_def bank_def sample_accounts_def)

lemma sample_derives: "create_program_address sample_crypto [pubkey_to_bytes k, [b]] pid = Ok 50"
  by (simp add: create_program_address_def sample_crypto_def MAX_SEEDS_def MAX_SEED_LEN_def Let_def)

lemma sample_may_sign:
  "may_sign sample_crypto 99 (\<lambda>k. k = 10) (authority_signature_seeds 1 b) 10"
  "may_sign sample_crypto 99 (\<lambda>k. k = 10) (authority_signature_seeds 1 b) 50"
  using sample_derives by (simp_all add: may_sign_def authority_signature_seeds_def)

lemma pool_ledger_unpack:
  assumes "length d = LATEST_LEN"
  shows "sample_accounts n (key i) = Some a \<Longrightarrow> account_is_initialized a \<Longrightarrow>
      unpack_token_account (pool_ledger s n d) i token_id = Ok a"
    "key i = 4 \<Longrightarrow> unpack_mint (pool_ledger s n d) i token_id = Ok (pool_token_mint s)"
proof -
  show "unpack_token_account (pool_ledger s n d) i token_id = Ok a"
    if "sample_accounts n (key i) = Some a" "account_is_initialized a"
  proof -
    have "read_account (pool_ledger s n d) i = Ok a"
      using that by (simp add: read_account_Ok_iff pool_ledger_at assms)
    moreover have "info_owner (pool_ledger s n d) i = token_id"
      using that by (auto simp: info_owner_def pool_ledger_def bank_owner)
    ultimately show ?thesis by (simp add: unpack_token_account_def read_account_def)
  qed
  show "unpack_mint (pool_ledger s n d) i token_id = Ok (pool_token_mint s)" if "key i = 4"
  proof -
    have "read_mint (pool_ledger s n d) i = Ok (pool_token_mint s)"
      using that by (simp add: read_mint_Ok_iff pool_ledger_at assms) (simp add: pool_token_mint_def)
    moreover have "info_owner (pool_ledger s n d) i = token_id"
      using that by (auto simp: info_owner_def pool_ledger_def bank_owner)
    ultimately show ?thesis by (simp add: unpack_mint_def read_mint_def)
  qed
qed

lemma side_account_simps [simp]:
  "acct_mint (side_account mk own n) = mk" "acct_owner (side_account mk own n) = own"
  "amount (side_account mk own n) = n" "delegate (side_account mk own n) = None"
  "close_authority (side_account mk own n) = None" "account_is_initialized (side_account mk own n)"
  "\<not> is_frozen (side_account mk own n)" "\<not> is_native (side_account mk own n)"
  "credit m (side_account mk own n) = side_account mk own (n + m)"
  "debit t m (side_account mk own n) = side_account mk own (n - m)"
  by (simp_all add: side_account_def sample_defs credit_def debit_def)

lemmas checked_arith = checked_add_def checked_sub_def checked_mul_def checked_div_def checked_rem_def

lemma sample_swap_amounts:
  "curve_swap product_curve 100 1000 1000 AtoB no_fees =
     Ok \<lparr>new_swap_source_amount = 1099, new_swap_destination_amount = 910,
         res_source_amount_swapped = 99, res_destination_amount_swapped = 90,
         trade_fee = 0, owner_fee = 0\<rparr>"
  by (simp add: curve_swap_def product_curve_def no_fees_def trading_fee_def owner_trading_fee_def
      calculate_fee_def constant_product_swap_def checked_ceil_div_def checked_arith map_zero_to_none_def)

text \<open>The calls on this ledger, for the user and for the pool's authority.\<close>

lemma pool_transfer_runs:
  assumes "plain L t" "t = 10 \<or> t = 50" "acct_at L x = Some (side_account mk t m)"
    "acct_at L y = Some (side_account mk own n)" "x \<noteq> y" "amt \<le> m" "fits n amt"
  obtains L' where "token_transfer swap_host_10 L 1 (at_key token_id) (at_key x) (at_key y) (at_key t) 255 amt = Ok L'"
    "acct_at L' = (acct_at L)(x \<mapsto> side_account mk t (m - amt), y \<mapsto> side_account mk own (n + amt))"
    "mint_at L' = mint_at L" "tokens_only L L'"
  unfolding swap_host_10_def
  by (rule direct_transfer [of "at_key token_id" L "at_key t" sample_crypto 99 "\<lambda>k. k = 10" 1 255
        "at_key x" "side_account mk t m" "at_key y" "side_account mk own n" amt sample_host])
    (use assms in \<open>auto simp: sample_may_sign live_def may_spend_def\<close>)

lemma pool_mint_to_runs:
  assumes "plain L 50" "acct_at L x = Some (side_account 4 own n)" "mint_at L 4 = Some (pool_token_mint s)"
    "fits n amt" "fits s amt"
  obtains L' where "token_mint_to swap_host_10 L 1 (at_key token_id) (at_key 4) (at_key x) (at_key 50) 255 amt = Ok L'"
    "acct_at L' = (acct_at L)(x \<mapsto> side_account 4 own (n + amt))" "tokens_only L L'"
  unfolding swap_host_10_def
  by (rule direct_mint_to [of "at_key token_id" L "at_key 50" sample_crypto 99 "\<lambda>k. k = 10" 1 255
        "at_key x" "side_account 4 own n" "at_key 4" "pool_token_mint s" amt sample_host])
    (use assms in \<open>auto simp: sample_may_sign live_def live_mint_def pool_token_mint_def\<close>)

lemma pool_burn_runs:
  assumes "plain L 10" "acct_at L x = Some (side_account 4 10 n)" "mint_at L 4 = Some (pool_token_mint s)"
    "amt \<le> n" "amt \<le> s"
  obtains L' where "token_burn swap_host_10 L 1 (at_key token_id) (at_key x) (at_key 4) (at_key 10) 255 amt = Ok L'"
    "acct_at L' = (acct_at L)(x \<mapsto> side_account 4 10 (n - amt))" "tokens_only L L'"
  unfolding swap_host_10_def
  by (rule direct_burn [of "at_key token_id" L "at_key 10" sample_crypto 99 "\<lambda>k. k = 10" 1 255
        "at_key x" "side_account 4 10 n" "at_key 4" "pool_token_mint s" amt sample_host])
    (use assms in \<open>auto simp: sample_may_sign live_def live_mint_def may_spend_def pool_token_mint_def\<close>)

section \<open>The instructions succeed\<close>

abbreviation sample_pool_ledger :: ledger where
  "sample_pool_ledger \<equiv> pool_ledger 2000 400 sample_pool_bytes"

lemmas sample_pool_at = pool_ledger_at [OF sample_pool_bytes(1), of 2000 400, unfolded sample_accounts_def]

lemma sample_pool_unpack:
  "unpack_token_account sample_pool_ledger (at_key 2) token_id = Ok (side_account 21 50 1000)"
  "unpack_token_account sample_pool_ledger (at_key 3) token_id = Ok (side_account 22 50 1000)"
  "unpack_mint sample_pool_ledger (at_key 4) token_id = Ok (pool_token_mint 2000)"
  by (auto intro!: pool_ledger_unpack sample_pool_bytes(1) simp: sample_accounts_def)

lemmas sample_run_defs = info_owner_def info_data_def held_def sample_pool_def authority_id_def
  from_swap_def or_else_def to_u64_def swap_host_10_def sample_derives sample_pool_unpack

lemma sample_swap_runs:
  obtains L' where "process_swap swap_host_10 99 sample_pool_ledger 100 90
    (map at_key [1, 50, 10, 6, 2, 3, 7, 4, 5, token_id]) = Ok L'"
proof -
  obtain L1 where t1: "token_transfer swap_host_10 sample_pool_ledger 1 (at_key token_id) (at_key 6)
      (at_key 2) (at_key 10) 255 99 = Ok L1"
    and at1: "acct_at L1 = (acct_at sample_pool_ledger)(6 \<mapsto> side_account 21 10 (500 - 99), 2 \<mapsto> side_account 21 50 (1000 + 99))"
    and only: "tokens_only sample_pool_ledger L1"
    by (rule pool_transfer_runs [of sample_pool_ledger 10 6 21 500 2 50 1000 99])
      (auto simp: pool_ledger_plain sample_pool_at fits_def)
  have "plain L1 50" by (rule plain_kept [OF only]) (simp add: pool_ledger_plain)
  with at1 obtain L2 where t2: "token_transfer swap_host_10 L1 1 (at_key token_id) (at_key 3) (at_key 7)
      (at_key 50) 255 90 = Ok L2"
    using pool_transfer_runs [of L1 50 3 22 1000 7 10 500 90] by (auto simp: sample_pool_at fits_def)
  have "process_swap swap_host_10 99 sample_pool_ledger 100 90
      (map at_key [1, 50, 10, 6, 2, 3, 7, 4, 5, token_id]) = Ok L2"
    using t1 t2 sample_pool_bytes(2) sample_swap_amounts
    by (simp add: process_swap_def sample_run_defs direction_of_def
        withdraw_single_token_type_exact_out_def pay_owner_fee_def)
  then show thesis by (rule that)
qed

lemma sample_shares:
  "pool_tokens_to_trading_tokens ConstantProductCurve 200 2000 1000 1000 rd =
     Ok \<lparr>token_a_amount = 100, token_b_amount = 100\<rparr>"
  by (cases rd) (simp_all add: ratio_pool_tokens_def pool_ratio_def pool_ratio_ceiling_def checked_arith)

lemma sample_deposit_runs:
  obtains L' where "process_deposit_all_token_types swap_host_10 99 sample_pool_ledger 200 100 100
    (map at_key [1, 50, 10, 6, 7, 2, 3, 4, 8, token_id]) = Ok L'"
proof -
  obtain L1 where t1: "token_transfer swap_host_10 sample_pool_ledger 1 (at_key token_id) (at_key 6)
      (at_key 2) (at_key 10) 255 100 = Ok L1"
    and at1: "acct_at L1 = (acct_at sample_pool_ledger)(6 \<mapsto> side_account 21 10 (500 - 100), 2 \<mapsto> side_account 21 50 (1000 + 100))"
    "mint_at L1 = mint_at sample_pool_ledger" and o1: "tokens_only sample_pool_ledger L1"
    by (rule pool_transfer_runs [of sample_pool_ledger 10 6 21 500 2 50 1000 100])
      (auto simp: pool_ledger_plain sample_pool_at fits_def)
  have "plain L1 10" by (rule plain_kept [OF o1]) (simp add: pool_ledger_plain)
  then obtain L2 where t2: "token_transfer swap_host_10 L1 1 (at_key token_id) (at_key 7) (at_key 3)
      (at_key 10) 255 100 = Ok L2"
    and at2: "acct_at L2 = (acct_at L1)(7 \<mapsto> side_account 22 10 (500 - 100), 3 \<mapsto> side_account 22 50 (1000 + 100))"
    "mint_at L2 = mint_at L1" and o2: "tokens_only L1 L2"
    using pool_transfer_runs [of L1 10 7 22 500 3 50 1000 100] at1 by (auto simp: sample_pool_at fits_def)
  have "plain L2 50" by (rule plain_kept [OF tokens_only_trans [OF o1 o2]]) (simp add: pool_ledger_plain)
  then obtain L3 where t3: "token_mint_to swap_host_10 L2 1 (at_key token_id) (at_key 4) (at_key 8)
      (at_key 50) 255 200 = Ok L3"
    using pool_mint_to_runs [of L2 8 10 400 2000 200] at1 at2 by (auto simp: sample_pool_at fits_def)
  have "process_deposit_all_token_types swap_host_10 99 sample_pool_ledger 200 100 100
      (map at_key [1, 50, 10, 6, 7, 2, 3, 4, 8, token_id]) = Ok L3"
    using t1 t2 t3 sample_pool_bytes(2) sample_shares
    by (simp add: process_deposit_all_token_types_def sample_run_defs check_accounts_def
        product_curve_def pool_token_mint_def)
  then show thesis by (rule that)
qed

lemma sample_withdraw_runs:
  obtains L' where "process_withdraw_all_token_types swap_host_10 99 sample_pool_ledger 200 100 100
    (map at_key [1, 50, 10, 4, 8, 2, 3, 6, 7, 5, token_id]) = Ok L'"
proof -
  obtain L1 where t1: "token_burn swap_host_10 sample_pool_ledger 1 (at_key token_id) (at_key 8)
      (at_key 4) (at_key 10) 255 200 = Ok L1"
    and at1: "acct_at L1 = (acct_at sample_pool_ledger)(8 \<mapsto> side_account 4 10 (400 - 200))"
    and o1: "tokens_only sample_pool_ledger L1"
    by (rule pool_burn_runs [of sample_pool_ledger 8 400 2000 200]) (auto simp: pool_ledger_plain sample_pool_at)
  have "plain L1 50" by (rule plain_kept [OF o1]) (simp add: pool_ledger_plain)
  then obtain L2 where t2: "token_transfer swap_host_10 L1 1 (at_key token_id) (at_key 2) (at_key 6)
      (at_key 50) 255 100 = Ok L2"
    and at2: "acct_at L2 = (acct_at L1)(2 \<mapsto> side_account 21 50 (1000 - 100), 6 \<mapsto> side_account 21 10 (500 + 100))"
    and o2: "tokens_only L1 L2"
    using pool_transfer_runs [of L1 50 2 21 1000 6 10 500 100] at1 by (auto simp: sample_pool_at fits_def)
  have "plain L2 50" by (rule plain_kept [OF tokens_only_trans [OF o1 o2]]) (simp add: pool_ledger_plain)
  then obtain L3 where t3: "token_transfer swap_host_10 L2 1 (at_key token_id) (at_key 3) (at_key 7)
      (at_key 50) 255 100 = Ok L3"
    using pool_transfer_runs [of L2 50 3 22 1000 7 10 500 100] at1 at2 by (auto simp: sample_pool_at fits_def)
  have "process_withdraw_all_token_types swap_host_10 99 sample_pool_ledger 200 100 100
      (map at_key [1, 50, 10, 4, 8, 2, 3, 6, 7, 5, token_id]) = Ok L3"
    using t1 t2 t3 sample_pool_bytes(2) sample_shares
    by (simp add: process_withdraw_all_token_types_def sample_run_defs check_accounts_def
        product_curve_def pool_token_mint_def withdraw_fee_of_def pay_withdraw_fee_def
        owner_withdraw_fee_def no_fees_def calculate_fee_def checked_sub_def min_def)
  then show thesis by (rule that)
qed

lemma sample_find: "find_program_address sample_crypto [pubkey_to_bytes k] pid = Ok (50, 255)"
proof -
  have "find_loop (Suc 254) sample_crypto [pubkey_to_bytes k] pid 255 = Some (50, 255)"
    unfolding find_loop.simps using sample_derives [of k 255] by simp
  then show ?thesis by (simp add: find_program_address_def try_find_program_address_def)
qed

lemma sample_initialize_runs:
  obtains L' where "process_initialize swap_host_10 99 (pool_ledger 0 0 (replicate LATEST_LEN 0)) no_fees
    product_curve (map at_key [1, 50, 2, 3, 4, 5, 8, token_id]) None = Ok L'"
proof -
  let ?L = "pool_ledger 0 0 (replicate LATEST_LEN 0)"
  have len: "length (replicate LATEST_LEN 0) = LATEST_LEN" by simp
  have un: "unpack_token_account ?L (at_key 2) token_id = Ok (side_account 21 50 1000)"
    "unpack_token_account ?L (at_key 3) token_id = Ok (side_account 22 50 1000)"
    "unpack_token_account ?L (at_key 5) token_id = Ok (side_account 4 60 0)"
    "unpack_token_account ?L (at_key 8) token_id = Ok (side_account 4 10 0)"
    "unpack_mint ?L (at_key 4) token_id = Ok (pool_token_mint 0)"
    by (auto intro!: pool_ledger_unpack simp: sample_accounts_def)
  note at = pool_ledger_at [OF len, of 0 0, unfolded sample_accounts_def]
  obtain L1 where t1: "token_mint_to swap_host_10 ?L 1 (at_key token_id) (at_key 4) (at_key 8)
      (at_key 50) 255 1000000000 = Ok L1" and only: "tokens_only ?L L1"
    by (rule pool_mint_to_runs [of ?L 8 10 0 0 1000000000]) (auto simp: pool_ledger_plain at fits_def)
  have 1: "L1 1 = held 99 (replicate LATEST_LEN 0)"
    using only at by (simp add: tokens_only_def)
  obtain d where d: "swap_version_pack sample_pool (replicate LATEST_LEN 0) = Ok d"
    using swap_version_roundtrip [of sample_pool "replicate LATEST_LEN 0"]
    by (auto simp: sample_pool_def product_curve_def curve_wf_def)
  have new: "swap_version_is_initialized (replicate LATEST_LEN 0) = (Ok False :: bool program_result)"
    by (simp add: swap_version_is_initialized_def swap_version_unpack_def LATEST_LEN_def)
  have "process_initialize swap_host_10 99 ?L no_fees product_curve
      (map at_key [1, 50, 2, 3, 4, 5, 8, token_id]) None = Ok (set_data L1 (at_key 1) d)"
    using t1 d un 1 new
    by (simp add: process_initialize_def sample_run_defs sample_find pool_token_mint_def
        product_curve_def no_fees_def check_constraints_def fees_validate_def validate_fraction_def
        validate_both_supplies_def new_pool_supply_def INITIAL_SWAP_POOL_AMOUNT_def)
  then show thesis by (rule that)
qed

section \<open>What the general theorems ask for\<close>

lemma sample_token_cpi: "token_cpi swap_host_10 sample_host 99 (\<lambda>k. k = 10)"
  unfolding swap_host_10_def by (rule direct.token_cpi_axioms)

lemma swap_host_10_crypto [simp]: "swap_crypto swap_host_10 = sample_crypto"
  by (simp add: swap_host_10_def)

lemma sample_pool_decodes:
  "swap_version_unpack (info_data sample_pool_ledger (map at_key (1 # ks) ! 0)) = Ok sample_pool"
  using sample_pool_bytes(2) by (simp add: info_data_def held_def)

lemma sample_pool_mints:
  "mint_of sample_pool_ledger (token_a sample_pool) \<noteq> mint_of sample_pool_ledger (token_b sample_pool)"
  "mint_of sample_pool_ledger (token_a sample_pool) \<noteq> Some (pool_mint sample_pool)"
  "mint_of sample_pool_ledger (token_b sample_pool) \<noteq> Some (pool_mint sample_pool)"
  by (simp_all add: mint_of_def sample_pool_at) (simp_all add: sample_pool_def)

lemma sample_pool_balances:
  "balance sample_pool_ledger 2 = 1000" "balance sample_pool_ledger 3 = 1000"
  "supply_of sample_pool_ledger 4 = 2000"
  by (simp_all add: balance_def supply_of_def sample_pool_at pool_token_mint_def)

lemma sample_pool_wf: "pool_wf sample_crypto 99 sample_pool_ledger 1 sample_pool"
  using sample_pool_bytes(2) sample_derives [of 1 255 99]
  by (simp add: pool_wf_def held_def sample_pool_at)
    (simp add: sample_pool_def no_fees_def product_curve_def fees_validate_def validate_fraction_def
      pool_side_def pool_token_mint_def)

end
