(* ===== verification/Cpi_Scenario.thy ===== *)
theory Cpi_Scenario
  imports Scenario Swap_Runtime
begin

text \<open>
  Program 99 runs with accounts 5 (signed, read-only), 6 (signed, writable), 50 and the program 77,
  and calls program 77. Two inner instructions are run to the end: one that asks for the signature
  of key 50, which the caller's seeds derive, and one that reaches account 5 as a writable account.
\<close>

section \<open>The caller\<close>

definition inner_ledger :: ledger where
  "inner_ledger = (\<lambda>_. default_account)(5 := held 77 [0], 6 := held 77 [0], 50 := held 77 [],
     77 := (held bpf_loader_id [])\<lparr>executable := True\<rparr>)"

definition inner_env :: "program \<Rightarrow> cpi_env" where
  "inner_env p = \<lparr>cpi_crypto = \<lparr>sha256 = (\<lambda>_. 50), bytes_are_curve_point = (\<lambda>_. False)\<rparr>,
     loader_state = (\<lambda>_. None), cpi_programs = [(bpf_loader_id, p)], cpi_native_loader = p,
     invoke_units = 1000, max_cpi_instruction_size = 1280\<rparr>"

definition caller_infos :: "AccountInfo list" where
  "caller_infos = [\<lparr>key = 5, is_signer = True, is_writable = False\<rparr>,
     \<lparr>key = 6, is_signer = True, is_writable = True\<rparr>,
     \<lparr>key = 50, is_signer = False, is_writable = False\<rparr>,
     \<lparr>key = 77, is_signer = False, is_writable = False\<rparr>]"

definition caller_frame :: StackFrame where
  "caller_frame = frame_new 1 (\<lparr>key = 99, is_signer = False, is_writable = False\<rparr> # caller_infos)"

definition snapshots :: "PreAccount list" where
  "snapshots = map (\<lambda>k. pre_account_new k (inner_ledger k)) [5, 6, 50, 77]"

definition caller_context :: InvokeContext where
  "caller_context = running (sample_context\<lparr>ctx_keys := [99, 5, 6, 50, 77],
     ctx_store := inner_ledger, pre_accounts := snapshots\<rparr>) [] 99 caller_infos"

lemma caller_fields:
  "ctx_keys caller_context = [99, 5, 6, 50, 77]" "ctx_store caller_context = inner_ledger"
  "pre_accounts caller_context = snapshots"
  "ctx_borrowed caller_context = (\<lambda>_. False)" "feature_active caller_context = (\<lambda>_. True)"
  "invoke_stack caller_context = [caller_frame]" "max_invoke_depth caller_context = 4"
  "own_meter caller_context = None" "tx_meter caller_context = 200000"
  "frame_program_id caller_frame = Some 99"
  by (simp_all add: caller_context_def running_def sample_context_def caller_frame_def
      frame_program_id_def frame_new_def)

lemma inner_ledger_accounts:
  "data (inner_ledger 5) = [0]" "data (inner_ledger 6) = [0]" "data (inner_ledger 50) = []"
  "data (inner_ledger 77) = []" "owner (inner_ledger 5) = 77" "owner (inner_ledger 6) = 77"
  "owner (inner_ledger 50) = 77" "owner (inner_ledger 77) = bpf_loader_id"
  "lamports (inner_ledger 5) = 1000" "lamports (inner_ledger 6) = 1000"
  "lamports (inner_ledger 50) = 1000" "lamports (inner_ledger 77) = 1000"
  "\<not> executable (inner_ledger 5)" "\<not> executable (inner_ledger 6)"
  "\<not> executable (inner_ledger 50)" "executable (inner_ledger 77)"
  by (simp_all add: inner_ledger_def held_def)

lemma caller_keyed:
  "get_keyed_accounts (caller_context\<lparr>tx_meter := u\<rparr>) =
     Ok (\<lparr>key = 99, is_signer = False, is_writable = False\<rparr> # caller_infos)"
  by (simp add: get_keyed_accounts_def caller_fields caller_frame_def frame_new_def segment_def
      caller_infos_def Let_def)

lemmas get_account_eval = get_account_def enumerate_eq_zip upt_rec

lemmas create_eval = create_message_def caller_keyed find_keyed_def caller_infos_def get_account_eval
  caller_fields inner_ledger_accounts programdata_index_def bpf_loader_id_def bpf_loader_upgradeable_id_def
  account_meta_new_def account_meta_new_readonly_def Let_def

lemmas push_eval = ctx_push_def caller_fields check_reentrancy_def at_index_def Let_def
  keyed_program_def keyed_account_def msg_is_signer_def

lemmas run_eval = processor_process_instruction_def get_keyed_accounts_def frame_new_def segment_def
  Let_def caller_fields dispatch_def inner_ledger_accounts env_processor_def inner_env_def add_program_def
  bpf_loader_id_def native_loader_id_def

lemmas verify_eval = verify_and_update_def visit_each_account_def verify_update_work_def get_caller_def
  pre_account_new_def pre_account_verify_def verify_data_len_def add_sums_def checked_add_def
  pre_account_update_def Let_def at_index_def MAX_PERMITTED_DATA_LENGTH_def caller_fields snapshots_def
  inner_ledger_accounts frame_program_id_def frame_new_def

lemmas writable_eval = msg_is_writable_def plain_keys is_key_called_as_program_def at_index_def Let_def

section \<open>A derived signature\<close>

definition derived_instruction :: Instruction where
  "derived_instruction = \<lparr>program_id = 77, accounts = [account_meta_new_readonly 50 True],
     instr_data = []\<rparr>"

definition derived_message :: Message where
  "derived_message = \<lparr>header = \<lparr>num_required_signatures = 1, num_readonly_signed_accounts = 1,
     num_readonly_unsigned_accounts = 1\<rparr>, account_keys = [50, 77], recent_blockhash = 0,
     instructions = [\<lparr>program_id_index = 1, ci_accounts = [0], ci_data = []\<rparr>]\<rparr>"

definition derived_frame :: StackFrame where
  "derived_frame = frame_new 1 [\<lparr>key = 77, is_signer = False, is_writable = False\<rparr>,
     \<lparr>key = 50, is_signer = True, is_writable = False\<rparr>]"

lemma derived_compiled: "message_new [derived_instruction] None = Ok derived_message"
  unfolding message_new_def message_new_Ok
  by (simp add: compiled_message_def derived_message_def eval_get_keys derived_instruction_def
      compiled_def index_in_def)

lemma derived_created:
  "create_message (inner_env p) derived_instruction [50] (caller_context\<lparr>tx_meter := u\<rparr>) =
     Ok (derived_message, [False, False], [4])"
  by (simp add: create_eval derived_compiled) (simp add: create_eval derived_message_def derived_instruction_def)

lemma derived_writable:
  "msg_is_writable derived_message 0 d = Ok False" "msg_is_writable derived_message 1 d = Ok False"
  by (simp_all add: writable_eval derived_message_def)

lemma derived_verified:
  assumes "invoke_stack c = caller_frame # fs" "pre_accounts c = snapshots" "ctx_store c = inner_ledger"
    "ctx_keys c = [99, 5, 6, 50, 77]" "ctx_borrowed c = (\<lambda>_. False)" "feature_active c = (\<lambda>_. True)"
    "frame_program_id (last (caller_frame # fs)) = Some prog"
  shows "verify_and_update sample_host c \<lparr>program_id_index = 1, ci_accounts = [0], ci_data = []\<rparr> [3, 4]
     [False, False] = Ok c"
  using assms by (simp add: verify_eval)

lemma derived_runs:
  "\<exists>ctx'. process_cross_program_instruction sample_host (inner_env (\<lambda>_ _ c. Ok c)) derived_message [4] [3, 4]
     [False, False] (caller_context\<lparr>tx_meter := u\<rparr>) = Ok ctx'"
proof -
  let ?ci = "\<lparr>program_id_index = 1, ci_accounts = [0], ci_data = []\<rparr>"
  let ?c = "caller_context\<lparr>tx_meter := u\<rparr>"
  let ?c' = "?c\<lparr>invoke_stack := [caller_frame, derived_frame]\<rparr>"
  have "verify_and_update sample_host ?c ?ci [3, 4] [False, False] = Ok ?c"
    by (rule derived_verified [of _ "[]"]) (simp_all add: caller_fields)
  moreover have "get_caller ?c = Ok 99" by (simp add: get_caller_def caller_fields)
  moreover have "ctx_push ?c derived_message ?ci [4] (Some [3, 4]) = Ok ?c'"
    by (simp add: push_eval derived_writable [simplified] derived_frame_def) (simp add: derived_message_def)
  moreover have "processor_process_instruction (env_processor (inner_env (\<lambda>_ _ c. Ok c))) [] ?c' = Ok ?c'"
    by (simp add: run_eval derived_frame_def)
  moreover have "verify_and_update sample_host ?c' ?ci [3, 4] [False, False] = Ok ?c'"
    by (rule derived_verified [of _ "[derived_frame]" 77])
      (simp_all add: caller_fields derived_frame_def frame_program_id_def frame_new_def)
  moreover have "instructions derived_message = [?ci]" "length (account_keys derived_message) = 2"
    by (simp_all add: derived_message_def)
  ultimately show ?thesis
    by (simp add: process_cross_program_instruction_def derived_writable [simplified] upt_rec)
qed

lemma derived_call_runs:
  obtains ctx' where "syscall_invoke_signed sample_host (inner_env (\<lambda>_ _ c. Ok c)) [1, 1, 0, 0]
    derived_instruction caller_infos [[[1]]] caller_context = Ok ctx'"
proof -
  let ?env = "inner_env (\<lambda>_ _ c. Ok c)"
  let ?c = "caller_context\<lparr>tx_meter := 199000\<rparr>"
  obtain ctx' where run: "process_cross_program_instruction sample_host ?env derived_message [4] [3, 4]
      [False, False] ?c = Ok ctx'"
    using derived_runs by blast
  have "consume caller_context (invoke_units ?env) = Ok ?c"
    by (simp add: consume_def caller_fields inner_env_def Let_def)
  moreover have "get_caller ?c = Ok 99" by (simp add: get_caller_def caller_fields)
  moreover have "check_instruction_size ?env derived_instruction = Ok ()"
    by (simp add: check_instruction_size_def inner_env_def derived_instruction_def Let_def)
  moreover have "translate_signers ?env 99 [[[1]]] = Ok [50]"
    by (simp add: translate_signers_def CPI_MAX_SIGNERS_def MAX_SEEDS_def create_program_address_def
        inner_env_def MAX_SEED_LEN_def Let_def)
  moreover have "check_authorized_program (program_id derived_instruction) (instr_data derived_instruction) ?c = Ok ()"
    by (simp add: check_authorized_program_def derived_instruction_def native_loader_id_def bpf_loader_id_def
        bpf_loader_deprecated_id_def bpf_loader_upgradeable_id_def is_precompile_def PRECOMPILES_def
        precompile_check_id_def secp256k1_program_id_def ed25519_program_id_def)
  moreover have "check_account_infos ?env (length caller_infos) = Ok ()"
    by (simp add: check_account_infos_def inner_env_def caller_infos_def)
  moreover have "collect_result (translated_account ?c derived_message kas [1, 1, 0, 0] caller_infos)
      (enumerate 0 (account_keys derived_message)) = Ok [(3, 50, None), (4, 77, None)]" for kas
    by (simp add: translated_account_def derived_message_def get_account_eval caller_fields
        inner_ledger_accounts at_index_def caller_infos_def)
      (simp add: derived_message_def [symmetric] derived_writable [simplified])
  ultimately have "syscall_invoke_signed sample_host ?env [1, 1, 0, 0] derived_instruction caller_infos
      [[[1]]] caller_context = Ok ctx'"
    using run by (simp add: syscall_invoke_signed_def derived_created caller_keyed)
  then show thesis by (rule that)
qed

section \<open>An escalated write\<close>

text \<open>The callee writes account 5, which its frame marks writable.\<close>

definition poke :: program where
  "poke n d ctx = (let L = ctx_store ctx in
     Ok (ctx\<lparr>ctx_store := L(5 := (L 5)\<lparr>data := [1]\<rparr>)\<rparr>))"

definition escalating_instruction :: Instruction where
  "escalating_instruction = \<lparr>program_id = 77, accounts = [account_meta_new_readonly 5 True,
     account_meta_new_readonly 6 True, account_meta_new 6 False], instr_data = []\<rparr>"

definition escalating_message :: Message where
  "escalating_message = \<lparr>header = \<lparr>num_required_signatures = 2, num_readonly_signed_accounts = 1,
     num_readonly_unsigned_accounts = 1\<rparr>, account_keys = [5, 6, 77], recent_blockhash = 0,
     instructions = [\<lparr>program_id_index = 2, ci_accounts = [0, 1, 1], ci_data = []\<rparr>]\<rparr>"

definition escalated_frame :: StackFrame where
  "escalated_frame = frame_new 1 [\<lparr>key = 77, is_signer = False, is_writable = False\<rparr>,
     \<lparr>key = 5, is_signer = True, is_writable = True\<rparr>, \<lparr>key = 6, is_signer = True, is_writable = False\<rparr>,
     \<lparr>key = 6, is_signer = True, is_writable = False\<rparr>]"

definition poked_ledger :: ledger where
  "poked_ledger = inner_ledger(5 := (inner_ledger 5)\<lparr>data := [1]\<rparr>)"

text \<open>The snapshots after the call: that of account 5 has the new data.\<close>

definition poked_snapshot :: PreAccount where
  "poked_snapshot = pre_account_update (pre_account_new 5 (inner_ledger 5)) (poked_ledger 5)"

definition snapshots_from :: "PreAccount \<Rightarrow> PreAccount list" where
  "snapshots_from pa = [pa, pre_account_update (pre_account_new 6 (inner_ledger 6)) (inner_ledger 6),
     pre_account_new 50 (inner_ledger 50), pre_account_new 77 (inner_ledger 77)]"

lemma escalating_compiled: "message_new [escalating_instruction] None = Ok escalating_message"
  unfolding message_new_def message_new_Ok
  by (simp add: compiled_message_def escalating_message_def eval_get_keys escalating_instruction_def
      compiled_def index_in_def)

lemma escalating_created:
  "create_message (inner_env p) escalating_instruction [] caller_context =
     Ok (escalating_message, [False, True, False], [4])"
  using caller_keyed [of "tx_meter caller_context"]
  by (simp add: create_message_def escalating_compiled)
    (simp add: create_eval escalating_message_def escalating_instruction_def)

lemma escalating_writable:
  "msg_is_writable escalating_message 0 d = Ok True" "msg_is_writable escalating_message 1 d = Ok False"
  "msg_is_writable escalating_message 2 d = Ok False"
  by (simp_all add: writable_eval escalating_message_def)

lemma escalating_runs:
  "native_invoke sample_host (inner_env poke) escalating_instruction [] caller_context =
     Ok (caller_context\<lparr>pre_accounts := snapshots_from poked_snapshot, ctx_store := poked_ledger\<rparr>)"
proof -
  let ?ci = "\<lparr>program_id_index = 2, ci_accounts = [0, 1, 1], ci_data = []\<rparr>"
  let ?c1 = "caller_context\<lparr>pre_accounts := snapshots_from (pre_account_new 5 (inner_ledger 5))\<rparr>"
  let ?c2 = "?c1\<lparr>invoke_stack := [caller_frame, escalated_frame]\<rparr>"
  let ?c3 = "?c2\<lparr>ctx_store := poked_ledger\<rparr>"
  have "verify_and_update sample_host caller_context ?ci [1, 2, 4] [False, True, False] = Ok ?c1"
    by (simp add: verify_eval snapshots_from_def caller_frame_def)
  moreover have "get_caller ?c1 = Ok 99" by (simp add: get_caller_def caller_fields)
  moreover have "ctx_push ?c1 escalating_message ?ci [4] (Some [1, 2, 4]) = Ok ?c2"
    by (simp add: push_eval escalating_writable [simplified] escalated_frame_def)
      (simp add: escalating_message_def)
  moreover have "processor_process_instruction (env_processor (inner_env poke)) [] ?c2 = Ok ?c3"
    by (simp add: run_eval escalated_frame_def poke_def poked_ledger_def)
  moreover have "verify_and_update sample_host ?c3 ?ci [1, 2, 4] [True, False, False] =
      Ok (?c3\<lparr>pre_accounts := snapshots_from poked_snapshot\<rparr>)"
    by (simp add: verify_eval snapshots_from_def escalated_frame_def poked_snapshot_def poked_ledger_def)
  moreover have "instructions escalating_message = [?ci]" by (simp add: escalating_message_def)
  moreover have "collect_result (\<lambda>i. msg_is_writable escalating_message i d)
      [0..<length (account_keys escalating_message)] = (Ok [True, False, False] :: (InstructionError, bool list) result)" for d
    by (simp add: escalating_message_def upt_rec)
      (simp add: escalating_message_def [symmetric] escalating_writable [simplified] numeral_2_eq_2 [symmetric])
  moreover have "collect_result (native_account caller_context) (account_keys escalating_message) =
      Ok [(1, 5, 1), (2, 6, 1), (4, 77, 0)]"
    by (simp add: escalating_message_def native_account_def account_len_def get_account_eval
        caller_fields inner_ledger_accounts)
  moreover have "caller_context\<lparr>invoke_stack := [caller_frame], ctx_store := L, pre_accounts := pas\<rparr> =
      caller_context\<lparr>pre_accounts := pas, ctx_store := L\<rparr>" for L pas
    by (rule InvokeContext.equality) (simp_all add: caller_fields)
  ultimately show ?thesis
    by (simp add: native_invoke_def escalating_created process_cross_program_instruction_def
        caller_fields ctx_pop_def)
qed

text \<open>The check of the caller compares with the updated snapshot.\<close>

lemma poked_snapshot_verifies:
  "pre_key poked_snapshot = 5"
  "\<exists>t. pre_account_verify sample_host poked_snapshot 99 False sample_rent (poked_ledger 5)
     default_timings True True = Ok t"
  by (simp_all add: pre_account_verify_def poked_snapshot_def pre_account_update_def pre_account_new_def
      verify_data_len_def MAX_PERMITTED_DATA_LENGTH_def poked_ledger_def inner_ledger_accounts Let_def)

end
