(* ===== verification/System_Program.thy ===== *)
theory System_Program
  imports Runtime Pda
begin

text \<open>
  The system program: creating, assigning and funding accounts, and nonce accounts, from
  \<open>runtime/src/system_instruction_processor.rs\<close>, \<open>runtime/src/nonce_keyed_account.rs\<close>,
  \<open>sdk/program/src/system_instruction.rs\<close> and \<open>sdk/program/src/nonce/state\<close>. A mutable account
  reference of the sources is an account that goes in and comes out; a keyed account is read and
  written in the ledger of the context, so two keyed accounts of one key are aliases. Log messages
  are left out.
\<close>

section \<open>Errors\<close>

datatype SystemError =
    AccountAlreadyInUse
  | ResultWithNegativeLamports
  | InvalidProgramId
  | InvalidAccountDataLength
  | MaxSeedLengthExceeded
  | AddressWithSeedMismatch
  | NonceNoRecentBlockhashes
  | NonceBlockhashNotExpired
  | NonceUnexpectedBlockhashValue

datatype NonceError = NoRecentBlockhashes | NotExpired | UnexpectedValue | BadAccountState

text \<open>An error without a number of its own becomes an instruction error by its position.\<close>

fun system_error_into :: "SystemError \<Rightarrow> InstructionError" where
  "system_error_into AccountAlreadyInUse = instruction_error_from 0"
| "system_error_into ResultWithNegativeLamports = instruction_error_from 1"
| "system_error_into InvalidProgramId = instruction_error_from 2"
| "system_error_into InvalidAccountDataLength = instruction_error_from 3"
| "system_error_into SystemError.MaxSeedLengthExceeded = instruction_error_from 4"
| "system_error_into AddressWithSeedMismatch = instruction_error_from 5"
| "system_error_into NonceNoRecentBlockhashes = instruction_error_from 6"
| "system_error_into NonceBlockhashNotExpired = instruction_error_from 7"
| "system_error_into NonceUnexpectedBlockhashValue = instruction_error_from 8"

fun nonce_error_into :: "NonceError \<Rightarrow> InstructionError" where
  "nonce_error_into NoRecentBlockhashes = instruction_error_from 0"
| "nonce_error_into NotExpired = instruction_error_from 1"
| "nonce_error_into UnexpectedValue = instruction_error_from 2"
| "nonce_error_into BadAccountState = instruction_error_from 3"

fun pubkey_error_into_instruction_error :: "PubkeyError \<Rightarrow> InstructionError" where
  "pubkey_error_into_instruction_error PubkeyError.MaxSeedLengthExceeded = instruction_error_from 0"
| "pubkey_error_into_instruction_error PubkeyError.InvalidSeeds = instruction_error_from 1"
| "pubkey_error_into_instruction_error PubkeyError.IllegalOwner = instruction_error_from 2"

definition nonce_to_instruction_error :: "NonceError \<Rightarrow> bool \<Rightarrow> InstructionError" where
  "nonce_to_instruction_error e use_system_variant =
     (if use_system_variant then
        case e of
          NoRecentBlockhashes \<Rightarrow> system_error_into NonceNoRecentBlockhashes
        | NotExpired \<Rightarrow> system_error_into NonceBlockhashNotExpired
        | UnexpectedValue \<Rightarrow> system_error_into NonceUnexpectedBlockhashValue
        | BadAccountState \<Rightarrow> InvalidAccountData
      else nonce_error_into e)"

fun instruction_to_nonce_error :: "InstructionError \<Rightarrow> bool \<Rightarrow> NonceError option" where
  "instruction_to_nonce_error (Custom d) use_system_variant =
     (if use_system_variant then
        if d = 6 then Some NoRecentBlockhashes
        else if d = 7 then Some NotExpired
        else if d = 8 then Some UnexpectedValue
        else None
      else
        if d = 0 then Some NoRecentBlockhashes
        else if d = 1 then Some NotExpired
        else if d = 2 then Some UnexpectedValue
        else if d = 3 then Some BadAccountState
        else None)"
| "instruction_to_nonce_error InvalidAccountData use_system_variant =
     (if use_system_variant then Some BadAccountState else None)"
| "instruction_to_nonce_error _ _ = None"

section \<open>Instructions and nonce accounts\<close>

text \<open>Seeds are the bytes of the strings.\<close>

datatype SystemInstruction =
    CreateAccount u64 u64 pubkey
  | Assign pubkey
  | SystemTransfer u64
  | CreateAccountWithSeed pubkey bytes u64 u64 pubkey
  | AdvanceNonceAccount
  | WithdrawNonceAccount u64
  | InitializeNonceAccount pubkey
  | AuthorizeNonceAccount pubkey
  | Allocate u64
  | AllocateWithSeed pubkey bytes u64 pubkey
  | AssignWithSeed pubkey bytes pubkey
  | TransferWithSeed u64 bytes pubkey

record NonceData =
  nonce_authority :: pubkey
  nonce_blockhash :: "256 word"
  nonce_lamports_per_signature :: u64

datatype NonceState = NonceUninitialized | NonceInitialized NonceData

definition nonce_data_new :: "pubkey \<Rightarrow> 256 word \<Rightarrow> u64 \<Rightarrow> NonceData" where
  "nonce_data_new auth bh n =
     \<lparr>nonce_authority = auth, nonce_blockhash = bh, nonce_lamports_per_signature = n\<rparr>"

text \<open>
  What the program takes from outside: hashing, rent, and the bincode encodings of instructions,
  of the recent blockhashes (the number of entries) and of nonce states.
\<close>

record system_env =
  sys_crypto :: crypto
  sys_host :: host
  decode_system_instruction :: "bytes \<Rightarrow> SystemInstruction option"
  decode_recent_blockhashes :: "bytes \<Rightarrow> nat option"
  decode_nonce :: "bytes \<Rightarrow> NonceState option"
  encode_nonce :: "NonceState \<Rightarrow> bytes"

section \<open>Keyed accounts\<close>

definition keyed_account_at_index ::
  "AccountInfo list \<Rightarrow> nat \<Rightarrow> (InstructionError, AccountInfo) result" where
  "keyed_account_at_index kas i = (if i < length kas then Ok (kas ! i) else Err NotEnoughAccountKeys)"

definition get_signers :: "AccountInfo list \<Rightarrow> pubkey list" where
  "get_signers kas = map key (filter is_signer kas)"

definition try_account_ref ::
  "InvokeContext \<Rightarrow> AccountInfo \<Rightarrow> (InstructionError, AccountSharedData) result" where
  "try_account_ref ctx i =
     (if ctx_borrowed ctx (key i) then Err AccountBorrowFailed else Ok (ctx_store ctx (key i)))"

definition set_account :: "InvokeContext \<Rightarrow> AccountInfo \<Rightarrow> AccountSharedData \<Rightarrow> InvokeContext" where
  "set_account ctx i a = ctx\<lparr>ctx_store := (ctx_store ctx)(key i := a)\<rparr>"

definition checked_sub_lamports ::
  "InvokeContext \<Rightarrow> AccountInfo \<Rightarrow> u64 \<Rightarrow> (InstructionError, InvokeContext) result" where
  "checked_sub_lamports ctx i n =
     bind (try_account_ref ctx i) (\<lambda>a.
     bind (ok_or (checked_sub (lamports a) n) ArithmeticOverflow) (\<lambda>b.
     Ok (set_account ctx i (a\<lparr>lamports := b\<rparr>))))"

definition checked_add_lamports ::
  "InvokeContext \<Rightarrow> AccountInfo \<Rightarrow> u64 \<Rightarrow> (InstructionError, InvokeContext) result" where
  "checked_add_lamports ctx i n =
     bind (try_account_ref ctx i) (\<lambda>a.
     bind (ok_or (checked_add (lamports a) n) ArithmeticOverflow) (\<lambda>b.
     Ok (set_account ctx i (a\<lparr>lamports := b\<rparr>))))"

definition recent_blockhashes_id :: pubkey where
  "recent_blockhashes_id = 0x40a92e06d844b31ab245315c03cf8897d2735f848ae08e562c1917d5a706"

definition from_keyed_account ::
  "pubkey \<Rightarrow> (bytes \<Rightarrow> 's option) \<Rightarrow> InvokeContext \<Rightarrow> AccountInfo \<Rightarrow> (InstructionError, 's) result" where
  "from_keyed_account sysvar_id decode ctx i =
     (if key i \<noteq> sysvar_id then Err InvalidArgument else
      bind (try_account_ref ctx i) (\<lambda>a.
      ok_or (decode (data a)) InvalidArgument))"

definition nonce_state_of ::
  "system_env \<Rightarrow> InvokeContext \<Rightarrow> AccountInfo \<Rightarrow> (InstructionError, NonceState) result" where
  "nonce_state_of env ctx i =
     bind (try_account_ref ctx i) (\<lambda>a.
     ok_or (decode_nonce env (data a)) InvalidAccountData)"

text \<open>The encoding is written over the start of the data.\<close>

definition set_nonce_state ::
  "system_env \<Rightarrow> InvokeContext \<Rightarrow> AccountInfo \<Rightarrow> NonceState \<Rightarrow> (InstructionError, InvokeContext) result" where
  "set_nonce_state env ctx i st =
     bind (try_account_ref ctx i) (\<lambda>a.
     let d = encode_nonce env st in
     if length (data a) < length d then Err AccountDataTooSmall
     else Ok (set_account ctx i (a\<lparr>data := d @ drop (length d) (data a)\<rparr>)))"

section \<open>Addresses\<close>

record Address =
  address :: pubkey
  base :: "pubkey option"

definition address_is_signer :: "Address \<Rightarrow> pubkey list \<Rightarrow> bool" where
  "address_is_signer a signers =
     (case base a of Some b \<Rightarrow> b \<in> set signers | None \<Rightarrow> address a \<in> set signers)"

definition address_create ::
  "system_env \<Rightarrow> pubkey \<Rightarrow> (pubkey \<times> bytes \<times> pubkey) option \<Rightarrow> (InstructionError, Address) result" where
  "address_create env addr with_seed =
     (case with_seed of
        Some (b, seed, own) \<Rightarrow>
          bind (map_err pubkey_error_into_instruction_error (create_with_seed (sys_crypto env) b seed own))
            (\<lambda>k.
          if addr \<noteq> k then Err (system_error_into AddressWithSeedMismatch)
          else Ok \<lparr>address = addr, base = Some b\<rparr>)
      | None \<Rightarrow> Ok \<lparr>address = addr, base = None\<rparr>)"

section \<open>Accounts and lamports\<close>

definition allocate ::
  "AccountSharedData \<Rightarrow> Address \<Rightarrow> u64 \<Rightarrow> pubkey list \<Rightarrow> (InstructionError, AccountSharedData) result" where
  "allocate account addr space signers =
     (if \<not> address_is_signer addr signers then Err MissingRequiredSignature else
      if data account \<noteq> [] \<or> owner account \<noteq> system_program_id
      then Err (system_error_into AccountAlreadyInUse) else
      if MAX_PERMITTED_DATA_LENGTH < unat space
      then Err (system_error_into InvalidAccountDataLength) else
      Ok (account\<lparr>data := replicate (unat space) 0\<rparr>))"

definition assign ::
  "InvokeContext \<Rightarrow> AccountSharedData \<Rightarrow> Address \<Rightarrow> pubkey \<Rightarrow> pubkey list \<Rightarrow>
   (InstructionError, AccountSharedData) result" where
  "assign ctx account addr own signers =
     (if owner account = own then Ok account else
      if \<not> address_is_signer addr signers then Err MissingRequiredSignature else
      if \<not> feature_active ctx rent_for_sysvars \<and> is_sysvar_id own
      then Err (system_error_into InvalidProgramId) else
      Ok (account\<lparr>owner := own\<rparr>))"

definition allocate_and_assign ::
  "InvokeContext \<Rightarrow> AccountSharedData \<Rightarrow> Address \<Rightarrow> u64 \<Rightarrow> pubkey \<Rightarrow> pubkey list \<Rightarrow>
   (InstructionError, AccountSharedData) result" where
  "allocate_and_assign ctx to addr space own signers =
     bind (allocate to addr space signers) (\<lambda>to.
     assign ctx to addr own signers)"

definition transfer_verified ::
  "InvokeContext \<Rightarrow> AccountInfo \<Rightarrow> AccountInfo \<Rightarrow> u64 \<Rightarrow> (InstructionError, InvokeContext) result" where
  "transfer_verified ctx from to n =
     bind (try_account_ref ctx from) (\<lambda>a.
     if data a \<noteq> [] then Err InvalidArgument else
     if lamports a < n then Err (system_error_into ResultWithNegativeLamports) else
     bind (checked_sub_lamports ctx from n) (\<lambda>ctx.
     checked_add_lamports ctx to n))"

definition system_transfer ::
  "InvokeContext \<Rightarrow> AccountInfo \<Rightarrow> AccountInfo \<Rightarrow> u64 \<Rightarrow> (InstructionError, InvokeContext) result" where
  "system_transfer ctx from to n =
     (if \<not> feature_active ctx system_transfer_zero_check \<and> n = 0 then Ok ctx else
      if \<not> is_signer from then Err MissingRequiredSignature else
      transfer_verified ctx from to n)"

definition transfer_with_seed ::
  "system_env \<Rightarrow> InvokeContext \<Rightarrow> AccountInfo \<Rightarrow> AccountInfo \<Rightarrow> bytes \<Rightarrow> pubkey \<Rightarrow> AccountInfo \<Rightarrow> u64 \<Rightarrow>
   (InstructionError, InvokeContext) result" where
  "transfer_with_seed env ctx from from_base from_seed from_owner to n =
     (if \<not> feature_active ctx system_transfer_zero_check \<and> n = 0 then Ok ctx else
      if \<not> is_signer from_base then Err MissingRequiredSignature else
      bind (map_err pubkey_error_into_instruction_error
              (create_with_seed (sys_crypto env) (key from_base) from_seed from_owner)) (\<lambda>k.
      if key from \<noteq> k then Err (system_error_into AddressWithSeedMismatch) else
      transfer_verified ctx from to n))"

definition create_account ::
  "InvokeContext \<Rightarrow> AccountInfo \<Rightarrow> AccountInfo \<Rightarrow> Address \<Rightarrow> u64 \<Rightarrow> u64 \<Rightarrow> pubkey \<Rightarrow> pubkey list \<Rightarrow>
   (InstructionError, InvokeContext) result" where
  "create_account ctx from to addr n space own signers =
     bind (try_account_ref ctx to) (\<lambda>a.
     if 0 < lamports a then Err (system_error_into AccountAlreadyInUse) else
     bind (allocate_and_assign ctx a addr space own signers) (\<lambda>a.
     system_transfer (set_account ctx to a) from to n))"

section \<open>Nonce accounts\<close>

abbreviation merged :: "InvokeContext \<Rightarrow> bool" where
  "merged ctx \<equiv> feature_active ctx merge_nonce_error_into_system_error"

definition advance_nonce_account ::
  "system_env \<Rightarrow> InvokeContext \<Rightarrow> AccountInfo \<Rightarrow> pubkey list \<Rightarrow> (InstructionError, InvokeContext) result" where
  "advance_nonce_account env ctx me signers =
     bind (nonce_state_of env ctx me) (\<lambda>st.
     case st of
       NonceInitialized d \<Rightarrow>
         if nonce_authority d \<notin> set signers then Err MissingRequiredSignature else
         if nonce_blockhash d = ctx_blockhash ctx
         then Err (nonce_to_instruction_error NotExpired (merged ctx)) else
         set_nonce_state env ctx me (NonceInitialized
           (nonce_data_new (nonce_authority d) (ctx_blockhash ctx) (ctx_lamports_per_signature ctx)))
     | NonceUninitialized \<Rightarrow> Err (nonce_to_instruction_error BadAccountState (merged ctx)))"

text \<open>Who must sign a withdrawal; an account that is emptied is closed on the way.\<close>

definition withdraw_signer ::
  "system_env \<Rightarrow> InvokeContext \<Rightarrow> AccountInfo \<Rightarrow> u64 \<Rightarrow> Rent \<Rightarrow>
   (InstructionError, pubkey \<times> InvokeContext) result" where
  "withdraw_signer env ctx me n rent =
     bind (nonce_state_of env ctx me) (\<lambda>st.
     bind (try_account_ref ctx me) (\<lambda>a.
     case st of
       NonceUninitialized \<Rightarrow>
         if lamports a < n then Err InsufficientFunds else Ok (key me, ctx)
     | NonceInitialized d \<Rightarrow>
         if n = lamports a then
           if nonce_blockhash d = ctx_blockhash ctx
           then Err (nonce_to_instruction_error NotExpired (merged ctx))
           else bind (set_nonce_state env ctx me NonceUninitialized) (\<lambda>ctx. Ok (nonce_authority d, ctx))
         else
           bind (ok_or (checked_add n (minimum_balance (sys_host env) rent (length (data a))))
                   InsufficientFunds) (\<lambda>amt.
           if lamports a < amt then Err InsufficientFunds else Ok (nonce_authority d, ctx))))"

definition withdraw_nonce_account ::
  "system_env \<Rightarrow> InvokeContext \<Rightarrow> AccountInfo \<Rightarrow> u64 \<Rightarrow> AccountInfo \<Rightarrow> Rent \<Rightarrow> pubkey list \<Rightarrow>
   (InstructionError, InvokeContext) result" where
  "withdraw_nonce_account env ctx me n to rent signers =
     bind (withdraw_signer env ctx me n rent) (\<lambda>(signer, ctx).
     if signer \<notin> set signers then Err MissingRequiredSignature else
     bind (checked_sub_lamports ctx me n) (\<lambda>ctx.
     checked_add_lamports ctx to n))"

definition initialize_nonce_account ::
  "system_env \<Rightarrow> InvokeContext \<Rightarrow> AccountInfo \<Rightarrow> pubkey \<Rightarrow> Rent \<Rightarrow> (InstructionError, InvokeContext) result" where
  "initialize_nonce_account env ctx me authority rent =
     bind (nonce_state_of env ctx me) (\<lambda>st.
     case st of
       NonceUninitialized \<Rightarrow>
         bind (try_account_ref ctx me) (\<lambda>a.
         if lamports a < minimum_balance (sys_host env) rent (length (data a))
         then Err InsufficientFunds else
         set_nonce_state env ctx me (NonceInitialized
           (nonce_data_new authority (ctx_blockhash ctx) (ctx_lamports_per_signature ctx))))
     | NonceInitialized _ \<Rightarrow> Err (nonce_to_instruction_error BadAccountState (merged ctx)))"

definition authorize_nonce_account ::
  "system_env \<Rightarrow> InvokeContext \<Rightarrow> AccountInfo \<Rightarrow> pubkey \<Rightarrow> pubkey list \<Rightarrow>
   (InstructionError, InvokeContext) result" where
  "authorize_nonce_account env ctx me authority signers =
     bind (nonce_state_of env ctx me) (\<lambda>st.
     case st of
       NonceInitialized d \<Rightarrow>
         if nonce_authority d \<notin> set signers then Err MissingRequiredSignature else
         set_nonce_state env ctx me (NonceInitialized
           (nonce_data_new authority (nonce_blockhash d) (nonce_lamports_per_signature d)))
     | NonceUninitialized \<Rightarrow> Err (nonce_to_instruction_error BadAccountState (merged ctx)))"

section \<open>Dispatch\<close>

text \<open>Changing an account in place, at an address that may be derived from a seed.\<close>

definition update_at_address ::
  "system_env \<Rightarrow> InvokeContext \<Rightarrow> AccountInfo \<Rightarrow> (pubkey \<times> bytes \<times> pubkey) option \<Rightarrow>
   (AccountSharedData \<Rightarrow> Address \<Rightarrow> (InstructionError, AccountSharedData) result) \<Rightarrow>
   (InstructionError, InvokeContext) result" where
  "update_at_address env ctx ka with_seed f =
     bind (try_account_ref ctx ka) (\<lambda>a.
     bind (address_create env (key ka) with_seed) (\<lambda>addr.
     bind (f a addr) (\<lambda>a.
     Ok (set_account ctx ka a))))"

definition process_create ::
  "system_env \<Rightarrow> InvokeContext \<Rightarrow> AccountInfo list \<Rightarrow> nat \<Rightarrow> (pubkey \<times> bytes \<times> pubkey) option \<Rightarrow> u64 \<Rightarrow> u64 \<Rightarrow>
   pubkey \<Rightarrow> pubkey list \<Rightarrow> (InstructionError, InvokeContext) result" where
  "process_create env ctx kas first with_seed n space own signers =
     bind (keyed_account_at_index kas first) (\<lambda>from.
     bind (keyed_account_at_index kas (first + 1)) (\<lambda>to.
     bind (address_create env (key to) with_seed) (\<lambda>addr.
     create_account ctx from to addr n space own signers)))"

definition check_recent_blockhashes ::
  "system_env \<Rightarrow> InvokeContext \<Rightarrow> AccountInfo \<Rightarrow> (InstructionError, unit) result" where
  "check_recent_blockhashes env ctx ka =
     bind (from_keyed_account recent_blockhashes_id (decode_recent_blockhashes env) ctx ka) (\<lambda>entries.
     if entries = 0 then Err (nonce_error_into NoRecentBlockhashes) else Ok ())"

definition system_process_instruction :: "system_env \<Rightarrow> program" where
  "system_process_instruction env first input ctx =
     bind (get_keyed_accounts ctx) (\<lambda>kas.
     bind (ok_or (decode_system_instruction env input) InvalidInstructionData) (\<lambda>ix.
     bind (keyed_account_at_index kas first) (\<lambda>_.
     let signers = get_signers (drop first kas) in
     case ix of
       CreateAccount n space own \<Rightarrow> process_create env ctx kas first None n space own signers
     | CreateAccountWithSeed b seed n space own \<Rightarrow>
         process_create env ctx kas first (Some (b, seed, own)) n space own signers
     | Assign own \<Rightarrow>
         bind (keyed_account_at_index kas first) (\<lambda>ka.
         update_at_address env ctx ka None (\<lambda>a addr. assign ctx a addr own signers))
     | SystemTransfer n \<Rightarrow>
         bind (keyed_account_at_index kas first) (\<lambda>from.
         bind (keyed_account_at_index kas (first + 1)) (\<lambda>to.
         system_transfer ctx from to n))
     | TransferWithSeed n from_seed from_owner \<Rightarrow>
         bind (keyed_account_at_index kas first) (\<lambda>from.
         bind (keyed_account_at_index kas (first + 1)) (\<lambda>from_base.
         bind (keyed_account_at_index kas (first + 2)) (\<lambda>to.
         transfer_with_seed env ctx from from_base from_seed from_owner to n)))
     | AdvanceNonceAccount \<Rightarrow>
         bind (keyed_account_at_index kas first) (\<lambda>me.
         bind (keyed_account_at_index kas (first + 1)) (\<lambda>rb.
         bind (check_recent_blockhashes env ctx rb) (\<lambda>_.
         advance_nonce_account env ctx me signers)))
     | WithdrawNonceAccount n \<Rightarrow>
         bind (keyed_account_at_index kas first) (\<lambda>me.
         bind (keyed_account_at_index kas (first + 1)) (\<lambda>to.
         bind (keyed_account_at_index kas (first + 2)) (\<lambda>rb.
         bind (from_keyed_account recent_blockhashes_id (decode_recent_blockhashes env) ctx rb) (\<lambda>_.
         bind (keyed_account_at_index kas (first + 3)) (\<lambda>ri.
         bind (from_keyed_account rent_id (bincode_rent (sys_host env)) ctx ri) (\<lambda>rent.
         withdraw_nonce_account env ctx me n to rent signers))))))
     | InitializeNonceAccount authorized \<Rightarrow>
         bind (keyed_account_at_index kas first) (\<lambda>me.
         bind (keyed_account_at_index kas (first + 1)) (\<lambda>rb.
         bind (check_recent_blockhashes env ctx rb) (\<lambda>_.
         bind (keyed_account_at_index kas (first + 2)) (\<lambda>ri.
         bind (from_keyed_account rent_id (bincode_rent (sys_host env)) ctx ri) (\<lambda>rent.
         initialize_nonce_account env ctx me authorized rent)))))
     | AuthorizeNonceAccount authority \<Rightarrow>
         bind (keyed_account_at_index kas first) (\<lambda>me.
         authorize_nonce_account env ctx me authority signers)
     | Allocate space \<Rightarrow>
         bind (keyed_account_at_index kas first) (\<lambda>ka.
         update_at_address env ctx ka None (\<lambda>a addr. allocate a addr space signers))
     | AllocateWithSeed b seed space own \<Rightarrow>
         bind (keyed_account_at_index kas first) (\<lambda>ka.
         update_at_address env ctx ka (Some (b, seed, own))
           (\<lambda>a addr. allocate_and_assign ctx a addr space own signers))
     | AssignWithSeed b seed own \<Rightarrow>
         bind (keyed_account_at_index kas first) (\<lambda>ka.
         update_at_address env ctx ka (Some (b, seed, own)) (\<lambda>a addr. assign ctx a addr own signers)))))"

text \<open>What an account of the system program is good for.\<close>

datatype SystemAccountKind = System | Nonce

definition nonce_size :: "system_env \<Rightarrow> nat" where
  "nonce_size env = length (encode_nonce env (NonceInitialized (nonce_data_new 0 0 0)))"

definition get_system_account_kind ::
  "system_env \<Rightarrow> AccountSharedData \<Rightarrow> SystemAccountKind option" where
  "get_system_account_kind env a =
     (if owner a = system_program_id then
        if data a = [] then Some System
        else if length (data a) = nonce_size env then
          (case decode_nonce env (data a) of Some (NonceInitialized _) \<Rightarrow> Some Nonce | _ \<Rightarrow> None)
        else None
      else None)"

end
