(* ===== verification/System_Facts.thy ===== *)
theory System_Facts
  imports System_Program Runtime_Facts
begin

text \<open>
  What an instruction of the system program can change, and who must have signed for it; that the
  runtime accepts the changes; that a nonce advances once per blockhash.
\<close>

section \<open>Who is in charge of an account\<close>

definition controls :: "system_env \<Rightarrow> pubkey list \<Rightarrow> pubkey \<Rightarrow> bool" where
  "controls env signers k \<longleftrightarrow> k \<in> set signers \<or>
     (\<exists>b\<in>set signers. \<exists>seed own. create_with_seed (sys_crypto env) b seed own = Ok k)"

text \<open>The authority of a nonce account; before it has one, its own key.\<close>

fun nonce_signed :: "NonceState \<Rightarrow> pubkey \<Rightarrow> pubkey list \<Rightarrow> bool" where
  "nonce_signed NonceUninitialized k signers = (k \<in> set signers)"
| "nonce_signed (NonceInitialized d) k signers = (nonce_authority d \<in> set signers)"

definition may_pay :: "system_env \<Rightarrow> pubkey list \<Rightarrow> pubkey \<Rightarrow> AccountSharedData \<Rightarrow> bool" where
  "may_pay env signers k a \<longleftrightarrow> data a = [] \<and> controls env signers k \<or>
     (\<exists>st. decode_nonce env (data a) = Some st \<and> nonce_signed st k signers)"

text \<open>
  New data is either space for an account that had none, or the next state of a nonce account. A
  nonce account without a state may be initialized by everybody.
\<close>

definition may_write :: "system_env \<Rightarrow> pubkey list \<Rightarrow> pubkey \<Rightarrow> AccountSharedData \<Rightarrow> AccountSharedData \<Rightarrow> bool" where
  "may_write env signers k a a' \<longleftrightarrow>
     data a = [] \<and> owner a = system_program_id \<and> controls env signers k \<and>
       length (data a') \<le> MAX_PERMITTED_DATA_LENGTH \<and> data a' = replicate (length (data a')) 0 \<or>
     length (data a') = length (data a) \<and>
       (\<exists>st. decode_nonce env (data a) = Some st \<and> (st = NonceUninitialized \<or> nonce_signed st k signers))"

definition system_change ::
  "system_env \<Rightarrow> pubkey list \<Rightarrow> pubkey \<Rightarrow> AccountSharedData \<Rightarrow> AccountSharedData \<Rightarrow> bool" where
  "system_change env signers k a a' \<longleftrightarrow>
     executable a' = executable a \<and> rent_epoch a' = rent_epoch a \<and>
     (owner a' \<noteq> owner a \<longrightarrow> controls env signers k) \<and>
     (data a' \<noteq> data a \<longrightarrow> may_write env signers k a a') \<and>
     (lamports a' < lamports a \<longrightarrow> may_pay env signers k a)"

definition lamports_in :: "ledger \<Rightarrow> pubkey set \<Rightarrow> nat" where
  "lamports_in L K = (\<Sum>k\<in>K. unat (lamports (L k)))"

definition system_step :: "system_env \<Rightarrow> pubkey list \<Rightarrow> pubkey set \<Rightarrow> ledger \<Rightarrow> ledger \<Rightarrow> bool" where
  "system_step env signers ks L L' \<longleftrightarrow>
     (\<forall>k. k \<notin> ks \<longrightarrow> L' k = L k) \<and> (\<forall>k. system_change env signers k (L k) (L' k)) \<and>
     (\<forall>K. finite K \<longrightarrow> ks \<subseteq> K \<longrightarrow> lamports_in L' K = lamports_in L K)"

lemma system_change_refl: "system_change env signers k a a"
  by (simp add: system_change_def)

lemma system_step_refl: "system_step env signers ks L L"
  by (simp add: system_step_def system_change_refl)

section \<open>Moving lamports\<close>

definition moved :: "ledger \<Rightarrow> pubkey \<Rightarrow> pubkey \<Rightarrow> u64 \<Rightarrow> ledger" where
  "moved L f t n = (if f = t then L else
     L(f := (L f)\<lparr>lamports := lamports (L f) - n\<rparr>, t := (L t)\<lparr>lamports := lamports (L t) + n\<rparr>))"

lemma sub_add_moved:
  assumes "bind (checked_sub_lamports ctx from n) (\<lambda>ctx. checked_add_lamports ctx to n) = Ok ctx'"
  shows "ctx' = ctx\<lparr>ctx_store := moved (ctx_store ctx) (key from) (key to) n\<rparr>"
    "n \<le> lamports (ctx_store ctx (key from))"
    "key from \<noteq> key to \<Longrightarrow> unat (lamports (ctx_store ctx (key to))) + unat n < 2 ^ 64"
  using assms
  by (auto simp: checked_sub_lamports_def checked_add_lamports_def try_account_ref_def set_account_def
      result_ok checked_sub_def checked_add_def moved_def split: if_split_asm)

lemma moved_lamports_in:
  assumes "n \<le> lamports (L f)" "f \<noteq> t \<Longrightarrow> unat (lamports (L t)) + unat n < 2 ^ 64"
    "finite K" "f \<in> K" "t \<in> K"
  shows "lamports_in (moved L f t n) K = lamports_in L K"
proof (cases "f = t")
  case False
  have split: "(\<Sum>k\<in>K. g k) = g f + (g t + (\<Sum>k\<in>K - {f} - {t}. g k))" for g :: "pubkey \<Rightarrow> nat"
    using assms(3-5) False by (simp add: sum.remove [of K f] sum.remove [of "K - {f}" t])
  have "(\<Sum>k\<in>K - {f} - {t}. unat (lamports (moved L f t n k))) = (\<Sum>k\<in>K - {f} - {t}. unat (lamports (L k)))"
    by (rule sum.cong) (auto simp: moved_def)
  moreover have "unat (lamports (moved L f t n f)) + unat (lamports (moved L f t n t)) =
      unat (lamports (L f)) + unat (lamports (L t))"
    using assms(1,2) False by (simp add: moved_def unat_sub unat_word_ariths word_le_nat_alt)
  ultimately show ?thesis by (simp add: lamports_in_def split)
qed (simp add: moved_def)

text \<open>Accounts that change without lamports, and lamports that move after it.\<close>

lemma system_step_moved:
  assumes "\<And>k. k \<notin> ks \<Longrightarrow> L1 k = L k" "\<And>k. system_change env signers k (L k) (L1 k)"
    and lam: "\<And>k. lamports (L1 k) = lamports (L k)"
    and n: "n \<le> lamports (L1 f)" "f \<noteq> t \<Longrightarrow> unat (lamports (L1 t)) + unat n < 2 ^ 64"
    and ks: "f \<in> ks" "t \<in> ks" and pay: "f \<noteq> t \<Longrightarrow> may_pay env signers f (L f)"
  shows "system_step env signers ks L (moved L1 f t n)"
proof -
  have "lamports (L1 t) \<le> lamports (L1 t) + n" if "f \<noteq> t"
    using n(2) [OF that] by (simp add: word_le_nat_alt unat_word_ariths)
  then have "system_change env signers k (L k) (moved L1 f t n k)" for k
    using assms(2) [of k] lam [of k] pay
    by (auto simp: system_change_def moved_def may_write_def not_less)
  moreover have "lamports_in (moved L1 f t n) K = lamports_in L K" if "finite K" "ks \<subseteq> K" for K
    using moved_lamports_in [OF n that(1)] ks that lam by (auto simp: lamports_in_def)
  ultimately show ?thesis
    using assms(1) ks by (auto simp: system_step_def moved_def)
qed

lemma system_step_write:
  assumes "system_change env signers k (L k) a" "lamports a = lamports (L k)" "k \<in> ks"
  shows "system_step env signers ks L (L(k := a))"
  using assms by (auto simp: system_step_def system_change_refl lamports_in_def intro!: sum.cong)

section \<open>The instructions\<close>

lemma keyed_account_at_index_Ok_iff [result_ok]:
  "keyed_account_at_index kas i = Ok ka \<longleftrightarrow> i < length kas \<and> ka = kas ! i"
  by (auto simp: keyed_account_at_index_def)

lemma try_account_ref_Ok_iff [result_ok]:
  "try_account_ref ctx i = Ok a \<longleftrightarrow> \<not> ctx_borrowed ctx (key i) \<and> a = ctx_store ctx (key i)"
  by (auto simp: try_account_ref_def)

lemma nonce_state_of_Ok_iff [result_ok]:
  "nonce_state_of env ctx i = Ok st \<longleftrightarrow>
     \<not> ctx_borrowed ctx (key i) \<and> decode_nonce env (data (ctx_store ctx (key i))) = Some st"
  by (auto simp: nonce_state_of_def result_ok)

text \<open>The keys of an instruction's accounts and those among them that signed.\<close>

abbreviation frame_keys :: "AccountInfo list \<Rightarrow> nat \<Rightarrow> pubkey set" where
  "frame_keys kas first \<equiv> key ` set (drop first kas)"

abbreviation frame_signers :: "AccountInfo list \<Rightarrow> nat \<Rightarrow> pubkey list" where
  "frame_signers kas first \<equiv> get_signers (drop first kas)"

lemma in_frame:
  assumes "first \<le> i" "i < length kas"
  shows "key (kas ! i) \<in> frame_keys kas first"
    "is_signer (kas ! i) \<Longrightarrow> key (kas ! i) \<in> set (frame_signers kas first)"
proof -
  have "kas ! i = drop first kas ! (i - first)" "i - first < length (drop first kas)"
    using assms by simp_all
  then have "kas ! i \<in> set (drop first kas)" by (metis nth_mem)
  then show "key (kas ! i) \<in> frame_keys kas first"
    "is_signer (kas ! i) \<Longrightarrow> key (kas ! i) \<in> set (frame_signers kas first)"
    by (auto simp: get_signers_def)
qed

lemma address_controls:
  assumes "address_create env k with_seed = Ok addr" "address_is_signer addr signers"
  shows "controls env signers k"
  using assms
  by (auto simp: address_create_def address_is_signer_def controls_def result_ok
      split: option.split_asm if_split_asm)

lemma allocate_change:
  assumes "allocate a addr space signers = Ok a'" "address_create env k with_seed = Ok addr"
  shows "system_change env signers k a a'" "lamports a' = lamports a"
  using assms(1) address_controls [OF assms(2)]
  by (auto simp: allocate_def system_change_def may_write_def split: if_split_asm)

lemma assign_change:
  assumes "assign ctx a addr own signers = Ok a'" "address_create env k with_seed = Ok addr"
  shows "system_change env signers k a a'" "lamports a' = lamports a" "data a' = data a"
  using assms(1) address_controls [OF assms(2)]
  by (auto simp: assign_def system_change_def split: if_split_asm)

lemma allocate_and_assign_change:
  assumes "allocate_and_assign ctx a addr space own signers = Ok a'"
    and "address_create env k with_seed = Ok addr"
  shows "system_change env signers k a a'" "lamports a' = lamports a"
proof -
  from assms(1) obtain a1 where a1: "allocate a addr space signers = Ok a1"
    "assign ctx a1 addr own signers = Ok a'"
    by (auto simp: allocate_and_assign_def result_ok)
  note one = allocate_change [OF a1(1) assms(2)] and two = assign_change [OF a1(2) assms(2)]
  have "controls env signers k"
    using a1(1) address_controls [OF assms(2)] by (auto simp: allocate_def split: if_split_asm)
  with one two show "system_change env signers k a a'" "lamports a' = lamports a"
    by (auto simp: system_change_def may_write_def)
qed

lemma update_at_address_step:
  assumes "update_at_address env ctx ka with_seed g = Ok ctx'" "key ka \<in> ks"
    and "\<And>a addr a'. g a addr = Ok a' \<Longrightarrow> address_create env (key ka) with_seed = Ok addr \<Longrightarrow>
      system_change env signers (key ka) a a' \<and> lamports a' = lamports a"
  shows "\<exists>L'. ctx' = ctx\<lparr>ctx_store := L'\<rparr> \<and> system_step env signers ks (ctx_store ctx) L'"
proof -
  from assms(1) obtain addr a' where "address_create env (key ka) with_seed = Ok addr"
    "g (ctx_store ctx (key ka)) addr = Ok a'" and ctx': "ctx' = set_account ctx ka a'"
    by (auto simp: update_at_address_def result_ok)
  with assms(3) have "system_change env signers (key ka) (ctx_store ctx (key ka)) a'"
    "lamports a' = lamports (ctx_store ctx (key ka))" by blast+
  from system_step_write [of env signers "key ka" "ctx_store ctx", OF this assms(2)] ctx' show ?thesis by (auto simp: set_account_def)
qed

lemma transfer_verified_step:
  assumes "transfer_verified (ctx\<lparr>ctx_store := L1\<rparr>) from to n = Ok ctx'"
    and "\<And>k. k \<notin> ks \<Longrightarrow> L1 k = L k" "\<And>k. system_change env signers k (L k) (L1 k)"
    and "\<And>k. lamports (L1 k) = lamports (L k)" "key from \<in> ks" "key to \<in> ks"
    and "key from \<noteq> key to \<Longrightarrow> L1 (key from) = L (key from)"
    and "key from \<noteq> key to \<Longrightarrow> controls env signers (key from)"
  shows "\<exists>L'. ctx' = ctx\<lparr>ctx_store := L'\<rparr> \<and> system_step env signers ks L L'"
proof -
  from assms(1) have d: "data (L1 (key from)) = []"
    and mv: "bind (checked_sub_lamports (ctx\<lparr>ctx_store := L1\<rparr>) from n) (\<lambda>ctx. checked_add_lamports ctx to n) = Ok ctx'"
    by (auto simp: transfer_verified_def result_ok)
  have "system_step env signers ks L (moved L1 (key from) (key to) n)"
    using sub_add_moved(2,3) [OF mv] assms(7,8) d
    by (intro system_step_moved assms(2-6)) (auto simp: may_pay_def)
  with sub_add_moved(1) [OF mv] show ?thesis by auto
qed

lemma system_transfer_step:
  assumes "system_transfer (ctx\<lparr>ctx_store := L1\<rparr>) from to n = Ok ctx'"
    and "\<And>k. k \<notin> ks \<Longrightarrow> L1 k = L k" "\<And>k. system_change env signers k (L k) (L1 k)"
    and "\<And>k. lamports (L1 k) = lamports (L k)" "key from \<in> ks" "key to \<in> ks"
    and "key from \<noteq> key to \<Longrightarrow> L1 (key from) = L (key from)"
    and "is_signer from \<Longrightarrow> key from \<in> set signers"
  shows "\<exists>L'. ctx' = ctx\<lparr>ctx_store := L'\<rparr> \<and> system_step env signers ks L L'"
proof (cases "\<not> feature_active ctx system_transfer_zero_check \<and> n = 0")
  case True
  then have "ctx' = ctx\<lparr>ctx_store := L1\<rparr>" using assms(1) by (simp add: system_transfer_def)
  moreover have "system_step env signers ks L L1"
    using assms(2-4) by (simp add: system_step_def lamports_in_def)
  ultimately show ?thesis by blast
next
  case False
  then have "is_signer from" "transfer_verified (ctx\<lparr>ctx_store := L1\<rparr>) from to n = Ok ctx'"
    using assms(1) by (auto simp: system_transfer_def split: if_split_asm)
  from transfer_verified_step [OF this(2) assms(2-7)] assms(8) this(1) show ?thesis
    by (simp add: controls_def)
qed

lemma process_create_step:
  assumes "process_create env ctx kas first with_seed n space own (frame_signers kas first) = Ok ctx'"
  shows "\<exists>L'. ctx' = ctx\<lparr>ctx_store := L'\<rparr> \<and>
    system_step env (frame_signers kas first) (frame_keys kas first) (ctx_store ctx) L'"
proof -
  let ?s = "frame_signers kas first" and ?L = "ctx_store ctx"
  let ?from = "kas ! first" and ?to = "kas ! Suc first"
  from assms obtain addr a' where len: "Suc first < length kas"
    and addr: "address_create env (key ?to) with_seed = Ok addr"
    and a': "allocate_and_assign ctx (?L (key ?to)) addr space own ?s = Ok a'"
    and run: "system_transfer (set_account ctx ?to a') ?from ?to n = Ok ctx'"
    by (auto simp: process_create_def create_account_def result_ok)
  note c = allocate_and_assign_change [OF a' addr]
  show ?thesis
  proof (rule system_transfer_step [where L = ?L and ?L1.0 = "?L(key ?to := a')"])
    show "system_transfer (ctx\<lparr>ctx_store := ?L(key ?to := a')\<rparr>) ?from ?to n = Ok ctx'"
      using run by (simp add: set_account_def)
  qed (use c len in_frame [of first first kas] in_frame [of first "Suc first" kas] in
      \<open>auto simp: system_change_refl\<close>)
qed

lemma set_nonce_state_step:
  assumes "set_nonce_state env ctx me st' = Ok ctx'" "key me \<in> ks"
    and "decode_nonce env (data (ctx_store ctx (key me))) = Some st"
      "st = NonceUninitialized \<or> nonce_signed st (key me) signers"
  shows "\<exists>a. ctx' = set_account ctx me a \<and> system_change env signers (key me) (ctx_store ctx (key me)) a \<and>
    lamports a = lamports (ctx_store ctx (key me)) \<and> data a = encode_nonce env st' @
      drop (length (encode_nonce env st')) (data (ctx_store ctx (key me)))"
  using assms
  by (auto simp: set_nonce_state_def result_ok Let_def system_change_def may_write_def not_less)

lemma nonce_write_step:
  assumes "set_nonce_state env ctx me st' = Ok ctx'" "key me \<in> ks"
    and "decode_nonce env (data (ctx_store ctx (key me))) = Some st"
      "st = NonceUninitialized \<or> nonce_signed st (key me) signers"
  shows "\<exists>L'. ctx' = ctx\<lparr>ctx_store := L'\<rparr> \<and> system_step env signers ks (ctx_store ctx) L'"
proof -
  from set_nonce_state_step [OF assms] obtain a where a: "ctx' = set_account ctx me a"
    "system_change env signers (key me) (ctx_store ctx (key me)) a"
    "lamports a = lamports (ctx_store ctx (key me))" by blast
  from system_step_write [of env signers "key me" "ctx_store ctx", OF a(2,3) assms(2)] a(1)
  show ?thesis by (auto simp: set_account_def)
qed

lemma withdraw_nonce_step:
  assumes "withdraw_nonce_account env ctx me n to rent signers = Ok ctx'" "key me \<in> ks" "key to \<in> ks"
  shows "\<exists>L'. ctx' = ctx\<lparr>ctx_store := L'\<rparr> \<and> system_step env signers ks (ctx_store ctx) L'"
proof -
  let ?L = "ctx_store ctx"
  from assms(1) obtain signer ctx1 where w: "withdraw_signer env ctx me n rent = Ok (signer, ctx1)"
    and signer: "signer \<in> set signers"
    and mv: "bind (checked_sub_lamports ctx1 me n) (\<lambda>ctx. checked_add_lamports ctx to n) = Ok ctx'"
    by (auto simp: withdraw_nonce_account_def result_ok)
  from w obtain st where st: "decode_nonce env (data (?L (key me))) = Some st"
    by (auto simp: withdraw_signer_def result_ok)
  have signed: "nonce_signed st (key me) signers"
    and ctx1: "ctx1 = ctx \<or> set_nonce_state env ctx me NonceUninitialized = Ok ctx1"
    using w signer st
    by (cases st; auto simp: withdraw_signer_def result_ok nonce_state_of_def split: if_split_asm)+
  from ctx1 obtain L1 where L1: "ctx1 = ctx\<lparr>ctx_store := L1\<rparr>" "\<And>k. k \<notin> ks \<Longrightarrow> L1 k = ?L k"
    "\<And>k. system_change env signers k (?L k) (L1 k)" "\<And>k. lamports (L1 k) = lamports (?L k)"
  proof
    assume "ctx1 = ctx"
    then show thesis by (intro that [of ?L]) (simp_all add: system_change_refl)
  next
    assume set: "set_nonce_state env ctx me NonceUninitialized = Ok ctx1"
    from set_nonce_state_step [OF set assms(2) st disjI2 [OF signed]] assms(2) show thesis
      by (auto simp: set_account_def system_change_refl intro!: that)
  qed
  have "system_step env signers ks ?L (moved L1 (key me) (key to) n)"
    using sub_add_moved(2,3) [OF mv] st signed
    by (intro system_step_moved L1 assms(2,3)) (auto simp: L1(1) may_pay_def)
  with sub_add_moved(1) [OF mv] show ?thesis by (auto simp: L1(1))
qed

lemma advance_nonce_step:
  assumes "advance_nonce_account env ctx me signers = Ok ctx'" "key me \<in> ks"
  shows "\<exists>L'. ctx' = ctx\<lparr>ctx_store := L'\<rparr> \<and> system_step env signers ks (ctx_store ctx) L'"
proof -
  from assms(1) obtain st where st: "decode_nonce env (data (ctx_store ctx (key me))) = Some st"
    by (auto simp: advance_nonce_account_def result_ok)
  with assms(1) have "\<exists>st'. (st = NonceUninitialized \<or> nonce_signed st (key me) signers) \<and>
      set_nonce_state env ctx me st' = Ok ctx'"
    by (cases st) (auto simp: advance_nonce_account_def result_ok)
  then show ?thesis using st assms(2) by (blast intro: nonce_write_step)
qed

lemma initialize_nonce_step:
  assumes "initialize_nonce_account env ctx me authority rent = Ok ctx'" "key me \<in> ks"
  shows "\<exists>L'. ctx' = ctx\<lparr>ctx_store := L'\<rparr> \<and> system_step env signers ks (ctx_store ctx) L'"
proof -
  from assms(1) obtain st where st: "decode_nonce env (data (ctx_store ctx (key me))) = Some st"
    by (auto simp: initialize_nonce_account_def result_ok)
  with assms(1) have "\<exists>st'. (st = NonceUninitialized \<or> nonce_signed st (key me) signers) \<and>
      set_nonce_state env ctx me st' = Ok ctx'"
    by (cases st) (auto simp: initialize_nonce_account_def result_ok)
  then show ?thesis using st assms(2) by (blast intro: nonce_write_step)
qed

lemma authorize_nonce_step:
  assumes "authorize_nonce_account env ctx me authority signers = Ok ctx'" "key me \<in> ks"
  shows "\<exists>L'. ctx' = ctx\<lparr>ctx_store := L'\<rparr> \<and> system_step env signers ks (ctx_store ctx) L'"
proof -
  from assms(1) obtain st where st: "decode_nonce env (data (ctx_store ctx (key me))) = Some st"
    by (auto simp: authorize_nonce_account_def result_ok)
  with assms(1) have "\<exists>st'. (st = NonceUninitialized \<or> nonce_signed st (key me) signers) \<and>
      set_nonce_state env ctx me st' = Ok ctx'"
    by (cases st) (auto simp: authorize_nonce_account_def result_ok)
  then show ?thesis using st assms(2) by (blast intro: nonce_write_step)
qed

lemma transfer_with_seed_step:
  assumes "transfer_with_seed env ctx from from_base seed own to n = Ok ctx'" "key from \<in> ks" "key to \<in> ks"
    and "is_signer from_base \<Longrightarrow> key from_base \<in> set signers"
  shows "\<exists>L'. ctx' = ctx\<lparr>ctx_store := L'\<rparr> \<and> system_step env signers ks (ctx_store ctx) L'"
proof (cases "\<not> feature_active ctx system_transfer_zero_check \<and> n = 0")
  case True
  then have "ctx' = ctx\<lparr>ctx_store := ctx_store ctx\<rparr>" using assms(1) by (simp add: transfer_with_seed_def)
  then show ?thesis using system_step_refl by blast
next
  case False
  then have t: "is_signer from_base" "create_with_seed (sys_crypto env) (key from_base) seed own = Ok (key from)"
    "transfer_verified (ctx\<lparr>ctx_store := ctx_store ctx\<rparr>) from to n = Ok ctx'"
    using assms(1) by (auto simp: transfer_with_seed_def result_ok split: if_split_asm)
  show ?thesis
    by (rule transfer_verified_step [OF t(3)]) (use assms(2-4) t(1,2) in \<open>auto simp: system_change_refl controls_def\<close>)
qed

text \<open>Every instruction that succeeds is a step of this kind on the accounts of its frame.\<close>

lemma system_process_step:
  assumes run: "system_process_instruction env first input ctx = Ok ctx'"
    and kas: "get_keyed_accounts ctx = Ok kas"
  shows "\<exists>L'. ctx' = ctx\<lparr>ctx_store := L'\<rparr> \<and>
    system_step env (frame_signers kas first) (frame_keys kas first) (ctx_store ctx) L'"
proof -
  from run kas obtain ix where ix: "decode_system_instruction env input = Some ix" and len: "first < length kas"
    by (auto simp: system_process_instruction_def result_ok)
  note def = system_process_instruction_def kas ix result_ok
  note frame = in_frame [of first first kas] in_frame [of first "Suc first" kas]
    in_frame [of first "Suc (Suc first)" kas] len
  show ?thesis
  proof (cases ix)
    case (SystemTransfer n)
    with run have t: "system_transfer (ctx\<lparr>ctx_store := ctx_store ctx\<rparr>) (kas ! first) (kas ! Suc first) n = Ok ctx'"
      "Suc first < length kas" by (auto simp: def)
    show ?thesis
      by (rule system_transfer_step [OF t(1)]) (use frame t(2) in \<open>auto simp: system_change_refl\<close>)
  next
    case (TransferWithSeed n seed own)
    with run have t: "transfer_with_seed env ctx (kas ! first) (kas ! Suc first) seed own
        (kas ! Suc (Suc first)) n = Ok ctx'" "Suc (Suc first) < length kas" by (auto simp: def)
    show ?thesis by (rule transfer_with_seed_step [OF t(1)]) (use frame t(2) in auto)
  next
    case (WithdrawNonceAccount n)
    with run obtain rent where w: "withdraw_nonce_account env ctx (kas ! first) n (kas ! Suc first) rent
        (frame_signers kas first) = Ok ctx'" "Suc first < length kas" by (auto simp: def)
    show ?thesis by (rule withdraw_nonce_step [OF w(1)]) (use frame w(2) in auto)
  next
    case (Assign own)
    with run have u: "update_at_address env ctx (kas ! first) None
        (\<lambda>a addr. assign ctx a addr own (frame_signers kas first)) = Ok ctx'" by (auto simp: def)
    show ?thesis by (rule update_at_address_step [OF u]) (use frame in \<open>auto intro: assign_change\<close>)
  next
    case (Allocate space)
    with run have u: "update_at_address env ctx (kas ! first) None
        (\<lambda>a addr. allocate a addr space (frame_signers kas first)) = Ok ctx'" by (auto simp: def)
    show ?thesis by (rule update_at_address_step [OF u]) (use frame in \<open>auto intro: allocate_change\<close>)
  next
    case (AllocateWithSeed b seed space own)
    with run have u: "update_at_address env ctx (kas ! first) (Some (b, seed, own))
        (\<lambda>a addr. allocate_and_assign ctx a addr space own (frame_signers kas first)) = Ok ctx'" by (auto simp: def)
    show ?thesis by (rule update_at_address_step [OF u]) (use frame in \<open>auto intro: allocate_and_assign_change\<close>)
  next
    case (AssignWithSeed b seed own)
    with run have u: "update_at_address env ctx (kas ! first) (Some (b, seed, own))
        (\<lambda>a addr. assign ctx a addr own (frame_signers kas first)) = Ok ctx'" by (auto simp: def)
    show ?thesis by (rule update_at_address_step [OF u]) (use frame in \<open>auto intro: assign_change\<close>)
  qed (use run frame in \<open>auto simp: def intro: process_create_step advance_nonce_step
      initialize_nonce_step authorize_nonce_step\<close>)
qed

section \<open>The runtime accepts the changes\<close>

text \<open>
  The program does not look at the owner of an account that pays or is assigned; the runtime does.
  It accepts every change of an account of the system program, unless it gives away data.
\<close>

lemma system_change_verified:
  assumes "system_change env signers k a a'" "pre_account pa = a" "\<not> executable a"
    and "owner a = system_program_id \<or> owner a' = owner a \<and> data a' = data a \<and> lamports a \<le> lamports a'"
    and "length (data a) \<le> MAX_PERMITTED_DATA_LENGTH" "owner a' \<noteq> owner a \<Longrightarrow> is_zeroed (data a')"
  shows "\<exists>t'. pre_account_verify h pa system_program_id True rent a' t outermost realloc = Ok t'"
proof -
  have "length (data a') \<le> MAX_PERMITTED_DATA_LENGTH"
    using assms(1,5) by (cases "data a' = data a") (auto simp: system_change_def may_write_def)
  then have "verify_data_len system_program_id a a' realloc = Ok (length (data a) \<noteq> length (data a'))"
    using assms(4) by (auto simp: verify_data_len_def Let_def)
  moreover have "owner a \<noteq> owner a' \<Longrightarrow> owner a = system_program_id \<and> is_zeroed (data a')"
    "owner a \<noteq> system_program_id \<Longrightarrow> \<not> lamports a' < lamports a \<and> data a' = data a"
    using assms(4,6) by auto
  moreover have "executable a' = executable a" "rent_epoch a' = rent_epoch a"
    using assms(1) by (simp_all add: system_change_def)
  ultimately show ?thesis
    using assms(2,3) by (cases "owner a = system_program_id") (auto simp: pre_account_verify_def Let_def)
qed

section \<open>Nonces\<close>

text \<open>The bincode encoding of a nonce state can be read back from the start of longer data.\<close>

definition nonce_codec :: "system_env \<Rightarrow> bool" where
  "nonce_codec env \<longleftrightarrow> (\<forall>st rest. decode_nonce env (encode_nonce env st @ rest) = Some st)"

lemma advance_nonce_once:
  assumes codec: "nonce_codec env" and run: "advance_nonce_account env ctx me signers = Ok ctx'"
  obtains d where "decode_nonce env (data (ctx_store ctx (key me))) = Some (NonceInitialized d)"
    "nonce_blockhash d \<noteq> ctx_blockhash ctx" "nonce_authority d \<in> set signers"
    "decode_nonce env (data (ctx_store ctx' (key me))) = Some (NonceInitialized
       (nonce_data_new (nonce_authority d) (ctx_blockhash ctx) (ctx_lamports_per_signature ctx)))"
    "advance_nonce_account env ctx' me signers = Err (nonce_to_instruction_error NotExpired (merged ctx))"
proof -
  from run obtain st where st: "decode_nonce env (data (ctx_store ctx (key me))) = Some st"
    by (auto simp: advance_nonce_account_def result_ok)
  let ?new = "\<lambda>d. nonce_data_new (nonce_authority d) (ctx_blockhash ctx) (ctx_lamports_per_signature ctx)"
  from run st obtain d where d: "st = NonceInitialized d" "nonce_blockhash d \<noteq> ctx_blockhash ctx"
    "nonce_authority d \<in> set signers" "set_nonce_state env ctx me (NonceInitialized (?new d)) = Ok ctx'"
    by (cases st) (auto simp: advance_nonce_account_def result_ok)
  from d(4) have ctx': "ctx' = set_account ctx me ((ctx_store ctx (key me))\<lparr>data :=
      encode_nonce env (NonceInitialized (?new d)) @ drop (length (encode_nonce env (NonceInitialized (?new d))))
        (data (ctx_store ctx (key me)))\<rparr>)" and free: "\<not> ctx_borrowed ctx (key me)"
    by (auto simp: set_nonce_state_def result_ok Let_def)
  have new: "decode_nonce env (data (ctx_store ctx' (key me))) = Some (NonceInitialized (?new d))"
    using codec by (simp add: ctx' set_account_def nonce_codec_def)
  then have "nonce_state_of env ctx' me = Ok (NonceInitialized (?new d))"
    using free by (simp add: nonce_state_of_def try_account_ref_def ctx' set_account_def)
  then have "advance_nonce_account env ctx' me signers = Err (nonce_to_instruction_error NotExpired (merged ctx))"
    using d(3) by (simp add: advance_nonce_account_def nonce_data_new_def) (simp add: ctx' set_account_def)
  with st d new show thesis by (intro that [of d]) simp_all
qed

lemma nonce_once:
  assumes codec: "nonce_codec env" and ix: "decode_system_instruction env input = Some AdvanceNonceAccount"
    and run: "system_process_instruction env first input ctx = Ok ctx'"
    and kas: "get_keyed_accounts ctx = Ok kas" and ne: "key (kas ! first) \<noteq> recent_blockhashes_id"
  obtains d where "decode_nonce env (data (ctx_store ctx (key (kas ! first)))) = Some (NonceInitialized d)"
    "nonce_blockhash d \<noteq> ctx_blockhash ctx" "nonce_authority d \<in> set (frame_signers kas first)"
    "decode_nonce env (data (ctx_store ctx' (key (kas ! first)))) = Some (NonceInitialized
       (nonce_data_new (nonce_authority d) (ctx_blockhash ctx) (ctx_lamports_per_signature ctx)))"
    "system_process_instruction env first input ctx' =
       Err (nonce_to_instruction_error NotExpired (merged ctx))"
proof -
  from run kas ix have len: "Suc first < length kas"
    and rb: "check_recent_blockhashes env ctx (kas ! Suc first) = Ok ()"
    and adv: "advance_nonce_account env ctx (kas ! first) (frame_signers kas first) = Ok ctx'"
    by (auto simp: system_process_instruction_def result_ok)
  obtain L' where L': "ctx' = ctx\<lparr>ctx_store := L'\<rparr>" "L' recent_blockhashes_id = ctx_store ctx recent_blockhashes_id"
  proof -
    from advance_nonce_step [OF adv, of "{key (kas ! first)}"] obtain L' where
      "ctx' = ctx\<lparr>ctx_store := L'\<rparr>" "system_step env (frame_signers kas first) {key (kas ! first)} (ctx_store ctx) L'"
      by auto
    then show thesis using ne by (intro that [of L']) (auto simp: system_step_def)
  qed
  have "get_keyed_accounts ctx' = get_keyed_accounts ctx" by (simp add: L'(1) get_keyed_accounts_def)
  then have "get_keyed_accounts ctx' = Ok kas" using kas by simp
  moreover have "check_recent_blockhashes env ctx' (kas ! Suc first) = Ok ()"
    using rb L' by (auto simp: check_recent_blockhashes_def from_keyed_account_def try_account_ref_def
        split: if_split_asm)
  ultimately have again: "system_process_instruction env first input ctx' =
      advance_nonce_account env ctx' (kas ! first) (frame_signers kas first)"
    using ix len by (simp add: system_process_instruction_def keyed_account_at_index_def Let_def)
  show thesis by (rule advance_nonce_once [OF codec adv]) (use again in \<open>auto intro!: that\<close>)
qed

end
