(* ===== verification/System_Client.thy ===== *)
theory System_Client
  imports System_Facts
begin

text \<open>
  The client side of the system program, the builders of \<open>sdk/program/src/system_instruction.rs\<close>,
  and that the program accepts what they build: a transfer, and the two instructions that create
  a nonce account. The bincode encoder of instructions is the parameter \<open>enc\<close>.
\<close>

section \<open>Builders\<close>

type_synonym system_encoder = "SystemInstruction \<Rightarrow> bytes"

definition new_with_bincode :: "system_encoder \<Rightarrow> SystemInstruction \<Rightarrow> AccountMeta list \<Rightarrow> Instruction" where
  "new_with_bincode enc ix metas =
     \<lparr>program_id = system_program_id, accounts = metas, instr_data = enc ix\<rparr>"

definition create_account_ix :: "system_encoder \<Rightarrow> pubkey \<Rightarrow> pubkey \<Rightarrow> u64 \<Rightarrow> u64 \<Rightarrow> pubkey \<Rightarrow> Instruction" where
  "create_account_ix enc from to n space own =
     new_with_bincode enc (CreateAccount n space own) [account_meta_new from True, account_meta_new to True]"

definition create_account_with_seed_ix ::
  "system_encoder \<Rightarrow> pubkey \<Rightarrow> pubkey \<Rightarrow> pubkey \<Rightarrow> bytes \<Rightarrow> u64 \<Rightarrow> u64 \<Rightarrow> pubkey \<Rightarrow> Instruction" where
  "create_account_with_seed_ix enc from to b seed n space own =
     new_with_bincode enc (CreateAccountWithSeed b seed n space own)
       [account_meta_new from True, account_meta_new to False, account_meta_new_readonly b True]"

definition assign_ix :: "system_encoder \<Rightarrow> pubkey \<Rightarrow> pubkey \<Rightarrow> Instruction" where
  "assign_ix enc k own = new_with_bincode enc (Assign own) [account_meta_new k True]"

definition assign_with_seed_ix :: "system_encoder \<Rightarrow> pubkey \<Rightarrow> pubkey \<Rightarrow> bytes \<Rightarrow> pubkey \<Rightarrow> Instruction" where
  "assign_with_seed_ix enc addr b seed own =
     new_with_bincode enc (AssignWithSeed b seed own)
       [account_meta_new addr False, account_meta_new_readonly b True]"

definition transfer_ix :: "system_encoder \<Rightarrow> pubkey \<Rightarrow> pubkey \<Rightarrow> u64 \<Rightarrow> Instruction" where
  "transfer_ix enc from to n =
     new_with_bincode enc (SystemTransfer n) [account_meta_new from True, account_meta_new to False]"

definition transfer_with_seed_ix ::
  "system_encoder \<Rightarrow> pubkey \<Rightarrow> pubkey \<Rightarrow> bytes \<Rightarrow> pubkey \<Rightarrow> pubkey \<Rightarrow> u64 \<Rightarrow> Instruction" where
  "transfer_with_seed_ix enc from from_base from_seed from_owner to n =
     new_with_bincode enc (TransferWithSeed n from_seed from_owner)
       [account_meta_new from False, account_meta_new_readonly from_base True, account_meta_new to False]"

definition allocate_ix :: "system_encoder \<Rightarrow> pubkey \<Rightarrow> u64 \<Rightarrow> Instruction" where
  "allocate_ix enc k space = new_with_bincode enc (Allocate space) [account_meta_new k True]"

definition allocate_with_seed_ix ::
  "system_encoder \<Rightarrow> pubkey \<Rightarrow> pubkey \<Rightarrow> bytes \<Rightarrow> u64 \<Rightarrow> pubkey \<Rightarrow> Instruction" where
  "allocate_with_seed_ix enc addr b seed space own =
     new_with_bincode enc (AllocateWithSeed b seed space own)
       [account_meta_new addr False, account_meta_new_readonly b True]"

definition transfer_many :: "system_encoder \<Rightarrow> pubkey \<Rightarrow> (pubkey \<times> u64) list \<Rightarrow> Instruction list" where
  "transfer_many enc from to_lamports = map (\<lambda>(to, n). transfer_ix enc from to n) to_lamports"

definition initialize_nonce_ix :: "system_encoder \<Rightarrow> pubkey \<Rightarrow> pubkey \<Rightarrow> Instruction" where
  "initialize_nonce_ix enc k auth =
     new_with_bincode enc (InitializeNonceAccount auth)
       [account_meta_new k False, account_meta_new_readonly recent_blockhashes_id False,
        account_meta_new_readonly rent_id False]"

definition create_nonce_account_with_seed ::
  "system_env \<Rightarrow> system_encoder \<Rightarrow> pubkey \<Rightarrow> pubkey \<Rightarrow> pubkey \<Rightarrow> bytes \<Rightarrow> pubkey \<Rightarrow> u64 \<Rightarrow> Instruction list" where
  "create_nonce_account_with_seed env enc from k b seed auth n =
     [create_account_with_seed_ix enc from k b seed n (of_nat (nonce_size env)) system_program_id,
      initialize_nonce_ix enc k auth]"

definition create_nonce_account ::
  "system_env \<Rightarrow> system_encoder \<Rightarrow> pubkey \<Rightarrow> pubkey \<Rightarrow> pubkey \<Rightarrow> u64 \<Rightarrow> Instruction list" where
  "create_nonce_account env enc from k auth n =
     [create_account_ix enc from k n (of_nat (nonce_size env)) system_program_id,
      initialize_nonce_ix enc k auth]"

definition advance_nonce_ix :: "system_encoder \<Rightarrow> pubkey \<Rightarrow> pubkey \<Rightarrow> Instruction" where
  "advance_nonce_ix enc k auth =
     new_with_bincode enc AdvanceNonceAccount
       [account_meta_new k False, account_meta_new_readonly recent_blockhashes_id False,
        account_meta_new_readonly auth True]"

definition withdraw_nonce_ix :: "system_encoder \<Rightarrow> pubkey \<Rightarrow> pubkey \<Rightarrow> pubkey \<Rightarrow> u64 \<Rightarrow> Instruction" where
  "withdraw_nonce_ix enc k auth to n =
     new_with_bincode enc (WithdrawNonceAccount n)
       [account_meta_new k False, account_meta_new to False,
        account_meta_new_readonly recent_blockhashes_id False, account_meta_new_readonly rent_id False,
        account_meta_new_readonly auth True]"

definition authorize_nonce_ix :: "system_encoder \<Rightarrow> pubkey \<Rightarrow> pubkey \<Rightarrow> pubkey \<Rightarrow> Instruction" where
  "authorize_nonce_ix enc k auth new_authority =
     new_with_bincode enc (AuthorizeNonceAccount new_authority)
       [account_meta_new k False, account_meta_new_readonly auth True]"

section \<open>The program accepts them\<close>

text \<open>A frame that runs an instruction: the program, then the accounts with their privileges.\<close>

definition meta_info :: "AccountMeta \<Rightarrow> AccountInfo" where
  "meta_info m = \<lparr>key = meta_pubkey m, is_signer = meta_is_signer m, is_writable = meta_is_writable m\<rparr>"

definition frame_for :: "InvokeContext \<Rightarrow> Instruction \<Rightarrow> bool" where
  "frame_for ctx ix \<longleftrightarrow> (\<exists>p. get_keyed_accounts ctx = Ok (p # map meta_info (accounts ix))) \<and>
     \<not> list_ex (\<lambda>m. ctx_borrowed ctx (meta_pubkey m)) (accounts ix)"

lemmas built_defs = new_with_bincode_def account_meta_new_def account_meta_new_readonly_def
  meta_info_def frame_for_def

lemma transfer_verified_moves:
  assumes "\<not> ctx_borrowed ctx (key f)" "\<not> ctx_borrowed ctx (key t)" "key f \<noteq> key t"
    and "data (ctx_store ctx (key f)) = []" "n \<le> lamports (ctx_store ctx (key f))"
    and "unat (lamports (ctx_store ctx (key t))) + unat n < 2 ^ 64"
  shows "transfer_verified ctx f t n = Ok (ctx\<lparr>ctx_store := moved (ctx_store ctx) (key f) (key t) n\<rparr>)"
  using assms
  by (simp add: transfer_verified_def try_account_ref_def checked_sub_lamports_def checked_add_lamports_def
      set_account_def checked_sub_def checked_add_def moved_def not_less)

lemma system_transfer_moves:
  assumes "is_signer f" "\<not> ctx_borrowed ctx (key f)" "\<not> ctx_borrowed ctx (key t)" "key f \<noteq> key t"
    and "data (ctx_store ctx (key f)) = []" "n \<le> lamports (ctx_store ctx (key f))"
    and "unat (lamports (ctx_store ctx (key t))) + unat n < 2 ^ 64"
  shows "system_transfer ctx f t n = Ok (ctx\<lparr>ctx_store := moved (ctx_store ctx) (key f) (key t) n\<rparr>)"
proof -
  have "moved (ctx_store ctx) (key f) (key t) 0 = ctx_store ctx" by (simp add: moved_def)
  then show ?thesis using assms transfer_verified_moves [OF assms(2-7)] by (auto simp: system_transfer_def)
qed

lemma transfer_ix_succeeds:
  assumes "decode_system_instruction env (enc (SystemTransfer n)) = Some (SystemTransfer n)"
    and "frame_for ctx (transfer_ix enc f t n)" "f \<noteq> t"
    and "data (ctx_store ctx f) = []" "n \<le> lamports (ctx_store ctx f)"
    and "unat (lamports (ctx_store ctx t)) + unat n < 2 ^ 64"
  shows "system_process_instruction env 1 (instr_data (transfer_ix enc f t n)) ctx =
    Ok (ctx\<lparr>ctx_store := moved (ctx_store ctx) f t n\<rparr>)"
  using assms
  by (auto simp: system_process_instruction_def transfer_ix_def built_defs keyed_account_at_index_def
      system_transfer_moves)

text \<open>What the program relies on of the encoding of nonce states: it has one size, zeros are a state.\<close>

definition nonce_layout :: "system_env \<Rightarrow> bool" where
  "nonce_layout env \<longleftrightarrow> nonce_codec env \<and> nonce_size env \<le> MAX_PERMITTED_DATA_LENGTH \<and>
     (\<forall>d. length (encode_nonce env (NonceInitialized d)) = nonce_size env) \<and>
     decode_nonce env (replicate (nonce_size env) 0) = Some NonceUninitialized"

text \<open>An account that nobody used yet.\<close>

definition fresh :: "AccountSharedData \<Rightarrow> bool" where
  "fresh a \<longleftrightarrow> lamports a = 0 \<and> data a = [] \<and> owner a = system_program_id"

lemma create_account_ix_succeeds:
  assumes "decode_system_instruction env (enc (CreateAccount n space system_program_id)) =
      Some (CreateAccount n space system_program_id)"
    and "frame_for ctx (create_account_ix enc f t n space system_program_id)" "f \<noteq> t"
    and "fresh (ctx_store ctx t)" "unat space \<le> MAX_PERMITTED_DATA_LENGTH"
    and "data (ctx_store ctx f) = []" "n \<le> lamports (ctx_store ctx f)"
  shows "system_process_instruction env 1
      (instr_data (create_account_ix enc f t n space system_program_id)) ctx =
    Ok (ctx\<lparr>ctx_store := (ctx_store ctx)(f := (ctx_store ctx f)\<lparr>lamports := lamports (ctx_store ctx f) - n\<rparr>,
      t := (ctx_store ctx t)\<lparr>data := replicate (unat space) 0, lamports := n\<rparr>)\<rparr>)"
proof -
  let ?a = "(ctx_store ctx t)\<lparr>data := replicate (unat space) 0\<rparr>"
  let ?t = "meta_info (account_meta_new t True)" and ?f = "meta_info (account_meta_new f True)"
  have "unat n < 2 ^ 64" using unsigned_less [of n] by simp
  then have "system_transfer (set_account ctx ?t ?a) ?f ?t n =
      Ok ((set_account ctx ?t ?a)\<lparr>ctx_store := moved ((ctx_store ctx)(t := ?a)) f t n\<rparr>)"
    using assms system_transfer_moves [of ?f "set_account ctx ?t ?a" ?t n]
    by (simp add: set_account_def create_account_ix_def built_defs fresh_def)
  then show ?thesis
    using assms
    by (auto simp: system_process_instruction_def create_account_ix_def process_create_def create_account_def
        keyed_account_at_index_def built_defs address_create_def try_account_ref_def fresh_def
        allocate_and_assign_def allocate_def assign_def address_is_signer_def get_signers_def
        set_account_def moved_def fun_upd_twist)
qed

lemma initialize_nonce_ix_succeeds:
  assumes "decode_system_instruction env (enc (InitializeNonceAccount auth)) = Some (InitializeNonceAccount auth)"
    and "frame_for ctx (initialize_nonce_ix enc k auth)" and layout: "nonce_layout env"
    and "data (ctx_store ctx k) = replicate (nonce_size env) 0"
    and "decode_recent_blockhashes env (data (ctx_store ctx recent_blockhashes_id)) = Some entries" "0 < entries"
    and "bincode_rent (sys_host env) (data (ctx_store ctx rent_id)) = Some rent"
    and "minimum_balance (sys_host env) rent (nonce_size env) \<le> lamports (ctx_store ctx k)"
  shows "\<exists>ctx'. system_process_instruction env 1 (instr_data (initialize_nonce_ix enc k auth)) ctx = Ok ctx' \<and>
    decode_nonce env (data (ctx_store ctx' k)) = Some (NonceInitialized
      (nonce_data_new auth (ctx_blockhash ctx) (ctx_lamports_per_signature ctx))) \<and>
    lamports (ctx_store ctx' k) = lamports (ctx_store ctx k)"
proof -
  have "decode_nonce env (encode_nonce env st) = Some st" for st
    using layout by (metis append_Nil2 nonce_codec_def nonce_layout_def)
  then show ?thesis
    using assms
    by (auto simp: system_process_instruction_def initialize_nonce_ix_def initialize_nonce_account_def
        keyed_account_at_index_def built_defs check_recent_blockhashes_def from_keyed_account_def
        try_account_ref_def nonce_state_of_def set_nonce_state_def nonce_layout_def set_account_def not_less)
qed

end
