(* ===== verification/System_Scenario.thy ===== *)
theory System_Scenario
  imports System_Client Scenario
begin

text \<open>
  A payer, a nonce account and the recent blockhashes, and instructions of the system program
  on them: a transfer, the advance of the nonce, and the creation of another nonce account.
\<close>

section \<open>Encodings\<close>

fun sample_encode_nonce :: "NonceState \<Rightarrow> bytes" where
  "sample_encode_nonce NonceUninitialized = replicate 8 0"
| "sample_encode_nonce (NonceInitialized d) = [0, 0, 0, 0, 1, 0, 0, 0] @
     pubkey_to_bytes (nonce_authority d) @ pubkey_to_bytes (nonce_blockhash d) @
     u64_to_le_bytes (nonce_lamports_per_signature d)"

definition sample_decode_nonce :: "bytes \<Rightarrow> NonceState option" where
  "sample_decode_nonce d =
     (if take 8 d = replicate 8 0 then Some NonceUninitialized
      else if take 8 d = [0, 0, 0, 0, 1, 0, 0, 0] \<and> 80 \<le> length d then
        Some (NonceInitialized (nonce_data_new (pubkey_new_from_array (take 32 (drop 8 d)))
          (pubkey_new_from_array (take 32 (drop 40 d))) (u64_from_le_bytes (take 8 (drop 72 d)))))
      else None)"

text \<open>The four instructions that the examples use.\<close>

fun sample_encode_system :: system_encoder where
  "sample_encode_system (CreateAccount n space own) =
     [0, 0, 0, 0] @ u64_to_le_bytes n @ u64_to_le_bytes space @ pubkey_to_bytes own"
| "sample_encode_system (SystemTransfer n) = [2, 0, 0, 0] @ u64_to_le_bytes n"
| "sample_encode_system AdvanceNonceAccount = [4, 0, 0, 0]"
| "sample_encode_system (InitializeNonceAccount auth) = [6, 0, 0, 0] @ pubkey_to_bytes auth"
| "sample_encode_system _ = []"

definition sample_decode_system :: "bytes \<Rightarrow> SystemInstruction option" where
  "sample_decode_system d =
     (if d = [4, 0, 0, 0] then Some AdvanceNonceAccount
      else if take 4 d = [0, 0, 0, 0] then
        Some (CreateAccount (u64_from_le_bytes (take 8 (drop 4 d))) (u64_from_le_bytes (take 8 (drop 12 d)))
          (pubkey_new_from_array (take 32 (drop 20 d))))
      else if take 4 d = [2, 0, 0, 0] then Some (SystemTransfer (u64_from_le_bytes (take 8 (drop 4 d))))
      else if take 4 d = [6, 0, 0, 0] then
        Some (InitializeNonceAccount (pubkey_new_from_array (take 32 (drop 4 d))))
      else None)"

definition sample_system_env :: system_env where
  "sample_system_env = \<lparr>sys_crypto = \<lparr>sha256 = (\<lambda>_. 50), bytes_are_curve_point = (\<lambda>_. False)\<rparr>,
     sys_host = sample_host, decode_system_instruction = sample_decode_system,
     decode_recent_blockhashes = (\<lambda>d. Some (length d)), decode_nonce = sample_decode_nonce,
     encode_nonce = sample_encode_nonce\<rparr>"

lemma sample_nonce_decodes: "sample_decode_nonce (sample_encode_nonce st @ rest) = Some st"
  by (cases st) (simp_all add: sample_decode_nonce_def nonce_data_new_def eval_nat_numeral)

lemma sample_nonce_codec: "nonce_codec sample_system_env"
  by (simp add: nonce_codec_def sample_system_env_def sample_nonce_decodes)

lemma sample_system_decodes:
  "decode_system_instruction sample_system_env (sample_encode_system (CreateAccount n space own)) = Some (CreateAccount n space own)"
  "decode_system_instruction sample_system_env (sample_encode_system (InitializeNonceAccount auth)) = Some (InitializeNonceAccount auth)"
  by (simp_all add: sample_system_env_def sample_decode_system_def)

lemma sample_nonce_size: "nonce_size sample_system_env = 80"
  by (simp add: nonce_size_def sample_system_env_def)

lemma sample_nonce_layout: "nonce_layout sample_system_env"
proof -
  have "length (sample_encode_nonce (NonceInitialized d)) = 80" for d by simp
  moreover have "sample_decode_nonce (replicate 80 0) = Some NonceUninitialized"
    by (simp add: sample_decode_nonce_def)
  ultimately show ?thesis
    unfolding nonce_layout_def sample_nonce_size using sample_nonce_codec
    by (simp add: sample_system_env_def MAX_PERMITTED_DATA_LENGTH_def)
qed

section \<open>The ledger and the frames\<close>

definition sample_nonce :: NonceState where
  "sample_nonce = NonceInitialized (nonce_data_new 10 1 0)"

definition system_ledger :: ledger where
  "system_ledger = (\<lambda>_. default_account)(5 := held system_program_id (sample_encode_nonce sample_nonce),
     10 := held system_program_id [], recent_blockhashes_id := held 0 [1])"

definition system_context :: "AccountInfo list \<Rightarrow> InvokeContext" where
  "system_context infos = sample_context\<lparr>ctx_store := system_ledger,
     invoke_stack := [frame_new 1 (\<lparr>key = system_program_id, is_signer = False, is_writable = False\<rparr> # infos)]\<rparr>"

definition payer_info :: AccountInfo where
  "payer_info = \<lparr>key = 10, is_signer = True, is_writable = True\<rparr>"

definition nonce_info :: AccountInfo where
  "nonce_info = \<lparr>key = 5, is_signer = False, is_writable = True\<rparr>"

definition blockhashes_info :: AccountInfo where
  "blockhashes_info = \<lparr>key = recent_blockhashes_id, is_signer = False, is_writable = False\<rparr>"

lemma system_context_keyed:
  "get_keyed_accounts (system_context infos) =
     Ok (\<lparr>key = system_program_id, is_signer = False, is_writable = False\<rparr> # infos)"
  by (simp add: get_keyed_accounts_def system_context_def frame_new_def segment_def Let_def)

lemma system_context_fields:
  "ctx_store (system_context infos) = system_ledger" "ctx_borrowed (system_context infos) = (\<lambda>_. False)"
  "feature_active (system_context infos) = (\<lambda>_. True)" "ctx_blockhash (system_context infos) = 77"
  "ctx_lamports_per_signature (system_context infos) = 5000"
  by (simp_all add: system_context_def sample_context_def)

lemma system_ledger_accounts:
  "data (system_ledger 5) = sample_encode_nonce sample_nonce" "data (system_ledger 10) = []"
  "data (system_ledger recent_blockhashes_id) = [1]" "lamports (system_ledger 5) = 1000"
  "lamports (system_ledger 10) = 1000" "owner (system_ledger 5) = system_program_id"
  "owner (system_ledger 10) = system_program_id" "\<not> executable (system_ledger 10)"
  by (simp_all add: system_ledger_def held_def recent_blockhashes_id_def)

section \<open>The instructions succeed\<close>

lemma system_transfer_runs:
  "system_process_instruction sample_system_env 1 ([2, 0, 0, 0] @ u64_to_le_bytes 100)
     (system_context [payer_info, nonce_info]) =
   Ok ((system_context [payer_info, nonce_info])\<lparr>ctx_store := system_ledger
     (10 := (system_ledger 10)\<lparr>lamports := 900\<rparr>, 5 := (system_ledger 5)\<lparr>lamports := 1100\<rparr>)\<rparr>)"
  by (simp add: system_process_instruction_def system_context_keyed keyed_account_at_index_def
      sample_system_env_def sample_decode_system_def system_transfer_def transfer_verified_def
      try_account_ref_def system_context_fields payer_info_def nonce_info_def system_ledger_accounts
      checked_sub_lamports_def checked_add_lamports_def set_account_def checked_sub_def checked_add_def)

lemma nonce_advance_runs:
  obtains ctx' where "system_process_instruction sample_system_env 1 [4, 0, 0, 0]
    (system_context [nonce_info, blockhashes_info, payer_info]) = Ok ctx'"
proof -
  let ?ctx = "system_context [nonce_info, blockhashes_info, payer_info]"
  have "sample_decode_nonce (data (system_ledger 5)) = Some sample_nonce"
    using sample_nonce_decodes [of sample_nonce "[]"] by (simp add: system_ledger_accounts)
  then have "\<exists>ctx'. advance_nonce_account sample_system_env ?ctx nonce_info [10] = Ok ctx'"
    by (simp add: advance_nonce_account_def nonce_state_of_def try_account_ref_def system_context_fields
        nonce_info_def sample_system_env_def sample_nonce_def nonce_data_new_def set_nonce_state_def
        system_ledger_accounts Let_def)
  moreover have "check_recent_blockhashes sample_system_env ?ctx blockhashes_info = Ok ()"
    by (simp add: check_recent_blockhashes_def from_keyed_account_def blockhashes_info_def
        try_account_ref_def system_context_fields system_ledger_accounts sample_system_env_def)
  moreover have "decode_system_instruction sample_system_env [4, 0, 0, 0] = Some AdvanceNonceAccount"
    by (simp add: sample_system_env_def sample_decode_system_def)
  moreover have "get_signers [nonce_info, blockhashes_info, payer_info] = [10]"
    by (simp add: get_signers_def nonce_info_def blockhashes_info_def payer_info_def)
  ultimately show thesis
    using that by (auto simp: system_process_instruction_def system_context_keyed keyed_account_at_index_def)
qed

text \<open>A frame for an instruction as its builder made it.\<close>

lemma system_context_frame_for:
  "frame_for (system_context (map meta_info (accounts ix))) ix"
  "frame_for ((system_context (map meta_info (accounts ix)))\<lparr>ctx_store := L\<rparr>) ix"
proof -
  have "get_keyed_accounts (ctx\<lparr>ctx_store := L\<rparr>) = get_keyed_accounts ctx" for ctx
    by (simp add: get_keyed_accounts_def)
  then show "frame_for (system_context (map meta_info (accounts ix))) ix"
    "frame_for ((system_context (map meta_info (accounts ix)))\<lparr>ctx_store := L\<rparr>) ix"
    by (simp_all add: frame_for_def system_context_keyed system_context_fields list_ex_iff)
qed

lemma sample_new_account:
  "fresh (system_ledger 6)"
  "decode_recent_blockhashes sample_system_env (data (system_ledger recent_blockhashes_id)) = Some (Suc 0)"
  "bincode_rent (sys_host sample_system_env) (data (system_ledger rent_id)) = Some sample_rent"
  "minimum_balance (sys_host sample_system_env) sample_rent (nonce_size sample_system_env) \<le> 500"
  unfolding sample_nonce_size
  by (simp_all add: fresh_def system_ledger_def held_def default_account_def system_program_id_def
      recent_blockhashes_id_def sample_system_env_def sample_host_def minimum_balance_def sample_rent_def
      ACCOUNT_STORAGE_OVERHEAD_def)

end
