(* ===== verification/Spec2Isabelle.thy ===== *)
theory Spec2Isabelle
  imports Scenario Math_Facts Swap_Scenario Cpi_Scenario System_Scenario
begin

text \<open>
  This library verifies the part of the repository that keeps and moves value: the token program
  of \<open>src/solana-program-library/token/program\<close>, the token swap program of
  \<open>src/solana-program-library/token-swap/program\<close> that trades through it, the runtime of
  \<open>src/testnet\<close> that executes them beside programs nobody vouches for, and the arithmetic that the
  swap program is built on.

  \<^bold>\<open>How the parts interact.\<close> A client builds instructions (\<open>token/program/src/instruction.rs\<close>) and
  compiles them into a message (\<open>sdk/program/src/message/legacy.rs\<close>). The runtime
  (\<open>runtime/src/message_processor.rs\<close>, \<open>program-runtime/src\<close>) runs the instructions in order: it
  takes a snapshot of the accounts, calls the program, and compares the accounts with the
  snapshot. One of the programs is the token program, whose \<open>Processor::process\<close> decodes the
  instruction and the accounts and writes the accounts back. Another is the swap program, whose
  handlers compute amounts on a curve and move the tokens by calls into the token program; a call
  goes through the system call \<open>invoke_signed\<close>, which compiles the inner instruction to a message of
  its own, checks its privileges against the caller's and runs the callee on the same context.

  \<^bold>\<open>Model.\<close> A Rust \<open>Result\<close> is \<open>('e, 'a) result\<close> with a third outcome \<open>Panic\<close>; an \<open>Option\<close> that a
  panic can interrupt is an \<open>outcome\<close>. Machine integers are words of their width, checked arithmetic
  is \<open>checked_add\<close> and its siblings, unchecked arithmetic wraps as in a release build. Accounts are
  shared cells in the sources; here a ledger maps keys to accounts, an account info is a key with
  its privileges, and every read and write goes through the ledger, so that two infos of one key
  are aliases as they are in the program.

  \<^item> \<open>Prelude\<close>: results, checked arithmetic, byte strings, lists; the collections \<open>result_ok\<close> and
    \<open>views\<close> that carry the component proofs.
  \<^item> \<open>Sdk\<close>: \<open>sdk/program/src\<close> keys, program errors and their numbers, account infos, the \<open>Pack\<close>
    trait, rent. The trait is the locale \<open>pack_format\<close>: a length, a decoder and an encoder that undo
    each other; what follows for \<open>pack\<close> and \<open>unpack\<close> is proved once.
  \<^item> \<open>Token_State\<close>, \<open>Token_Instruction\<close>, \<open>Token_Processor\<close>: \<open>state.rs\<close>, \<open>instruction.rs\<close> and
    \<open>processor.rs\<close> of the token program, function by function. The three layouts interpret
    \<open>pack_format\<close>.
  \<^item> \<open>Token_Ledger\<close>, \<open>Token_Auth\<close>, \<open>Token_Spec\<close>: the ledger as decoded maps; what it means that a
    key authorized an instruction, and that \<open>validate_owner\<close> computes it; the specification
    \<open>token_step\<close>, one rule per kind of instruction, and the proof that every handler refines it.
  \<^item> \<open>Token_Safety\<close>, \<open>Token_Liveness\<close>, \<open>Token_Panics\<close>: invariants of the specification (supply,
    wrapped tokens, authority, frozen accounts); that permitted transfers, mints and burns succeed;
    where the program panics.
  \<^item> \<open>Message\<close>, \<open>Message_Facts\<close>: message compilation, queries, \<open>sanitize\<close>, the instructions sysvar.
  \<^item> \<open>Runtime\<close>, \<open>Runtime_Facts\<close>: \<open>PreAccount::verify\<close>, the invocation context, the dispatch to
    programs and \<open>process_message\<close>. Programs are function values. The locale \<open>sandboxed\<close> is what the
    virtual machine guarantees of a program (it writes only the accounts of its frame, and keeps
    their keys and the context); \<open>token_host\<close> in \<open>Chain\<close> extends it to a loader that runs the token
    program under its key, and is interpreted on such a loader.
  \<^item> \<open>Chain\<close>, \<open>Chain_Facts\<close>: what a message leaves behind as a chain of steps (a run of the token
    program, a run of another program within the rules, a write of the sysvar), and the token
    invariants along it.
  \<^item> \<open>Math\<close>, \<open>Math_Facts\<close>: \<open>libraries/math/src\<close>, ceiling division, integer square root, fixed-point
    numbers.
  \<^item> \<open>Pda\<close>: program derived addresses of \<open>sdk/program/src/pubkey.rs\<close> over a hash that is a
    parameter.
  \<^item> \<open>Swap_Curve\<close>, \<open>Swap_State\<close>, \<open>Swap_Processor\<close>: \<open>curve/*.rs\<close>, \<open>state.rs\<close>, \<open>instruction.rs\<close>,
    \<open>constraints.rs\<close> and \<open>processor.rs\<close> of the swap program. The host record has the hash and
    \<open>invoke_signed\<close>. \<open>Swap_Curve_Facts\<close>: what each curve and fee computes on unbounded numbers, and
    the contract \<open>curve_contract\<close> (a trade takes at most what is offered and the worth of the pool
    does not fall), interpreted on the product, price and offset curves.
  \<^item> \<open>Swap_Calls\<close>: the contract \<open>token_cpi\<close> of a call into the token program (it runs the program
    on the same accounts, and only keys that signed for the caller or that its seeds derive have
    signed), and the effect of each call on balances and supply under it. \<open>Swap_Facts\<close>: trades,
    deposits and withdrawals under the contract. \<open>Swap_Pool\<close>: the invariant \<open>pool_wf\<close> of a pool;
    \<open>Initialize\<close> establishes it and every instruction keeps it.
  \<^item> \<open>Cpi\<close>, \<open>Cpi_Facts\<close>: cross program invocation, \<open>program-runtime/src/instruction_processor.rs\<close>
    and \<open>call\<close> of \<open>programs/bpf_loader/src/syscalls.rs\<close>; what the callee runs on and which of its
    accounts count as signed. \<open>Swap_Runtime\<close>: the system call meets \<open>token_cpi\<close> (the locale
    \<open>swap_runtime\<close>, interpreted on a context in which the swap program runs).
  \<^item> \<open>Swap_Scenario\<close>, \<open>Cpi_Scenario\<close>: a concrete pool on which the instructions of the swap program
    succeed, and two inner calls run to the end.
  \<^item> \<open>System_Program\<close>: \<open>runtime/src/system_instruction_processor.rs\<close> and \<open>nonce_keyed_account.rs\<close>,
    every instruction of the system program on the context of the runtime. \<open>System_Facts\<close>: the
    relation \<open>system_step\<close> of what such an instruction may change and who must sign for it, that the
    runtime accepts the changes, and that a nonce advances once. \<open>System_Client\<close>: the builders of
    \<open>sdk/program/src/system_instruction.rs\<close>, and that what they build succeeds. \<open>System_Scenario\<close>:
    a transfer, an advance of a nonce and the creation of a nonce account.
  \<^item> \<open>Scenario\<close>: a concrete ledger and message on which the theorems are instantiated.

  \<^bold>\<open>What is shown.\<close> The token program implements its specification and changes nothing else; the
  invariants hold after every accepted message, whatever other programs it ran; lamports are
  conserved; the runtime's checks are exactly the ownership rules; encodings are inverse to
  decodings; permitted operations succeed; panics and stuck states are characterised; the
  arithmetic returns what its names say. Trades, deposits and withdrawals of the swap program move
  the amounts they name within the limits of the instruction and do not take value from the pool;
  its pools stay sound; calls between programs add no signature. The system program conserves
  lamports and touches an account only for who is in charge of it, and a stored nonce serves once.
  Where the code departs from what it says, a theorem shows the departure.

  \<^bold>\<open>Bounds.\<close> No fuel: every loop of the modelled code runs over a list, over a fixed number of
  rounds that the source names, or has a termination proof (the integer square root, the repeated
  squaring).

  \<^bold>\<open>Parameters.\<close> The rent sysvar and the floating point scaling of rent are a \<open>host\<close> record; the
  other programs of a message are arbitrary functions in \<open>sandboxed\<close>; SHA-256 and the
  curve test of program derived addresses are a \<open>crypto\<close> record, the decoder of loader accounts and
  the registered programs a \<open>cpi_env\<close>; the bincode encodings that the system program reads and writes
  are a \<open>system_env\<close> (\<open>nonce_codec\<close> says that an encoded nonce state is read back, \<open>nonce_layout\<close> that
  states have one size and zeros are the uninitialized one); the third-party \<open>U256\<close> is a
  256-bit word with its documented checked operations and the panic of \<open>as_u128\<close>.

  \<^bold>\<open>Not modelled.\<close> Sysvar caches, executors, return data and logging of the runtime, and the
  copies between the virtual machine's memory and the accounts in the system call: the model keeps
  one ledger for both. The theorems on whole messages (\<open>Chain\<close>) are for programs that make no inner
  calls; an inner call is covered by the theorems of \<open>Cpi_Facts\<close> and \<open>Swap_Runtime\<close> on the call
  itself. Versioned messages; signatures, hashing and bincode (third-party); the accounts database,
  consensus, networking and the command line tools, which are I/O, storage and threads; the other
  programs of the program library; the Go, Solidity and TypeScript trees of the repository.
\<close>

section \<open>The token program\<close>

text \<open>
  C1. Refinement: a successful run of the token program, whatever the
  instruction, is one step of the specification \<open>token_step\<close> between the decoded ledgers, enabled
  by keys that authorized it (a signature, or enough positions of a multisignature). It changes no
  owner, no flag and no data length, and no account outside the instruction.
\<close>

theorem token_program_refines:
  assumes "process h pid L infos input = Ok L'"
  shows "token_step (authorized pid L infos) (abs_ledger L) (abs_ledger L') \<and> same_frame L L' \<and>
    (\<forall>k. k \<in> key ` set infos \<or> L' k = L k)"
  using process_refines [OF assms] by (auto simp: refines_def)

theorem token_program_refines_witness:
  "\<exists>L'. process sample_host token_id sample_ledger sample_infos sample_input = Ok L' \<and>
     token_step (authorized token_id sample_ledger sample_infos) (abs_ledger sample_ledger)
       (abs_ledger L') \<and> L' 7 = sample_ledger 7"
proof -
  obtain L' where run: "process sample_host token_id sample_ledger sample_infos sample_input = Ok L'"
    by (rule sample_transfer)
  from token_program_refines [OF run] have "L' 7 = sample_ledger 7"
    by (auto simp: sample_infos_def dest!: spec [of _ 7])
  with run token_program_refines [OF run] show ?thesis by blast
qed





text \<open>
  C4. Safety: in one run of the token program a live account
  keeps its mint and its native mark, and its balance falls only when its owner or its close
  authority authorized the instruction, or its delegate did and the fall is within the allowance.
\<close>

theorem balance_falls_only_with_authority:
  assumes "process h pid L infos input = Ok L'" "live (abs_ledger L) k a"
  shows "\<exists>a'. live (abs_ledger L') k a' \<and> acct_mint a' = acct_mint a \<and> is_native a' = is_native a \<and>
    (amount a \<le> amount a' \<or> may_lower (authorized pid L infos) a a')"
  using account_step [OF _ assms(2)] process_refines [OF assms(1)] by (auto simp: refines_def)

theorem balance_falls_only_with_authority_witness:
  "\<exists>L'. process sample_host token_id sample_ledger sample_infos sample_input = Ok L' \<and>
     may_lower (authorized token_id sample_ledger sample_infos) (token_account 10 50)
       (token_account 10 40)"
proof -
  obtain L' where run: "process sample_host token_id sample_ledger sample_infos sample_input = Ok L'"
    and at: "acct_at L' = [1 \<mapsto> token_account 10 40, 2 \<mapsto> token_account 9 15]"
    by (rule sample_transfer)
  have "live (abs_ledger sample_ledger) 1 (token_account 10 50)"
    by (simp add: live_def sample_accts) (simp add: sample_defs)
  from balance_falls_only_with_authority [OF run this] obtain a' where
    "acct_at L' 1 = Some a'" "50 \<le> amount a' \<or>
       may_lower (authorized token_id sample_ledger sample_infos) (token_account 10 50) a'"
    by (auto simp: live_def token_account_def)
  with at run show ?thesis by (auto simp: token_account_def)
qed







section \<open>The runtime\<close>



text \<open>
  C9. Equivalence: the sequence of checks of \<open>PreAccount::verify\<close>
  accepts exactly the changes that the rules \<open>allowed\<close> permit: only the owner spends or writes, only
  writable accounts that are not executable change, an account changes hands only when its owner
  gives it away with its data zeroed, the rent epoch is fixed; and the size and rent conditions.
\<close>

theorem verify_is_the_ownership_rules:
  "(\<exists>t'. pre_account_verify h pa prog w rent post t outer realloc = Ok t') \<longleftrightarrow>
     allowed prog w (pre_account pa) post \<and> size_allowed prog (pre_account pa) post realloc \<and>
     (executable (pre_account pa) = executable post \<or>
        is_exempt h rent (lamports post) (length (data post)))"
  using pre_account_verify_iff [of h pa prog w rent post t outer realloc] by auto

text \<open>
  Equivalence: the chunked comparison with a block of 1024 zeros holds
  of exactly the buffers that are all zero, whatever their length.
\<close>

theorem is_zeroed_is_all_zero: "is_zeroed buf \<longleftrightarrow> buf = replicate (length buf) 0"
  by (rule is_zeroed_iff)

text \<open>
  C10. Round trip: an error a program returns, encoded as the
  number it exits with, decoded by the runtime and converted back for a calling program, is the
  same error; only the text of a Borsh error is lost.
\<close>

theorem program_errors_cross_the_boundary:
  "program_error_try_from (instruction_error_from (program_error_to_u64 e)) = Ok (without_text e) \<and>
   program_error_from_u64 (program_error_to_u64 e) = without_text e"
  using error_crosses_boundary [of e] program_error_u64_roundtrip [of e] by (cases e) simp_all

section \<open>Token instructions that succeed\<close>

text \<open>
  C23. Liveness: a transfer between two different live, unfrozen accounts of one
  mint, by the owner or by a delegate within its allowance, that does not overflow the destination,
  is accepted and moves exactly the amount; the delegate's allowance falls with it, and no mint and
  no lamports change.
\<close>

theorem transfer_succeeds:
  assumes "live (abs_ledger L) (key si) a" "live (abs_ledger L) (key di) b"
    and "key si \<noteq> key di" "\<not> is_frozen a" "\<not> is_frozen b" "acct_mint a = acct_mint b"
    and "may_spend (key ai) amt a" "validate_owner pid L (key ai) ai rest = Ok ()"
    and "fits (amount b) amt" "\<not> is_native a"
  shows "\<exists>L'. process h pid L (si # di # ai # rest) (token_instruction_pack (Transfer amt)) = Ok L' \<and>
    acct_at L' = (acct_at L)(key si \<mapsto> debit (key ai) amt a, key di \<mapsto> credit amt b) \<and>
    mint_at L' = mint_at L \<and> (\<forall>k. lamports (L' k) = lamports (L k))"
proof -
  obtain L' where "process_transfer pid L (si # di # ai # rest) amt None = Ok L'"
    "acct_at L' = (acct_at L)(key si \<mapsto> debit (key ai) amt a, key di \<mapsto> credit amt b)"
    "mint_at L' = mint_at L" "\<And>k. lamports (L' k) = lamports (L k)"
    by (rule process_transfer_total [OF assms]) blast
  then show ?thesis unfolding process_packed by auto
qed

theorem transfer_succeeds_witness:
  "\<exists>L'. process sample_host token_id sample_ledger [info 1 False, info 2 False, info 10 True]
      (token_instruction_pack (Transfer 50)) = Ok L' \<and> acct_at L' 2 = Some (token_account 9 55)"
proof -
  have "validate_owner token_id sample_ledger (key (info 10 True)) (info 10 True) [] = Ok ()"
    by (rule plain_key_signs) (simp_all add: sample_no_data)
  moreover have "live (abs_ledger sample_ledger) (key (info 1 False)) (token_account 10 50)"
    "live (abs_ledger sample_ledger) (key (info 2 False)) (token_account 9 5)"
    by (simp_all add: live_def sample_accts) (simp_all add: sample_defs)
  moreover have "may_spend (key (info 10 True)) 50 (token_account 10 50)"
    "fits (amount (token_account 9 5)) 50"
    by (simp_all add: may_spend_def fits_def token_account_def)
  ultimately show ?thesis
    using transfer_succeeds [of sample_ledger "info 1 False" "token_account 10 50" "info 2 False"
        "token_account 9 5" "info 10 True" 50 token_id "[]" sample_host]
    by (auto simp: sample_defs credit_def)
qed

text \<open>
  Liveness: the mint authority can mint to any live, unfrozen, non-native
  account of its mint as long as neither the balance nor the supply overflows; both grow by exactly
  the amount.
\<close>

theorem mint_to_succeeds:
  assumes "live (abs_ledger L) (key di) a" "live_mint (abs_ledger L) (key mi) m"
    and "acct_mint a = key mi" "\<not> is_frozen a" "\<not> is_native a" "mint_authority m = Some (key ai)"
    and "validate_owner pid L (key ai) ai rest = Ok ()"
    and "fits (amount a) amt" "fits (mint_supply m) amt"
  shows "\<exists>L'. process h pid L (mi # di # ai # rest) (token_instruction_pack (MintTo amt)) = Ok L' \<and>
    acct_at L' = (acct_at L)(key di \<mapsto> credit amt a) \<and>
    mint_at L' = (mint_at L)(key mi \<mapsto> m\<lparr>mint_supply := mint_supply m + amt\<rparr>) \<and>
    (\<forall>k. lamports (L' k) = lamports (L k))"
proof -
  obtain L' where "process_mint_to pid L (mi # di # ai # rest) amt None = Ok L'"
    "acct_at L' = (acct_at L)(key di \<mapsto> credit amt a)"
    "mint_at L' = (mint_at L)(key mi \<mapsto> m\<lparr>mint_supply := mint_supply m + amt\<rparr>)"
    "\<And>k. lamports (L' k) = lamports (L k)"
    by (rule process_mint_to_total [OF assms]) blast
  then show ?thesis unfolding process_packed by auto
qed

theorem mint_to_succeeds_witness:
  "\<exists>L'. process sample_host token_id (ledger_with (token_account 10 50) open_mint)
      [info 7 False, info 1 False, info 10 True] (token_instruction_pack (MintTo 5)) = Ok L' \<and>
     acct_at L' 1 = Some (token_account 10 55)"
proof -
  let ?L = "ledger_with (token_account 10 50) open_mint"
  have "validate_owner token_id ?L (key (info 10 True)) (info 10 True) [] = Ok ()"
    by (rule plain_key_signs) (simp_all add: ledger_with_no_data)
  moreover have "live (abs_ledger ?L) (key (info 1 False)) (token_account 10 50)"
    "live_mint (abs_ledger ?L) (key (info 7 False)) open_mint"
    by (simp_all add: live_def live_mint_def ledger_with_accts ledger_with_mints)
      (simp_all add: sample_defs open_mint_def)
  ultimately show ?thesis
    using mint_to_succeeds [of ?L "info 1 False" "token_account 10 50" "info 7 False" open_mint
        "info 10 True" token_id "[]" 5 sample_host]
    by (auto simp: sample_defs open_mint_def fits_def credit_def)
qed

text \<open>
  Liveness: the owner, or the delegate within its allowance, can burn from a
  live, unfrozen, non-native account; balance and supply fall by exactly the amount.
\<close>

theorem burn_succeeds:
  assumes "live (abs_ledger L) (key si) a" "live_mint (abs_ledger L) (key mi) m"
    and "acct_mint a = key mi" "\<not> is_frozen a" "\<not> is_native a"
    and "may_spend (key ai) amt a" "validate_owner pid L (key ai) ai rest = Ok ()"
    and "amt \<le> mint_supply m"
  shows "\<exists>L'. process h pid L (si # mi # ai # rest) (token_instruction_pack (Burn amt)) = Ok L' \<and>
    acct_at L' = (acct_at L)(key si \<mapsto> debit (key ai) amt a) \<and>
    mint_at L' = (mint_at L)(key mi \<mapsto> m\<lparr>mint_supply := mint_supply m - amt\<rparr>) \<and>
    (\<forall>k. lamports (L' k) = lamports (L k))"
proof -
  obtain L' where "process_burn pid L (si # mi # ai # rest) amt None = Ok L'"
    "acct_at L' = (acct_at L)(key si \<mapsto> debit (key ai) amt a)"
    "mint_at L' = (mint_at L)(key mi \<mapsto> m\<lparr>mint_supply := mint_supply m - amt\<rparr>)"
    "\<And>k. lamports (L' k) = lamports (L k)"
    by (rule process_burn_total [OF assms]) blast
  then show ?thesis unfolding process_packed by auto
qed

theorem burn_succeeds_witness:
  "\<exists>L'. process sample_host token_id sample_ledger
      [info 1 False, info 7 False, info 10 True] (token_instruction_pack (Burn 30)) = Ok L' \<and>
     acct_at L' 1 = Some (token_account 10 20)"
proof -
  have "validate_owner token_id sample_ledger (key (info 10 True)) (info 10 True) [] = Ok ()"
    by (rule plain_key_signs) (simp_all add: sample_no_data)
  moreover have "live (abs_ledger sample_ledger) (key (info 1 False)) (token_account 10 50)"
    "live_mint (abs_ledger sample_ledger) (key (info 7 False)) sample_mint"
    by (simp_all add: live_def live_mint_def sample_accts sample_mints) (simp_all add: sample_defs)
  ultimately show ?thesis
    using burn_succeeds [of sample_ledger "info 1 False" "token_account 10 50" "info 7 False"
        sample_mint "info 10 True" 30 token_id "[]" sample_host]
    by (auto simp: sample_defs may_spend_def debit_def)
qed

section \<open>Authorization and decoding\<close>

text \<open>
  C24. Equivalence: when every account offered as a signer signed, the check of
  an authority by the two nested loops succeeds exactly if the key is the expected one and has
  authorized: a multisignature account of the program through at least \<open>m\<close> distinct positions,
  any other key by its own signature. Repeated or unknown signers count for nothing.
\<close>

theorem owner_check_is_exact:
  assumes "\<forall>s \<in> set signers. is_signer s"
    and "\<And>ms. multisig_at L k = Some ms \<Longrightarrow> unat (ms_n ms) \<le> MAX_SIGNERS"
  shows "validate_owner pid L k i signers = Ok () \<longleftrightarrow> key i = k \<and>
    (if owner (L k) = pid \<and> length (data (L k)) = multisig_LEN
     then (\<exists>ms. multisig_at L k = Some ms \<and> ms_is_initialized ms \<and>
             unat (ms_m ms) \<le> signed_count ms signers)
     else is_signer i)"
  by (rule validate_owner_exact [OF assms])

theorem owner_check_is_exact_witness:
  "\<exists>L. multisig_at L 3 = Some stuck_multisig \<and> owner (L 3) = token_id \<and>
     validate_owner token_id L 3 (info 3 False) [info 20 True, info 20 True] \<noteq> Ok ()"
proof -
  obtain L where at: "multisig_at L 3 = Some stuck_multisig" "owner (L 3) = token_id"
    by (rule stuck_multisig_created)
  have "signed_count stuck_multisig [info 20 True, info 20 True] \<le> 1"
    using signed_count_le [of stuck_multisig] by (simp add: stuck_multisig_def)
  moreover have "unat (ms_m stuck_multisig) = 2" "unat (ms_n stuck_multisig) \<le> MAX_SIGNERS"
    by (simp_all add: stuck_multisig_def MAX_SIGNERS_def)
  ultimately have "validate_owner token_id L 3 (info 3 False) [info 20 True, info 20 True] \<noteq> Ok ()"
    using owner_check_is_exact [of "[info 20 True, info 20 True]" L 3 token_id "info 3 False"]
      at at_length(3) [OF at(1)] by auto
  with at show ?thesis by blast
qed

text \<open>
  C25. Error: a multisignature that requires more signers
  than it has positions authorizes no instruction, whoever signs. The program lets one be created
  (the witness runs it), so an authority given to it is lost.
\<close>

theorem multisig_with_too_few_positions_is_stuck:
  assumes "multisig_at L k = Some ms" "owner (L k) = pid" "ms_n ms < ms_m ms"
  shows "\<not> authorized pid L infos k \<and> validate_owner pid L k i signers \<noteq> Ok ()"
proof
  show "\<not> authorized pid L infos k" by (rule oversized_multisig_locked [OF assms])
  show "validate_owner pid L k i signers \<noteq> Ok ()"
    using validate_owner_authorized [of pid L k i signers "()" "i # signers"]
      oversized_multisig_locked [OF assms, of "i # signers"] by auto
qed

theorem multisig_with_too_few_positions_is_stuck_witness:
  "\<exists>L'. process sample_host token_id multisig_ledger multisig_infos
      (token_instruction_pack (InitializeMultisig2 2)) = Ok L' \<and>
     \<not> authorized token_id L' [info 3 True, info 20 True] 3"
proof -
  obtain L' where run: "process sample_host token_id multisig_ledger multisig_infos
      (token_instruction_pack (InitializeMultisig2 2)) = Ok L'"
    and at: "multisig_at L' 3 = Some stuck_multisig" "owner (L' 3) = token_id"
    by (rule stuck_multisig_created)
  have "ms_n stuck_multisig < ms_m stuck_multisig" by (simp add: stuck_multisig_def)
  from multisig_with_too_few_positions_is_stuck [OF at this] run show ?thesis by blast
qed



text \<open>
  C27. Error: on a ledger whose multisignatures are valid and with fewer
  than 256 accounts, the token program panics in exactly one situation: a checked instruction (tags
  12 to 15) with fewer than eight bytes after the tag. Every other bad input is an error value.
\<close>

theorem panics_only_on_short_input:
  assumes "positions_fit pid L" "syscall_rent h \<noteq> Panic" "length infos < 256"
  shows "process h pid L infos input = Panic \<longleftrightarrow>
    (\<exists>tag rest. input = tag # rest \<and> tag \<in> {12, 13, 14, 15} \<and> length rest < 8)"
  by (rule process_Panic [OF assms])

theorem panics_only_on_short_input_witness:
  "process sample_host token_id sample_ledger [] [12, 1, 0] = Panic \<and>
   process sample_host token_id sample_ledger [] [3, 1, 0] \<noteq> Panic"
proof -
  have "positions_fit token_id sample_ledger"
    using sample_multisigs by (simp add: positions_fit_def)
  moreover have "syscall_rent sample_host \<noteq> Panic" by (simp add: sample_host_def)
  ultimately show ?thesis
    using panics_only_on_short_input [of token_id sample_ledger sample_host "[]" "[12, 1, 0]"]
      panics_only_on_short_input [of token_id sample_ledger sample_host "[]" "[3, 1, 0]"]
    by simp
qed

text \<open>
  C28. Round trip: decoding the packed form of any instruction gives that
  instruction back.
\<close>

theorem instruction_roundtrip: "token_instruction_unpack (token_instruction_pack ins) = Ok ins"
  by (rule token_instruction_roundtrip)

text \<open>
  C29. Round trip: writing a mint, an account or a multisignature over any buffer
  of its length and reading it back gives the value; and writing a value over the bytes it was read
  from changes no byte.
\<close>

theorem layouts_roundtrip:
  assumes "length md = mint_LEN" "length ad = account_LEN" "length sd = multisig_LEN" "multisig_wf s"
  shows "(\<exists>d. mint_pack m md = Ok d \<and> mint_unpack_unchecked d = Ok m \<and> mint_pack m d = Ok d) \<and>
    (\<exists>d. account_pack a ad = Ok d \<and> account_unpack_unchecked d = Ok a \<and> account_pack a d = Ok d) \<and>
    (\<exists>d. multisig_pack s sd = Ok d \<and> multisig_unpack_unchecked d = Ok s \<and> multisig_pack s d = Ok d)"
  using mint.pack_unpack_pack [OF _ assms(1)] account.pack_unpack_pack [OF _ assms(2)]
    multisig.pack_unpack_pack [OF assms(4,3)] by blast

theorem layouts_roundtrip_witness:
  "\<exists>d. account_pack (token_account 10 50) (replicate 165 7) = Ok d \<and>
     account_unpack_unchecked d = Ok (token_account 10 50)"
  using layouts_roundtrip [of "replicate 82 0" "replicate 165 7" "replicate 355 0" stuck_multisig
      sample_mint "token_account 10 50"]
  by (auto simp: layout_LENs multisig_wf_def stuck_multisig_def MAX_SIGNERS_def)

section \<open>Messages\<close>

text \<open>
  C31. Functional: compiling instructions into a message never panics;
  the key table has no duplicates and, when it has at most 256 keys, every compiled instruction
  names, through its indices, the same program, the same accounts in the same order and the same
  data.
\<close>

theorem message_keeps_instructions:
  "\<exists>m. message_new_with_blockhash ixs payer bh = Ok m \<and> distinct (account_keys m) \<and>
     (length (account_keys m) \<le> 256 \<longrightarrow> list_all2 (compiles (account_keys m)) ixs (instructions m))"
  using message_new_Ok [of ixs payer bh] distinct_key_table [of ixs payer]
    compiled_message_compiles [of ixs payer bh]
  by (intro exI [of _ "compiled_message ixs payer bh"]) (simp add: compiled_message_keys)

theorem message_keeps_instructions_witness:
  "\<exists>m. message_new_with_blockhash [pay_instruction] (Some 10) 0 = (Ok m :: (unit, Message) result) \<and>
     list_all2 (compiles (account_keys m)) [pay_instruction] (instructions m)"
proof -
  obtain m where m: "message_new_with_blockhash [pay_instruction] (Some 10) 0 =
      (Ok m :: (unit, Message) result)"
    "length (account_keys m) \<le> 256 \<longrightarrow>
      list_all2 (compiles (account_keys m)) [pay_instruction] (instructions m)"
    using message_keeps_instructions [of "[pay_instruction]" "Some 10" 0] by blast
  then have "account_keys m = [10, 1, 2, token_id]"
    by (simp add: pay_message)
  with m show ?thesis by auto
qed

text \<open>
  C32. Functional: position \<open>i\<close> of a compiled message is a signer exactly when
  its key is the fee payer or some instruction asked for its signature.
\<close>

theorem message_signers_exact:
  assumes "message_new_with_blockhash ixs payer bh = Ok m" "length (account_keys m) < 256"
    and "i < length (account_keys m)"
  shows "msg_is_signer m i \<longleftrightarrow> wants_signature ixs payer (account_keys m ! i)"
  using assms compiled_is_signer [of ixs payer i bh]
  by (auto simp: message_new_Ok compiled_message_keys)

theorem message_signers_exact_witness:
  "\<exists>m. message_new_with_blockhash [pay_instruction] (Some 10) 0 = (Ok m :: (unit, Message) result) \<and>
     msg_is_signer m 0 \<and> \<not> msg_is_signer m 1"
proof -
  obtain m where m: "message_new_with_blockhash [pay_instruction] (Some 10) 0 =
      (Ok m :: (unit, Message) result)" "account_keys m = [10, 1, 2, token_id]"
    using pay_message by auto
  have "wants_signature [pay_instruction] (Some 10) 10" "\<not> wants_signature [pay_instruction] (Some 10) 1"
    by (simp_all add: wants_signature_def pay_instruction_def account_meta_new_def
        account_meta_new_readonly_def)
  with message_signers_exact [OF m(1), of 0] message_signers_exact [OF m(1), of 1] m show ?thesis
    by auto
qed

text \<open>
  C33. Functional: when no instruction asks for the signature of a key in one
  place and for write access to it in another place only, position \<open>i\<close> of a compiled message is
  writable exactly when its key is the fee payer or some instruction asked to write it, sysvars and
  builtin programs excepted.
\<close>

theorem message_writable_exact:
  assumes "message_new_with_blockhash ixs payer bh = Ok m" "length (account_keys m) < 256"
    and "i < length (account_keys m)"
    and "\<And>k. wants_signature ixs payer k \<Longrightarrow> wants_write ixs payer k \<Longrightarrow> wants_write_signed ixs payer k"
  shows "msg_is_writable m i False = Ok (wants_write ixs payer (account_keys m ! i) \<and>
    \<not> is_sysvar_id (account_keys m ! i) \<and> account_keys m ! i \<notin> set BUILTIN_PROGRAMS_KEYS)"
  using assms(1-3) compiled_is_writable [OF _ _ assms(4), of i bh]
  by (auto simp: message_new_Ok compiled_message_keys)

theorem message_writable_exact_witness:
  "\<exists>m. message_new_with_blockhash [pay_instruction] (Some 10) 0 = (Ok m :: (unit, Message) result) \<and>
     msg_is_writable m 1 False = (Ok True :: (unit, bool) result) \<and>
     msg_is_writable m 3 False = (Ok False :: (unit, bool) result)"
proof -
  obtain m where m: "message_new_with_blockhash [pay_instruction] (Some 10) 0 =
      (Ok m :: (unit, Message) result)" "account_keys m = [10, 1, 2, token_id]"
    using pay_message by auto
  have w: "wants_write [pay_instruction] (Some 10) 1" "\<not> wants_write [pay_instruction] (Some 10) token_id"
    "wants_signature [pay_instruction] (Some 10) k \<Longrightarrow> wants_write_signed [pay_instruction] (Some 10) k" for k
    by (auto simp: wants_signature_def wants_write_def wants_write_signed_def pay_instruction_def
        account_meta_new_def account_meta_new_readonly_def)
  have "msg_is_writable m 1 False = (Ok True :: (unit, bool) result)"
    using message_writable_exact [OF m(1), of 1] m w plain_keys by simp
  moreover have "msg_is_writable m 3 False = (Ok False :: (unit, bool) result)"
    using message_writable_exact [OF m(1), of 3] m w by simp
  ultimately show ?thesis using m(1) by blast
qed


text \<open>
  C35. Round trip: a program that reads instruction \<open>i\<close> from the
  instructions sysvar, whatever follows the serialized message there, gets the program, the
  accounts with their signer and writable flags as the message has them, and the data of that
  instruction.
\<close>

theorem instructions_sysvar_roundtrip:
  assumes "\<forall>ci\<in>set (instructions m). in_range m ci"
    and "serialize_instructions m = Ok d" "length d < 2 ^ 16" "i < length (instructions m)"
  shows "deserialize_instruction i (d @ extra) = Ok (instruction_of m (instructions m ! i))"
  by (rule deserialize_serialize [OF assms])

theorem instructions_sysvar_roundtrip_witness:
  "\<exists>d. serialize_instructions sample_message = (Ok d :: (unit, bytes) result) \<and>
     deserialize_instruction 0 (d @ [0, 0]) =
       Ok (instruction_of sample_message (instructions sample_message ! 0))"
proof -
  obtain d where d: "serialize_instructions sample_message = (Ok d :: (unit, bytes) result)"
    "length d < 2 ^ 16"
    by (rule sample_serialized)
  have "\<forall>ci\<in>set (instructions sample_message). in_range sample_message ci"
    "0 < length (instructions sample_message)"
    by (simp_all add: sample_message_def in_range_def)
  from instructions_sysvar_roundtrip [OF this(1) d this(2)] d show ?thesis by blast
qed

text \<open>
  C36. Safety: on a message that passes \<open>sanitize\<close> every index of every
  instruction is in range and no instruction runs the fee payer as a program, so resolving programs,
  the writable flags and the serialization for the sysvar cannot panic.
\<close>

theorem sanitized_messages_are_safe:
  assumes "sanitize m = Ok ()"
  shows "(\<forall>ci\<in>set (instructions m). in_range m ci \<and> program_id_index ci \<noteq> 0 \<and>
      (\<exists>k. compiled_program_id ci (account_keys m) = (Ok k :: (TransactionError, pubkey) result))) \<and>
    msg_is_signer m 0 \<and> (\<exists>d. serialize_instructions m = (Ok d :: (TransactionError, bytes) result))"
  using sanitize_Ok [OF assms] serialize_instructions_Ok [of m]
  by (auto simp: compiled_program_id_def at_index_def in_range_def)

theorem sanitized_messages_are_safe_witness:
  "sanitize sample_message = Ok () \<and> msg_is_signer sample_message 0"
proof -
  have "sanitize sample_message = Ok ()" by (simp add: sanitize_def sample_message_def Let_def)
  with sanitized_messages_are_safe [OF this] show ?thesis by blast
qed

section \<open>Arithmetic\<close>



text \<open>
  C38. Functional: \<open>checked_ceil_div\<close> at any width fails exactly on a zero
  divisor or a divisor larger than the dividend; otherwise the quotient is the least number of
  parts that covers the dividend and the new divisor the least part size that covers it with that
  many parts. It never panics and never overflows.
\<close>

theorem ceiling_division_exact:
  fixes a b :: "'a::len word"
  shows "checked_ceil_div a b =
    (if b = 0 \<or> a < b then Err ()
     else Ok (of_nat (ceil_div (unat a) (unat b)),
              of_nat (ceil_div (unat a) (ceil_div (unat a) (unat b)))))"
  by (rule checked_ceil_div_eq)

text \<open>
  C39. Termination: the digit-by-digit square root returns on every \<open>u64\<close> and
  every \<open>u128\<close>, none of its checked operations fails, and the result is the floor of the root.
\<close>

theorem integer_sqrt_returns:
  fixes x :: u64 and y :: u128
  shows "(\<exists>r. int_sqrt x = Some r \<and> unat r * unat r \<le> unat x \<and> unat x < (unat r + 1) * (unat r + 1)) \<and>
    (\<exists>r. int_sqrt y = Some r \<and> unat r * unat r \<le> unat y \<and> unat y < (unat r + 1) * (unat r + 1))"
  using int_sqrt_correct [of 32 x] int_sqrt_correct [of 64 y] by simp

text \<open>
  Equivalence: repeated squaring on fixed-point numbers computes the exact
  power of a positive whole number when the square of the result fits into the 256 bits, and
  converting a whole number to fixed point and back gives it again.
\<close>

theorem fixed_point_powers:
  assumes "0 < b" "fits_square b" "fits_square (b ^ unat e)"
  shows "precise_pow (whole b) e = Ok (whole (b ^ unat e)) \<and> bind (precise_new v) to_imprecise = Ok v"
  using precise_pow_whole [OF assms] to_imprecise_new by blast

theorem fixed_point_powers_witness: "precise_pow (whole 3) 5 = Ok (whole 243)"
  using fixed_point_powers [of 3 5] by (simp add: fits_square_def)

text \<open>
  C40. Error: fixed-point division adds half of \<open>ONE\<close> to the scaled numerator
  whatever the divisor is. A number divided by itself is therefore one only when it is larger than
  a half; the smallest positive number divided by itself gives one and a half.
\<close>

theorem small_division_is_off:
  assumes "v \<noteq> 0" "unat v * 10 ^ 12 + 5 * 10 ^ 11 < 2 ^ 256"
  shows "(precise_div (precise v) (precise v) = Ok (precise pn_unit) \<longleftrightarrow> 5 * 10 ^ 11 < unat v) \<and>
    precise_div (precise 1) (precise 1) = Ok (precise 1500000000000)"
proof -
  obtain q where q: "precise_div (precise v) (precise v) = Ok (precise q)"
    "unat q = 10 ^ 12 + 5 * 10 ^ 11 div unat v"
    using precise_div_self [OF assms] by blast
  have "q = pn_unit \<longleftrightarrow> 5 * 10 ^ 11 div unat v = 0" by (simp add: word_unat_eq_iff q(2))
  also have "\<dots> \<longleftrightarrow> 5 * 10 ^ 11 < unat v" using assms(1) by (simp add: div_eq_0_iff unat_eq_zero)
  finally show ?thesis
    using q(1) precise_div_self [of 1] by (auto simp: precise_def word_unat_eq_iff)
qed

theorem small_division_is_off_witness:
  "precise_div (precise 400000000000) (precise 400000000000) \<noteq> Ok (precise pn_unit)"
  using small_division_is_off [of 400000000000] by simp

section \<open>The token swap program\<close>



text \<open>
  C12. Invariant: no instruction of the swap program spoils any pool. A pool whose
  account decodes to valid fees and a valid curve, whose sides are held by its derived authority
  alone, without delegate or close authority, and whose pool tokens only that authority can mint,
  is still such a pool after every instruction that succeeds, on this pool or on another.
\<close>

theorem pools_stay_sound:
  assumes "token_cpi sh h pid has_signed"
    and "process_with_constraints sh pid L infos input constraints = Ok L'"
    and "pool_wf (swap_crypto sh) pid L k ts"
  shows "pool_wf (swap_crypto sh) pid L' k ts"
  using assms(2,3) by (rule token_cpi.process_with_constraints_pool [OF assms(1)])

theorem pools_stay_sound_witness:
  "\<exists>L'. process_with_constraints swap_host_10 99 sample_pool_ledger
      (map at_key [1, 50, 10, 6, 2, 3, 7, 4, 5, token_id])
      ([1] @ u64_to_le_bytes 100 @ u64_to_le_bytes 90) None = Ok L' \<and>
    pool_wf sample_crypto 99 L' 1 sample_pool"
proof -
  obtain L' where "process_swap swap_host_10 99 sample_pool_ledger 100 90
      (map at_key [1, 50, 10, 6, 2, 3, 7, 4, 5, token_id]) = Ok L'"
    by (rule sample_swap_runs)
  then have run: "process_with_constraints swap_host_10 99 sample_pool_ledger
      (map at_key [1, 50, 10, 6, 2, 3, 7, 4, 5, token_id])
      ([1] @ u64_to_le_bytes 100 @ u64_to_le_bytes 90) None = Ok L'"
    using swap_instruction_roundtrip [of "Swap 100 90"] by (simp add: process_with_constraints_def)
  from pools_stay_sound [OF sample_token_cpi run, of 1 sample_pool] sample_pool_wf run
  show ?thesis by auto
qed

text \<open>
  C16. Functional: a successful \<open>Initialize\<close> leaves a sound pool at its
  first account, with the fees and the curve of the instruction and the sides and the mint that it
  names. The mint had no supply before and has the initial supply of the curve after it.
\<close>

theorem initialize_creates_a_pool:
  assumes "token_cpi sh h pid has_signed" "process_initialize sh pid L f cv infos constraints = Ok L'"
    and "curve_wf cv"
  shows "\<exists>ts. pool_wf (swap_crypto sh) pid L' (key (infos ! 0)) ts \<and> swap_fees ts = f \<and>
    swap_curve ts = cv \<and> token_a ts = key (infos ! 2) \<and> token_b ts = key (infos ! 3) \<and>
    pool_mint ts = key (infos ! 4) \<and> supply_of L (pool_mint ts) = 0 \<and>
    supply_of L' (pool_mint ts) = unat (new_pool_supply (calculator cv))"
  by (rule token_cpi.process_initialize_pool [OF assms]) auto

theorem initialize_creates_a_pool_witness:
  "\<exists>L' ts. process_initialize swap_host_10 99 (pool_ledger 0 0 (replicate LATEST_LEN 0)) no_fees
      product_curve (map at_key [1, 50, 2, 3, 4, 5, 8, token_id]) None = Ok L' \<and>
    pool_wf sample_crypto 99 L' 1 ts \<and> token_a ts = 2 \<and> supply_of L' 4 = 1000000000"
proof -
  obtain L' where run: "process_initialize swap_host_10 99 (pool_ledger 0 0 (replicate LATEST_LEN 0))
      no_fees product_curve (map at_key [1, 50, 2, 3, 4, 5, 8, token_id]) None = Ok L'"
    by (rule sample_initialize_runs)
  have "curve_wf product_curve" by (simp add: product_curve_def curve_wf_def)
  from initialize_creates_a_pool [OF sample_token_cpi run this] run show ?thesis
    by (auto simp: new_pool_supply_def INITIAL_SWAP_POOL_AMOUNT_def)
qed





section \<open>Calls between programs\<close>


text \<open>
  C13. Safety: a successful \<open>invoke_signed\<close> runs a registered program
  with one new frame on the stack: the called program with exactly the accounts of the instruction,
  in order, and an account counts as signed there only if it was signed for the caller or is an
  address that one of the caller's seeds derives from the caller's own id.
\<close>

theorem syscall_grants_no_signature:
  assumes "syscall_invoke_signed h env lens ix infos seeds ctx = Ok ctx'" "length (accounts ix) < 255"
  shows "\<exists>caller p n c1 c2 f. get_caller ctx = Ok caller \<and>
    p \<in> insert (cpi_native_loader env) (snd ` set (cpi_programs env)) \<and>
    p n (instr_data ix) c1 = Ok c2 \<and> invoke_stack c1 = invoke_stack ctx @ [f] \<and>
    ctx_store c1 = ctx_store ctx \<and> ctx_store ctx' = ctx_store c2 \<and>
    frame_program_id f = Some (program_id ix) \<and>
    map key (frame_infos f) = map meta_pubkey (accounts ix) \<and>
    list_all (\<lambda>i. is_signer i \<longrightarrow> may_sign (cpi_crypto env) caller (signed_in ctx) seeds (key i))
      (frame_infos f)"
proof -
  obtain f signers caller where c: "get_caller ctx = Ok caller"
    "translate_signers env caller seeds = Ok signers" "calls env ix signers ctx f ctx'"
    by (rule syscall_calls [OF assms])
  have "list_all (\<lambda>i. is_signer i \<longrightarrow> may_sign (cpi_crypto env) caller (signed_in ctx) seeds (key i))
      (frame_infos f)"
    using calls_may_sign [OF c(2,3)] by (auto simp: list_all_iff)
  with c show ?thesis unfolding calls_def by blast
qed

theorem syscall_grants_no_signature_witness:
  "\<exists>ctx' f. syscall_invoke_signed sample_host (inner_env (\<lambda>_ _ c. Ok c)) [1, 1, 0, 0]
      derived_instruction caller_infos [[[1]]] caller_context = Ok ctx' \<and>
    frame_program_id f = Some 77 \<and> map key (frame_infos f) = [50]"
proof -
  obtain ctx' where run: "syscall_invoke_signed sample_host (inner_env (\<lambda>_ _ c. Ok c)) [1, 1, 0, 0]
      derived_instruction caller_infos [[[1]]] caller_context = Ok ctx'"
    by (rule derived_call_runs)
  have "length (accounts derived_instruction) < 255" "program_id derived_instruction = 77"
    "map meta_pubkey (accounts derived_instruction) = [50]"
    by (simp_all add: derived_instruction_def account_meta_new_readonly_def)
  with syscall_grants_no_signature [OF run] run show ?thesis by auto
qed

text \<open>
  C14. Error: a read-only account can become writable in an inner call.
  The caller holds account 5 read-only and account 6 writable; its inner instruction names both as
  read-only signers and account 6 once more as writable. The privilege check passes, the compiled
  message marks account 5 writable, the callee changes its data, and the snapshot is updated, so
  that the check of the caller, for which account 5 is read-only, passes too.
\<close>

theorem inner_call_escalates_a_write:
  "\<exists>ctx' pa t. native_invoke sample_host (inner_env poke) escalating_instruction [] caller_context = Ok ctx' \<and>
    \<not> list_ex (\<lambda>i. key i = 5 \<and> is_writable i) caller_infos \<and>
    \<not> list_ex (\<lambda>m. meta_pubkey m = 5 \<and> meta_is_writable m) (accounts escalating_instruction) \<and>
    data (ctx_store caller_context 5) = [0] \<and> data (ctx_store ctx' 5) = [1] \<and>
    pa \<in> set (pre_accounts ctx') \<and> pre_key pa = 5 \<and>
    pre_account_verify sample_host pa 99 False sample_rent (ctx_store ctx' 5) default_timings True True = Ok t"
proof -
  let ?c = "caller_context\<lparr>pre_accounts := snapshots_from poked_snapshot, ctx_store := poked_ledger\<rparr>"
  obtain t where "pre_account_verify sample_host poked_snapshot 99 False sample_rent (poked_ledger 5)
      default_timings True True = Ok t"
    using poked_snapshot_verifies(2) by blast
  then show ?thesis
    using escalating_runs poked_snapshot_verifies(1)
    by (intro exI [of _ ?c] exI [of _ poked_snapshot] exI [of _ t] conjI)
      (simp_all add: snapshots_from_def caller_fields inner_ledger_accounts poked_ledger_def
        caller_infos_def escalating_instruction_def account_meta_new_def account_meta_new_readonly_def)
qed

text \<open>
  C30. Round trip: every well formed pool that is initialized is read back
  from what \<open>SwapVersion::pack\<close> writes, of whatever the buffer held before, and every well formed
  instruction from what \<open>SwapInstruction::pack\<close> returns.
\<close>

theorem swap_formats_roundtrip:
  assumes "curve_wf (swap_curve s)" "swap_is_initialized s" "length dst = LATEST_LEN" "wf_instruction ix"
  shows "(\<exists>d. swap_version_pack s dst = Ok d \<and> length d = LATEST_LEN \<and> swap_version_unpack d = Ok s) \<and>
    bind (swap_instruction_pack ix) swap_instruction_unpack = Ok ix"
  using swap_version_roundtrip [OF assms(1-3)] swap_instruction_roundtrip [OF assms(4)] by blast

theorem swap_formats_roundtrip_witness:
  "(\<exists>d. swap_version_pack sample_pool (replicate 324 7) = Ok d \<and> swap_version_unpack d = Ok sample_pool) \<and>
   bind (swap_instruction_pack (Initialize no_fees product_curve)) swap_instruction_unpack =
     Ok (Initialize no_fees product_curve)"
  using swap_formats_roundtrip [of sample_pool "replicate 324 7" "Initialize no_fees product_curve"]
  by (auto simp: sample_pool_def product_curve_def curve_wf_def LATEST_LEN_def swap_LEN_def)

section \<open>The system program\<close>

text \<open>
  C19. Safety: an instruction of the system program that succeeds changes
  the ledger only, and there only accounts of its frame. The lamports of those accounts add up to
  the same sum. An owner changes only if the key of the account signed, or a key that it derives
  from with a seed; lamports fall only with such a signature on an account without data or with
  the authority of a nonce account; data changes only from none to zeros, with such a signature, or
  as the state of a nonce account. Nothing changes \<open>executable\<close> or \<open>rent_epoch\<close>.
\<close>

theorem system_program_is_safe:
  assumes "system_process_instruction env first input ctx = Ok ctx'" "get_keyed_accounts ctx = Ok kas"
  shows "\<exists>L'. ctx' = ctx\<lparr>ctx_store := L'\<rparr> \<and>
    system_step env (get_signers (drop first kas)) (key ` set (drop first kas)) (ctx_store ctx) L'"
  using assms by (rule system_process_step)

theorem system_program_is_safe_witness:
  "\<exists>L'. system_process_instruction sample_system_env 1 ([2, 0, 0, 0] @ u64_to_le_bytes 100)
      (system_context [payer_info, nonce_info]) =
        Ok ((system_context [payer_info, nonce_info])\<lparr>ctx_store := L'\<rparr>) \<and>
    system_step sample_system_env [10] {10, 5} system_ledger L' \<and> lamports (L' 5) = 1100"
proof -
  let ?L = "system_ledger (10 := (system_ledger 10)\<lparr>lamports := 900\<rparr>, 5 := (system_ledger 5)\<lparr>lamports := 1100\<rparr>)"
  obtain L' where L': "(system_context [payer_info, nonce_info])\<lparr>ctx_store := ?L\<rparr> =
      (system_context [payer_info, nonce_info])\<lparr>ctx_store := L'\<rparr>"
    "system_step sample_system_env [10] {10, 5} system_ledger L'"
    using system_program_is_safe [OF system_transfer_runs system_context_keyed]
    by (auto simp: system_context_fields get_signers_def payer_info_def nonce_info_def)
  from arg_cong [OF L'(1), of ctx_store] have "L' = ?L" by simp
  with L'(2) have "system_step sample_system_env [10] {10, 5} system_ledger ?L" by simp
  then show ?thesis by (intro exI [of _ ?L] conjI system_transfer_runs) simp_all
qed

text \<open>
  C22. Composition: after an instruction of the system program,
  the runtime's check of a writable account accepts what the program made of it, if the account
  belonged to the system program or only gained lamports, was not executable and not too long, and
  has zero data in case it has a new owner. Those conditions the program leaves to the runtime.
\<close>

theorem system_changes_pass_verification:
  assumes "system_process_instruction env first input ctx = Ok ctx'" "get_keyed_accounts ctx = Ok kas"
    and "\<not> executable (ctx_store ctx k)" "length (data (ctx_store ctx k)) \<le> MAX_PERMITTED_DATA_LENGTH"
    and "owner (ctx_store ctx k) = system_program_id \<or>
      owner (ctx_store ctx' k) = owner (ctx_store ctx k) \<and> data (ctx_store ctx' k) = data (ctx_store ctx k) \<and>
      lamports (ctx_store ctx k) \<le> lamports (ctx_store ctx' k)"
    and "owner (ctx_store ctx' k) \<noteq> owner (ctx_store ctx k) \<Longrightarrow> is_zeroed (data (ctx_store ctx' k))"
  shows "\<exists>t'. pre_account_verify h (pre_account_new k (ctx_store ctx k)) system_program_id True rent
    (ctx_store ctx' k) t outermost realloc = Ok t'"
proof -
  from system_process_step [OF assms(1,2)] have
    "system_change env (get_signers (drop first kas)) k (ctx_store ctx k) (ctx_store ctx' k)"
    by (auto simp: system_step_def)
  then show ?thesis
    by (rule system_change_verified) (use assms(3-6) in \<open>simp_all add: pre_account_new_def\<close>)
qed

theorem system_changes_pass_verification_witness:
  "\<exists>t'. pre_account_verify sample_host (pre_account_new 10 (system_ledger 10)) system_program_id True
    sample_rent ((system_ledger 10)\<lparr>lamports := 900\<rparr>) default_timings True True = Ok t'"
  using system_changes_pass_verification [OF system_transfer_runs system_context_keyed, of 10 sample_host
      sample_rent default_timings True True]
  by (simp add: system_context_fields system_ledger_accounts)

text \<open>
  C20. Safety: if \<open>AdvanceNonceAccount\<close> succeeds, the authority of the nonce
  account signed and the stored blockhash was another than the current one; the account then holds
  the current blockhash and fee with the same authority, and the same instruction fails with
  \<open>NotExpired\<close> as long as the blockhash is current. So a stored nonce serves once.
\<close>

theorem nonce_advances_once:
  assumes "nonce_codec env" "decode_system_instruction env input = Some AdvanceNonceAccount"
    and "system_process_instruction env first input ctx = Ok ctx'"
    and "get_keyed_accounts ctx = Ok kas" "key (kas ! first) \<noteq> recent_blockhashes_id"
  shows "\<exists>d. decode_nonce env (data (ctx_store ctx (key (kas ! first)))) = Some (NonceInitialized d) \<and>
    nonce_blockhash d \<noteq> ctx_blockhash ctx \<and> nonce_authority d \<in> set (get_signers (drop first kas)) \<and>
    decode_nonce env (data (ctx_store ctx' (key (kas ! first)))) = Some (NonceInitialized
      (nonce_data_new (nonce_authority d) (ctx_blockhash ctx) (ctx_lamports_per_signature ctx))) \<and>
    system_process_instruction env first input ctx' = Err (nonce_to_instruction_error NotExpired
      (feature_active ctx merge_nonce_error_into_system_error))"
  by (rule nonce_once [OF assms]) blast

theorem nonce_advances_once_witness:
  "\<exists>ctx'. system_process_instruction sample_system_env 1 [4, 0, 0, 0]
      (system_context [nonce_info, blockhashes_info, payer_info]) = Ok ctx' \<and>
    system_process_instruction sample_system_env 1 [4, 0, 0, 0] ctx' =
      Err (nonce_to_instruction_error NotExpired True)"
proof -
  obtain ctx' where run: "system_process_instruction sample_system_env 1 [4, 0, 0, 0]
      (system_context [nonce_info, blockhashes_info, payer_info]) = Ok ctx'"
    by (rule nonce_advance_runs)
  have "decode_system_instruction sample_system_env [4, 0, 0, 0] = Some AdvanceNonceAccount"
    by (simp add: sample_system_env_def sample_decode_system_def)
  from nonce_advances_once [OF sample_nonce_codec this run system_context_keyed] run show ?thesis
    by (auto simp: nonce_info_def recent_blockhashes_id_def system_context_fields)
qed

text \<open>
  C21. Liveness: the two instructions that \<open>create_nonce_account\<close> builds
  succeed one after the other on an account that nobody used yet, if the payer has the lamports
  and they cover the rent, and the account is then a nonce account of the authority with the
  blockhash of the second instruction and the lamports of the first.
\<close>

theorem nonce_account_is_created:
  assumes layout: "nonce_layout env" and dec: "\<And>n space own. decode_system_instruction env
      (enc (CreateAccount n space own)) = Some (CreateAccount n space own)"
    "\<And>a. decode_system_instruction env (enc (InitializeNonceAccount a)) = Some (InitializeNonceAccount a)"
    and frame: "frame_for ctx (create_nonce_account env enc f k auth n ! 0)"
    and "f \<noteq> k" "fresh (ctx_store ctx k)" "data (ctx_store ctx f) = []" "n \<le> lamports (ctx_store ctx f)"
    and ne: "f \<noteq> recent_blockhashes_id" "k \<noteq> recent_blockhashes_id" "f \<noteq> rent_id" "k \<noteq> rent_id"
    and sysvars: "decode_recent_blockhashes env (data (ctx_store ctx recent_blockhashes_id)) = Some (Suc entries)"
    "bincode_rent (sys_host env) (data (ctx_store ctx rent_id)) = Some rent"
    and rent: "minimum_balance (sys_host env) rent (nonce_size env) \<le> n"
  shows "\<exists>ctx1. system_process_instruction env 1
      (instr_data (create_nonce_account env enc f k auth n ! 0)) ctx = Ok ctx1 \<and>
    (\<forall>ctx2. frame_for ctx2 (create_nonce_account env enc f k auth n ! 1) \<and> ctx_store ctx2 = ctx_store ctx1 \<longrightarrow>
      (\<exists>ctx3. system_process_instruction env 1
          (instr_data (create_nonce_account env enc f k auth n ! 1)) ctx2 = Ok ctx3 \<and>
        decode_nonce env (data (ctx_store ctx3 k)) = Some (NonceInitialized
          (nonce_data_new auth (ctx_blockhash ctx2) (ctx_lamports_per_signature ctx2))) \<and>
        lamports (ctx_store ctx3 k) = n))"
proof -
  let ?space = "of_nat (nonce_size env) :: u64"
  let ?L = "(ctx_store ctx)(f := (ctx_store ctx f)\<lparr>lamports := lamports (ctx_store ctx f) - n\<rparr>,
    k := (ctx_store ctx k)\<lparr>data := replicate (unat ?space) 0, lamports := n\<rparr>)"
  have size: "unat ?space = nonce_size env"
    using layout by (simp add: nonce_layout_def MAX_PERMITTED_DATA_LENGTH_def unat_of_nat)
  have "system_process_instruction env 1 (instr_data (create_nonce_account env enc f k auth n ! 0)) ctx =
      Ok (ctx\<lparr>ctx_store := ?L\<rparr>)"
    using create_account_ix_succeeds [of env enc n ?space ctx f k] dec(1) frame assms(5-8) layout size
    by (simp add: create_nonce_account_def nonce_layout_def)
  moreover have "\<exists>ctx3. system_process_instruction env 1
      (instr_data (create_nonce_account env enc f k auth n ! 1)) ctx2 = Ok ctx3 \<and>
    decode_nonce env (data (ctx_store ctx3 k)) = Some (NonceInitialized
      (nonce_data_new auth (ctx_blockhash ctx2) (ctx_lamports_per_signature ctx2))) \<and>
    lamports (ctx_store ctx3 k) = n"
    if "frame_for ctx2 (create_nonce_account env enc f k auth n ! 1)" "ctx_store ctx2 = ?L" for ctx2
    using initialize_nonce_ix_succeeds [of env enc auth ctx2 k "Suc entries" rent] dec(2) that layout sysvars rent ne size
    by (simp add: create_nonce_account_def)
  ultimately show ?thesis by simp
qed

theorem nonce_account_is_created_witness:
  "\<exists>ctx1 ctx3. system_process_instruction sample_system_env 1
      (instr_data (create_nonce_account sample_system_env sample_encode_system 10 6 9 500 ! 0))
      (system_context (map meta_info
        (accounts (create_nonce_account sample_system_env sample_encode_system 10 6 9 500 ! 0)))) = Ok ctx1 \<and>
    system_process_instruction sample_system_env 1
      (instr_data (create_nonce_account sample_system_env sample_encode_system 10 6 9 500 ! 1))
      ((system_context (map meta_info
        (accounts (create_nonce_account sample_system_env sample_encode_system 10 6 9 500 ! 1))))
        \<lparr>ctx_store := ctx_store ctx1\<rparr>) = Ok ctx3 \<and> lamports (ctx_store ctx3 6) = 500"
proof -
  let ?ix = "\<lambda>i. create_nonce_account sample_system_env sample_encode_system 10 6 9 500 ! i"
  let ?ctx = "\<lambda>i. system_context (map meta_info (accounts (?ix i)))"
  have "10 \<noteq> recent_blockhashes_id" "6 \<noteq> recent_blockhashes_id" "10 \<noteq> rent_id" "6 \<noteq> rent_id"
    by (simp_all add: recent_blockhashes_id_def rent_id_def)
  then obtain ctx1 where "system_process_instruction sample_system_env 1 (instr_data (?ix 0)) (?ctx 0) = Ok ctx1"
    "\<And>ctx2. frame_for ctx2 (?ix 1) \<and> ctx_store ctx2 = ctx_store ctx1 \<Longrightarrow>
      \<exists>ctx3. system_process_instruction sample_system_env 1 (instr_data (?ix 1)) ctx2 = Ok ctx3 \<and>
        lamports (ctx_store ctx3 6) = 500"
    using nonce_account_is_created [of sample_system_env sample_encode_system "?ctx 0" 10 6 9 500 0 sample_rent]
      sample_nonce_layout sample_system_decodes system_context_frame_for(1) sample_new_account
    by (simp del: sample_encode_system.simps add: system_context_fields system_ledger_accounts) blast
  moreover from this(2) [of "(?ctx 1)\<lparr>ctx_store := ctx_store ctx1\<rparr>"] obtain ctx3 where
    "system_process_instruction sample_system_env 1 (instr_data (?ix 1))
      ((?ctx 1)\<lparr>ctx_store := ctx_store ctx1\<rparr>) = Ok ctx3" "lamports (ctx_store ctx3 6) = 500"
    using system_context_frame_for(2) by auto
  ultimately show ?thesis by blast
qed

end
